(* ===== verification/Prelude.thy ===== *)
theory Prelude imports Main "HOL-Library.Word" "HOL-Library.List_Lexorder" "HOL-Library.Char_ord" "HOL-Library.Signed_Division" begin

text \<open>
  The base of the development: the vocabulary every component shares.

  A Go \<^verbatim>\<open>string\<close> is a list of bytes, Isabelle's \<^typ>\<open>string\<close>, so that \<^verbatim>\<open>len\<close> is
  \<^const>\<open>length\<close>.  A Go \<^verbatim>\<open>error\<close> is a value of \<open>go_err\<close>: the sentinels of the
  packages, the one typed error (\<^verbatim>\<open>sshx.HostKeyMismatchError\<close>), an error made from
  text, and the wrapping of \<^verbatim>\<open>fmt.Errorf\<close> with \<^verbatim>\<open>%w\<close>, which \<^verbatim>\<open>errors.Is\<close> and
  \<^verbatim>\<open>errors.As\<close> look through.  A Go \<^verbatim>\<open>int64\<close> whose overflow matters is a
  \<^typ>\<open>64 word\<close>, read by \<^const>\<open>sint\<close>; a database row id is an \<^typ>\<open>int\<close>.
\<close>

section \<open>Collections of facts\<close>

named_theorems str_simps \<open>evaluation rules of the Go string functions\<close>
named_theorems store_simps \<open>what a store operation leaves in each table\<close>
named_theorems store_wf \<open>store operations keep the store's invariant\<close>
named_theorems pool_simps \<open>the connection pool's operations\<close>

section \<open>Errors\<close>

datatype sentinel =
    ErrNotFound
  | ErrUnknownAction | ErrNotAvailable | ErrBadParam | ErrNeedsConfirm | ErrNeedsName
  | ErrForbidden | ErrNoHost | ErrSudoUnavailable | ErrNoFacts
  | ErrAuth | ErrHostKeyMismatch | ErrTimeout | ErrRefused | ErrNoRoute
  | ErrUnsupportedAction | ErrUnknownProvider

datatype go_err =
    Sentinel sentinel
  | HostKeyMismatchError (hkm_algorithm: string) (hkm_fingerprint: string)
  | Text string
  | Wrap string go_err string

type_synonym 'a result = "go_err + 'a"

text \<open>\<^verbatim>\<open>errors.Is\<close>: the chain of wrapped errors, and the typed error's own \<^verbatim>\<open>Is\<close> method.\<close>

fun errors_is :: "go_err \<Rightarrow> sentinel \<Rightarrow> bool" where
  "errors_is (Sentinel s) t \<longleftrightarrow> s = t"
| "errors_is (HostKeyMismatchError a f) t \<longleftrightarrow> t = ErrHostKeyMismatch"
| "errors_is (Text m) t \<longleftrightarrow> False"
| "errors_is (Wrap p e q) t \<longleftrightarrow> errors_is e t"

text \<open>\<^verbatim>\<open>Error()\<close>.\<close>

fun sentinel_text :: "sentinel \<Rightarrow> string" where
  "sentinel_text ErrNotFound = ''store: not found''"
| "sentinel_text ErrUnknownAction = ''unknown action''"
| "sentinel_text ErrNotAvailable = ''action not available on this host''"
| "sentinel_text ErrBadParam = ''invalid parameter''"
| "sentinel_text ErrNeedsConfirm = ''action requires confirmation''"
| "sentinel_text ErrNeedsName = ''action requires typing the machine name to confirm''"
| "sentinel_text ErrForbidden = ''action is terminal-only and cannot be run as a button''"
| "sentinel_text ErrNoHost = ''machine has no SSH host configured''"
| "sentinel_text ErrSudoUnavailable = ''action needs root, and sudo on this host requires a password''"
| "sentinel_text ErrNoFacts = ''host has not been fingerprinted yet''"
| "sentinel_text ErrAuth = ''ssh: authentication failed''"
| "sentinel_text ErrHostKeyMismatch = ''ssh: host key changed''"
| "sentinel_text ErrTimeout = ''ssh: connection timed out''"
| "sentinel_text ErrRefused = ''ssh: connection refused''"
| "sentinel_text ErrNoRoute = ''ssh: host unreachable''"
| "sentinel_text ErrUnsupportedAction = ''provider: action not supported''"
| "sentinel_text ErrUnknownProvider = ''provider: unknown provider''"

fun err_text :: "go_err \<Rightarrow> string" where
  "err_text (Sentinel s) = sentinel_text s"
| "err_text (HostKeyMismatchError a f) = sentinel_text ErrHostKeyMismatch"
| "err_text (Text m) = m"
| "err_text (Wrap p e q) = p @ err_text e @ q"

text \<open>\<^verbatim>\<open>errors.As\<close> with a \<^verbatim>\<open>*HostKeyMismatchError\<close> target.\<close>

fun errors_as_mismatch :: "go_err \<Rightarrow> (string \<times> string) option" where
  "errors_as_mismatch (HostKeyMismatchError a f) = Some (a, f)"
| "errors_as_mismatch (Wrap p e q) = errors_as_mismatch e"
| "errors_as_mismatch _ = None"

lemma as_mismatch_is: "errors_as_mismatch e = Some x \<Longrightarrow> errors_is e ErrHostKeyMismatch"
  by (induction e rule: errors_as_mismatch.induct) auto

section \<open>Errors as values\<close>

definition res_bind :: "'a result \<Rightarrow> ('a \<Rightarrow> 'b result) \<Rightarrow> 'b result" where
  "res_bind r f = (case r of Inl e \<Rightarrow> Inl e | Inr x \<Rightarrow> f x)"

lemma res_bind_simps [simp]:
  "res_bind (Inl e) f = Inl e"
  "res_bind (Inr x) f = f x"
  by (simp_all add: res_bind_def)

lemma res_bind_Inr_conv:
  "res_bind r f = Inr y \<longleftrightarrow> (\<exists>x. r = Inr x \<and> f x = Inr y)"
  by (cases r) auto

lemma res_bind_Inl_conv:
  "res_bind r f = Inl e \<longleftrightarrow> r = Inl e \<or> (\<exists>x. r = Inr x \<and> f x = Inl e)"
  by (cases r) auto

section \<open>Lists\<close>

lemma distinct_map_filter [intro]: "distinct (map f xs) \<Longrightarrow> distinct (map f (filter P xs))"
  by (induction xs) auto

lemma find_Some_in_set: "find P xs = Some x \<Longrightarrow> x \<in> set xs \<and> P x"
  by (induction xs) (auto split: if_splits)

lemma find_None_all: "find P xs = None \<longleftrightarrow> (\<forall>x \<in> set xs. \<not> P x)"
  by (induction xs) auto

section \<open>Signed 64-bit integers\<close>

type_synonym int64 = "64 word"

definition max_int64 :: int where "max_int64 = 9223372036854775807"

definition min_int64 :: int where "min_int64 = - 9223372036854775808"

text \<open>Go's \<^verbatim>\<open>/\<close> on \<^verbatim>\<open>int64\<close> truncates toward zero (a zero divisor panics; every use below tests it first).\<close>

definition go_div :: "int64 \<Rightarrow> int64 \<Rightarrow> int64" where
  "go_div a b = word_of_int (sint a sdiv sint b)"

text \<open>Go's signed comparison.\<close>

definition go_gt0 :: "int64 \<Rightarrow> bool" where
  "go_gt0 a \<longleftrightarrow> 0 < sint a"

lemma sint_of_int64:
  assumes "min_int64 \<le> i" and "i \<le> max_int64"
  shows "sint (word_of_int i :: int64) = i"
  using assms by (simp add: min_int64_def max_int64_def sint_sbintrunc' signed_take_bit_int_eq_self)

end
