(* ===== verification/Go_Strings.thy ===== *)
theory Go_Strings imports Prelude begin

text \<open>
  The functions of Go's \<^verbatim>\<open>strings\<close> and \<^verbatim>\<open>strconv\<close> packages that the program uses, on
  bytes.  White space is Unicode's (\<^verbatim>\<open>unicode.IsSpace\<close>) in its UTF-8 spelling: the lead
  bytes of these sequences never occur inside another rune, so matching bytes finds
  exactly the space runes.  Lower-casing is Unicode's on the runes whose lower case is
  ASCII (the letters A-Z, U+0130 and U+212A); every other rune is kept.
\<close>

section \<open>Prefixes, search, replacement\<close>

fun has_prefix :: "string \<Rightarrow> string \<Rightarrow> bool" where
  "has_prefix s [] \<longleftrightarrow> True"
| "has_prefix [] (p # ps) \<longleftrightarrow> False"
| "has_prefix (c # s) (p # ps) \<longleftrightarrow> c = p \<and> has_prefix s ps"

definition trim_prefix :: "string \<Rightarrow> string \<Rightarrow> string" where
  "trim_prefix s p = (if has_prefix s p then drop (length p) s else s)"

fun contains :: "string \<Rightarrow> string \<Rightarrow> bool" where
  "contains [] p \<longleftrightarrow> p = []"
| "contains (c # s) p \<longleftrightarrow> has_prefix (c # s) p \<or> contains s p"

text \<open>\<^verbatim>\<open>strings.ReplaceAll\<close> with a non-empty pattern: leftmost, non-overlapping.\<close>

function replace_all :: "string \<Rightarrow> string \<Rightarrow> string \<Rightarrow> string" where
  "replace_all s old new =
     (case s of
        [] \<Rightarrow> []
      | c # cs \<Rightarrow>
          if old \<noteq> [] \<and> has_prefix s old then new @ replace_all (drop (length old) s) old new
          else c # replace_all cs old new)"
  by pat_completeness auto
termination
  by (relation "measure (\<lambda>(s, old, new). length s)") auto

declare replace_all.simps [simp del]

lemma has_prefix_iff: "has_prefix s p \<longleftrightarrow> (\<exists>t. s = p @ t)"
  by (induction s p rule: has_prefix.induct) auto

lemma has_prefix_append [simp]: "has_prefix (p @ s) p"
  by (auto simp: has_prefix_iff)

lemma contains_iff: "contains s p \<longleftrightarrow> (\<exists>u v. s = u @ p @ v)"
proof (induction s)
  case Nil
  then show ?case by auto
next
  case (Cons c s)
  have "(\<exists>u v. c # s = u @ p @ v) \<longleftrightarrow> (\<exists>v. c # s = p @ v) \<or> (\<exists>u v. s = u @ p @ v)"
    by (metis (no_types, opaque_lifting) append_Cons append_Nil list.sel(3) neq_Nil_conv)
  with Cons show ?case by (simp add: has_prefix_iff)
qed

lemma contains_mem: "contains s p \<Longrightarrow> set p \<subseteq> set s"
  by (auto simp: contains_iff)

lemma replace_all_Nil [simp]: "replace_all [] old new = []"
  by (simp add: replace_all.simps)

lemma replace_all_Cons:
  "replace_all (c # cs) old new =
     (if old \<noteq> [] \<and> has_prefix (c # cs) old then new @ replace_all (drop (length old) (c # cs)) old new
      else c # replace_all cs old new)"
  by (subst replace_all.simps) simp

lemma replace_all_absent: "\<not> contains s old \<Longrightarrow> replace_all s old new = s"
  by (induction s) (auto simp: replace_all_Cons)

section \<open>Splitting\<close>

text \<open>\<^verbatim>\<open>strings.Split\<close> and \<^verbatim>\<open>strings.Cut\<close> at a one-byte separator; \<^verbatim>\<open>strings.Join\<close>.\<close>

fun split_on :: "char \<Rightarrow> string \<Rightarrow> string list" where
  "split_on sep [] = [[]]"
| "split_on sep (c # cs) =
     (if c = sep then [] # split_on sep cs
      else (case split_on sep cs of [] \<Rightarrow> [[c]] | w # ws \<Rightarrow> (c # w) # ws))"

fun cut_on :: "char \<Rightarrow> string \<Rightarrow> (string \<times> string) option" where
  "cut_on sep [] = None"
| "cut_on sep (c # cs) =
     (if c = sep then Some ([], cs)
      else (case cut_on sep cs of None \<Rightarrow> None | Some (k, v) \<Rightarrow> Some (c # k, v)))"

fun join :: "string \<Rightarrow> string list \<Rightarrow> string" where
  "join sep [] = []"
| "join sep [w] = w"
| "join sep (w # v # ws) = w @ sep @ join sep (v # ws)"

lemma split_on_not_Nil [simp]: "split_on sep s \<noteq> []"
  by (induction s) (auto split: list.splits)

lemma split_on_absent: "sep \<notin> set s \<Longrightarrow> split_on sep s = [s]"
  by (induction s) auto

lemma split_on_pieces: "w \<in> set (split_on sep s) \<Longrightarrow> sep \<notin> set w"
  by (induction s arbitrary: w) (auto split: list.splits if_splits)

lemma split_on_append_sep:
  "sep \<notin> set w \<Longrightarrow> split_on sep (w @ sep # s) = w # split_on sep s"
  by (induction w) auto

lemma split_join:
  assumes "ws \<noteq> []" and "\<forall>w \<in> set ws. sep \<notin> set w"
  shows "split_on sep (join [sep] ws) = ws"
  using assms by (induction "[sep]" ws rule: join.induct) (auto simp: split_on_absent split_on_append_sep)

lemma join_split: "join [sep] (split_on sep s) = s"
proof (induction s)
  case Nil
  then show ?case by simp
next
  case (Cons c s)
  obtain w ws where w: "split_on sep s = w # ws"
    by (cases "split_on sep s") auto
  with Cons show ?case by (cases ws) auto
qed

lemma cut_on_Some: "cut_on sep s = Some (k, v) \<Longrightarrow> s = k @ sep # v \<and> sep \<notin> set k"
  by (induction s arbitrary: k) (auto split: if_splits option.splits)

lemma cut_on_None: "cut_on sep s = None \<longleftrightarrow> sep \<notin> set s"
  by (induction s) (auto split: option.splits)

lemma cut_on_append: "sep \<notin> set k \<Longrightarrow> cut_on sep (k @ sep # v) = Some (k, v)"
  by (induction k) auto

text \<open>\<^verbatim>\<open>strings.LastIndex(s, c)\<close> followed by the slices around it: what stands before and after the last \<open>sep\<close>.\<close>

definition cut_last :: "char \<Rightarrow> string \<Rightarrow> (string \<times> string) option" where
  "cut_last sep s = map_option (\<lambda>(k, v). (rev v, rev k)) (cut_on sep (rev s))"

lemma cut_last_Some: "cut_last sep s = Some (k, v) \<Longrightarrow> s = k @ sep # v \<and> sep \<notin> set v"
  by (auto simp: cut_last_def dest!: cut_on_Some) (metis rev_append rev_rev_ident append.assoc append_Cons append_Nil rev.simps(2))

lemma cut_last_None: "cut_last sep s = None \<longleftrightarrow> sep \<notin> set s"
  by (simp add: cut_last_def cut_on_None)

lemma cut_last_append: "sep \<notin> set v \<Longrightarrow> cut_last sep (k @ sep # v) = Some (k, v)"
  by (simp add: cut_last_def cut_on_append)

section \<open>White space\<close>

definition space_runes :: "string list" where
  "space_runes =
     [[CHR 0x20], [CHR 0x09], [CHR 0x0A], [CHR 0x0B], [CHR 0x0C], [CHR 0x0D],
      [CHR 0xC2, CHR 0x85], [CHR 0xC2, CHR 0xA0], [CHR 0xE1, CHR 0x9A, CHR 0x80],
      [CHR 0xE2, CHR 0x80, CHR 0x80], [CHR 0xE2, CHR 0x80, CHR 0x81], [CHR 0xE2, CHR 0x80, CHR 0x82],
      [CHR 0xE2, CHR 0x80, CHR 0x83], [CHR 0xE2, CHR 0x80, CHR 0x84], [CHR 0xE2, CHR 0x80, CHR 0x85],
      [CHR 0xE2, CHR 0x80, CHR 0x86], [CHR 0xE2, CHR 0x80, CHR 0x87], [CHR 0xE2, CHR 0x80, CHR 0x88],
      [CHR 0xE2, CHR 0x80, CHR 0x89], [CHR 0xE2, CHR 0x80, CHR 0x8A], [CHR 0xE2, CHR 0x80, CHR 0xA8],
      [CHR 0xE2, CHR 0x80, CHR 0xA9], [CHR 0xE2, CHR 0x80, CHR 0xAF], [CHR 0xE2, CHR 0x81, CHR 0x9F],
      [CHR 0xE3, CHR 0x80, CHR 0x80]]"

text \<open>The number of bytes of the space rune at the head of \<open>s\<close>; 0 when there is none.\<close>

definition space_len :: "string list \<Rightarrow> string \<Rightarrow> nat" where
  "space_len runes s = (case find (has_prefix s) runes of None \<Rightarrow> 0 | Some w \<Rightarrow> length w)"

function trim_runes :: "string list \<Rightarrow> string \<Rightarrow> string" where
  "trim_runes runes s =
     (if s = [] \<or> space_len runes s = 0 then s else trim_runes runes (drop (space_len runes s) s))"
  by pat_completeness auto
termination
  by (relation "measure (\<lambda>(runes, s). length s)") auto

declare trim_runes.simps [simp del]

definition trim_left_space :: "string \<Rightarrow> string" where
  "trim_left_space s = trim_runes space_runes s"

definition trim_right_space :: "string \<Rightarrow> string" where
  "trim_right_space s = rev (trim_runes (map rev space_runes) (rev s))"

definition trim_space :: "string \<Rightarrow> string" where
  "trim_space s = trim_right_space (trim_left_space s)"

text \<open>\<^verbatim>\<open>strings.Fields\<close>: the maximal runs of non-space runes.  \<open>cur\<close> is the run being read.\<close>

function fields_acc :: "string \<Rightarrow> string \<Rightarrow> string list" where
  "fields_acc cur s =
     (if s = [] then (if cur = [] then [] else [cur])
      else if space_len space_runes s = 0 then fields_acc (cur @ [hd s]) (tl s)
      else (if cur = [] then [] else [cur]) @ fields_acc [] (drop (space_len space_runes s) s))"
  by pat_completeness auto
termination
  by (relation "measure (\<lambda>(cur, s). length s)") auto

declare fields_acc.simps [simp del]

definition go_fields :: "string \<Rightarrow> string list" where
  "go_fields s = fields_acc [] s"

text \<open>\<^verbatim>\<open>strings.Trim\<close> with a cut set of ASCII bytes, and \<^verbatim>\<open>strings.TrimRight\<close>.\<close>

definition trim_set :: "char list \<Rightarrow> string \<Rightarrow> string" where
  "trim_set cs s = rev (dropWhile (\<lambda>c. c \<in> set cs) (rev (dropWhile (\<lambda>c. c \<in> set cs) s)))"

definition trim_right_set :: "char list \<Rightarrow> string \<Rightarrow> string" where
  "trim_right_set cs s = rev (dropWhile (\<lambda>c. c \<in> set cs) (rev s))"

subsection \<open>Bytes that are no part of a space rune\<close>

text \<open>
  A byte is plain when it is ASCII and not a space; text whose ends are plain is left
  alone by \<^const>\<open>trim_space\<close>.
\<close>

definition plain_char :: "char \<Rightarrow> bool" where
  "plain_char c \<longleftrightarrow> (of_char c :: nat) < 128 \<and> c \<notin> set [CHR 0x20, CHR 0x09, CHR 0x0A, CHR 0x0B, CHR 0x0C, CHR 0x0D]"

lemma space_runes_heads:
  "\<forall>w \<in> set space_runes. w \<noteq> [] \<and> \<not> plain_char (hd w) \<and> \<not> plain_char (last w)"
  by code_simp

lemma has_prefix_hd: "w \<noteq> [] \<Longrightarrow> has_prefix (c # s) w \<Longrightarrow> hd w = c"
  by (cases w) auto

lemma space_len_plain [str_simps]:
  assumes "plain_char c"
  shows "space_len space_runes (c # s) = 0"
proof -
  have "find (has_prefix (c # s)) space_runes = None"
    using assms space_runes_heads by (auto simp: find_None_all dest: has_prefix_hd)
  then show ?thesis by (simp add: space_len_def)
qed

lemma space_len_plain_rev:
  assumes "plain_char c"
  shows "space_len (map rev space_runes) (c # s) = 0"
proof -
  have "find (has_prefix (c # s)) (map rev space_runes) = None"
    using assms space_runes_heads
    by (auto simp: find_None_all hd_rev dest!: has_prefix_hd [rotated])
  then show ?thesis by (simp add: space_len_def)
qed

lemma trim_left_plain [str_simps]: "plain_char c \<Longrightarrow> trim_left_space (c # s) = c # s"
  by (simp add: trim_left_space_def trim_runes.simps [of _ "c # s"] space_len_plain)

lemma trim_right_plain [str_simps]: "plain_char c \<Longrightarrow> trim_right_space (s @ [c]) = s @ [c]"
  by (simp add: trim_right_space_def trim_runes.simps [of _ "c # rev s"] space_len_plain_rev)

lemma trim_left_Nil [simp]: "trim_left_space [] = []"
  by (simp add: trim_left_space_def trim_runes.simps)

lemma trim_right_Nil [simp]: "trim_right_space [] = []"
  by (simp add: trim_right_space_def trim_runes.simps)

lemma trim_space_Nil [simp]: "trim_space [] = []"
  by (simp add: trim_space_def)

lemma trim_space_plain_ends:
  assumes "s \<noteq> []" and "plain_char (hd s)" and "plain_char (last s)"
  shows "trim_space s = s"
proof -
  obtain c t where s: "s = c # t" using assms(1) by (cases s) auto
  obtain u d where u: "s = u @ [d]" using assms(1) by (cases s rule: rev_cases) auto
  have "trim_left_space s = s" using s assms(2) by (simp add: trim_left_plain)
  moreover have "trim_right_space s = s" using u assms(3) by (simp add: trim_right_plain)
  ultimately show ?thesis by (simp add: trim_space_def)
qed

text \<open>Trimming never removes a plain byte.\<close>

lemma trim_runes_keeps:
  assumes "c \<in> set s" and "\<forall>w \<in> set runes. c \<notin> set w"
  shows "c \<in> set (trim_runes runes s)"
  using assms
proof (induction runes s rule: trim_runes.induct)
  case (1 runes s)
  have "c \<in> set (drop (space_len runes s) s)"
  proof (cases "find (has_prefix s) runes")
    case None
    with 1(2) show ?thesis by (simp add: space_len_def)
  next
    case (Some w)
    then have w: "w \<in> set runes" "has_prefix s w" by (auto dest: find_Some_in_set)
    then obtain t where t: "s = w @ t" by (auto simp: has_prefix_iff)
    have "space_len runes s = length w" using Some by (simp add: space_len_def)
    then have "drop (space_len runes s) s = t" by (metis append_eq_conv_conj t)
    moreover have "c \<in> set t" using 1(2,3) w(1) t by auto
    ultimately show ?thesis by simp
  qed
  then have "c \<in> set (trim_runes runes (drop (space_len runes s) s))" if "\<not> (s = [] \<or> space_len runes s = 0)"
    using that by (rule 1(1) [OF _ _ 1(3), rotated])
  with 1(2) show ?case by (simp add: trim_runes.simps [of runes s])
qed

lemma space_runes_not_plain: "\<forall>w \<in> set space_runes. list_all (\<lambda>c. \<not> plain_char c) w"
  by code_simp

lemma trim_space_keeps_plain:
  assumes "c \<in> set s" and "plain_char c"
  shows "trim_space s \<noteq> []"
proof -
  have "\<forall>w \<in> set space_runes. c \<notin> set w"
    using space_runes_not_plain assms(2) by (auto simp: list_all_iff)
  then have "c \<in> set (trim_space s)"
    using assms(1) by (simp add: trim_space_def trim_left_space_def trim_right_space_def trim_runes_keeps)
  then show ?thesis by auto
qed

section \<open>Case\<close>

definition ascii_lower :: "char \<Rightarrow> char" where
  "ascii_lower c = (if CHR ''A'' \<le> c \<and> c \<le> CHR ''Z'' then char_of ((of_char c :: nat) + 32) else c)"

fun to_lower :: "string \<Rightarrow> string" where
  "to_lower [] = []"
| "to_lower (a # b # c # s) =
     (if a = CHR 0xE2 \<and> b = CHR 0x84 \<and> c = CHR 0xAA then CHR ''k'' # to_lower s
      else if a = CHR 0xC4 \<and> b = CHR 0xB0 then CHR ''i'' # to_lower (c # s)
      else ascii_lower a # to_lower (b # c # s))"
| "to_lower [a, b] =
     (if a = CHR 0xC4 \<and> b = CHR 0xB0 then [CHR ''i''] else [ascii_lower a, ascii_lower b])"
| "to_lower [a] = [ascii_lower a]"

section \<open>Numbers\<close>

definition is_digit :: "char \<Rightarrow> bool" where
  "is_digit c \<longleftrightarrow> CHR ''0'' \<le> c \<and> c \<le> CHR ''9''"

definition digit_val :: "char \<Rightarrow> nat" where
  "digit_val c = of_char c - 48"

definition digits_val :: "string \<Rightarrow> nat" where
  "digits_val ds = foldl (\<lambda>n c. 10 * n + digit_val c) 0 ds"

text \<open>
  \<^verbatim>\<open>strconv.ParseInt(s, 10, 64)\<close>: the value and whether it was accepted.  Out of range, the
  nearest bound comes back with an error; on a syntax error, 0.
\<close>

definition parse_int64 :: "string \<Rightarrow> int \<times> bool" where
  "parse_int64 s =
     (let neg = has_prefix s ''-'';
          ds = (if neg \<or> has_prefix s ''+'' then tl s else s)
      in if ds = [] \<or> \<not> list_all is_digit ds then (0, False)
         else let n = int (digits_val ds) in
           if neg then (if n > max_int64 + 1 then (min_int64, False) else (- n, True))
           else (if n > max_int64 then (max_int64, False) else (n, True)))"

lemma parse_int64_range: "min_int64 \<le> fst (parse_int64 s) \<and> fst (parse_int64 s) \<le> max_int64"
  by (auto simp: parse_int64_def Let_def min_int64_def max_int64_def)

text \<open>\<^verbatim>\<open>strconv.Itoa\<close> and \<^verbatim>\<open>strconv.FormatInt(_, 10)\<close>.\<close>

function nat_digits :: "nat \<Rightarrow> string" where
  "nat_digits n = (if n < 10 then [char_of (48 + n)] else nat_digits (n div 10) @ [char_of (48 + n mod 10)])"
  by pat_completeness auto
termination
  by (relation "measure id") auto

declare nat_digits.simps [simp del]

definition itoa :: "int \<Rightarrow> string" where
  "itoa i = (if i < 0 then CHR ''-'' # nat_digits (nat (- i)) else nat_digits (nat i))"

text \<open>Reading a printed number gives it back.\<close>

lemma digit_chars: "list_all (\<lambda>k. is_digit (char_of (48 + k)) \<and> digit_val (char_of (48 + k)) = k) [0..<10]"
  by code_simp

lemma digit_char: "k < 10 \<Longrightarrow> is_digit (char_of (48 + k)) \<and> digit_val (char_of (48 + k)) = k"
  using digit_chars by (auto simp: list_all_iff)

lemma nat_digits_read: "nat_digits n \<noteq> [] \<and> list_all is_digit (nat_digits n) \<and> digits_val (nat_digits n) = n"
proof (induction n rule: nat_digits.induct)
  case (1 n)
  show ?case
  proof (cases "n < 10")
    case True
    then show ?thesis using digit_char [of n] by (simp add: nat_digits.simps [of n] digits_val_def)
  next
    case False
    note IH = 1 [OF False]
    have "n mod 10 < 10" by simp
    from digit_char [OF this] IH False show ?thesis
      by (simp add: nat_digits.simps [of n] digits_val_def)
  qed
qed

lemma digit_no_sign: "list_all is_digit ds \<Longrightarrow> ds \<noteq> [] \<Longrightarrow> \<not> has_prefix ds ''-'' \<and> \<not> has_prefix ds ''+''"
  by (cases ds) (auto simp: is_digit_def)

lemma parse_int64_itoa:
  assumes "min_int64 \<le> i" and "i \<le> max_int64"
  shows "parse_int64 (itoa i) = (i, True)"
proof (cases "i < 0")
  case True
  note n = nat_digits_read [of "nat (- i)"]
  then show ?thesis using True assms
    by (auto simp: itoa_def parse_int64_def Let_def min_int64_def max_int64_def)
next
  case False
  note n = nat_digits_read [of "nat i"]
  with digit_no_sign [of "nat_digits (nat i)"] False assms show ?thesis
    by (auto simp: itoa_def parse_int64_def Let_def)
qed

end
