(* ===== verification/Models.thy ===== *)
theory Models imports Go_Strings begin

text \<open>
  The data of \<^verbatim>\<open>internal/store/models.go\<close> and the columns of \<^verbatim>\<open>internal/store/schema.go\<close>.
  A Go struct is a record; a Go string type with named constants (\<^verbatim>\<open>PowerState\<close>,
  \<^verbatim>\<open>ReachState\<close>, \<^verbatim>\<open>CredKind\<close>) is \<^typ>\<open>string\<close> with the constants as definitions, because
  the code stores and compares any text there; a pointer that may be nil is an option; a
  \<^verbatim>\<open>time.Time\<close> is its Unix millisecond, which is what \<^verbatim>\<open>ms\<close> stores and \<^verbatim>\<open>fromMs\<close> reads.
  Where a row differs from its struct (\<open>machine_row\<close>, \<open>group_row\<close>) the columns have a
  record of their own; the JSON text of a string-list column is represented by the list.
\<close>

type_synonym time = int

section \<open>Named string constants\<close>

definition PowerRunning :: string where "PowerRunning = ''running''"
definition PowerStopped :: string where "PowerStopped = ''stopped''"
definition PowerPending :: string where "PowerPending = ''pending''"
definition PowerUnknown :: string where "PowerUnknown = ''unknown''"

definition ReachOK :: string where "ReachOK = ''ok''"
definition ReachRefused :: string where "ReachRefused = ''refused''"
definition ReachTimeout :: string where "ReachTimeout = ''timeout''"
definition ReachAuthFailed :: string where "ReachAuthFailed = ''auth_failed''"
definition ReachHostKeyChanged :: string where "ReachHostKeyChanged = ''hostkey_changed''"
definition ReachUnknown :: string where "ReachUnknown = ''unknown''"

definition CredSSHKey :: string where "CredSSHKey = ''ssh_key''"
definition CredPassword :: string where "CredPassword = ''password''"

lemmas power_consts = PowerRunning_def PowerStopped_def PowerPending_def PowerUnknown_def

lemmas reach_consts = ReachOK_def ReachRefused_def ReachTimeout_def ReachAuthFailed_def
  ReachHostKeyChanged_def ReachUnknown_def

section \<open>Structs\<close>

record Credential =
  cr_id :: int
  cr_name :: string
  cr_kind :: string
  cr_sealed :: string
  cr_fingerprint :: string
  cr_created :: time

record CloudAccount =
  ac_id :: int
  ac_name :: string
  ac_provider :: string
  ac_sealed_token :: string
  ac_last_sync_at :: "time option"
  ac_last_sync_error :: string
  ac_created :: time

record Machine =
  m_id :: int
  m_name :: string
  m_tags :: "string list"
  m_cloud_account :: "int option"
  m_provider :: string
  m_instance_id :: string
  m_region :: string
  m_instance_type :: string
  m_power_state :: string
  m_public_ip :: string
  m_private_ip :: string
  m_cloud_synced_at :: "time option"
  m_missing :: bool
  m_ssh_host :: string
  m_ssh_port :: int
  m_ssh_user :: string
  m_credential :: "int option"
  m_reach_state :: string
  m_reach_error :: string
  m_reach_checked_at :: "time option"
  m_created :: time
  m_updated :: time

definition HasCloud :: "Machine \<Rightarrow> bool" where
  "HasCloud m \<longleftrightarrow> m_instance_id m \<noteq> [] \<and> m_cloud_account m \<noteq> None"

definition HasHost :: "Machine \<Rightarrow> bool" where
  "HasHost m \<longleftrightarrow> m_ssh_host m \<noteq> [] \<and> m_ssh_user m \<noteq> [] \<and> m_credential m \<noteq> None"

record HostFacts =
  hf_machine :: int
  hf_hostname :: string
  hf_os_name :: string
  hf_os_version :: string
  hf_kernel :: string
  hf_arch :: string
  hf_init :: string
  hf_sudo :: string
  hf_caps :: "string list"
  hf_fetched :: time

fun list_has :: "string list \<Rightarrow> string \<Rightarrow> bool" where
  "list_has [] c \<longleftrightarrow> False"
| "list_has (x # xs) c \<longleftrightarrow> (if x = c then True else list_has xs c)"

definition Has :: "HostFacts \<Rightarrow> string \<Rightarrow> bool" where
  "Has f c = list_has (hf_caps f) c"

lemma list_has_iff [simp]: "list_has xs c \<longleftrightarrow> c \<in> set xs"
  by (induction xs) auto

lemma Has_iff [simp]: "Has f c \<longleftrightarrow> c \<in> set (hf_caps f)"
  by (simp add: Has_def)

record HostKey =
  hk_machine :: int
  hk_algorithm :: string
  hk_fingerprint :: string
  hk_first_seen :: time
  hk_seen_algorithm :: string
  hk_seen_fingerprint :: string

record Run =
  rn_id :: int
  rn_machine :: "int option"
  rn_machine_name :: string
  rn_action :: string
  rn_command :: string
  rn_danger :: int
  rn_actor :: string
  rn_exit :: "int option"
  rn_stdout :: string
  rn_stderr :: string
  rn_error :: string
  rn_duration :: int
  rn_started :: time

record Group =
  gr_id :: int
  gr_name :: string
  gr_tags :: "string list"
  gr_created :: time
  gr_members :: nat

record CustomActionParam =
  cp_name :: string
  cp_label :: string

record CustomAction =
  cu_id :: string
  cu_label :: string
  cu_category :: string
  cu_command :: string
  cu_params :: "CustomActionParam list"
  cu_requires :: "string list"
  cu_sudo :: string
  cu_danger :: int
  cu_created :: time

section \<open>Rows whose columns differ from the struct\<close>

record machine_row =
  mr_name :: string
  mr_tags :: string
  mr_cloud_account :: "int option"
  mr_provider :: string
  mr_instance_id :: string
  mr_region :: string
  mr_instance_type :: string
  mr_power_state :: string
  mr_public_ip :: string
  mr_private_ip :: string
  mr_cloud_synced_at :: "time option"
  mr_missing :: int
  mr_ssh_host :: string
  mr_ssh_port :: int
  mr_ssh_user :: string
  mr_credential :: "int option"
  mr_reach_state :: string
  mr_reach_error :: string
  mr_reach_checked_at :: "time option"
  mr_created :: time
  mr_updated :: time

record group_row =
  gw_name :: string
  gw_tags :: string
  gw_created :: time

record CloudInstance =
  in_instance_id :: string
  in_name :: string
  in_region :: string
  in_instance_type :: string
  in_power_state :: string
  in_public_ip :: string
  in_private_ip :: string
  in_labels :: "string list"

section \<open>Column conversions\<close>

definition boolInt :: "bool \<Rightarrow> int" where
  "boolInt b = (if b then 1 else 0)"

definition joinTags :: "string list \<Rightarrow> string" where
  "joinTags tags = join '','' tags"

definition trim_nonempty :: "string list \<Rightarrow> string list" where
  "trim_nonempty ws = filter (\<lambda>w. w \<noteq> []) (map trim_space ws)"

definition splitTags :: "string \<Rightarrow> string list" where
  "splitTags s = (if trim_space s = [] then [] else trim_nonempty (split_on CHR '','' s))"

text \<open>A tag the column can carry: non-empty, no comma, nothing for \<^const>\<open>trim_space\<close> to cut.\<close>

definition clean_tag :: "string \<Rightarrow> bool" where
  "clean_tag t \<longleftrightarrow> t \<noteq> [] \<and> CHR '','' \<notin> set t \<and> trim_space t = t"

lemma boolInt_neq0 [simp]: "boolInt b \<noteq> 0 \<longleftrightarrow> b"
  by (simp add: boolInt_def)

lemma trim_nonempty_clean: "\<forall>t \<in> set ts. clean_tag t \<Longrightarrow> trim_nonempty ts = ts"
  by (induction ts) (auto simp: trim_nonempty_def clean_tag_def)

text \<open>\<^verbatim>\<open>utf8.RuneStart\<close> and the store's \<^verbatim>\<open>truncate\<close>, which backs off to a rune boundary.\<close>

definition rune_start :: "char \<Rightarrow> bool" where
  "rune_start c \<longleftrightarrow> \<not> (128 \<le> (of_char c :: nat) \<and> (of_char c :: nat) < 192)"

fun back_off :: "string \<Rightarrow> nat \<Rightarrow> nat" where
  "back_off s 0 = 0"
| "back_off s (Suc k) = (if rune_start (s ! Suc k) then Suc k else back_off s k)"

definition truncated_mark :: string where
  "truncated_mark = [CHR 0x0A, CHR 0xE2, CHR 0x80, CHR 0xA6] @ '' truncated''"

definition truncate_text :: "string \<Rightarrow> nat \<Rightarrow> string" where
  "truncate_text s limit =
     (if length s \<le> limit then s else take (back_off s limit) s @ truncated_mark)"

definition maxStoredOutput :: nat where "maxStoredOutput = 64 * 1024"

lemma back_off_le: "back_off s k \<le> k"
  by (induction k) auto

lemma back_off_boundary: "back_off s k = 0 \<or> rune_start (s ! back_off s k)"
  by (induction k) auto

lemma back_off_maximal: "back_off s k < j \<Longrightarrow> j \<le> k \<Longrightarrow> \<not> rune_start (s ! j)"
  by (induction k) (auto simp: le_Suc_eq split: if_splits)

end
