(* ===== verification/Tables.thy ===== *)
theory Tables imports Models begin

text \<open>
  A table with \<^verbatim>\<open>INTEGER PRIMARY KEY AUTOINCREMENT\<close>: its rows in row-id order and the
  largest id it ever gave out (\<^verbatim>\<open>sqlite_sequence\<close>).  The locale \<open>auto_table\<close> states what
  the store relies on: an insert takes an id never used before and makes it readable, a
  delete and an update touch exactly the rows they name.
\<close>

record 'r tbl =
  tbl_seq :: int
  tbl_rows :: "(int \<times> 'r) list"

definition tbl_empty :: "'r tbl" where
  "tbl_empty = \<lparr>tbl_seq = 0, tbl_rows = []\<rparr>"

definition tbl_get :: "'r tbl \<Rightarrow> int \<Rightarrow> 'r option" where
  "tbl_get t i = map_of (tbl_rows t) i"

definition tbl_next :: "'r tbl \<Rightarrow> int" where
  "tbl_next t = tbl_seq t + 1"

definition tbl_insert :: "'r \<Rightarrow> 'r tbl \<Rightarrow> 'r tbl" where
  "tbl_insert r t = \<lparr>tbl_seq = tbl_next t, tbl_rows = tbl_rows t @ [(tbl_next t, r)]\<rparr>"

definition tbl_delete :: "int \<Rightarrow> 'r tbl \<Rightarrow> 'r tbl" where
  "tbl_delete i t = t\<lparr>tbl_rows := filter (\<lambda>(k, r). k \<noteq> i) (tbl_rows t)\<rparr>"

definition tbl_update :: "(int \<Rightarrow> 'r \<Rightarrow> bool) \<Rightarrow> ('r \<Rightarrow> 'r) \<Rightarrow> 'r tbl \<Rightarrow> 'r tbl" where
  "tbl_update P f t = t\<lparr>tbl_rows := map (\<lambda>(k, r). (k, if P k r then f r else r)) (tbl_rows t)\<rparr>"

definition tbl_inv :: "'r tbl \<Rightarrow> bool" where
  "tbl_inv t \<longleftrightarrow> distinct (map fst (tbl_rows t)) \<and> (\<forall>k \<in> fst ` set (tbl_rows t). 0 < k \<and> k \<le> tbl_seq t) \<and> 0 \<le> tbl_seq t"

section \<open>The interface\<close>

locale auto_table =
  fixes get :: "'t \<Rightarrow> int \<Rightarrow> 'r option"
    and nxt :: "'t \<Rightarrow> int"
    and ins :: "'r \<Rightarrow> 't \<Rightarrow> 't"
    and del :: "int \<Rightarrow> 't \<Rightarrow> 't"
    and upd :: "(int \<Rightarrow> 'r \<Rightarrow> bool) \<Rightarrow> ('r \<Rightarrow> 'r) \<Rightarrow> 't \<Rightarrow> 't"
    and inv :: "'t \<Rightarrow> bool"
  assumes next_fresh: "inv t \<Longrightarrow> nxt t \<le> i \<Longrightarrow> get t i = None"
    and get_ins: "inv t \<Longrightarrow> get (ins r t) i = (if i = nxt t then Some r else get t i)"
    and next_ins: "nxt (ins r t) = nxt t + 1"
    and get_del: "get (del i t) j = (if j = i then None else get t j)"
    and next_del: "nxt (del i t) = nxt t"
    and get_upd: "get (upd P f t) j = map_option (\<lambda>r. if P j r then f r else r) (get t j)"
    and next_upd: "nxt (upd P f t) = nxt t"
    and inv_ins: "inv t \<Longrightarrow> inv (ins r t)"
    and inv_del: "inv t \<Longrightarrow> inv (del i t)"
    and inv_upd: "inv t \<Longrightarrow> inv (upd P f t)"
begin

lemmas get_simps = get_ins get_del get_upd
lemmas inv_intros = inv_ins inv_del inv_upd

text \<open>An id that was given out is never given out again, whatever was deleted since.\<close>

lemma id_not_reused:
  "inv t \<Longrightarrow> get t i \<noteq> None \<Longrightarrow> nxt (ins r (del i t)) \<noteq> i \<and> nxt (del i t) \<noteq> i"
  using next_fresh [of t i] by (auto simp: next_ins next_del)

lemma ins_keeps: "inv t \<Longrightarrow> get t i = Some x \<Longrightarrow> get (ins r t) i = Some x"
  using next_fresh [of t i] by (auto simp: get_ins)

lemma ins_get_new: "inv t \<Longrightarrow> get (ins r t) (nxt t) = Some r"
  by (simp add: get_ins)

lemma upd_SomeE:
  assumes "get (upd P f t) i = Some s"
  obtains (hit) r where "get t i = Some r" "P i r" "s = f r"
    | (miss) "get t i = Some s" "\<not> P i s"
proof -
  from assms obtain r where r: "get t i = Some r" and s: "s = (if P i r then f r else r)"
    by (auto simp: get_upd)
  show ?thesis by (cases "P i r") (use r s hit miss in simp_all)
qed

lemma upd_domain:
  "get (upd P f t) i = None \<longleftrightarrow> get t i = None"
  "(\<exists>r. get (upd P f t) i = Some r) \<longleftrightarrow> (\<exists>r. get t i = Some r)"
  by (auto simp: get_upd)

end

section \<open>The table provides it\<close>

lemma map_of_map_rows:
  "map_of (map (\<lambda>(k, r). (k, if P k r then f r else r)) rows) i
     = map_option (\<lambda>r. if P i r then f r else r) (map_of rows i)"
  by (induction rows) auto

lemma map_of_filter_neq:
  "map_of (filter (\<lambda>(k, r). k \<noteq> i) rows) j = (if j = i then None else map_of rows j)"
  by (induction rows) auto

lemma tbl_get_Some_mem: "tbl_get t i = Some r \<Longrightarrow> (i, r) \<in> set (tbl_rows t)"
  by (simp add: tbl_get_def map_of_SomeD)

lemma tbl_get_eq_mem: "tbl_inv t \<Longrightarrow> tbl_get t i = Some r \<longleftrightarrow> (i, r) \<in> set (tbl_rows t)"
  by (simp add: tbl_get_def tbl_inv_def map_of_eq_Some_iff)

interpretation tb: auto_table tbl_get tbl_next tbl_insert tbl_delete tbl_update tbl_inv
proof (unfold_locales, goal_cases)
  case (1 t i)
  then have "i \<notin> fst ` set (tbl_rows t)" by (force simp: tbl_inv_def tbl_next_def)
  then show ?case by (simp add: tbl_get_def map_of_eq_None_iff)
next
  case (2 t r i)
  then have "tbl_next t \<notin> fst ` set (tbl_rows t)" by (force simp: tbl_inv_def tbl_next_def)
  then have "map_of (tbl_rows t) (tbl_next t) = None" by (simp add: map_of_eq_None_iff)
  then show ?case
    by (auto simp: tbl_get_def tbl_insert_def map_add_def split: option.splits)
next
  case (8 t r)
  then have "tbl_next t \<notin> fst ` set (tbl_rows t)" by (force simp: tbl_inv_def tbl_next_def)
  with 8 show ?case by (auto simp: tbl_inv_def tbl_insert_def tbl_next_def)
next
  case (9 t i)
  then show ?case
    by (auto simp: tbl_inv_def tbl_delete_def)
next
  case (10 t P f)
  have "map fst (map (\<lambda>(k, r). (k, if P k r then f r else r)) (tbl_rows t)) = map fst (tbl_rows t)"
    by auto
  with 10 show ?case by (auto simp: tbl_inv_def tbl_update_def comp_def split_def image_image)
qed (simp_all add: tbl_get_def tbl_next_def tbl_insert_def tbl_delete_def tbl_update_def
       map_of_map_rows map_of_filter_neq)

lemma tbl_inv_empty [simp]: "tbl_inv tbl_empty"
  by (simp add: tbl_inv_def tbl_empty_def)

lemma tbl_get_empty [simp]: "tbl_get tbl_empty i = None"
  by (simp add: tbl_get_def tbl_empty_def)

end
