(* ===== verification/Store.thy ===== *)
theory Store imports Tables begin

text \<open>
  \<^verbatim>\<open>internal/store/queries.go\<close>: the database and every query.  A statement either takes effect
  as a whole or fails and changes nothing.  It fails when SQLite does (\<open>db_fail\<close>, an
  arbitrary function of the statement: disk, lock, driver) or when it breaks a constraint of
  the schema: a foreign key (the connection sets \<^verbatim>\<open>foreign_keys(1)\<close>), the unique index on
  \<^verbatim>\<open>machines(cloud_account_id, instance_id) WHERE instance_id != ''\<close>, in which NULLs are
  distinct, or the primary key of \<^verbatim>\<open>custom_actions\<close>.  The \<^verbatim>\<open>ON DELETE\<close> actions of the
  schema are part of the deleting statement.  The current time is the argument \<open>now\<close>.
  Rows with equal sort keys are listed in row-id order, an order SQLite leaves open.
\<close>

section \<open>The database\<close>

datatype stmt =
    InsCredential | SelCredentials | SelCredential int | DelCredential int
  | InsCloudAccount | SelCloudAccounts | SelCloudAccount int
  | BeginTx | StripMachines int | DelCloudAccount int | CommitTx | UpdSyncResult int
  | InsMachine | SelMachines | SelMachine int | UpdMachine int | DelMachine int
  | SelMachinesByCredential int | DelHostKey int | DelHostFacts int
  | UpdReach int | UpdPowerState int
  | SelInstance int string | UpdFromCloud int | UpdMissing int
  | UpsHostFacts int | SelHostFacts int
  | SelHostKey int | InsHostKey int | UpdSeenKey int | ClrSeenKey int | UpsHostKey int
  | InsRun | SelRuns
  | InsGroup | SelGroups | SelGroup int | DelGroup int
  | InsCustomAction | SelCustomActions | SelCustomAction string | DelCustomAction string

record db =
  credentials :: "Credential tbl"
  cloud_accounts :: "CloudAccount tbl"
  machines :: "machine_row tbl"
  host_facts :: "int \<Rightarrow> HostFacts option"
  host_keys :: "int \<Rightarrow> HostKey option"
  runs :: "Run tbl"
  groups :: "group_row tbl"
  custom_actions :: "CustomAction list"
  db_fail :: "stmt \<Rightarrow> string option"

definition empty_db :: db where
  "empty_db =
     \<lparr>credentials = tbl_empty, cloud_accounts = tbl_empty, machines = tbl_empty,
      host_facts = (\<lambda>_. None), host_keys = (\<lambda>_. None), runs = tbl_empty, groups = tbl_empty,
      custom_actions = [], db_fail = (\<lambda>_. None)\<rparr>"

text \<open>A query reads; a statement writes, or fails and leaves the database as it was.\<close>

definition sql_query :: "stmt \<Rightarrow> 'a \<Rightarrow> db \<Rightarrow> 'a result" where
  "sql_query st x d = (case db_fail d st of Some msg \<Rightarrow> Inl (Text msg) | None \<Rightarrow> Inr x)"

definition sql_exec :: "stmt \<Rightarrow> (go_err + 'a \<times> db) \<Rightarrow> db \<Rightarrow> 'a result \<times> db" where
  "sql_exec st eff d =
     (case db_fail d st of
        Some msg \<Rightarrow> (Inl (Text msg), d)
      | None \<Rightarrow> (case eff of Inl e \<Rightarrow> (Inl e, d) | Inr (x, d') \<Rightarrow> (Inr x, d')))"

definition wrap_err :: "string \<Rightarrow> 'a result \<times> db \<Rightarrow> 'a result \<times> db" where
  "wrap_err msg r = (case r of (Inl e, d) \<Rightarrow> (Inl (Wrap msg e []), d) | (Inr x, d) \<Rightarrow> (Inr x, d))"

definition wrap_query :: "string \<Rightarrow> 'a result \<Rightarrow> 'a result" where
  "wrap_query msg r = (case r of Inl e \<Rightarrow> Inl (Wrap msg e []) | Inr x \<Rightarrow> Inr x)"

definition fk_error :: go_err where
  "fk_error = Text ''constraint failed: FOREIGN KEY constraint failed''"

definition unique_error :: go_err where
  "unique_error = Text ''constraint failed: UNIQUE constraint failed''"

text \<open>A reference that is NULL or names an existing row.\<close>

definition ref_ok :: "'r tbl \<Rightarrow> int option \<Rightarrow> bool" where
  "ref_ok t r \<longleftrightarrow> (case r of None \<Rightarrow> True | Some i \<Rightarrow> tbl_get t i \<noteq> None)"

text \<open>\<^verbatim>\<open>idx_machines_instance\<close>: would a row with this account and instance collide with one outside \<open>self\<close>?\<close>

definition instance_taken :: "db \<Rightarrow> int option \<Rightarrow> int option \<Rightarrow> string \<Rightarrow> bool" where
  "instance_taken d self acct inst \<longleftrightarrow>
     inst \<noteq> [] \<and> acct \<noteq> None \<and>
     list_ex (\<lambda>(i, r). Some i \<noteq> self \<and> mr_cloud_account r = acct \<and> mr_instance_id r = inst)
       (tbl_rows (machines d))"

section \<open>Credentials\<close>

definition CreateCredential :: "time \<Rightarrow> Credential \<Rightarrow> db \<Rightarrow> Credential result \<times> db" where
  "CreateCredential now c d =
     (let c' = c\<lparr>cr_created := now, cr_id := tbl_next (credentials d)\<rparr> in
      wrap_err ''store: create credential: ''
        (sql_exec InsCredential (Inr (c', d\<lparr>credentials := tbl_insert c' (credentials d)\<rparr>)) d))"

definition ListCredentials :: "db \<Rightarrow> Credential list result" where
  "ListCredentials d =
     wrap_query ''store: list credentials: ''
       (sql_query SelCredentials (sort_key cr_name (map snd (tbl_rows (credentials d)))) d)"

definition GetCredential :: "int \<Rightarrow> db \<Rightarrow> Credential result" where
  "GetCredential i d =
     res_bind (sql_query (SelCredential i) (tbl_get (credentials d) i) d)
       (\<lambda>r. case r of None \<Rightarrow> Inl (Sentinel ErrNotFound) | Some c \<Rightarrow> Inr c)"

text \<open>\<^verbatim>\<open>ON DELETE SET NULL\<close> on \<^verbatim>\<open>machines.credential_id\<close>.\<close>

definition DeleteCredential :: "int \<Rightarrow> db \<Rightarrow> unit result \<times> db" where
  "DeleteCredential i d =
     sql_exec (DelCredential i)
       (Inr ((), d\<lparr>credentials := tbl_delete i (credentials d),
                   machines := tbl_update (\<lambda>_ r. mr_credential r = Some i) (\<lambda>r. r\<lparr>mr_credential := None\<rparr>) (machines d)\<rparr>)) d"

section \<open>Cloud accounts\<close>

definition CreateCloudAccount :: "time \<Rightarrow> CloudAccount \<Rightarrow> db \<Rightarrow> CloudAccount result \<times> db" where
  "CreateCloudAccount now a d =
     (let a' = a\<lparr>ac_created := now, ac_id := tbl_next (cloud_accounts d)\<rparr>;
          row = a'\<lparr>ac_last_sync_at := None, ac_last_sync_error := []\<rparr> in
      wrap_err ''store: create cloud account: ''
        (sql_exec InsCloudAccount (Inr (a', d\<lparr>cloud_accounts := tbl_insert row (cloud_accounts d)\<rparr>)) d))"

definition ListCloudAccounts :: "db \<Rightarrow> CloudAccount list result" where
  "ListCloudAccounts d =
     wrap_query ''store: list cloud accounts: ''
       (sql_query SelCloudAccounts (sort_key ac_name (map snd (tbl_rows (cloud_accounts d)))) d)"

definition GetCloudAccount :: "int \<Rightarrow> db \<Rightarrow> CloudAccount result" where
  "GetCloudAccount i d =
     res_bind (sql_query (SelCloudAccount i) (tbl_get (cloud_accounts d) i) d)
       (\<lambda>r. case r of None \<Rightarrow> Inl (Sentinel ErrNotFound) | Some a \<Rightarrow> Inr a)"

definition strip_cloud :: "time \<Rightarrow> machine_row \<Rightarrow> machine_row" where
  "strip_cloud now r =
     r\<lparr>mr_cloud_account := None, mr_provider := [], mr_instance_id := [], mr_region := [],
       mr_instance_type := [], mr_power_state := PowerUnknown, mr_cloud_synced_at := None,
       mr_missing := 0, mr_updated := now\<rparr>"

text \<open>One transaction: an error anywhere, the commit included, rolls everything back.\<close>

definition DeleteCloudAccount :: "time \<Rightarrow> int \<Rightarrow> db \<Rightarrow> unit result \<times> db" where
  "DeleteCloudAccount now i d =
     (let d1 = d\<lparr>machines := tbl_update (\<lambda>_ r. mr_cloud_account r = Some i) (strip_cloud now) (machines d)\<rparr>;
          d2 = d1\<lparr>cloud_accounts := tbl_delete i (cloud_accounts d1),
                  machines := tbl_update (\<lambda>_ r. mr_cloud_account r = Some i) (\<lambda>r. r\<lparr>mr_cloud_account := None\<rparr>) (machines d1)\<rparr>
      in case db_fail d BeginTx of Some msg \<Rightarrow> (Inl (Text msg), d)
       | None \<Rightarrow> (case db_fail d (StripMachines i) of Some msg \<Rightarrow> (Inl (Text msg), d)
       | None \<Rightarrow> (case db_fail d (DelCloudAccount i) of Some msg \<Rightarrow> (Inl (Text msg), d)
       | None \<Rightarrow> (case db_fail d CommitTx of Some msg \<Rightarrow> (Inl (Text msg), d)
       | None \<Rightarrow> (Inr (), d2)))))"

definition SetSyncResult :: "int \<Rightarrow> time \<Rightarrow> string \<Rightarrow> db \<Rightarrow> unit result \<times> db" where
  "SetSyncResult i at syncErr d =
     sql_exec (UpdSyncResult i)
       (Inr ((), d\<lparr>cloud_accounts := tbl_update (\<lambda>k _. k = i)
          (\<lambda>a. a\<lparr>ac_last_sync_at := Some at, ac_last_sync_error := syncErr\<rparr>) (cloud_accounts d)\<rparr>)) d"

section \<open>Machines\<close>

text \<open>The values an \<^verbatim>\<open>INSERT INTO machines\<close> binds, and what \<^verbatim>\<open>scanMachine\<close> reads back.\<close>

definition machine_cols :: "Machine \<Rightarrow> machine_row" where
  "machine_cols m =
     \<lparr>mr_name = m_name m, mr_tags = joinTags (m_tags m), mr_cloud_account = m_cloud_account m,
      mr_provider = m_provider m, mr_instance_id = m_instance_id m, mr_region = m_region m,
      mr_instance_type = m_instance_type m, mr_power_state = m_power_state m,
      mr_public_ip = m_public_ip m, mr_private_ip = m_private_ip m,
      mr_cloud_synced_at = m_cloud_synced_at m, mr_missing = boolInt (m_missing m),
      mr_ssh_host = m_ssh_host m, mr_ssh_port = m_ssh_port m, mr_ssh_user = m_ssh_user m,
      mr_credential = m_credential m, mr_reach_state = m_reach_state m,
      mr_reach_error = m_reach_error m, mr_reach_checked_at = m_reach_checked_at m,
      mr_created = m_created m, mr_updated = m_updated m\<rparr>"

definition scanMachine :: "int \<Rightarrow> machine_row \<Rightarrow> Machine" where
  "scanMachine i r =
     \<lparr>m_id = i, m_name = mr_name r, m_tags = splitTags (mr_tags r),
      m_cloud_account = mr_cloud_account r, m_provider = mr_provider r,
      m_instance_id = mr_instance_id r, m_region = mr_region r,
      m_instance_type = mr_instance_type r, m_power_state = mr_power_state r,
      m_public_ip = mr_public_ip r, m_private_ip = mr_private_ip r,
      m_cloud_synced_at = mr_cloud_synced_at r, m_missing = (mr_missing r \<noteq> 0),
      m_ssh_host = mr_ssh_host r, m_ssh_port = mr_ssh_port r, m_ssh_user = mr_ssh_user r,
      m_credential = mr_credential r, m_reach_state = mr_reach_state r,
      m_reach_error = mr_reach_error r, m_reach_checked_at = mr_reach_checked_at r,
      m_created = mr_created r, m_updated = mr_updated r\<rparr>"

definition insert_machine_row :: "machine_row \<Rightarrow> db \<Rightarrow> go_err + int \<times> db" where
  "insert_machine_row r d =
     (if \<not> ref_ok (cloud_accounts d) (mr_cloud_account r) \<or> \<not> ref_ok (credentials d) (mr_credential r) then Inl fk_error
      else if instance_taken d None (mr_cloud_account r) (mr_instance_id r) then Inl unique_error
      else Inr (tbl_next (machines d), d\<lparr>machines := tbl_insert r (machines d)\<rparr>))"

definition machine_defaults :: "time \<Rightarrow> Machine \<Rightarrow> Machine" where
  "machine_defaults now m =
     m\<lparr>m_created := now, m_updated := now,
       m_ssh_port := (if m_ssh_port m = 0 then 22 else m_ssh_port m),
       m_power_state := (if m_power_state m = [] then PowerUnknown else m_power_state m),
       m_reach_state := (if m_reach_state m = [] then ReachUnknown else m_reach_state m)\<rparr>"

definition CreateMachine :: "time \<Rightarrow> Machine \<Rightarrow> db \<Rightarrow> Machine result \<times> db" where
  "CreateMachine now m d =
     (let m1 = machine_defaults now m
      in case wrap_err ''store: create machine: ''
                (sql_exec InsMachine (insert_machine_row (machine_cols m1) d) d) of
           (Inl e, d') \<Rightarrow> (Inl e, d')
         | (Inr i, d') \<Rightarrow> (Inr (m1\<lparr>m_id := i\<rparr>), d'))"

text \<open>SQLite's \<^verbatim>\<open>NOCASE\<close> folds the letters A-Z and compares bytes.\<close>

definition nocase :: "string \<Rightarrow> string" where
  "nocase s = map ascii_lower s"

definition ListMachines :: "db \<Rightarrow> Machine list result" where
  "ListMachines d =
     wrap_query ''store: list machines: ''
       (sql_query SelMachines
         (sort_key (\<lambda>m. nocase (m_name m)) (map (\<lambda>(i, r). scanMachine i r) (tbl_rows (machines d)))) d)"

definition GetMachine :: "int \<Rightarrow> db \<Rightarrow> Machine result" where
  "GetMachine i d =
     res_bind (sql_query (SelMachine i) (tbl_get (machines d) i) d)
       (\<lambda>r. case r of None \<Rightarrow> Inl (Sentinel ErrNotFound) | Some row \<Rightarrow> Inr (scanMachine i row))"

definition UpdateMachine :: "time \<Rightarrow> Machine \<Rightarrow> db \<Rightarrow> unit result \<times> db" where
  "UpdateMachine now m d =
     (let port = (if m_ssh_port m = 0 then 22 else m_ssh_port m);
          set_cols = (\<lambda>r. r\<lparr>mr_name := m_name m, mr_tags := joinTags (m_tags m),
             mr_ssh_host := m_ssh_host m, mr_ssh_port := port, mr_ssh_user := m_ssh_user m,
             mr_credential := m_credential m, mr_cloud_account := m_cloud_account m,
             mr_instance_id := m_instance_id m, mr_provider := m_provider m, mr_updated := now\<rparr>);
          eff = (if tbl_get (machines d) (m_id m) = None then Inr ((), d)
                 else if \<not> ref_ok (cloud_accounts d) (m_cloud_account m) \<or> \<not> ref_ok (credentials d) (m_credential m)
                 then Inl fk_error
                 else if instance_taken d (Some (m_id m)) (m_cloud_account m) (m_instance_id m) then Inl unique_error
                 else Inr ((), d\<lparr>machines := tbl_update (\<lambda>k _. k = m_id m) set_cols (machines d)\<rparr>))
      in sql_exec (UpdMachine (m_id m)) eff d)"

text \<open>
  \<^verbatim>\<open>host_facts\<close> and \<^verbatim>\<open>host_keys\<close> go with the machine (\<^verbatim>\<open>ON DELETE CASCADE\<close>); its runs stay,
  without the reference (\<^verbatim>\<open>ON DELETE SET NULL\<close>).
\<close>

definition DeleteMachine :: "int \<Rightarrow> db \<Rightarrow> unit result \<times> db" where
  "DeleteMachine i d =
     sql_exec (DelMachine i)
       (Inr ((), d\<lparr>machines := tbl_delete i (machines d),
                   host_facts := (host_facts d)(i := None),
                   host_keys := (host_keys d)(i := None),
                   runs := tbl_update (\<lambda>_ r. rn_machine r = Some i) (\<lambda>r. r\<lparr>rn_machine := None\<rparr>) (runs d)\<rparr>)) d"

definition MachineIDsByCredential :: "int \<Rightarrow> db \<Rightarrow> int list result" where
  "MachineIDsByCredential c d =
     sql_query (SelMachinesByCredential c)
       (map fst (filter (\<lambda>(i, r). mr_credential r = Some c) (tbl_rows (machines d)))) d"

text \<open>Two statements, no transaction: the first stays done when the second fails.\<close>

definition ResetHostIdentity :: "int \<Rightarrow> db \<Rightarrow> unit result \<times> db" where
  "ResetHostIdentity i d =
     (case sql_exec (DelHostKey i) (Inr ((), d\<lparr>host_keys := (host_keys d)(i := None)\<rparr>)) d of
        (Inl e, d1) \<Rightarrow> (Inl e, d1)
      | (Inr _, d1) \<Rightarrow> sql_exec (DelHostFacts i) (Inr ((), d1\<lparr>host_facts := (host_facts d1)(i := None)\<rparr>)) d1)"

definition SetReach :: "time \<Rightarrow> int \<Rightarrow> string \<Rightarrow> string \<Rightarrow> db \<Rightarrow> unit result \<times> db" where
  "SetReach now i st reachErr d =
     sql_exec (UpdReach i)
       (Inr ((), d\<lparr>machines := tbl_update (\<lambda>k _. k = i)
          (\<lambda>r. r\<lparr>mr_reach_state := st, mr_reach_error := reachErr, mr_reach_checked_at := Some now, mr_updated := now\<rparr>)
          (machines d)\<rparr>)) d"

definition SetPowerState :: "time \<Rightarrow> int \<Rightarrow> string \<Rightarrow> db \<Rightarrow> unit result \<times> db" where
  "SetPowerState now i st d =
     sql_exec (UpdPowerState i)
       (Inr ((), d\<lparr>machines := tbl_update (\<lambda>k _. k = i)
          (\<lambda>r. r\<lparr>mr_power_state := st, mr_updated := now\<rparr>) (machines d)\<rparr>)) d"


section \<open>Reconciling with the cloud\<close>

definition new_cloud_machine :: "time \<Rightarrow> int \<Rightarrow> string \<Rightarrow> CloudInstance \<Rightarrow> Machine" where
  "new_cloud_machine now acct provider inst =
     \<lparr>m_id = 0, m_name = in_name inst, m_tags = in_labels inst, m_cloud_account = Some acct,
      m_provider = provider, m_instance_id = in_instance_id inst, m_region = in_region inst,
      m_instance_type = in_instance_type inst, m_power_state = in_power_state inst,
      m_public_ip = in_public_ip inst, m_private_ip = in_private_ip inst,
      m_cloud_synced_at = Some now, m_missing = False,
      m_ssh_host = in_public_ip inst, m_ssh_port = 22, m_ssh_user = [], m_credential = None,
      m_reach_state = [], m_reach_error = [], m_reach_checked_at = None,
      m_created = 0, m_updated = 0\<rparr>"

text \<open>The row a lookup by account and instance id finds.\<close>

definition find_instance :: "int \<Rightarrow> string \<Rightarrow> db \<Rightarrow> (int \<times> machine_row) option" where
  "find_instance acct inst d =
     find (\<lambda>(i, r). mr_cloud_account r = Some acct \<and> mr_instance_id r = inst) (tbl_rows (machines d))"

text \<open>\<^verbatim>\<open>ssh_host\<close> follows the public IP only when it was tracking it and a new one is known.\<close>

definition follow_ip :: "string \<Rightarrow> string \<Rightarrow> string \<Rightarrow> string \<times> bool" where
  "follow_ip oldSSHHost oldPublicIP newIP =
     (if oldSSHHost = oldPublicIP \<and> newIP \<noteq> [] \<and> newIP \<noteq> oldPublicIP then (newIP, True)
      else (oldSSHHost, False))"

definition refresh_row :: "time \<Rightarrow> string \<Rightarrow> CloudInstance \<Rightarrow> machine_row \<Rightarrow> machine_row" where
  "refresh_row now newSSHHost inst r =
     r\<lparr>mr_region := in_region inst, mr_instance_type := in_instance_type inst,
       mr_power_state := in_power_state inst, mr_public_ip := in_public_ip inst,
       mr_private_ip := in_private_ip inst, mr_ssh_host := newSSHHost,
       mr_cloud_synced_at := Some now, mr_missing := 0, mr_updated := now\<rparr>"

definition UpsertFromCloud ::
    "time \<Rightarrow> int \<Rightarrow> string \<Rightarrow> CloudInstance \<Rightarrow> db \<Rightarrow> (int \<times> bool \<times> bool) result \<times> db" where
  "UpsertFromCloud now acct provider inst d =
     (case sql_query (SelInstance acct (in_instance_id inst)) (find_instance acct (in_instance_id inst) d) d of
        Inl e \<Rightarrow> (Inl (Wrap (''store: lookup instance '' @ in_instance_id inst @ '': '') e []), d)
      | Inr None \<Rightarrow>
          (case CreateMachine now (new_cloud_machine now acct provider inst) d of
             (Inl e, d') \<Rightarrow> (Inl e, d')
           | (Inr m, d') \<Rightarrow> (Inr (m_id m, True, False), d'))
      | Inr (Some (i, r)) \<Rightarrow>
          (let (newSSHHost, hostChanged) = follow_ip (mr_ssh_host r) (mr_public_ip r) (in_public_ip inst) in
           case sql_exec (UpdFromCloud i)
                  (Inr ((), d\<lparr>machines := tbl_update (\<lambda>k _. k = i) (refresh_row now newSSHHost inst) (machines d)\<rparr>)) d of
             (Inl e, d') \<Rightarrow> (Inl (Wrap (''store: refresh instance '' @ in_instance_id inst @ '': '') e []), d')
           | (Inr _, d') \<Rightarrow> (Inr (i, False, hostChanged), d')))"

definition MarkMissing :: "time \<Rightarrow> int \<Rightarrow> string list \<Rightarrow> db \<Rightarrow> unit result \<times> db" where
  "MarkMissing now acct seen d =
     (let mark = (\<lambda>r. r\<lparr>mr_missing := 1, mr_updated := now\<rparr>);
          gone = (if seen = [] then (\<lambda>_ r. mr_cloud_account r = Some acct \<and> mr_instance_id r \<noteq> [])
                  else (\<lambda>_ r. mr_cloud_account r = Some acct \<and> mr_instance_id r \<noteq> [] \<and> mr_instance_id r \<notin> set seen))
      in sql_exec (UpdMissing acct) (Inr ((), d\<lparr>machines := tbl_update gone mark (machines d)\<rparr>)) d)"

section \<open>Host facts\<close>

definition UpsertFacts :: "time \<Rightarrow> HostFacts \<Rightarrow> db \<Rightarrow> unit result \<times> db" where
  "UpsertFacts now f d =
     sql_exec (UpsHostFacts (hf_machine f))
       (if tbl_get (machines d) (hf_machine f) = None then Inl fk_error
        else Inr ((), d\<lparr>host_facts := (host_facts d)(hf_machine f \<mapsto> f\<lparr>hf_fetched := now\<rparr>)\<rparr>)) d"

definition GetFacts :: "int \<Rightarrow> db \<Rightarrow> HostFacts result" where
  "GetFacts i d =
     res_bind (sql_query (SelHostFacts i) (host_facts d i) d)
       (\<lambda>r. case r of None \<Rightarrow> Inl (Sentinel ErrNotFound) | Some f \<Rightarrow> Inr (f\<lparr>hf_machine := i\<rparr>))"

section \<open>Host keys\<close>

definition GetHostKey :: "int \<Rightarrow> db \<Rightarrow> HostKey result" where
  "GetHostKey i d =
     res_bind (sql_query (SelHostKey i) (host_keys d i) d)
       (\<lambda>r. case r of None \<Rightarrow> Inl (Sentinel ErrNotFound) | Some k \<Rightarrow> Inr (k\<lparr>hk_machine := i\<rparr>))"

definition new_pin :: "time \<Rightarrow> int \<Rightarrow> string \<Rightarrow> string \<Rightarrow> HostKey" where
  "new_pin now i algorithm fingerprint =
     \<lparr>hk_machine = i, hk_algorithm = algorithm, hk_fingerprint = fingerprint, hk_first_seen = now,
      hk_seen_algorithm = [], hk_seen_fingerprint = []\<rparr>"

text \<open>\<^verbatim>\<open>INSERT OR IGNORE\<close>: an existing pin is kept; a missing machine is still a foreign-key error.\<close>

definition PinHostKey :: "time \<Rightarrow> int \<Rightarrow> string \<Rightarrow> string \<Rightarrow> db \<Rightarrow> unit result \<times> db" where
  "PinHostKey now i algorithm fingerprint d =
     sql_exec (InsHostKey i)
       (if host_keys d i \<noteq> None then Inr ((), d)
        else if tbl_get (machines d) i = None then Inl fk_error
        else Inr ((), d\<lparr>host_keys := (host_keys d)(i \<mapsto> new_pin now i algorithm fingerprint)\<rparr>)) d"

definition RecordSeenHostKey :: "int \<Rightarrow> string \<Rightarrow> string \<Rightarrow> db \<Rightarrow> unit result \<times> db" where
  "RecordSeenHostKey i algorithm fingerprint d =
     sql_exec (UpdSeenKey i)
       (Inr ((), d\<lparr>host_keys := (host_keys d)(i := map_option
          (\<lambda>k. k\<lparr>hk_seen_algorithm := algorithm, hk_seen_fingerprint := fingerprint\<rparr>) (host_keys d i))\<rparr>)) d"

definition ClearSeenHostKey :: "int \<Rightarrow> db \<Rightarrow> unit result \<times> db" where
  "ClearSeenHostKey i d =
     sql_exec (ClrSeenKey i)
       (Inr ((), d\<lparr>host_keys := (host_keys d)(i := map_option
          (\<lambda>k. if hk_seen_fingerprint k \<noteq> [] then k\<lparr>hk_seen_algorithm := [], hk_seen_fingerprint := []\<rparr> else k)
          (host_keys d i))\<rparr>)) d"

definition TrustHostKey :: "time \<Rightarrow> int \<Rightarrow> string \<Rightarrow> string \<Rightarrow> db \<Rightarrow> unit result \<times> db" where
  "TrustHostKey now i algorithm fingerprint d =
     sql_exec (UpsHostKey i)
       (if tbl_get (machines d) i = None then Inl fk_error
        else Inr ((), d\<lparr>host_keys := (host_keys d)(i \<mapsto> new_pin now i algorithm fingerprint)\<rparr>)) d"

section \<open>The audit log\<close>

definition stored_run :: "Run \<Rightarrow> Run" where
  "stored_run r = r\<lparr>rn_stdout := truncate_text (rn_stdout r) maxStoredOutput,
                    rn_stderr := truncate_text (rn_stderr r) maxStoredOutput\<rparr>"

definition InsertRun :: "Run \<Rightarrow> db \<Rightarrow> Run result \<times> db" where
  "InsertRun r d =
     (let r' = r\<lparr>rn_id := tbl_next (runs d)\<rparr> in
      wrap_err ''store: insert run: ''
        (sql_exec InsRun
          (if ref_ok (machines d) (rn_machine r)
           then Inr (r', d\<lparr>runs := tbl_insert (stored_run r') (runs d)\<rparr>)
           else Inl fk_error) d))"

definition run_limit :: "int \<Rightarrow> nat" where
  "run_limit n = (if n \<le> 0 \<or> n > 500 then 100 else nat n)"

definition ListRuns :: "int option \<Rightarrow> int \<Rightarrow> db \<Rightarrow> Run list result" where
  "ListRuns machineID n d =
     wrap_query ''store: list runs: ''
       (sql_query SelRuns
         (take (run_limit n) (sort_key (\<lambda>r. - rn_started r)
           (filter (\<lambda>r. case machineID of None \<Rightarrow> True | Some i \<Rightarrow> rn_machine r = Some i)
             (map snd (tbl_rows (runs d)))))) d)"

section \<open>Groups\<close>

definition CreateGroup :: "time \<Rightarrow> Group \<Rightarrow> db \<Rightarrow> Group result \<times> db" where
  "CreateGroup now g d =
     (let g' = g\<lparr>gr_created := now, gr_id := tbl_next (groups d)\<rparr>;
          row = \<lparr>gw_name = gr_name g, gw_tags = joinTags (gr_tags g), gw_created = now\<rparr>
      in wrap_err ''store: create group: ''
           (sql_exec InsGroup (Inr (g', d\<lparr>groups := tbl_insert row (groups d)\<rparr>)) d))"

definition scanGroup :: "int \<Rightarrow> group_row \<Rightarrow> Group" where
  "scanGroup i r =
     \<lparr>gr_id = i, gr_name = gw_name r, gr_tags = splitTags (gw_tags r), gr_created = gw_created r, gr_members = 0\<rparr>"

definition ListGroups :: "db \<Rightarrow> Group list result" where
  "ListGroups d =
     wrap_query ''store: list groups: ''
       (sql_query SelGroups
         (sort_key (\<lambda>g. nocase (gr_name g)) (map (\<lambda>(i, r). scanGroup i r) (tbl_rows (groups d)))) d)"

definition GetGroup :: "int \<Rightarrow> db \<Rightarrow> Group result" where
  "GetGroup i d =
     res_bind (sql_query (SelGroup i) (tbl_get (groups d) i) d)
       (\<lambda>r. case r of None \<Rightarrow> Inl (Sentinel ErrNotFound) | Some row \<Rightarrow> Inr (scanGroup i row))"

definition DeleteGroup :: "int \<Rightarrow> db \<Rightarrow> unit result \<times> db" where
  "DeleteGroup i d = sql_exec (DelGroup i) (Inr ((), d\<lparr>groups := tbl_delete i (groups d)\<rparr>)) d"

text \<open>The loop of \<^verbatim>\<open>matchAll\<close> over the wanted tags, which stops at the first one missing.\<close>

fun has_all :: "string list \<Rightarrow> string list \<Rightarrow> bool" where
  "has_all have_tags [] \<longleftrightarrow> True"
| "has_all have_tags (w # ws) \<longleftrightarrow> (if w \<notin> set have_tags then False else has_all have_tags ws)"

definition matchAll :: "Machine list \<Rightarrow> string list \<Rightarrow> Machine list" where
  "matchAll ms want = (if want = [] then [] else filter (\<lambda>m. has_all (m_tags m) want) ms)"

definition GroupMembers :: "int \<Rightarrow> db \<Rightarrow> Machine list result" where
  "GroupMembers i d =
     res_bind (GetGroup i d) (\<lambda>g. res_bind (ListMachines d) (\<lambda>ms. Inr (matchAll ms (gr_tags g))))"

section \<open>Custom actions\<close>

definition CreateCustomAction :: "time \<Rightarrow> CustomAction \<Rightarrow> db \<Rightarrow> CustomAction result \<times> db" where
  "CreateCustomAction now a d =
     (let a' = a\<lparr>cu_created := now\<rparr> in
      wrap_err ''store: create custom action: ''
        (sql_exec InsCustomAction
          (if list_ex (\<lambda>b. cu_id b = cu_id a) (custom_actions d) then Inl unique_error
           else Inr (a', d\<lparr>custom_actions := custom_actions d @ [a']\<rparr>)) d))"

definition ListCustomActions :: "db \<Rightarrow> CustomAction list result" where
  "ListCustomActions d =
     wrap_query ''store: list custom actions: ''
       (sql_query SelCustomActions
         (sort_key cu_category (sort_key cu_label (custom_actions d))) d)"

definition GetCustomAction :: "string \<Rightarrow> db \<Rightarrow> CustomAction result" where
  "GetCustomAction i d =
     res_bind (sql_query (SelCustomAction i) (find (\<lambda>a. cu_id a = i) (custom_actions d)) d)
       (\<lambda>r. case r of None \<Rightarrow> Inl (Sentinel ErrNotFound) | Some a \<Rightarrow> Inr a)"

definition DeleteCustomAction :: "string \<Rightarrow> db \<Rightarrow> unit result \<times> db" where
  "DeleteCustomAction i d =
     sql_exec (DelCustomAction i) (Inr ((), d\<lparr>custom_actions := filter (\<lambda>a. cu_id a \<noteq> i) (custom_actions d)\<rparr>)) d"

section \<open>First consequences\<close>

lemma sql_query_cases:
  "(\<exists>m. sql_query st x d = Inl (Text m)) \<or> sql_query st x d = Inr x"
  by (auto simp: sql_query_def split: option.splits)

lemma sql_query_ok [simp]: "db_fail d st = None \<Longrightarrow> sql_query st x d = Inr x"
  by (simp add: sql_query_def)

lemma sql_query_InrD [dest]: "sql_query st x d = Inr y \<Longrightarrow> y = x"
  by (auto simp: sql_query_def split: option.splits)

lemma sql_exec_InlD: "sql_exec st eff d = (Inl e, d') \<Longrightarrow> d' = d"
  by (auto simp: sql_exec_def split: option.splits sum.splits prod.splits)

lemma sql_exec_InrD: "sql_exec st eff d = (Inr x, d') \<Longrightarrow> eff = Inr (x, d')"
  by (auto simp: sql_exec_def split: option.splits sum.splits prod.splits)

lemma wrap_err_Inr: "wrap_err msg r = (Inr x, d') \<longleftrightarrow> r = (Inr x, d')"
  by (auto simp: wrap_err_def split: prod.splits sum.splits)

lemma wrap_err_snd [simp]: "snd (wrap_err msg r) = snd r"
  by (auto simp: wrap_err_def split: prod.splits sum.splits)

lemma wrap_query_Inr: "wrap_query msg r = Inr x \<longleftrightarrow> r = Inr x"
  by (auto simp: wrap_query_def split: sum.splits)

text \<open>The only two ends of a statement.\<close>

lemma sql_exec_snd:
  "snd (sql_exec st eff d) = d \<or> (\<exists>x d'. eff = Inr (x, d') \<and> snd (sql_exec st eff d) = d')"
  by (auto simp: sql_exec_def split: option.splits sum.splits prod.splits)

lemma GetMachine_Inr:
  "GetMachine i d = Inr m \<longleftrightarrow>
     db_fail d (SelMachine i) = None \<and> (\<exists>r. tbl_get (machines d) i = Some r \<and> m = scanMachine i r)"
  by (auto simp: GetMachine_def res_bind_def sql_query_def split: option.splits)

lemma GetMachine_id: "GetMachine i d = Inr m \<Longrightarrow> m_id m = i"
  by (auto simp: GetMachine_Inr scanMachine_def)

end
