(* ===== verification/Store_Inv.thy ===== *)
theory Store_Inv imports Store begin

text \<open>
  The store's invariant and its histories.  \<open>db_inv\<close> says what the schema promises of a
  database: row ids are distinct and below the sequence, every reference names an existing
  row or is NULL, no two machines of an account share an instance id, custom-action ids are
  distinct.  \<open>store_step\<close> is any one operation of \<^verbatim>\<open>queries.go\<close> (with any arguments, at any
  time) or a change of what SQLite refuses.
\<close>

section \<open>The invariant\<close>

definition tables_ok :: "db \<Rightarrow> bool" where
  "tables_ok d \<longleftrightarrow> tbl_inv (credentials d) \<and> tbl_inv (cloud_accounts d) \<and> tbl_inv (machines d)
     \<and> tbl_inv (runs d) \<and> tbl_inv (groups d)"

definition machine_refs_ok :: "db \<Rightarrow> bool" where
  "machine_refs_ok d \<longleftrightarrow> (\<forall>i r. tbl_get (machines d) i = Some r \<longrightarrow>
     ref_ok (cloud_accounts d) (mr_cloud_account r) \<and> ref_ok (credentials d) (mr_credential r))"

definition host_refs_ok :: "db \<Rightarrow> bool" where
  "host_refs_ok d \<longleftrightarrow> (\<forall>i. host_facts d i \<noteq> None \<or> host_keys d i \<noteq> None \<longrightarrow> tbl_get (machines d) i \<noteq> None)"

definition run_refs_ok :: "db \<Rightarrow> bool" where
  "run_refs_ok d \<longleftrightarrow> (\<forall>i r. tbl_get (runs d) i = Some r \<longrightarrow> ref_ok (machines d) (rn_machine r))"

text \<open>What \<^verbatim>\<open>idx_machines_instance\<close> indexes: nothing for a row with no account or no instance.\<close>

definition inst_key :: "machine_row \<Rightarrow> (int \<times> string) option" where
  "inst_key r = (case mr_cloud_account r of None \<Rightarrow> None
                 | Some a \<Rightarrow> if mr_instance_id r = [] then None else Some (a, mr_instance_id r))"

lemma inst_key_cong:
  "mr_cloud_account s = mr_cloud_account r \<Longrightarrow> mr_instance_id s = mr_instance_id r \<Longrightarrow> inst_key s = inst_key r"
  by (auto simp: inst_key_def split: option.splits)

lemma inst_key_credential [simp]: "inst_key (r\<lparr>mr_credential := c\<rparr>) = inst_key r"
  by (rule inst_key_cong) simp_all

lemma inst_key_no_account: "mr_cloud_account r = None \<Longrightarrow> inst_key r = None"
  by (simp add: inst_key_def)

definition keys_unique :: "machine_row tbl \<Rightarrow> bool" where
  "keys_unique t \<longleftrightarrow> (\<forall>i j r s. tbl_get t i = Some r \<longrightarrow> tbl_get t j = Some s \<longrightarrow>
     inst_key r \<noteq> None \<longrightarrow> inst_key r = inst_key s \<longrightarrow> i = j)"

abbreviation instances_unique :: "db \<Rightarrow> bool" where
  "instances_unique d \<equiv> keys_unique (machines d)"

definition db_inv :: "db \<Rightarrow> bool" where
  "db_inv d \<longleftrightarrow> tables_ok d \<and> machine_refs_ok d \<and> host_refs_ok d \<and> run_refs_ok d
     \<and> instances_unique d \<and> distinct (map cu_id (custom_actions d))"

lemmas inv_parts = tables_ok_def machine_refs_ok_def host_refs_ok_def run_refs_ok_def

lemma db_inv_empty: "db_inv empty_db"
  by (simp add: db_inv_def inv_parts empty_db_def keys_unique_def)

lemma db_inv_fail [simp]: "db_inv (d\<lparr>db_fail := f\<rparr>) = db_inv d"
  by (simp add: db_inv_def inv_parts)

text \<open>A statement keeps the invariant when its effect does.\<close>

lemma sql_exec_inv:
  "db_inv d \<Longrightarrow> (\<And>x d'. eff = Inr (x, d') \<Longrightarrow> db_inv d') \<Longrightarrow> db_inv (snd (sql_exec st eff d))"
  using sql_exec_snd [of st eff d] by auto

lemma ref_ok_None [simp]: "ref_ok t None"
  by (simp add: ref_ok_def)

lemma ref_ok_ins: "tbl_inv t \<Longrightarrow> ref_ok t r \<Longrightarrow> ref_ok (tbl_insert x t) r"
  by (auto simp: ref_ok_def tb.get_ins split: option.splits)

lemma ref_ok_upd [simp]: "ref_ok (tbl_update P f t) r = ref_ok t r"
  by (auto simp: ref_ok_def tb.get_upd split: option.splits)

lemma ref_ok_del: "ref_ok t r \<Longrightarrow> r \<noteq> Some i \<Longrightarrow> ref_ok (tbl_delete i t) r"
  by (auto simp: ref_ok_def tb.get_del split: option.splits)

lemma instance_taken_iff:
  assumes "tbl_inv (machines d)"
  shows "instance_taken d self acct inst \<longleftrightarrow> inst \<noteq> [] \<and> acct \<noteq> None \<and>
     (\<exists>i r. tbl_get (machines d) i = Some r \<and> Some i \<noteq> self \<and> mr_cloud_account r = acct \<and> mr_instance_id r = inst)"
  using assms by (fastforce simp: instance_taken_def list_ex_iff tbl_get_eq_mem)

lemma not_taken_key:
  assumes "tbl_inv (machines d)" and "\<not> instance_taken d self (mr_cloud_account s) (mr_instance_id s)"
    and "inst_key s \<noteq> None" and "tbl_get (machines d) i = Some r" and "inst_key r = inst_key s"
  shows "Some i = self"
proof -
  have "mr_cloud_account r = mr_cloud_account s" "mr_instance_id r = mr_instance_id s"
      "mr_instance_id s \<noteq> []" "mr_cloud_account s \<noteq> None"
    using assms(3,5) by (auto simp: inst_key_def split: option.splits if_splits)
  with assms(1,2,4) show ?thesis by (auto simp: instance_taken_iff)
qed

text \<open>
  Uniqueness carries over to a table whose keys are old ones at their old ids, or a new
  one at \<open>k\<close> that no other row has.
\<close>

lemma keys_unique_new:
  assumes u: "keys_unique t"
    and rows: "\<And>i s. tbl_get t' i = Some s \<Longrightarrow> inst_key s \<noteq> None \<Longrightarrow>
      (\<exists>r. tbl_get t i = Some r \<and> inst_key r = inst_key s) \<or> i = k \<and> inst_key s = key"
    and free: "\<And>i r. tbl_get t i = Some r \<Longrightarrow> key \<noteq> None \<Longrightarrow> inst_key r = key \<Longrightarrow> i = k"
  shows "keys_unique t'"
  unfolding keys_unique_def
proof (intro allI impI)
  fix i j r s
  assume a: "tbl_get t' i = Some r" "tbl_get t' j = Some s" "inst_key r \<noteq> None" "inst_key r = inst_key s"
  from rows [OF a(1)] rows [OF a(2)] a(3,4) u free show "i = j"
    unfolding keys_unique_def by (metis (no_types, lifting))
qed

lemma keys_unique_sub:
  assumes "keys_unique t"
    and "\<And>i s. tbl_get t' i = Some s \<Longrightarrow> inst_key s \<noteq> None \<Longrightarrow> \<exists>r. tbl_get t i = Some r \<and> inst_key r = inst_key s"
  shows "keys_unique t'"
  by (rule keys_unique_new [OF assms(1), where key = None and k = 0]) (use assms(2) in auto)

lemma keys_unique_upd:
  assumes "keys_unique t" and "\<And>r. inst_key (f r) = inst_key r \<or> inst_key (f r) = None"
  shows "keys_unique (tbl_update P f t)"
proof (rule keys_unique_sub [OF assms(1)])
  fix i s
  assume "tbl_get (tbl_update P f t) i = Some s" and s: "inst_key s \<noteq> None"
  then obtain r where "tbl_get t i = Some r" and "s = f r \<or> s = r"
    by (auto elim!: tb.upd_SomeE)
  with assms(2) [of r] s show "\<exists>r. tbl_get t i = Some r \<and> inst_key r = inst_key s"
    by auto
qed

lemma keys_unique_del: "keys_unique t \<Longrightarrow> keys_unique (tbl_delete i t)"
  by (erule keys_unique_sub) (auto simp: tb.get_del split: if_splits)

lemma machine_refs_upd:
  assumes "machine_refs_ok d"
    and "\<And>r. mr_cloud_account (f r) = mr_cloud_account r" and "\<And>r. mr_credential (f r) = mr_credential r"
  shows "machine_refs_ok (d\<lparr>machines := tbl_update P f (machines d)\<rparr>)"
  using assms by (auto simp: machine_refs_ok_def elim!: tb.upd_SomeE)

section \<open>Effects on the machines table\<close>

text \<open>Rewriting rows without touching what the invariant reads.\<close>

definition keeps_identity :: "(machine_row \<Rightarrow> machine_row) \<Rightarrow> bool" where
  "keeps_identity f \<longleftrightarrow> (\<forall>r. mr_cloud_account (f r) = mr_cloud_account r \<and> mr_instance_id (f r) = mr_instance_id r
     \<and> mr_credential (f r) = mr_credential r)"

lemma machines_upd_inv:
  assumes "db_inv d" and "keeps_identity f"
  shows "db_inv (d\<lparr>machines := tbl_update P f (machines d)\<rparr>)"
proof -
  have row: "mr_cloud_account (f r) = mr_cloud_account r" "mr_credential (f r) = mr_credential r"
      "inst_key (f r) = inst_key r" for r
    using assms(2) by (auto simp: keeps_identity_def intro: inst_key_cong)
  have "keys_unique (tbl_update P f (machines d))"
    using assms(1) by (intro keys_unique_upd) (auto simp: db_inv_def row)
  moreover have "machine_refs_ok (d\<lparr>machines := tbl_update P f (machines d)\<rparr>)"
    using assms(1) by (intro machine_refs_upd) (auto simp: db_inv_def row)
  ultimately show ?thesis
    using assms(1) unfolding db_inv_def
    by (auto simp: tables_ok_def host_refs_ok_def run_refs_ok_def tb.upd_domain tb.inv_upd)
qed

lemma machines_ins_inv:
  assumes inv: "db_inv d"
    and refs: "ref_ok (cloud_accounts d) (mr_cloud_account r)" "ref_ok (credentials d) (mr_credential r)"
    and free: "\<not> instance_taken d None (mr_cloud_account r) (mr_instance_id r)"
  shows "db_inv (d\<lparr>machines := tbl_insert r (machines d)\<rparr>)"
proof -
  have t: "tbl_inv (machines d)" using inv by (simp add: db_inv_def tables_ok_def)
  have "keys_unique (tbl_insert r (machines d))"
  proof (rule keys_unique_new [where t = "machines d" and k = "tbl_next (machines d)" and key = "inst_key r"])
    show "keys_unique (machines d)" using inv by (simp add: db_inv_def)
    show "\<And>i s. tbl_get (tbl_insert r (machines d)) i = Some s \<Longrightarrow> inst_key s \<noteq> None \<Longrightarrow>
        (\<exists>ra. tbl_get (machines d) i = Some ra \<and> inst_key ra = inst_key s) \<or> i = tbl_next (machines d) \<and> inst_key s = inst_key r"
      using t by (auto simp: tb.get_ins split: if_splits)
    show "\<And>i ra. tbl_get (machines d) i = Some ra \<Longrightarrow> inst_key r \<noteq> None \<Longrightarrow> inst_key ra = inst_key r \<Longrightarrow> i = tbl_next (machines d)"
      using not_taken_key [OF t free] by blast
  qed
  moreover have "machine_refs_ok (d\<lparr>machines := tbl_insert r (machines d)\<rparr>)"
    using inv refs t by (auto simp: db_inv_def machine_refs_ok_def tb.get_ins split: if_splits)
  ultimately show ?thesis
    using inv t unfolding db_inv_def
    by (auto simp: tables_ok_def host_refs_ok_def run_refs_ok_def tb.get_ins tb.inv_ins ref_ok_ins)
qed

lemma insert_machine_row_inv:
  "db_inv d \<Longrightarrow> insert_machine_row r d = Inr (i, d') \<Longrightarrow> db_inv d'"
  by (auto simp: insert_machine_row_def machines_ins_inv split: if_splits)

section \<open>Every operation keeps it\<close>

lemma CreateCredential_inv [store_wf]: "db_inv d \<Longrightarrow> db_inv (snd (CreateCredential now c d))"
  unfolding CreateCredential_def Let_def wrap_err_snd
  by (rule sql_exec_inv) (auto simp: db_inv_def inv_parts tb.get_ins tb.inv_ins ref_ok_ins)

lemma DeleteCredential_inv [store_wf]:
  assumes "db_inv d" shows "db_inv (snd (DeleteCredential i d))"
  unfolding DeleteCredential_def
proof (rule sql_exec_inv [OF assms], goal_cases)
  case (1 x d')
  let ?t = "tbl_update (\<lambda>_ r. mr_credential r = Some i) (mr_credential_update (\<lambda>_. None)) (machines d)"
  have "keys_unique ?t"
    using assms by (intro keys_unique_upd) (simp_all add: db_inv_def)
  moreover have "machine_refs_ok (d\<lparr>credentials := tbl_delete i (credentials d), machines := ?t\<rparr>)"
    using assms by (auto simp: db_inv_def machine_refs_ok_def ref_ok_del elim!: tb.upd_SomeE)
  ultimately show ?case
    using 1 assms unfolding db_inv_def
    by (auto simp: tables_ok_def host_refs_ok_def run_refs_ok_def tb.upd_domain tb.inv_upd tb.inv_del)
qed

lemma CreateCloudAccount_inv [store_wf]: "db_inv d \<Longrightarrow> db_inv (snd (CreateCloudAccount now a d))"
  unfolding CreateCloudAccount_def Let_def wrap_err_snd
  by (rule sql_exec_inv) (auto simp: db_inv_def inv_parts tb.get_ins tb.inv_ins ref_ok_ins)

lemma DeleteCloudAccount_inv [store_wf]:
  assumes "db_inv d" shows "db_inv (snd (DeleteCloudAccount now i d))"
proof -
  let ?t1 = "tbl_update (\<lambda>_ r. mr_cloud_account r = Some i) (strip_cloud now) (machines d)"
  let ?t2 = "tbl_update (\<lambda>_ r. mr_cloud_account r = Some i) (mr_cloud_account_update (\<lambda>_. None)) ?t1"
  have "keys_unique ?t2"
    using assms by (intro keys_unique_upd) (simp_all add: db_inv_def inst_key_no_account strip_cloud_def)
  moreover have "machine_refs_ok (d\<lparr>cloud_accounts := tbl_delete i (cloud_accounts d), machines := ?t2\<rparr>)"
    using assms by (auto simp: db_inv_def machine_refs_ok_def strip_cloud_def intro!: ref_ok_del elim!: tb.upd_SomeE)
  ultimately have "db_inv (d\<lparr>cloud_accounts := tbl_delete i (cloud_accounts d), machines := ?t2\<rparr>)"
    using assms unfolding db_inv_def
    by (auto simp: tables_ok_def host_refs_ok_def run_refs_ok_def tb.upd_domain tb.inv_upd tb.inv_del)
  with assms show ?thesis
    by (auto simp: DeleteCloudAccount_def Let_def split: option.splits)
qed

lemma SetSyncResult_inv [store_wf]: "db_inv d \<Longrightarrow> db_inv (snd (SetSyncResult i at e d))"
  unfolding SetSyncResult_def
  by (rule sql_exec_inv) (auto simp: db_inv_def inv_parts tb.inv_upd)

lemma CreateMachine_snd:
  "snd (CreateMachine now m d)
     = snd (sql_exec InsMachine (insert_machine_row (machine_cols (machine_defaults now m)) d) d)"
proof -
  let ?r = "wrap_err ''store: create machine: ''
      (sql_exec InsMachine (insert_machine_row (machine_cols (machine_defaults now m)) d) d)"
  obtain x d' where r: "?r = (x, d')" by (cases ?r)
  have "snd (CreateMachine now m d) = d'"
    by (cases x) (simp_all add: CreateMachine_def Let_def r)
  moreover have "d' = snd ?r" by (simp only: r snd_conv)
  ultimately show ?thesis by simp
qed

lemma CreateMachine_inv [store_wf]:
  assumes "db_inv d" shows "db_inv (snd (CreateMachine now m d))"
  unfolding CreateMachine_snd
  by (rule sql_exec_inv [OF assms]) (rule insert_machine_row_inv [OF assms])

lemma machines_set_inv:
  assumes inv: "db_inv d"
    and refs: "ref_ok (cloud_accounts d) a" "ref_ok (credentials d) c"
    and free: "\<not> instance_taken d (Some i) a n"
    and f: "\<And>r. mr_cloud_account (f r) = a \<and> mr_credential (f r) = c \<and> mr_instance_id (f r) = n"
  shows "db_inv (d\<lparr>machines := tbl_update (\<lambda>k _. k = i) f (machines d)\<rparr>)"
proof -
  have t: "tbl_inv (machines d)" using inv by (simp add: db_inv_def tables_ok_def)
  have key: "inst_key (f r) = inst_key (f r')" for r r' by (rule inst_key_cong) (simp_all add: f)
  have "keys_unique (tbl_update (\<lambda>k _. k = i) f (machines d))"
  proof (rule keys_unique_new [where t = "machines d" and k = i and key = "inst_key (f undefined)"])
    show "keys_unique (machines d)" using inv by (simp add: db_inv_def)
    show "\<And>j s. tbl_get (tbl_update (\<lambda>k _. k = i) f (machines d)) j = Some s \<Longrightarrow> inst_key s \<noteq> None \<Longrightarrow>
        (\<exists>r. tbl_get (machines d) j = Some r \<and> inst_key r = inst_key s) \<or> j = i \<and> inst_key s = inst_key (f undefined)"
      by (erule tb.upd_SomeE) (auto intro: key)
    show "\<And>j r. tbl_get (machines d) j = Some r \<Longrightarrow> inst_key (f undefined) \<noteq> None \<Longrightarrow> inst_key r = inst_key (f undefined) \<Longrightarrow> j = i"
      using not_taken_key [OF t, of "Some i" "f undefined"] free f by auto
  qed
  moreover have "machine_refs_ok (d\<lparr>machines := tbl_update (\<lambda>k _. k = i) f (machines d)\<rparr>)"
    using inv refs f by (auto simp: db_inv_def machine_refs_ok_def elim!: tb.upd_SomeE)
  ultimately show ?thesis
    using inv unfolding db_inv_def
    by (auto simp: tables_ok_def host_refs_ok_def run_refs_ok_def tb.upd_domain tb.inv_upd)
qed

lemma UpdateMachine_inv [store_wf]:
  assumes "db_inv d" shows "db_inv (snd (UpdateMachine now m d))"
  unfolding UpdateMachine_def Let_def
  by (rule sql_exec_inv [OF assms])
    (use assms in \<open>auto split: if_splits
       intro!: machines_set_inv [where a = "m_cloud_account m" and c = "m_credential m" and n = "m_instance_id m"]\<close>)

lemma DeleteMachine_inv [store_wf]:
  assumes "db_inv d" shows "db_inv (snd (DeleteMachine i d))"
  unfolding DeleteMachine_def
proof (rule sql_exec_inv [OF assms], goal_cases)
  case (1 x d')
  have "keys_unique (tbl_delete i (machines d))"
    using assms by (simp add: db_inv_def keys_unique_del)
  moreover have "run_refs_ok d'"
    using 1 assms by (auto simp: db_inv_def run_refs_ok_def intro!: ref_ok_del elim!: tb.upd_SomeE)
  moreover have "machine_refs_ok d'" "host_refs_ok d'"
    using 1 assms by (auto simp: db_inv_def machine_refs_ok_def host_refs_ok_def tb.get_del split: if_splits)
  ultimately show ?case
    using 1 assms unfolding db_inv_def by (auto simp: tables_ok_def tb.inv_upd tb.inv_del)
qed

lemma ResetHostIdentity_inv [store_wf]: "db_inv d \<Longrightarrow> db_inv (snd (ResetHostIdentity i d))"
  unfolding ResetHostIdentity_def
  by (auto simp: db_inv_def inv_parts sql_exec_def split: option.splits)

lemma SetReach_inv [store_wf]: "db_inv d \<Longrightarrow> db_inv (snd (SetReach now i st e d))"
  unfolding SetReach_def by (rule sql_exec_inv) (auto intro!: machines_upd_inv simp: keeps_identity_def)

lemma SetPowerState_inv [store_wf]: "db_inv d \<Longrightarrow> db_inv (snd (SetPowerState now i st d))"
  unfolding SetPowerState_def by (rule sql_exec_inv) (auto intro!: machines_upd_inv simp: keeps_identity_def)

lemma refresh_keeps: "keeps_identity (refresh_row now h inst)"
  by (simp add: keeps_identity_def refresh_row_def)

text \<open>Either nothing changed, or a machine was created, or one row was refreshed.\<close>

lemma UpsertFromCloud_snd:
  "snd (UpsertFromCloud now acct prov inst d) = d
   \<or> snd (UpsertFromCloud now acct prov inst d) = snd (CreateMachine now (new_cloud_machine now acct prov inst) d)
   \<or> (\<exists>i h. snd (UpsertFromCloud now acct prov inst d)
          = d\<lparr>machines := tbl_update (\<lambda>k _. k = i) (refresh_row now h inst) (machines d)\<rparr>)"
  by (auto simp: UpsertFromCloud_def sql_exec_def split: sum.splits option.splits prod.splits)

lemma UpsertFromCloud_inv [store_wf]:
  "db_inv d \<Longrightarrow> db_inv (snd (UpsertFromCloud now acct prov inst d))"
  using UpsertFromCloud_snd [of now acct prov inst d]
  by (auto simp: CreateMachine_inv machines_upd_inv refresh_keeps)

lemma MarkMissing_inv [store_wf]: "db_inv d \<Longrightarrow> db_inv (snd (MarkMissing now acct seen d))"
  unfolding MarkMissing_def Let_def
  by (rule sql_exec_inv) (auto intro!: machines_upd_inv simp: keeps_identity_def)

lemma UpsertFacts_inv [store_wf]: "db_inv d \<Longrightarrow> db_inv (snd (UpsertFacts now f d))"
  unfolding UpsertFacts_def by (rule sql_exec_inv) (auto simp: db_inv_def inv_parts split: if_splits)

lemma PinHostKey_inv [store_wf]: "db_inv d \<Longrightarrow> db_inv (snd (PinHostKey now i a fp d))"
  unfolding PinHostKey_def by (rule sql_exec_inv) (auto simp: db_inv_def inv_parts split: if_splits)

lemma RecordSeenHostKey_inv [store_wf]: "db_inv d \<Longrightarrow> db_inv (snd (RecordSeenHostKey i a fp d))"
  unfolding RecordSeenHostKey_def by (rule sql_exec_inv) (auto simp: db_inv_def inv_parts split: if_splits)

lemma ClearSeenHostKey_inv [store_wf]: "db_inv d \<Longrightarrow> db_inv (snd (ClearSeenHostKey i d))"
  unfolding ClearSeenHostKey_def by (rule sql_exec_inv) (auto simp: db_inv_def inv_parts split: if_splits)

lemma TrustHostKey_inv [store_wf]: "db_inv d \<Longrightarrow> db_inv (snd (TrustHostKey now i a fp d))"
  unfolding TrustHostKey_def by (rule sql_exec_inv) (auto simp: db_inv_def inv_parts split: if_splits)

lemma InsertRun_inv [store_wf]: "db_inv d \<Longrightarrow> db_inv (snd (InsertRun r d))"
  unfolding InsertRun_def Let_def wrap_err_snd
  by (rule sql_exec_inv)
    (auto simp: db_inv_def inv_parts tb.get_ins tb.inv_ins stored_run_def split: if_splits)

lemma CreateGroup_inv [store_wf]: "db_inv d \<Longrightarrow> db_inv (snd (CreateGroup now g d))"
  unfolding CreateGroup_def Let_def wrap_err_snd
  by (rule sql_exec_inv) (auto simp: db_inv_def inv_parts tb.inv_ins)

lemma DeleteGroup_inv [store_wf]: "db_inv d \<Longrightarrow> db_inv (snd (DeleteGroup i d))"
  unfolding DeleteGroup_def by (rule sql_exec_inv) (auto simp: db_inv_def inv_parts tb.inv_del)

lemma CreateCustomAction_inv [store_wf]: "db_inv d \<Longrightarrow> db_inv (snd (CreateCustomAction now a d))"
  unfolding CreateCustomAction_def Let_def wrap_err_snd
  by (rule sql_exec_inv) (auto simp: db_inv_def inv_parts list_ex_iff split: if_splits)

lemma DeleteCustomAction_inv [store_wf]: "db_inv d \<Longrightarrow> db_inv (snd (DeleteCustomAction i d))"
  unfolding DeleteCustomAction_def by (rule sql_exec_inv) (auto simp: db_inv_def inv_parts)

section \<open>Histories\<close>

inductive store_step :: "db \<Rightarrow> db \<Rightarrow> bool" where
  st_CreateCredential: "store_step d (snd (CreateCredential now c d))"
| st_DeleteCredential: "store_step d (snd (DeleteCredential i d))"
| st_CreateCloudAccount: "store_step d (snd (CreateCloudAccount now a d))"
| st_DeleteCloudAccount: "store_step d (snd (DeleteCloudAccount now i d))"
| st_SetSyncResult: "store_step d (snd (SetSyncResult i at e d))"
| st_CreateMachine: "store_step d (snd (CreateMachine now m d))"
| st_UpdateMachine: "store_step d (snd (UpdateMachine now m d))"
| st_DeleteMachine: "store_step d (snd (DeleteMachine i d))"
| st_ResetHostIdentity: "store_step d (snd (ResetHostIdentity i d))"
| st_SetReach: "store_step d (snd (SetReach now i st e d))"
| st_SetPowerState: "store_step d (snd (SetPowerState now i st d))"
| st_UpsertFromCloud: "store_step d (snd (UpsertFromCloud now i p inst d))"
| st_MarkMissing: "store_step d (snd (MarkMissing now i seen d))"
| st_UpsertFacts: "store_step d (snd (UpsertFacts now f d))"
| st_PinHostKey: "store_step d (snd (PinHostKey now i alg fp d))"
| st_RecordSeenHostKey: "store_step d (snd (RecordSeenHostKey i alg fp d))"
| st_ClearSeenHostKey: "store_step d (snd (ClearSeenHostKey i d))"
| st_TrustHostKey: "store_step d (snd (TrustHostKey now i alg fp d))"
| st_InsertRun: "store_step d (snd (InsertRun r d))"
| st_CreateGroup: "store_step d (snd (CreateGroup now g d))"
| st_DeleteGroup: "store_step d (snd (DeleteGroup i d))"
| st_CreateCustomAction: "store_step d (snd (CreateCustomAction now ca d))"
| st_DeleteCustomAction: "store_step d (snd (DeleteCustomAction ci d))"
| st_env: "store_step d (d\<lparr>db_fail := f\<rparr>)"

abbreviation store_steps :: "db \<Rightarrow> db \<Rightarrow> bool" where
  "store_steps \<equiv> store_step\<^sup>*\<^sup>*"

lemma store_step_inv: "store_step d d' \<Longrightarrow> db_inv d \<Longrightarrow> db_inv d'"
  by (induction rule: store_step.induct) (simp_all add: store_wf)

lemma store_steps_inv: "store_steps d d' \<Longrightarrow> db_inv d \<Longrightarrow> db_inv d'"
  by (induction rule: rtranclp_induct) (auto dest: store_step_inv)

end
