(* ===== verification/Store_Props.thy ===== *)
theory Store_Props imports Store_Inv begin

text \<open>
  What the store guarantees: integrity over every history, the audit log and the host-key
  pins over time, what a cloud sync may touch, groups, and the text conversions of columns.
\<close>

section \<open>Shared lemmas\<close>

lemma db_inv_tables:
  assumes "db_inv d"
  shows "tbl_inv (machines d)" "tbl_inv (runs d)" "tbl_inv (credentials d)" "tbl_inv (cloud_accounts d)" "tbl_inv (groups d)"
  using assms by (simp_all add: db_inv_def tables_ok_def)

lemma find_instance_Some:
  assumes "tbl_inv (machines d)" and "find_instance a x d = Some (i, r)"
  shows "tbl_get (machines d) i = Some r" "mr_cloud_account r = Some a" "mr_instance_id r = x"
  using assms find_Some_in_set [of _ "tbl_rows (machines d)" "(i, r)"]
  by (auto simp: find_instance_def tbl_get_eq_mem)

lemma find_instance_unique:
  assumes inv: "db_inv d" and get: "tbl_get (machines d) i = Some r"
    and key: "mr_cloud_account r = Some a" "mr_instance_id r = x" "x \<noteq> []"
  shows "find_instance a x d = Some (i, r)"
proof -
  have t: "tbl_inv (machines d)" by (rule db_inv_tables [OF inv])
  have "(i, r) \<in> set (tbl_rows (machines d))" using get by (rule tbl_get_Some_mem)
  then obtain j s where js: "find_instance a x d = Some (j, s)"
    using key unfolding find_instance_def
    by (metis (mono_tags, lifting) case_prodI find_None_all not_None_eq surj_pair)
  note s = find_instance_Some [OF t js]
  have "i = j"
  proof -
    have "inst_key r = Some (a, x)" "inst_key s = Some (a, x)"
      using key s by (simp_all add: inst_key_def)
    with inv get s show ?thesis unfolding db_inv_def keys_unique_def by (metis option.distinct(1))
  qed
  with get s js show ?thesis by simp
qed

text \<open>The two ends of reconciling an instance that is already in the inventory.\<close>

lemma UpsertFromCloud_known:
  assumes "find_instance a (in_instance_id n) d = Some (i, r)"
    and "db_fail d (SelInstance a (in_instance_id n)) = None" and "db_fail d (UpdFromCloud i) = None"
  shows "UpsertFromCloud now a p n d =
    (Inr (i, False, snd (follow_ip (mr_ssh_host r) (mr_public_ip r) (in_public_ip n))),
     d\<lparr>machines := tbl_update (\<lambda>k _. k = i)
        (refresh_row now (fst (follow_ip (mr_ssh_host r) (mr_public_ip r) (in_public_ip n))) n) (machines d)\<rparr>)"
  using assms by (simp add: UpsertFromCloud_def sql_exec_def split: prod.splits)

lemma UpsertFromCloud_cases:
  assumes "UpsertFromCloud now a p n d = (res, d')"
  obtains (failed) e where "res = Inl e" "d' = d"
    | (created) i where "res = Inr (i, True, False)" "find_instance a (in_instance_id n) d = None"
        "i = tbl_next (machines d)" "ref_ok (cloud_accounts d) (Some a)"
        "d' = d\<lparr>machines := tbl_insert (machine_cols (machine_defaults now (new_cloud_machine now a p n))) (machines d)\<rparr>"
    | (refreshed) i r where "find_instance a (in_instance_id n) d = Some (i, r)"
        "res = Inr (i, False, snd (follow_ip (mr_ssh_host r) (mr_public_ip r) (in_public_ip n)))"
        "d' = d\<lparr>machines := tbl_update (\<lambda>k _. k = i)
           (refresh_row now (fst (follow_ip (mr_ssh_host r) (mr_public_ip r) (in_public_ip n))) n) (machines d)\<rparr>"
proof -
  consider (a) "\<exists>e. res = Inl e" | (b) "\<exists>x. res = Inr x" by (cases res) auto
  then show ?thesis
  proof cases
    case a
    then have "d' = d"
      using assms
      by (auto simp: UpsertFromCloud_def CreateMachine_def Let_def sql_exec_def wrap_err_def
          split: sum.splits option.splits prod.splits)
    with a failed show ?thesis by blast
  next
    case b
    show ?thesis
    proof (cases "find_instance a (in_instance_id n) d")
      case None
      with b assms show ?thesis
        by (intro created)
          (auto simp: UpsertFromCloud_def CreateMachine_def Let_def sql_exec_def wrap_err_def sql_query_def
            insert_machine_row_def machine_cols_def machine_defaults_def new_cloud_machine_def
            split: sum.splits option.splits prod.splits if_splits)
    next
      case (Some ir)
      obtain i r where ir: "ir = (i, r)" by (cases ir)
      have ok: "db_fail d (SelInstance a (in_instance_id n)) = None" "db_fail d (UpdFromCloud i) = None"
        using b assms Some ir
        by (auto simp: UpsertFromCloud_def sql_exec_def sql_query_def split: option.splits prod.splits)
      from UpsertFromCloud_known [OF _ this, of r now p] Some ir assms show ?thesis
        by (intro refreshed [of i r]) auto
    qed
  qed
qed


section \<open>Integrity\<close>

definition demo_cloud_account :: CloudAccount where
  "demo_cloud_account =
     \<lparr>ac_id = 0, ac_name = ''lab'', ac_provider = ''vultr'', ac_sealed_token = ''sealed'',
      ac_last_sync_at = None, ac_last_sync_error = [], ac_created = 0\<rparr>"

definition demo_instance :: CloudInstance where
  "demo_instance =
     \<lparr>in_instance_id = ''i-1'', in_name = ''web'', in_region = ''ams'', in_instance_type = ''vc2'',
      in_power_state = PowerRunning, in_public_ip = ''192.0.2.1'', in_private_ip = [], in_labels = [''prod'']\<rparr>"

definition demo_run :: "int option \<Rightarrow> Run" where
  "demo_run m =
     \<lparr>rn_id = 0, rn_machine = m, rn_machine_name = ''web'', rn_action = ''uptime'', rn_command = ''uptime'',
      rn_danger = 0, rn_actor = ''admin'', rn_exit = Some 0, rn_stdout = ''up'', rn_stderr = [], rn_error = [],
      rn_duration = 5, rn_started = 7\<rparr>"

text \<open>An account, a machine found in it by a sync, and one run on that machine.\<close>

definition demo_db :: db where
  "demo_db = snd (InsertRun (demo_run (Some 1))
     (snd (UpsertFromCloud 2 1 ''vultr'' demo_instance (snd (CreateCloudAccount 1 demo_cloud_account empty_db)))))"

lemma demo_reach: "store_steps empty_db demo_db"
  unfolding demo_db_def
  by (meson rtranclp.rtrancl_into_rtrancl rtranclp.rtrancl_refl st_CreateCloudAccount st_UpsertFromCloud st_InsertRun)

lemma demo_inv: "db_inv demo_db"
  by (rule store_steps_inv [OF demo_reach db_inv_empty])

lemmas demo_evals = demo_db_def demo_cloud_account_def demo_instance_def demo_run_def empty_db_def
  CreateCloudAccount_def UpsertFromCloud_def CreateMachine_def new_cloud_machine_def machine_defaults_def
  machine_cols_def insert_machine_row_def InsertRun_def stored_run_def truncate_text_def maxStoredOutput_def
  sql_exec_def sql_query_def wrap_err_def find_instance_def instance_taken_def ref_ok_def
  tbl_insert_def tbl_next_def tbl_get_def tbl_empty_def power_consts Let_def

lemma demo_db_eval:
  "tbl_get (runs demo_db) 1 = Some ((demo_run (Some 1))\<lparr>rn_id := 1\<rparr>)"
  "map fst (tbl_rows (machines demo_db)) = [1]"
  "map_option mr_name (tbl_get (machines demo_db) 1) = Some ''web''"
  "db_fail demo_db = (\<lambda>_. None)"
  by (simp_all add: demo_evals)

text \<open>
  C3: Whatever operations the server performs on the store, in any order and with SQLite
  failing any of them at any time, the database stays consistent: row ids are distinct and
  within the sequence, a machine's account and credential exist or are NULL, facts and
  host keys belong to existing machines, runs name existing machines or none, no account
  has an instance twice, and custom-action ids are distinct.
\<close>

theorem store_integrity: "store_steps empty_db d \<Longrightarrow> db_inv d"
  by (rule store_steps_inv [OF _ db_inv_empty])

theorem store_integrity_witness: "db_inv (snd (DeleteCloudAccount 9 1 demo_db))"
  by (rule store_integrity) (meson demo_reach rtranclp.rtrancl_into_rtrancl st_DeleteCloudAccount)

section \<open>The audit log\<close>

text \<open>A run as one step may leave it: unchanged, or without its machine.\<close>

definition run_kept :: "Run option \<Rightarrow> Run option \<Rightarrow> bool" where
  "run_kept old new \<longleftrightarrow> (\<forall>r. old = Some r \<longrightarrow> new = Some r \<or> new = Some (r\<lparr>rn_machine := None\<rparr>))"

lemma run_kept_refl [simp]: "run_kept x x"
  by (simp add: run_kept_def)

lemma run_kept_trans: "run_kept a b \<Longrightarrow> run_kept b c \<Longrightarrow> run_kept a c"
  by (fastforce simp: run_kept_def)

lemma sql_exec_field:
  assumes "\<And>x d'. eff = Inr (x, d') \<Longrightarrow> P d'" and "P d"
  shows "P (snd (sql_exec st eff d))"
  using assms sql_exec_snd [of st eff d] by auto

lemma sql_exec_ends [store_simps]:
  "snd (sql_exec st (Inr (x, d')) d) = (if db_fail d st = None then d' else d)"
  "snd (sql_exec st (Inl e) d) = d"
  "snd (sql_exec st (if b then p else q) d) = (if b then snd (sql_exec st p d) else snd (sql_exec st q d))"
  by (auto simp: sql_exec_def split: option.splits)

lemma CreateMachine_runs [simp]: "runs (snd (CreateMachine now m d)) = runs d"
  by (simp add: CreateMachine_snd insert_machine_row_def store_simps)

lemma UpsertFromCloud_runs [simp]: "runs (snd (UpsertFromCloud now a p n d)) = runs d"
  using UpsertFromCloud_snd [of now a p n d] by auto

lemma ResetHostIdentity_runs [simp]: "runs (snd (ResetHostIdentity i d)) = runs d"
  by (auto simp: ResetHostIdentity_def sql_exec_def split: option.splits)

lemma DeleteCloudAccount_runs [simp]: "runs (snd (DeleteCloudAccount now i d)) = runs d"
  by (auto simp: DeleteCloudAccount_def Let_def split: option.splits)

lemma store_step_runs:
  assumes "store_step d d'" and inv: "db_inv d"
  shows "run_kept (tbl_get (runs d) i) (tbl_get (runs d') i)"
  using assms(1)
proof (cases rule: store_step.cases)
  case (st_DeleteMachine j)
  show ?thesis
    unfolding st_DeleteMachine DeleteMachine_def
    by (rule sql_exec_field) (auto simp: run_kept_def tb.get_upd)
next
  case (st_InsertRun r)
  show ?thesis
    unfolding st_InsertRun InsertRun_def Let_def wrap_err_snd
    by (rule sql_exec_field)
      (auto simp: run_kept_def tb.ins_keeps [OF db_inv_tables(2) [OF inv]] split: if_splits)
qed (auto simp: CreateCredential_def DeleteCredential_def CreateCloudAccount_def SetSyncResult_def UpdateMachine_def
    SetReach_def SetPowerState_def MarkMissing_def UpsertFacts_def PinHostKey_def RecordSeenHostKey_def
    ClearSeenHostKey_def TrustHostKey_def CreateGroup_def DeleteGroup_def CreateCustomAction_def
    DeleteCustomAction_def Let_def store_simps)

lemma store_steps_runs:
  assumes "db_inv d" and "store_steps d d'"
  shows "run_kept (tbl_get (runs d) i) (tbl_get (runs d') i)"
  using assms(2,1)
proof (induction rule: rtranclp_induct)
  case (step y z)
  then have "db_inv y" using store_steps_inv by blast
  with step show ?case using store_step_runs run_kept_trans by blast
qed simp

text \<open>
  The audit log only grows: a run once recorded is there, word for word, after any
  further history of the store; the only thing that can happen to it is that its machine is
  deleted, which clears the reference and nothing else.
\<close>

theorem runs_outlive_everything:
  assumes "db_inv d" and "tbl_get (runs d) i = Some r" and "store_steps d d'"
  shows "tbl_get (runs d') i = Some r \<or> tbl_get (runs d') i = Some (r\<lparr>rn_machine := None\<rparr>)"
  using store_steps_runs [OF assms(1,3), of i] assms(2) by (simp add: run_kept_def)

theorem runs_outlive_everything_witness:
  "tbl_get (runs (snd (DeleteMachine 1 demo_db))) 1 = Some (demo_run None\<lparr>rn_id := 1\<rparr>)"
  using runs_outlive_everything [OF demo_inv demo_db_eval(1), of "snd (DeleteMachine 1 demo_db)"]
    st_DeleteMachine [of demo_db 1]
  by (auto simp: DeleteMachine_def sql_exec_ends tb.get_upd demo_db_eval demo_run_def)

text \<open>
  Recording a run stores it under an id no run has had, with both outputs cut to
  64 KiB plus the mark (whole when they fit), and reads back exactly that.
\<close>

theorem InsertRun_recorded:
  assumes "db_inv d" and "InsertRun r d = (Inr r', d')"
  shows "tbl_get (runs d) (rn_id r') = None \<and> tbl_get (runs d') (rn_id r') = Some (stored_run r')
    \<and> r' = r\<lparr>rn_id := rn_id r'\<rparr>
    \<and> length (rn_stdout (stored_run r')) \<le> maxStoredOutput + length truncated_mark
    \<and> length (rn_stderr (stored_run r')) \<le> maxStoredOutput + length truncated_mark"
proof -
  let ?n = "tbl_next (runs d)"
  have r': "r' = r\<lparr>rn_id := ?n\<rparr>" and d': "d' = d\<lparr>runs := tbl_insert (stored_run r') (runs d)\<rparr>"
    using assms(2) by (auto simp: InsertRun_def Let_def wrap_err_Inr dest!: sql_exec_InrD split: if_splits)
  note t = db_inv_tables(2) [OF assms(1)]
  have "tbl_get (runs d) (rn_id r') = None" using tb.next_fresh [OF t] by (simp add: r')
  moreover have "tbl_get (runs d') (rn_id r') = Some (stored_run r')" using tb.get_ins [OF t] by (simp add: d' r')
  moreover have len: "length (truncate_text s n) \<le> n + length truncated_mark" for s n
    using back_off_le [of s n] by (simp add: truncate_text_def min_def)
  ultimately show ?thesis by (simp add: stored_run_def r')
qed

theorem InsertRun_recorded_witness:
  "tbl_get (runs (snd (InsertRun (demo_run None) empty_db))) 1 = Some (stored_run (demo_run None\<lparr>rn_id := 1\<rparr>))"
  using InsertRun_recorded [OF db_inv_empty, of "demo_run None" "demo_run None\<lparr>rn_id := 1\<rparr>" "snd (InsertRun (demo_run None) empty_db)"]
  by (simp add: InsertRun_def Let_def sql_exec_def wrap_err_def empty_db_def demo_run_def tbl_next_def tbl_empty_def)

section \<open>Host-key pins\<close>

lemma CreateMachine_host_keys [simp]: "host_keys (snd (CreateMachine now m d)) = host_keys d"
  by (simp add: CreateMachine_snd insert_machine_row_def store_simps)

lemma UpsertFromCloud_host_keys [simp]: "host_keys (snd (UpsertFromCloud now a p n d)) = host_keys d"
  using UpsertFromCloud_snd [of now a p n d] by auto

lemma DeleteCloudAccount_host_keys [simp]: "host_keys (snd (DeleteCloudAccount now i d)) = host_keys d"
  by (auto simp: DeleteCloudAccount_def Let_def split: option.splits)

definition same_pin :: "HostKey \<Rightarrow> HostKey \<Rightarrow> bool" where
  "same_pin k k' \<longleftrightarrow> hk_algorithm k' = hk_algorithm k \<and> hk_fingerprint k' = hk_fingerprint k
     \<and> hk_first_seen k' = hk_first_seen k"

text \<open>
  A pinned host key is never silently replaced: one operation of the store leaves the
  pinned algorithm, fingerprint and first-seen time of a machine as they are, unless it is
  the explicit trust of a new key for that machine, the reset of the machine's identity, or
  its deletion.
\<close>

theorem pin_changes_only_by_trust:
  assumes "store_step d d'" and "host_keys d i = Some k"
  shows "(\<exists>k'. host_keys d' i = Some k' \<and> same_pin k k')
       \<or> (\<exists>now alg fp. d' = snd (TrustHostKey now i alg fp d) \<and> host_keys d' i = Some (new_pin now i alg fp))
       \<or> (d' = snd (ResetHostIdentity i d) \<or> d' = snd (DeleteMachine i d)) \<and> host_keys d' i = None"
  using assms(1)
proof (cases rule: store_step.cases)
  case (st_DeleteMachine j)
  then show ?thesis using assms(2)
    by (cases "j = i") (auto simp: DeleteMachine_def store_simps same_pin_def)
next
  case (st_ResetHostIdentity j)
  then show ?thesis using assms(2)
    by (cases "j = i") (auto simp: ResetHostIdentity_def sql_exec_def same_pin_def split: option.splits)
next
  case (st_TrustHostKey now j alg fp)
  show ?thesis
  proof (cases "j = i \<and> host_keys d' i \<noteq> host_keys d i")
    case True
    then have "host_keys d' i = Some (new_pin now i alg fp)"
      using st_TrustHostKey assms(2) by (auto simp: TrustHostKey_def store_simps split: if_splits)
    with True st_TrustHostKey show ?thesis by blast
  next
    case False
    with st_TrustHostKey assms(2) have "host_keys d' i = Some k"
      by (cases "j = i") (simp_all add: TrustHostKey_def store_simps)
    then show ?thesis by (simp add: same_pin_def)
  qed
next
  case (st_ClearSeenHostKey j)
  show ?thesis
    by (rule disjI1, cases "j = i")
      (use assms(2) st_ClearSeenHostKey in \<open>simp_all add: ClearSeenHostKey_def store_simps same_pin_def\<close>)
next
  case (st_RecordSeenHostKey j)
  show ?thesis
    by (rule disjI1, cases "j = i")
      (use assms(2) st_RecordSeenHostKey in \<open>simp_all add: RecordSeenHostKey_def store_simps same_pin_def\<close>)
qed (use assms(2) in \<open>auto simp: CreateCredential_def DeleteCredential_def CreateCloudAccount_def SetSyncResult_def
    UpdateMachine_def SetReach_def SetPowerState_def MarkMissing_def UpsertFacts_def PinHostKey_def
    InsertRun_def CreateGroup_def DeleteGroup_def
    CreateCustomAction_def DeleteCustomAction_def Let_def store_simps same_pin_def\<close>)

definition pinned_db :: db where
  "pinned_db = snd (PinHostKey 3 1 ''ssh-ed25519'' ''SHA256:aa'' demo_db)"

theorem pin_changes_only_by_trust_witness:
  "host_keys (snd (PinHostKey 9 1 ''ssh-rsa'' ''SHA256:bb'' pinned_db)) 1 = Some (new_pin 3 1 ''ssh-ed25519'' ''SHA256:aa'')"
proof -
  have k: "host_keys pinned_db 1 = Some (new_pin 3 1 ''ssh-ed25519'' ''SHA256:aa'')"
    by (simp add: pinned_db_def PinHostKey_def demo_evals)
  show ?thesis
    using pin_changes_only_by_trust [OF st_PinHostKey k, of 9 1 "''ssh-rsa''" "''SHA256:bb''"] k
    by (simp add: PinHostKey_def sql_exec_ends)
qed

section \<open>Reconciling with the cloud\<close>

text \<open>The columns a sync never writes on a known machine.\<close>

definition user_columns :: "machine_row \<Rightarrow> machine_row" where
  "user_columns r =
     r\<lparr>mr_region := [], mr_instance_type := [], mr_power_state := [], mr_public_ip := [], mr_private_ip := [],
       mr_ssh_host := [], mr_cloud_synced_at := None, mr_missing := 0, mr_updated := 0\<rparr>"

lemma user_columns_refresh [simp]: "user_columns (refresh_row now h n r) = user_columns r"
  by (simp add: user_columns_def refresh_row_def)

text \<open>
  C24: Syncing an instance is additive.  On success the account has exactly one machine for
  the instance, carrying the cloud's region, type, power state and addresses; a machine that
  was already there keeps its name, tags, SSH port, user and credential, and its SSH host
  too unless it was tracking the public address and a different one is now known; no other
  machine changes.
\<close>

theorem upsert_additive:
  assumes inv: "db_inv d" and ok: "UpsertFromCloud now a p n d = (Inr (i, created, hostChanged), d')"
  shows "(\<exists>r'. tbl_get (machines d') i = Some r' \<and> find_instance a (in_instance_id n) d' = Some (i, r')
            \<and> mr_power_state r' = (if created \<and> in_power_state n = [] then PowerUnknown else in_power_state n)
            \<and> mr_public_ip r' = in_public_ip n
            \<and> mr_private_ip r' = in_private_ip n \<and> mr_region r' = in_region n
            \<and> mr_missing r' = 0
            \<and> (case tbl_get (machines d) i of
                 None \<Rightarrow> created \<and> \<not> hostChanged \<and> mr_ssh_host r' = in_public_ip n
               | Some r \<Rightarrow> \<not> created \<and> user_columns r' = user_columns r
                   \<and> mr_ssh_host r' = (if hostChanged then in_public_ip n else mr_ssh_host r)
                   \<and> (hostChanged \<longrightarrow> mr_ssh_host r = mr_public_ip r \<and> in_public_ip n \<noteq> [])))
       \<and> (\<forall>j. j \<noteq> i \<longrightarrow> tbl_get (machines d') j = tbl_get (machines d) j)"
proof -
  note t = db_inv_tables(1) [OF inv]
  from ok show ?thesis
  proof (cases rule: UpsertFromCloud_cases)
    case (created k)
    then have i: "i = tbl_next (machines d)" by simp
    let ?row = "machine_cols (machine_defaults now (new_cloud_machine now a p n))"
    have get: "tbl_get (machines d') j = (if j = i then Some ?row else tbl_get (machines d) j)" for j
      using created by (simp add: tb.get_ins [OF t])
    have find: "find_instance a (in_instance_id n) d' = Some (i, ?row)"
    proof -
      have "find (\<lambda>(i, r). mr_cloud_account r = Some a \<and> mr_instance_id r = in_instance_id n) (tbl_rows (machines d)) = None"
        using created(2) by (simp add: find_instance_def)
      moreover have "find P (xs @ [x]) = (case find P xs of None \<Rightarrow> if P x then Some x else None | Some y \<Rightarrow> Some y)"
        for P and xs :: "(int \<times> machine_row) list" and x by (induction xs) auto
      ultimately show ?thesis
        using created(5) i by (simp add: find_instance_def tbl_insert_def machine_cols_def machine_defaults_def new_cloud_machine_def)
    qed
    have "tbl_get (machines d) i = None" using tb.next_fresh [OF t] i by simp
    with get find created(1) show ?thesis
      by (auto simp: machine_cols_def machine_defaults_def new_cloud_machine_def boolInt_def)
  next
    case (refreshed k r)
    then have i: "k = i" and c: "\<not> created"
      and h: "hostChanged = snd (follow_ip (mr_ssh_host r) (mr_public_ip r) (in_public_ip n))" by simp_all
    let ?h = "fst (follow_ip (mr_ssh_host r) (mr_public_ip r) (in_public_ip n))"
    have r: "tbl_get (machines d) i = Some r"
      using find_instance_Some [OF t refreshed(1)] i by simp
    have get: "tbl_get (machines d') j = map_option (\<lambda>s. if j = i then refresh_row now ?h n s else s) (tbl_get (machines d) j)" for j
      using refreshed(3) i by (simp add: tb.get_upd)
    have find: "find_instance a (in_instance_id n) d' = Some (i, refresh_row now ?h n r)"
    proof -
      let ?P = "\<lambda>(i, r). mr_cloud_account r = Some a \<and> mr_instance_id r = in_instance_id n"
      have *: "find ?P (map (\<lambda>(k, s). (k, if k = i then refresh_row now ?h n s else s)) xs)
        = map_option (\<lambda>(k, s). (k, if k = i then refresh_row now ?h n s else s)) (find ?P xs)" for xs
        by (induction xs) (auto simp: refresh_row_def split: if_splits)
      show ?thesis using refreshed(1) i by (simp add: refreshed(3) find_instance_def tbl_update_def *)
    qed
    show ?thesis
      using r get find c h by (auto simp: refresh_row_def follow_ip_def user_columns_def option.map_ident)
  qed simp
qed

theorem upsert_additive_witness:
  "user_columns (the (tbl_get (machines (snd (UpsertFromCloud 8 1 ''vultr'' (demo_instance\<lparr>in_public_ip := ''192.0.2.9''\<rparr>) demo_db))) 1))
     = user_columns (the (tbl_get (machines demo_db) 1))"
proof -
  let ?n = "demo_instance\<lparr>in_public_ip := ''192.0.2.9''\<rparr>"
  have e: "UpsertFromCloud 8 1 ''vultr'' ?n demo_db
      = (Inr (1, False, True), snd (UpsertFromCloud 8 1 ''vultr'' ?n demo_db))"
    by (simp add: demo_evals follow_ip_def)
  have "tbl_get (machines demo_db) 1 \<noteq> None" using demo_db_eval(3) by auto
  with upsert_additive [OF demo_inv e] show ?thesis by auto
qed

text \<open>
  An instance synced once while it has no public address stops being tracked: the
  machine's SSH host, which was its public address, stays the old address at that sync and
  at the next one too, when the instance is back with a new address.
\<close>

theorem stopped_instance_loses_tracking:
  assumes inv: "db_inv d" and get: "tbl_get (machines d) i = Some r"
    and key: "mr_cloud_account r = Some a" "mr_instance_id r = x" "x \<noteq> []"
    and tracking: "mr_ssh_host r = mr_public_ip r" "mr_public_ip r \<noteq> []"
    and works: "db_fail d = (\<lambda>_. None)"
    and stopped: "in_instance_id n1 = x" "in_public_ip n1 = []"
    and restarted: "in_instance_id n2 = x" "in_public_ip n2 = b" "b \<noteq> []" "b \<noteq> mr_public_ip r"
  shows "(\<exists>r'. tbl_get (machines (snd (UpsertFromCloud t2 a p n2 (snd (UpsertFromCloud t1 a p n1 d))))) i = Some r'
       \<and> mr_ssh_host r' = mr_public_ip r \<and> mr_public_ip r' = b)"
proof -
  let ?r1 = "refresh_row t1 (mr_ssh_host r) n1 r"
  let ?d1 = "d\<lparr>machines := tbl_update (\<lambda>k _. k = i) (refresh_row t1 (mr_ssh_host r) n1) (machines d)\<rparr>"
  have 1: "snd (UpsertFromCloud t1 a p n1 d) = ?d1"
    using UpsertFromCloud_known [of a n1 d i r t1 p] find_instance_unique [OF inv get key] stopped works
    by (simp add: follow_ip_def)
  have inv1: "db_inv ?d1" using UpsertFromCloud_inv [OF inv, of t1 a p n1] 1 by simp
  have get1: "tbl_get (machines ?d1) i = Some ?r1" by (simp add: tb.get_upd get)
  have "find_instance a x ?d1 = Some (i, ?r1)"
    using find_instance_unique [OF inv1 get1, of a x] key by (simp add: refresh_row_def)
  then have "snd (UpsertFromCloud t2 a p n2 ?d1)
      = ?d1\<lparr>machines := tbl_update (\<lambda>k _. k = i) (refresh_row t2 (mr_ssh_host r) n2) (machines ?d1)\<rparr>"
    using UpsertFromCloud_known [of a n2 ?d1 i ?r1 t2 p] stopped restarted works tracking
    by (simp add: follow_ip_def refresh_row_def)
  then show ?thesis
    unfolding 1 by (simp add: tb.get_upd get refresh_row_def tracking restarted)
qed

theorem stopped_instance_loses_tracking_witness:
  "map_option mr_ssh_host (tbl_get (machines (snd (UpsertFromCloud 9 1 ''vultr'' (demo_instance\<lparr>in_public_ip := ''192.0.2.7''\<rparr>)
     (snd (UpsertFromCloud 8 1 ''vultr'' (demo_instance\<lparr>in_public_ip := []\<rparr>) demo_db))))) 1) = Some ''192.0.2.1''"
proof -
  obtain r where r: "tbl_get (machines demo_db) 1 = Some r" "mr_cloud_account r = Some 1" "mr_instance_id r = ''i-1''"
    "mr_ssh_host r = ''192.0.2.1''" "mr_public_ip r = ''192.0.2.1''"
    by (simp add: demo_evals)
  show ?thesis
    using stopped_instance_loses_tracking [OF demo_inv r(1,2,3), of "demo_instance\<lparr>in_public_ip := []\<rparr>"
        "demo_instance\<lparr>in_public_ip := ''192.0.2.7''\<rparr>" "''192.0.2.7''" 9 "''vultr''" 8] r
    by (auto simp: demo_instance_def demo_db_eval)
qed

text \<open>The cloud side of a machine, and the SSH side with everything else a user entered.\<close>

definition ssh_side :: "machine_row \<Rightarrow> string \<times> string \<times> string \<times> int \<times> string \<times> int option" where
  "ssh_side r = (mr_name r, mr_tags r, mr_ssh_host r, mr_ssh_port r, mr_ssh_user r, mr_credential r)"

text \<open>
  Deleting a cloud account is all or nothing.  When it succeeds the account is gone, no
  machine is: those of the account lost the link, the instance id and the missing flag and
  kept name, tags, SSH host, port, user and credential; the others are untouched.  When it
  fails, at whichever of its four statements, nothing changed.
\<close>

theorem DeleteCloudAccount_atomic:
  "(case DeleteCloudAccount now i d of
      (Inl _, d') \<Rightarrow> d' = d
    | (Inr _, d') \<Rightarrow> tbl_get (cloud_accounts d') i = None
        \<and> (\<forall>j. case tbl_get (machines d) j of
                 None \<Rightarrow> tbl_get (machines d') j = None
               | Some r \<Rightarrow> (if mr_cloud_account r = Some i
                   then \<exists>r'. tbl_get (machines d') j = Some r' \<and> ssh_side r' = ssh_side r
                     \<and> mr_cloud_account r' = None \<and> mr_instance_id r' = [] \<and> mr_missing r' = 0
                   else tbl_get (machines d') j = Some r)))"
  by (auto simp: DeleteCloudAccount_def Let_def tb.get_del tb.get_upd strip_cloud_def ssh_side_def
      split: option.splits prod.splits sum.splits)

text \<open>
  Marking what a sync did not see flags exactly the machines of that account that have
  an instance id outside the list (all of them for an empty list), clears no flag, and
  changes nothing else of any machine.
\<close>

theorem MarkMissing_exact:
  assumes "MarkMissing now a seen d = (Inr (), d')"
  shows "tbl_get (machines d') i = map_option
    (\<lambda>r. if mr_cloud_account r = Some a \<and> mr_instance_id r \<noteq> [] \<and> mr_instance_id r \<notin> set seen
         then r\<lparr>mr_missing := 1, mr_updated := now\<rparr> else r) (tbl_get (machines d) i)"
  using assms
  by (auto simp: MarkMissing_def Let_def tb.get_upd dest!: sql_exec_InrD intro!: option.map_cong split: if_splits)

theorem MarkMissing_exact_witness:
  "map_option mr_missing (tbl_get (machines (snd (MarkMissing 9 1 [] demo_db))) 1) = Some 1"
proof -
  obtain r where r: "tbl_get (machines demo_db) 1 = Some r" "mr_cloud_account r = Some 1" "mr_instance_id r = ''i-1''"
    by (simp add: demo_evals)
  have e: "MarkMissing 9 1 [] demo_db = (Inr (), snd (MarkMissing 9 1 [] demo_db))"
    by (simp add: MarkMissing_def Let_def sql_exec_def demo_db_eval)
  show ?thesis using MarkMissing_exact [OF e, of 1] r by simp
qed

section \<open>Columns, tags and groups\<close>

lemma splitTags_joinTags:
  assumes "\<forall>t \<in> set ts. clean_tag t"
  shows "splitTags (joinTags ts) = ts"
proof (cases "ts = []")
  case True
  then show ?thesis by (simp add: splitTags_def joinTags_def)
next
  case False
  then have split: "split_on CHR '','' (joinTags ts) = ts"
    unfolding joinTags_def using assms by (intro split_join) (auto simp: clean_tag_def)
  have "trim_space (joinTags ts) \<noteq> []"
  proof (cases ts)
    case (Cons t us)
    show ?thesis
    proof (cases us)
      case Nil
      with Cons assms show ?thesis by (simp add: joinTags_def clean_tag_def)
    next
      case (Cons u vs)
      then have "CHR '','' \<in> set (joinTags ts)" using \<open>ts = t # us\<close> by (simp add: joinTags_def)
      then show ?thesis by (rule trim_space_keeps_plain) (simp add: plain_char_def)
    qed
  qed (use False in simp)
  with split assms show ?thesis by (simp add: splitTags_def trim_nonempty_clean)
qed



lemma has_all_iff [simp]: "has_all hs ws \<longleftrightarrow> set ws \<subseteq> set hs"
  by (induction ws) auto

text \<open>
  A group is a query: its members are exactly the machines of the inventory that carry
  every one of the group's tags, in the order of the machine list, and a group without tags
  has no members.
\<close>

theorem GroupMembers_exact:
  assumes "GroupMembers i d = Inr ms"
  shows "\<exists>g inv. GetGroup i d = Inr g \<and> ListMachines d = Inr inv
    \<and> ms = filter (\<lambda>m. gr_tags g \<noteq> [] \<and> set (gr_tags g) \<subseteq> set (m_tags m)) inv
    \<and> set (map m_id inv) = set (map fst (tbl_rows (machines d)))"
proof -
  obtain g inv where g: "GetGroup i d = Inr g" and l: "ListMachines d = Inr inv"
    and ms: "ms = matchAll inv (gr_tags g)"
    using assms by (auto simp: GroupMembers_def res_bind_Inr_conv)
  have "set (map m_id inv) = set (map fst (tbl_rows (machines d)))"
  proof -
    have "inv = sort_key (\<lambda>m. nocase (m_name m)) (map (\<lambda>(i, r). scanMachine i r) (tbl_rows (machines d)))"
      using l by (auto simp: ListMachines_def wrap_query_Inr dest!: sql_query_InrD)
    moreover have "m_id (case x of (i, r) \<Rightarrow> scanMachine i r) = fst x" for x
      by (cases x) (simp add: scanMachine_def)
    ultimately show ?thesis by (simp add: image_image)
  qed
  with g l ms show ?thesis by (auto simp: matchAll_def)
qed

theorem GroupMembers_exact_witness:
  "\<exists>g inv. GetGroup 1 (snd (CreateGroup 4 \<lparr>gr_id = 0, gr_name = ''g'', gr_tags = [''prod''], gr_created = 0, gr_members = 0\<rparr> demo_db)) = Inr g
     \<and> ListMachines demo_db = Inr inv"
proof -
  let ?d = "snd (CreateGroup 4 \<lparr>gr_id = 0, gr_name = ''g'', gr_tags = [''prod''], gr_created = 0, gr_members = 0\<rparr> demo_db)"
  have same: "ListMachines ?d = ListMachines demo_db"
    by (simp add: ListMachines_def CreateGroup_def Let_def sql_exec_def demo_db_eval sql_query_def)
  obtain ms where "GroupMembers 1 ?d = Inr ms"
    by (simp add: GroupMembers_def GetGroup_def ListMachines_def CreateGroup_def Let_def sql_exec_def wrap_query_def demo_evals)
  from GroupMembers_exact [OF this] show ?thesis unfolding same by blast
qed

text \<open>
  Cutting text for storage returns it whole when it fits, and otherwise a prefix no
  longer than the limit that ends on a rune boundary, the longest such prefix, followed by
  the mark.
\<close>

theorem truncate_text_spec:
  "truncate_text s n = s \<and> length s \<le> n \<or>
   (\<exists>k. n < length s \<and> k \<le> n \<and> truncate_text s n = take k s @ truncated_mark
      \<and> (k = 0 \<or> rune_start (s ! k)) \<and> (\<forall>j. k < j \<and> j \<le> n \<longrightarrow> \<not> rune_start (s ! j)))"
  using back_off_le [of s n] back_off_boundary [of s n] back_off_maximal [of s n]
  by (cases "length s \<le> n") (auto simp: truncate_text_def)

theorem truncate_text_spec_witness: "truncate_text ''abc'' 2 = ''ab'' @ truncated_mark"
  using truncate_text_spec [of "''abc''" 2] by (simp add: truncate_text_def numeral_2_eq_2 rune_start_def)

end
