(* ===== verification/Regex_Pat.thy ===== *)
theory Regex_Pat imports Go_Strings begin

text \<open>
  The anchored regular expressions of the program.  Every pattern in the source is
  \<^verbatim>\<open>^...$\<close> around a sequence of character classes with a repetition count, so a pattern is
  the list of those pieces; a literal is a class of one character.  \<open>re_match\<close> is
  \<^verbatim>\<open>MatchString\<close>: it tries every way of sharing the text out among the pieces, and the
  match covers the whole text (Go's \<^verbatim>\<open>$\<close> without the multi-line flag is the end of the text).
\<close>

text \<open>A class is a list of inclusive ranges.\<close>

type_synonym char_class = "(char \<times> char) list"

record re_piece =
  rp_class :: char_class
  rp_min :: nat
  rp_max :: nat

type_synonym regex = "re_piece list"

definition in_class :: "char_class \<Rightarrow> char \<Rightarrow> bool" where
  "in_class cls c \<longleftrightarrow> list_ex (\<lambda>(a, b). a \<le> c \<and> c \<le> b) cls"

definition one_of :: "string \<Rightarrow> char_class" where
  "one_of cs = map (\<lambda>c. (c, c)) cs"

definition alnum :: char_class where
  "alnum = [(CHR ''A'', CHR ''Z''), (CHR ''a'', CHR ''z''), (CHR ''0'', CHR ''9'')]"

definition rep :: "char_class \<Rightarrow> nat \<Rightarrow> nat \<Rightarrow> re_piece" where
  "rep cls lo hi = \<lparr>rp_class = cls, rp_min = lo, rp_max = hi\<rparr>"

definition lits :: "string \<Rightarrow> regex" where
  "lits s = map (\<lambda>c. rep (one_of [c]) 1 1) s"

function re_match :: "regex \<Rightarrow> string \<Rightarrow> bool" where
  "re_match [] s \<longleftrightarrow> s = []"
| "re_match (p # ps) s \<longleftrightarrow>
     (rp_min p = 0 \<and> re_match ps s) \<or>
     (case s of [] \<Rightarrow> False
      | c # cs \<Rightarrow> 0 < rp_max p \<and> in_class (rp_class p) c
          \<and> re_match (p\<lparr>rp_min := rp_min p - 1, rp_max := rp_max p - 1\<rparr> # ps) cs)"
  by pat_completeness auto
termination
  by (relation "measures [\<lambda>(ps, s). length s, \<lambda>(ps, s). length ps]") auto

text \<open>What a match says: the text is cut into one part per piece, of an allowed length and of allowed characters.\<close>

lemma re_match_Cons:
  assumes "re_match (p # ps) s"
  shows "\<exists>u v. s = u @ v \<and> rp_min p \<le> length u \<and> length u \<le> rp_max p
    \<and> (\<forall>c \<in> set u. in_class (rp_class p) c) \<and> re_match ps v"
  using assms
proof (induction s arbitrary: p)
  case Nil
  then show ?case by simp
next
  case (Cons c s)
  show ?case
  proof (cases "rp_min p = 0 \<and> re_match ps (c # s)")
    case True
    then show ?thesis by (intro exI [of _ "[]"] exI [of _ "c # s"]) simp
  next
    case False
    let ?q = "p\<lparr>rp_min := rp_min p - 1, rp_max := rp_max p - 1\<rparr>"
    from False Cons.prems have c: "0 < rp_max p" "in_class (rp_class p) c" "re_match (?q # ps) s"
      by auto
    from Cons.IH [OF c(3)] obtain u v where "s = u @ v" "rp_min p - 1 \<le> length u" "length u \<le> rp_max p - 1"
      "\<forall>c \<in> set u. in_class (rp_class p) c" "re_match ps v" by auto
    with c show ?thesis by (intro exI [of _ "c # u"] exI [of _ v]) auto
  qed
qed

text \<open>Hence every character is in one of the classes, and the length is bounded.\<close>

lemma re_match_chars:
  "re_match ps s \<Longrightarrow> c \<in> set s \<Longrightarrow> list_ex (\<lambda>p. in_class (rp_class p) c) ps"
proof (induction ps arbitrary: s)
  case (Cons p ps)
  from re_match_Cons [OF Cons.prems(1)] Cons.prems(2) Cons.IH show ?case by fastforce
qed simp

lemma re_match_length: "re_match ps s \<Longrightarrow> length s \<le> sum_list (map rp_max ps)"
proof (induction ps arbitrary: s)
  case (Cons p ps)
  from re_match_Cons [OF Cons.prems] Cons.IH show ?case by fastforce
qed simp

lemma re_match_hd:
  assumes "re_match (p # ps) s" and "0 < rp_min p"
  shows "s \<noteq> [] \<and> in_class (rp_class p) (hd s)"
proof -
  from re_match_Cons [OF assms(1)] assms(2) obtain u v where
    "s = u @ v" "u \<noteq> []" "\<forall>c \<in> set u. in_class (rp_class p) c" by fastforce
  then show ?thesis by (cases u) auto
qed

lemma in_class_Cons: "in_class ((a, b) # cls) c \<longleftrightarrow> a \<le> c \<and> c \<le> b \<or> in_class cls c"
  by (simp add: in_class_def)

lemma in_class_Nil [simp]: "\<not> in_class [] c"
  by (simp add: in_class_def)

text \<open>A pattern excludes a character that none of its classes has.\<close>

definition re_excludes :: "regex \<Rightarrow> char \<Rightarrow> bool" where
  "re_excludes ps c \<longleftrightarrow> list_all (\<lambda>p. \<not> in_class (rp_class p) c) ps"

lemma re_excludes_match: "re_excludes ps c \<Longrightarrow> re_match ps s \<Longrightarrow> c \<notin> set s"
  using re_match_chars [of ps s c] by (auto simp: re_excludes_def list_all_iff list_ex_iff)

end
