(* ===== verification/Catalog.thy ===== *)
theory Catalog imports Regex_Pat begin

text \<open>
  \<^verbatim>\<open>internal/actions/catalog.go\<close>: the declarative catalog, entry by entry.  A
  \<^verbatim>\<open>*regexp.Regexp\<close> that may be nil is an option, a \<^verbatim>\<open>time.Duration\<close> its nanoseconds.  Go's
  nil and empty slices are both \<open>[]\<close>, so the package's \<^verbatim>\<open>init\<close> has nothing to do here.
\<close>

section \<open>Types and constants\<close>

definition DangerRead :: int where "DangerRead = 0"
definition DangerReversible :: int where "DangerReversible = 1"
definition DangerDisruptive :: int where "DangerDisruptive = 2"
definition DangerForbidden :: int where "DangerForbidden = 3"

lemmas danger_defs = DangerRead_def DangerReversible_def DangerDisruptive_def DangerForbidden_def

definition SudoNone :: string where "SudoNone = []"
definition SudoPreferred :: string where "SudoPreferred = ''preferred''"
definition SudoRequired :: string where "SudoRequired = ''required''"

lemmas sudo_defs = SudoNone_def SudoPreferred_def SudoRequired_def

record Param =
  pm_name :: string
  pm_label :: string
  pm_pattern :: "regex option"
  pm_source :: string

record Action =
  act_id :: string
  act_label :: string
  act_category :: string
  act_requires :: "string list"
  act_command :: string
  act_params :: "Param list"
  act_danger :: int
  act_sudo :: string
  act_timeout :: int
  act_parse :: string
  act_stream :: bool
  act_script :: string

definition second :: int where "second = 1000000000"

definition param :: "string \<Rightarrow> string \<Rightarrow> regex \<Rightarrow> string \<Rightarrow> Param" where
  "param name label pat source = \<lparr>pm_name = name, pm_label = label, pm_pattern = Some pat, pm_source = source\<rparr>"

section \<open>Patterns\<close>

definition reUnit :: regex where
  "reUnit = [rep alnum 1 1, rep (alnum @ one_of (''@._:'' @ [CHR 0x5C] @ ''-'')) 0 254]"

definition rePID :: regex where "rePID = [rep [(CHR ''0'', CHR ''9'')] 1 10]"

definition reInt :: regex where "reInt = [rep [(CHR ''0'', CHR ''9'')] 1 6]"

definition rePath :: regex where
  "rePath = lits ''/'' @ [rep (alnum @ one_of ''._/-'') 0 255]"

definition reName :: regex where
  "reName = [rep alnum 1 1, rep (alnum @ one_of ''@._:/-'') 0 127]"

definition reHost :: regex where
  "reHost = [rep alnum 1 1, rep (alnum @ one_of ''.-'') 0 253]"

definition reURL :: regex where
  "reURL = lits ''http'' @ [rep (one_of ''s'') 0 1] @ lits ''://'' @
     [rep (alnum @ one_of ''._~:/?#@!$&'()*+,;=%-'') 1 1000]"

lemmas pattern_defs = reUnit_def rePID_def reInt_def rePath_def reName_def reHost_def reURL_def

section \<open>The catalog\<close>

definition overviewScript :: string where
  "overviewScript =
     ''\<newline>'' @
     ''echo \"now=$(date -u +%s 2>/dev/null)\"\<newline>'' @
     ''echo \"uptime_s=$(cut -d. -f1 /proc/uptime 2>/dev/null)\"\<newline>'' @
     ''echo \"load=$(cut -d' ' -f1-3 /proc/loadavg 2>/dev/null)\"\<newline>'' @
     ''echo \"cpus=$(nproc 2>/dev/null || grep -c ^processor /proc/cpuinfo 2>/dev/null)\"\<newline>'' @
     ''awk '/^MemTotal:/{t=$2} /^MemAvailable:/{a=$2} /^MemFree:/{f=$2} /^Buffers:/{b=$2} /^Cached:/{c=$2} /^SwapTotal:/{st=$2} /^SwapFree:/{sf=$2}\<newline>'' @
     ''     END{print \"mem_total_kb=\" t; print \"mem_avail_kb=\" a; print \"mem_free_kb=\" f; print \"mem_buffers_kb=\" b; print \"mem_cached_kb=\" c; print \"swap_total_kb=\" st; print \"swap_free_kb=\" sf}' /proc/meminfo 2>/dev/null\<newline>'' @
     ''df -Pk 2>/dev/null | awk 'NR>1 {print \"disk=\" $1 \"|\" $2 \"|\" $3 \"|\" $4 \"|\" $6}'\<newline>'' @
     ''echo \"users=$(who 2>/dev/null | wc -l | tr -d ' ')\"\<newline>'' @
     ''if [ -f /var/run/reboot-required ]; then echo \"reboot_required=1\"; else echo \"reboot_required=0\"; fi\<newline>''"

definition catalog_system :: "Action list" where
  "catalog_system = [
    \<lparr>act_id = ''system.overview'', act_label = ''Overview'', act_category = ''system'',
      act_requires = [],
      act_command = [],
      act_params = [],
      act_danger = DangerRead, act_sudo = SudoNone, act_timeout = 15 * second, act_parse = ''overview'', act_stream = False, act_script = overviewScript\<rparr>]"

definition catalog_services :: "Action list" where
  "catalog_services = [
    \<lparr>act_id = ''services.list'', act_label = ''List services'', act_category = ''services'',
      act_requires = [''systemctl''],
      act_command = ''systemctl list-units --type=service --all --no-pager --plain --no-legend'',
      act_params = [],
      act_danger = DangerRead, act_sudo = SudoNone, act_timeout = 0, act_parse = ''systemd_units'', act_stream = False, act_script = []\<rparr>,
    \<lparr>act_id = ''services.status'', act_label = ''Status'', act_category = ''services'',
      act_requires = [''systemctl''],
      act_command = ''systemctl status {{unit}} --no-pager -l'',
      act_params = [param ''unit'' ''Unit'' reUnit ''services.list''],
      act_danger = DangerRead, act_sudo = SudoNone, act_timeout = 0, act_parse = ''raw'', act_stream = False, act_script = []\<rparr>,
    \<lparr>act_id = ''services.journal'', act_label = ''Journal'', act_category = ''services'',
      act_requires = [''journalctl''],
      act_command = ''journalctl -u {{unit}} -n 200 --no-pager -o short-iso'',
      act_params = [param ''unit'' ''Unit'' reUnit ''services.list''],
      act_danger = DangerRead, act_sudo = SudoPreferred, act_timeout = 0, act_parse = ''lines'', act_stream = False, act_script = []\<rparr>,
    \<lparr>act_id = ''services.journal_follow'', act_label = ''Follow journal'', act_category = ''services'',
      act_requires = [''journalctl''],
      act_command = ''journalctl -u {{unit}} -n 200 -f -o short-iso'',
      act_params = [param ''unit'' ''Unit'' reUnit ''services.list''],
      act_danger = DangerRead, act_sudo = SudoPreferred, act_timeout = 0, act_parse = [], act_stream = True, act_script = []\<rparr>,
    \<lparr>act_id = ''services.start'', act_label = ''Start'', act_category = ''services'',
      act_requires = [''systemctl''],
      act_command = ''systemctl start {{unit}}'',
      act_params = [param ''unit'' ''Unit'' reUnit ''services.list''],
      act_danger = DangerReversible, act_sudo = SudoRequired, act_timeout = 0, act_parse = ''exit'', act_stream = False, act_script = []\<rparr>,
    \<lparr>act_id = ''services.stop'', act_label = ''Stop'', act_category = ''services'',
      act_requires = [''systemctl''],
      act_command = ''systemctl stop {{unit}}'',
      act_params = [param ''unit'' ''Unit'' reUnit ''services.list''],
      act_danger = DangerReversible, act_sudo = SudoRequired, act_timeout = 0, act_parse = ''exit'', act_stream = False, act_script = []\<rparr>,
    \<lparr>act_id = ''services.restart'', act_label = ''Restart'', act_category = ''services'',
      act_requires = [''systemctl''],
      act_command = ''systemctl restart {{unit}}'',
      act_params = [param ''unit'' ''Unit'' reUnit ''services.list''],
      act_danger = DangerReversible, act_sudo = SudoRequired, act_timeout = 0, act_parse = ''exit'', act_stream = False, act_script = []\<rparr>,
    \<lparr>act_id = ''services.enable'', act_label = ''Enable at boot'', act_category = ''services'',
      act_requires = [''systemctl''],
      act_command = ''systemctl enable {{unit}}'',
      act_params = [param ''unit'' ''Unit'' reUnit ''services.list''],
      act_danger = DangerReversible, act_sudo = SudoRequired, act_timeout = 0, act_parse = ''exit'', act_stream = False, act_script = []\<rparr>,
    \<lparr>act_id = ''services.disable'', act_label = ''Disable at boot'', act_category = ''services'',
      act_requires = [''systemctl''],
      act_command = ''systemctl disable {{unit}}'',
      act_params = [param ''unit'' ''Unit'' reUnit ''services.list''],
      act_danger = DangerReversible, act_sudo = SudoRequired, act_timeout = 0, act_parse = ''exit'', act_stream = False, act_script = []\<rparr>]"

definition catalog_processes :: "Action list" where
  "catalog_processes = [
    \<lparr>act_id = ''processes.top'', act_label = ''Top processes'', act_category = ''processes'',
      act_requires = [],
      act_command = ''ps -eo pid,user:20,pcpu,pmem,rss,etimes,comm --no-headers --sort=-pcpu'',
      act_params = [],
      act_danger = DangerRead, act_sudo = SudoNone, act_timeout = 0, act_parse = ''ps'', act_stream = False, act_script = []\<rparr>,
    \<lparr>act_id = ''processes.terminate'', act_label = ''Terminate'', act_category = ''processes'',
      act_requires = [],
      act_command = ''kill -TERM {{pid}}'',
      act_params = [param ''pid'' ''PID'' rePID []],
      act_danger = DangerReversible, act_sudo = SudoPreferred, act_timeout = 0, act_parse = ''exit'', act_stream = False, act_script = []\<rparr>,
    \<lparr>act_id = ''processes.kill'', act_label = ''Force kill'', act_category = ''processes'',
      act_requires = [],
      act_command = ''kill -KILL {{pid}}'',
      act_params = [param ''pid'' ''PID'' rePID []],
      act_danger = DangerDisruptive, act_sudo = SudoPreferred, act_timeout = 0, act_parse = ''exit'', act_stream = False, act_script = []\<rparr>]"

definition catalog_network :: "Action list" where
  "catalog_network = [
    \<lparr>act_id = ''network.ports'', act_label = ''Listening ports'', act_category = ''network'',
      act_requires = [''ss''],
      act_command = ''ss -tulpnH'',
      act_params = [],
      act_danger = DangerRead, act_sudo = SudoPreferred, act_timeout = 0, act_parse = ''ss'', act_stream = False, act_script = []\<rparr>,
    \<lparr>act_id = ''network.established'', act_label = ''Established connections'', act_category = ''network'',
      act_requires = [''ss''],
      act_command = ''ss -tnpH state established'',
      act_params = [],
      act_danger = DangerRead, act_sudo = SudoPreferred, act_timeout = 0, act_parse = ''ss'', act_stream = False, act_script = []\<rparr>,
    \<lparr>act_id = ''network.reach'', act_label = ''Reach a URL'', act_category = ''network'',
      act_requires = [''curl''],
      act_command = ''curl -sS -o /dev/null --max-time 10 -w 'status=%{http_code}'' @ [CHR 0x5C] @ ''ntime=%{time_total}s'' @ [CHR 0x5C] @ ''nsize=%{size_download}'' @ [CHR 0x5C] @ ''nremote=%{remote_ip}:%{remote_port}'' @ [CHR 0x5C] @ ''n' {{url}}'',
      act_params = [param ''url'' ''URL'' reURL []],
      act_danger = DangerRead, act_sudo = SudoNone, act_timeout = 15 * second, act_parse = ''raw'', act_stream = False, act_script = []\<rparr>]"

definition catalog_disk :: "Action list" where
  "catalog_disk = [
    \<lparr>act_id = ''disk.largest'', act_label = ''Largest directories'', act_category = ''disk'',
      act_requires = [],
      act_command = ''du -xk -d 2 {{path}} | sort -rn | head -30'',
      act_params = [param ''path'' ''Path'' rePath []],
      act_danger = DangerRead, act_sudo = SudoPreferred, act_timeout = 120 * second, act_parse = ''du'', act_stream = False, act_script = []\<rparr>,
    \<lparr>act_id = ''disk.inodes'', act_label = ''Inode usage'', act_category = ''disk'',
      act_requires = [],
      act_command = ''df -Pi'',
      act_params = [],
      act_danger = DangerRead, act_sudo = SudoNone, act_timeout = 0, act_parse = ''inodes'', act_stream = False, act_script = []\<rparr>,
    \<lparr>act_id = ''disk.clean_apt'', act_label = ''Clean apt cache'', act_category = ''disk'',
      act_requires = [''apt-get''],
      act_command = ''apt-get clean && echo cleaned'',
      act_params = [],
      act_danger = DangerReversible, act_sudo = SudoRequired, act_timeout = 0, act_parse = ''raw'', act_stream = False, act_script = []\<rparr>,
    \<lparr>act_id = ''disk.vacuum_journal'', act_label = ''Vacuum journal (keep 7d)'', act_category = ''disk'',
      act_requires = [''journalctl''],
      act_command = ''journalctl --vacuum-time=7d'',
      act_params = [],
      act_danger = DangerReversible, act_sudo = SudoRequired, act_timeout = 0, act_parse = ''raw'', act_stream = False, act_script = []\<rparr>]"

definition catalog_programs :: "Action list" where
  "catalog_programs = [
    \<lparr>act_id = ''programs.list'', act_label = ''List programs'', act_category = ''programs'',
      act_requires = [''supervisorctl''],
      act_command = ''supervisorctl status'',
      act_params = [],
      act_danger = DangerRead, act_sudo = SudoPreferred, act_timeout = 0, act_parse = ''supervisor'', act_stream = False, act_script = []\<rparr>,
    \<lparr>act_id = ''programs.start'', act_label = ''Start'', act_category = ''programs'',
      act_requires = [''supervisorctl''],
      act_command = ''supervisorctl start {{prog}}'',
      act_params = [param ''prog'' ''Program'' reName ''programs.list''],
      act_danger = DangerReversible, act_sudo = SudoPreferred, act_timeout = 0, act_parse = ''raw'', act_stream = False, act_script = []\<rparr>,
    \<lparr>act_id = ''programs.stop'', act_label = ''Stop'', act_category = ''programs'',
      act_requires = [''supervisorctl''],
      act_command = ''supervisorctl stop {{prog}}'',
      act_params = [param ''prog'' ''Program'' reName ''programs.list''],
      act_danger = DangerReversible, act_sudo = SudoPreferred, act_timeout = 0, act_parse = ''raw'', act_stream = False, act_script = []\<rparr>,
    \<lparr>act_id = ''programs.restart'', act_label = ''Restart'', act_category = ''programs'',
      act_requires = [''supervisorctl''],
      act_command = ''supervisorctl restart {{prog}}'',
      act_params = [param ''prog'' ''Program'' reName ''programs.list''],
      act_danger = DangerReversible, act_sudo = SudoPreferred, act_timeout = 0, act_parse = ''raw'', act_stream = False, act_script = []\<rparr>,
    \<lparr>act_id = ''programs.update'', act_label = ''Reread & update'', act_category = ''programs'',
      act_requires = [''supervisorctl''],
      act_command = ''supervisorctl update'',
      act_params = [],
      act_danger = DangerReversible, act_sudo = SudoPreferred, act_timeout = 0, act_parse = ''raw'', act_stream = False, act_script = []\<rparr>,
    \<lparr>act_id = ''programs.tail'', act_label = ''Follow output'', act_category = ''programs'',
      act_requires = [''supervisorctl''],
      act_command = ''supervisorctl tail -f {{prog}}'',
      act_params = [param ''prog'' ''Program'' reName ''programs.list''],
      act_danger = DangerRead, act_sudo = SudoPreferred, act_timeout = 0, act_parse = [], act_stream = True, act_script = []\<rparr>]"

definition catalog_containers :: "Action list" where
  "catalog_containers = [
    \<lparr>act_id = ''containers.list'', act_label = ''List containers'', act_category = ''containers'',
      act_requires = [''docker''],
      act_command = ''docker ps -a --no-trunc --format '{{json .}}'' @ [CHR 0x27],
      act_params = [],
      act_danger = DangerRead, act_sudo = SudoPreferred, act_timeout = 0, act_parse = ''docker_ps'', act_stream = False, act_script = []\<rparr>,
    \<lparr>act_id = ''containers.start'', act_label = ''Start'', act_category = ''containers'',
      act_requires = [''docker''],
      act_command = ''docker start {{id}}'',
      act_params = [param ''id'' ''Container'' reName ''containers.list''],
      act_danger = DangerReversible, act_sudo = SudoPreferred, act_timeout = 0, act_parse = ''exit'', act_stream = False, act_script = []\<rparr>,
    \<lparr>act_id = ''containers.stop'', act_label = ''Stop'', act_category = ''containers'',
      act_requires = [''docker''],
      act_command = ''docker stop {{id}}'',
      act_params = [param ''id'' ''Container'' reName ''containers.list''],
      act_danger = DangerReversible, act_sudo = SudoPreferred, act_timeout = 30 * second, act_parse = ''exit'', act_stream = False, act_script = []\<rparr>,
    \<lparr>act_id = ''containers.restart'', act_label = ''Restart'', act_category = ''containers'',
      act_requires = [''docker''],
      act_command = ''docker restart {{id}}'',
      act_params = [param ''id'' ''Container'' reName ''containers.list''],
      act_danger = DangerReversible, act_sudo = SudoPreferred, act_timeout = 30 * second, act_parse = ''exit'', act_stream = False, act_script = []\<rparr>,
    \<lparr>act_id = ''containers.logs'', act_label = ''Follow logs'', act_category = ''containers'',
      act_requires = [''docker''],
      act_command = ''docker logs --tail 200 -f {{id}}'',
      act_params = [param ''id'' ''Container'' reName ''containers.list''],
      act_danger = DangerRead, act_sudo = SudoPreferred, act_timeout = 0, act_parse = [], act_stream = True, act_script = []\<rparr>,
    \<lparr>act_id = ''containers.df'', act_label = ''Disk usage'', act_category = ''containers'',
      act_requires = [''docker''],
      act_command = ''docker system df'',
      act_params = [],
      act_danger = DangerRead, act_sudo = SudoPreferred, act_timeout = 0, act_parse = ''raw'', act_stream = False, act_script = []\<rparr>,
    \<lparr>act_id = ''containers.prune'', act_label = ''Prune unused'', act_category = ''containers'',
      act_requires = [''docker''],
      act_command = ''docker system prune -af'',
      act_params = [],
      act_danger = DangerDisruptive, act_sudo = SudoPreferred, act_timeout = 120 * second, act_parse = ''raw'', act_stream = False, act_script = []\<rparr>]"

definition catalog_web :: "Action list" where
  "catalog_web = [
    \<lparr>act_id = ''web.nginx_test'', act_label = ''Test nginx config'', act_category = ''web'',
      act_requires = [''nginx''],
      act_command = ''nginx -t'',
      act_params = [],
      act_danger = DangerRead, act_sudo = SudoPreferred, act_timeout = 0, act_parse = ''raw'', act_stream = False, act_script = []\<rparr>,
    \<lparr>act_id = ''web.nginx_reload'', act_label = ''Reload nginx'', act_category = ''web'',
      act_requires = [''nginx''],
      act_command = ''nginx -s reload'',
      act_params = [],
      act_danger = DangerReversible, act_sudo = SudoRequired, act_timeout = 0, act_parse = ''exit'', act_stream = False, act_script = []\<rparr>,
    \<lparr>act_id = ''web.tls_cert'', act_label = ''Check TLS certificate'', act_category = ''web'',
      act_requires = [''openssl''],
      act_command = ''echo | openssl s_client -connect {{host}}:{{port}} -servername {{host}} 2>/dev/null | openssl x509 -noout -subject -issuer -startdate -enddate'',
      act_params = [param ''host'' ''Host'' reHost [], param ''port'' ''Port'' reInt []],
      act_danger = DangerRead, act_sudo = SudoNone, act_timeout = 20 * second, act_parse = ''tls'', act_stream = False, act_script = []\<rparr>]"

definition catalog_host :: "Action list" where
  "catalog_host = [
    \<lparr>act_id = ''host.reboot'', act_label = ''Reboot (via SSH)'', act_category = ''host'',
      act_requires = [],
      act_command = ''systemctl reboot || reboot'',
      act_params = [],
      act_danger = DangerDisruptive, act_sudo = SudoRequired, act_timeout = 10 * second, act_parse = ''exit'', act_stream = False, act_script = []\<rparr>]"

definition Catalog :: "Action list" where
  "Catalog = catalog_system @ catalog_services @ catalog_processes @ catalog_network @ catalog_disk @ catalog_programs @ catalog_containers @ catalog_web @ catalog_host"

definition Lookup :: "string \<Rightarrow> Action option" where
  "Lookup i = map_of (rev (map (\<lambda>a. (act_id a, a)) Catalog)) i"

text \<open>The inner loop of \<^verbatim>\<open>Available\<close>: stop at the first capability the host lacks.\<close>

fun has_required :: "string list \<Rightarrow> string list \<Rightarrow> bool" where
  "has_required caps [] \<longleftrightarrow> True"
| "has_required caps (r # rs) \<longleftrightarrow> (if r \<notin> set caps then False else has_required caps rs)"

definition Available :: "string list \<Rightarrow> Action list" where
  "Available caps = filter (\<lambda>a. has_required caps (act_requires a)) Catalog"

lemma has_required_iff [simp]: "has_required caps rs \<longleftrightarrow> set rs \<subseteq> set caps"
  by (induction rs) auto

lemmas catalog_defs = catalog_system_def catalog_services_def catalog_processes_def catalog_network_def
  catalog_disk_def catalog_programs_def catalog_containers_def catalog_web_def catalog_host_def

section \<open>Integrity\<close>

text \<open>What an entry must satisfy for the engine's guarantees; one boolean, evaluated entry by entry.\<close>

definition pattern_safe :: "regex \<Rightarrow> bool" where
  "pattern_safe ps \<longleftrightarrow> re_excludes ps CHR ''{'' \<and> re_excludes ps CHR 0x0A \<and> re_excludes ps CHR '' ''
     \<and> (case ps of [] \<Rightarrow> False | p # _ \<Rightarrow> 0 < rp_min p \<and> \<not> in_class (rp_class p) CHR ''-'')"

definition entry_ok :: "Action \<Rightarrow> bool" where
  "entry_ok a \<longleftrightarrow>
     act_danger a \<in> {DangerRead, DangerReversible, DangerDisruptive}
     \<and> act_sudo a \<in> {SudoNone, SudoPreferred, SudoRequired}
     \<and> (act_stream a \<longrightarrow> act_danger a = DangerRead \<and> act_script a = [])
     \<and> list_all (\<lambda>p. pm_name p \<noteq> [] \<and> pm_pattern p \<noteq> None \<and> contains (act_command a) (''{{'' @ pm_name p @ ''}}'')) (act_params a)
     \<and> distinct (map pm_name (act_params a))"

lemma patterns_safe:
  "pattern_safe reUnit" "pattern_safe rePID" "pattern_safe reInt" "pattern_safe rePath"
  "pattern_safe reName" "pattern_safe reHost" "pattern_safe reURL"
  by code_simp+

lemma catalog_ids: "map act_id Catalog =
  [''system.overview'',
   ''services.list'', ''services.status'', ''services.journal'', ''services.journal_follow'', ''services.start'',
   ''services.stop'', ''services.restart'', ''services.enable'', ''services.disable'',
   ''processes.top'', ''processes.terminate'', ''processes.kill'',
   ''network.ports'', ''network.established'', ''network.reach'',
   ''disk.largest'', ''disk.inodes'', ''disk.clean_apt'', ''disk.vacuum_journal'',
   ''programs.list'', ''programs.start'', ''programs.stop'', ''programs.restart'', ''programs.update'', ''programs.tail'',
   ''containers.list'', ''containers.start'', ''containers.stop'', ''containers.restart'', ''containers.logs'',
   ''containers.df'', ''containers.prune'',
   ''web.nginx_test'', ''web.nginx_reload'', ''web.tls_cert'', ''host.reboot'']"
  by (simp add: Catalog_def catalog_defs)

lemma catalog_ids_distinct: "distinct (map act_id Catalog)"
  unfolding catalog_ids by simp

lemma Lookup_iff: "Lookup i = Some a \<longleftrightarrow> a \<in> set Catalog \<and> act_id a = i"
proof -
  have "distinct (map fst (rev (map (\<lambda>a. (act_id a, a)) Catalog)))"
    using catalog_ids_distinct by (simp add: comp_def rev_map [symmetric])
  then show ?thesis by (auto simp: Lookup_def)
qed

lemma Lookup_nth: "n < length Catalog \<Longrightarrow> Lookup (act_id (Catalog ! n)) = Some (Catalog ! n)"
  by (simp add: Lookup_iff)

end
