(* ===== verification/Shell.thy ===== *)
theory Shell imports Go_Strings begin

text \<open>
  The quoting rules of the POSIX shell (XCU 2.2), as a specification of what \<^verbatim>\<open>sh -s\<close>
  does with the text the engine feeds it: a finite automaton that reads one byte at a time
  and says whether the shell takes it literally (\<open>Lit\<close>: quoted or escaped) or as syntax
  (\<open>Syn\<close>: anything unquoted, and \<^verbatim>\<open>$\<close> and the backquote inside double quotes).  Quote
  marks and escaping backslashes themselves produce nothing.  And the templates of command
  lines: fixed text and holes.
\<close>

section \<open>Quoting\<close>

datatype sh_mode = Unq | UEsc | Sq | Dq | DEsc

datatype sh_tok = Lit char | Syn char

definition backslash :: char where "backslash = CHR 0x5C"
definition squote :: char where "squote = CHR 0x27"
definition dquote :: char where "dquote = CHR 0x22"
definition backquote :: char where "backquote = CHR 0x60"
definition newline :: char where "newline = CHR 0x0A"

lemmas quote_chars = backslash_def squote_def dquote_def backquote_def newline_def

lemma quote_neq [simp]:
  "squote \<noteq> dquote" "squote \<noteq> backslash" "dquote \<noteq> backslash" "squote \<noteq> newline" "backslash \<noteq> newline"
  "dquote \<noteq> squote" "backslash \<noteq> squote" "backslash \<noteq> dquote" "newline \<noteq> squote" "newline \<noteq> backslash"
  "newline \<noteq> dquote" "dquote \<noteq> newline"
  by (simp_all add: quote_chars)

fun sh_step :: "sh_mode \<Rightarrow> char \<Rightarrow> sh_tok list \<times> sh_mode" where
  "sh_step Unq c =
     (if c = squote then ([], Sq) else if c = dquote then ([], Dq) else if c = backslash then ([], UEsc)
      else ([Syn c], Unq))"
| "sh_step UEsc c = (if c = newline then ([], Unq) else ([Lit c], Unq))"
| "sh_step Sq c = (if c = squote then ([], Unq) else ([Lit c], Sq))"
| "sh_step Dq c =
     (if c = dquote then ([], Unq) else if c = backslash then ([], DEsc)
      else if c = CHR ''$'' \<or> c = backquote then ([Syn c], Dq) else ([Lit c], Dq))"
| "sh_step DEsc c =
     (if c \<in> {CHR ''$'', backquote, dquote, backslash} then ([Lit c], Dq)
      else if c = newline then ([], Dq) else ([Lit backslash, Lit c], Dq))"

fun sh_toks :: "sh_mode \<Rightarrow> string \<Rightarrow> sh_tok list" where
  "sh_toks m [] = []"
| "sh_toks m (c # s) = fst (sh_step m c) @ sh_toks (snd (sh_step m c)) s"

fun sh_mode_after :: "sh_mode \<Rightarrow> string \<Rightarrow> sh_mode" where
  "sh_mode_after m [] = m"
| "sh_mode_after m (c # s) = sh_mode_after (snd (sh_step m c)) s"

lemma sh_toks_append [simp]: "sh_toks m (s @ t) = sh_toks m s @ sh_toks (sh_mode_after m s) t"
  by (induction s arbitrary: m) simp_all

lemma sh_mode_after_append [simp]: "sh_mode_after m (s @ t) = sh_mode_after (sh_mode_after m s) t"
  by (induction s arbitrary: m) simp_all

section \<open>Templates\<close>

datatype piece = Txt string | Hole string

definition placeholder :: "string \<Rightarrow> string" where
  "placeholder n = ''{{'' @ n @ ''}}''"

text \<open>A template with some of its holes filled.\<close>

fun fill :: "(string \<Rightarrow> string option) \<Rightarrow> piece list \<Rightarrow> string" where
  "fill \<rho> [] = []"
| "fill \<rho> (Txt t # ps) = t @ fill \<rho> ps"
| "fill \<rho> (Hole n # ps) = (case \<rho> n of None \<Rightarrow> placeholder n | Some v \<Rightarrow> v) @ fill \<rho> ps"

fun holes :: "piece list \<Rightarrow> string list" where
  "holes [] = []"
| "holes (Txt t # ps) = holes ps"
| "holes (Hole n # ps) = n # holes ps"

text \<open>Reading a template: \<open>{{name}}\<close> with a lower-case name is a hole, all else is text.\<close>

definition lower :: "char \<Rightarrow> bool" where
  "lower c \<longleftrightarrow> CHR ''a'' \<le> c \<and> c \<le> CHR ''z''"

fun add_char :: "char \<Rightarrow> piece list \<Rightarrow> piece list" where
  "add_char c (Txt t # ps) = Txt (c # t) # ps"
| "add_char c ps = Txt [c] # ps"

definition hole_at :: "string \<Rightarrow> (string \<times> string) option" where
  "hole_at s =
     (if has_prefix s ''{{'' then
        (let n = takeWhile lower (drop 2 s); r = drop (length n) (drop 2 s) in
         if n \<noteq> [] \<and> has_prefix r ''}}'' then Some (n, drop 2 r) else None)
      else None)"

lemma hole_at_Some: "hole_at s = Some (n, r) \<Longrightarrow> s = placeholder n @ r \<and> n \<noteq> [] \<and> list_all lower n"
proof -
  assume h: "hole_at s = Some (n, r)"
  then obtain t where s: "s = ''{{'' @ t"
    by (auto simp: hole_at_def Let_def has_prefix_iff split: if_splits)
  have "hole_at (''{{'' @ t) = (let n = takeWhile lower t; r = drop (length n) t in
      if n \<noteq> [] \<and> has_prefix r ''}}'' then Some (n, drop 2 r) else None)"
    by (simp add: hole_at_def)
  with h s have n: "takeWhile lower t = n" "n \<noteq> []" "has_prefix (drop (length n) t) ''}}''"
      and r: "r = drop 2 (drop (length n) t)"
    by (simp_all add: Let_def split: if_splits)
  from n(3) obtain u where u: "drop (length n) t = ''}}'' @ u" by (auto simp only: has_prefix_iff)
  with r have "u = r" by simp
  moreover have "t = n @ drop (length n) t"
    using n(1) by (metis dropWhile_eq_drop takeWhile_dropWhile_id)
  ultimately have "s = placeholder n @ r" using u s by (simp add: placeholder_def)
  moreover have "list_all lower n" using n(1) by (auto simp: list_all_iff dest: set_takeWhileD)
  ultimately show ?thesis using n(2) by simp
qed

lemma hole_at_shorter: "hole_at s = Some (n, r) \<Longrightarrow> length r < length s"
  by (auto dest!: hole_at_Some simp: placeholder_def)

function pieces :: "string \<Rightarrow> piece list" where
  "pieces s =
     (case s of [] \<Rightarrow> []
      | c # cs \<Rightarrow> (case hole_at s of Some (n, r) \<Rightarrow> Hole n # pieces r | None \<Rightarrow> add_char c (pieces cs)))"
  by pat_completeness auto
termination
  by (relation "measure length") (auto dest: hole_at_shorter)

declare pieces.simps [simp del]

lemma fill_add_char [simp]: "fill \<rho> (add_char c ps) = c # fill \<rho> ps"
  by (cases "(c, ps)" rule: add_char.cases) auto

lemma fill_pieces: "fill (\<lambda>_. None) (pieces s) = s"
proof (induction s rule: pieces.induct)
  case (1 s)
  then show ?case
    by (subst pieces.simps) (auto split: list.splits option.splits dest!: hole_at_Some)
qed

section \<open>Replacing one placeholder\<close>

text \<open>Text in which no two opening braces meet, nor could with what follows.\<close>

fun clean_txt :: "string \<Rightarrow> bool" where
  "clean_txt [] \<longleftrightarrow> True"
| "clean_txt [c] \<longleftrightarrow> c \<noteq> CHR ''{''"
| "clean_txt (c # d # s) \<longleftrightarrow> \<not> (c = CHR ''{'' \<and> d = CHR ''{'') \<and> clean_txt (d # s)"

fun clean_piece :: "piece \<Rightarrow> bool" where
  "clean_piece (Txt t) \<longleftrightarrow> clean_txt t"
| "clean_piece (Hole n) \<longleftrightarrow> n \<noteq> [] \<and> list_all lower n"

lemma replace_skip: "CHR ''{'' \<notin> set u \<Longrightarrow> replace_all (u @ s) (placeholder n) q = u @ replace_all s (placeholder n) q"
  by (induction u) (auto simp: replace_all_Cons placeholder_def)

lemma replace_clean: "clean_txt t \<Longrightarrow> replace_all (t @ s) (placeholder n) q = t @ replace_all s (placeholder n) q"
  by (induction t rule: clean_txt.induct) (auto simp: replace_all_Cons placeholder_def)

lemma lower_not_brace: "list_all lower n \<Longrightarrow> CHR ''{'' \<notin> set n \<and> CHR ''}'' \<notin> set n"
  by (auto simp: list_all_iff lower_def)

lemma replace_hole:
  "replace_all (placeholder n @ s) (placeholder n) q = q @ replace_all s (placeholder n) q"
  by (cases "placeholder n @ s") (auto simp: placeholder_def replace_all_Cons has_prefix_iff)

lemma name_before_brace:
  "m @ CHR ''}'' # s = n @ CHR ''}'' # t \<Longrightarrow> CHR ''}'' \<notin> set m \<Longrightarrow> CHR ''}'' \<notin> set n \<Longrightarrow> m = n"
  by (metis (no_types, lifting) cut_on_append option.inject prod.inject)

lemma replace_other_hole:
  assumes "m \<noteq> n" and "list_all lower m" and "list_all lower n" and "m \<noteq> []"
  shows "replace_all (placeholder m @ s) (placeholder n) q = placeholder m @ replace_all s (placeholder n) q"
proof -
  have nb: "CHR ''{'' \<notin> set m" "CHR ''}'' \<notin> set m" "CHR ''}'' \<notin> set n"
    using assms lower_not_brace by auto
  have first: "\<not> has_prefix (placeholder m @ s) (placeholder n)"
    using name_before_brace [OF _ nb(2,3)] assms(1) by (auto simp: has_prefix_iff placeholder_def)
  have second: "\<not> has_prefix (CHR ''{'' # m @ ''}}'' @ s) (placeholder n)"
    using nb(1) assms(4) by (cases m) (auto simp: placeholder_def)
  have "CHR ''{'' \<notin> set (m @ ''}}'')" using nb(1) by simp
  from replace_skip [OF this, of s n q] first second show ?thesis
    by (simp add: placeholder_def replace_all_Cons)
qed

text \<open>Replacing every occurrence of one placeholder fills its holes and touches nothing else.\<close>

lemma replace_fill:
  assumes "list_all clean_piece ps" and "\<rho> n = None" and "list_all lower n"
    and "\<And>m v. \<rho> m = Some v \<Longrightarrow> CHR ''{'' \<notin> set v"
  shows "replace_all (fill \<rho> ps) (placeholder n) q = fill (\<rho>(n \<mapsto> q)) ps"
  using assms(1)
proof (induction ps)
  case Nil
  then show ?case by simp
next
  case (Cons p ps)
  show ?case
  proof (cases p)
    case (Txt t)
    with Cons show ?thesis by (simp add: replace_clean)
  next
    case (Hole m)
    show ?thesis
    proof (cases "\<rho> m")
      case None
      with Hole Cons assms(3) show ?thesis
        by (cases "m = n") (simp_all add: replace_hole replace_other_hole)
    next
      case (Some v)
      with assms(2,4) have "m \<noteq> n" "CHR ''{'' \<notin> set v" by auto
      with Hole Some Cons show ?thesis by (simp add: replace_skip)
    qed
  qed
qed

lemma contains_hole:
  assumes "n \<in> set (holes ps)" and "\<rho> n = None"
  shows "contains (fill \<rho> ps) (placeholder n)"
  using assms
proof (induction ps rule: holes.induct)
  case (2 t ps)
  then show ?case by (auto simp: contains_iff) (metis append.assoc)
next
  case (3 m ps)
  show ?case
  proof (cases "m = n")
    case True
    with 3(3) have "fill \<rho> (Hole m # ps) = [] @ placeholder n @ fill \<rho> ps" by simp
    then show ?thesis unfolding contains_iff by blast
  next
    case False
    with 3 have "contains (fill \<rho> ps) (placeholder n)" by simp
    then show ?thesis by (auto simp: contains_iff) (metis append.assoc)
  qed
qed simp

text \<open>A template whose text pieces each leave the shell outside quotes.\<close>

fun unquoted_piece :: "piece \<Rightarrow> bool" where
  "unquoted_piece (Txt t) \<longleftrightarrow> sh_mode_after Unq t = Unq"
| "unquoted_piece (Hole n) \<longleftrightarrow> True"

end
