(* ===== verification/Engine.thy ===== *)
theory Engine imports Catalog Store Shell begin

text \<open>
  \<^verbatim>\<open>internal/actions/engine.go\<close>: from a request to the exact text a remote shell reads.  The
  resolver that turns a machine into a dialable target is an argument (the API layer
  provides it), and so is the type of targets.
\<close>

section \<open>Requests\<close>

record Request =
  rq_machine :: int
  rq_action :: string
  rq_params :: "string \<Rightarrow> string option"
  rq_confirm :: bool
  rq_confirm_name :: string
  rq_actor :: string

definition FromCustom :: "CustomAction \<Rightarrow> Action" where
  "FromCustom ca =
     \<lparr>act_id = cu_id ca, act_label = cu_label ca,
      act_category = (if cu_category ca = [] then ''custom'' else cu_category ca),
      act_requires = cu_requires ca, act_command = cu_command ca,
      act_params = map (\<lambda>p. \<lparr>pm_name = cp_name p, pm_label = cp_label p, pm_pattern = None, pm_source = []\<rparr>) (cu_params ca),
      act_danger = cu_danger ca, act_sudo = cu_sudo ca, act_timeout = 0, act_parse = ''raw'',
      act_stream = False, act_script = []\<rparr>"

text \<open>Built-ins win; a store error reads as an unknown action.\<close>

definition lookup :: "string \<Rightarrow> db \<Rightarrow> Action option" where
  "lookup i d =
     (case Lookup i of
        Some a \<Rightarrow> Some a
      | None \<Rightarrow> (case GetCustomAction i d of Inl e \<Rightarrow> None | Inr ca \<Rightarrow> Some (FromCustom ca)))"

section \<open>The gate\<close>

definition gate :: "Action \<Rightarrow> Machine \<Rightarrow> Request \<Rightarrow> go_err option" where
  "gate act m req =
     (if act_danger act = DangerRead then None
      else if act_danger act = DangerReversible then
        (if \<not> rq_confirm req then Some (Sentinel ErrNeedsConfirm) else None)
      else if act_danger act = DangerDisruptive then
        (if rq_confirm_name req \<noteq> m_name m then Some (Sentinel ErrNeedsName) else None)
      else Some (Sentinel ErrForbidden))"

section \<open>Rendering\<close>

definition shellQuote :: "string \<Rightarrow> string" where
  "shellQuote s = [squote] @ replace_all s [squote] [squote, backslash, squote, squote] @ [squote]"

text \<open>
  A byte below 32 is a rune of its own in any Go string, so scanning bytes finds the control
  characters the rune loop finds.
\<close>

definition control_char :: "char \<Rightarrow> bool" where
  "control_char c \<longleftrightarrow> (of_char c :: nat) < 32 \<and> c \<noteq> CHR 0x09 \<or> c = CHR 0x7F"

definition safeFreeParam :: "string \<Rightarrow> go_err option" where
  "safeFreeParam v =
     (if length v > 512 then Some (Text ''value too long (max 512)'')
      else if list_ex control_char v then Some (Text ''value contains a control character'')
      else None)"

text \<open>\<^verbatim>\<open>%q\<close>; runes above ASCII are taken as printable.\<close>

definition hex_digit :: "nat \<Rightarrow> char" where
  "hex_digit n = (if n < 10 then char_of (48 + n) else char_of (87 + n))"

definition quote_char :: "char \<Rightarrow> string" where
  "quote_char c =
     (if c = dquote \<or> c = backslash then [backslash, c]
      else if c = CHR 0x07 then [backslash, CHR ''a''] else if c = CHR 0x08 then [backslash, CHR ''b'']
      else if c = CHR 0x0C then [backslash, CHR ''f''] else if c = CHR 0x0A then [backslash, CHR ''n'']
      else if c = CHR 0x0D then [backslash, CHR ''r''] else if c = CHR 0x09 then [backslash, CHR ''t'']
      else if c = CHR 0x0B then [backslash, CHR ''v'']
      else if (of_char c :: nat) < 32 \<or> c = CHR 0x7F
      then [backslash, CHR ''x'', hex_digit (of_char c div 16), hex_digit (of_char c mod 16)]
      else [c])"

definition go_quote :: "string \<Rightarrow> string" where
  "go_quote s = [dquote] @ concat (map quote_char s) @ [dquote]"

definition bad_param :: "string \<Rightarrow> go_err" where
  "bad_param msg = Wrap [] (Sentinel ErrBadParam) msg"

text \<open>The loop of \<^verbatim>\<open>render\<close> over the declared parameters; \<open>cmd\<close> is the command so far.\<close>

fun render_params :: "string \<Rightarrow> (string \<Rightarrow> string option) \<Rightarrow> Param list \<Rightarrow> string \<Rightarrow> string result" where
  "render_params aid params [] cmd = Inr cmd"
| "render_params aid params (p # ps) cmd =
     (let ph = placeholder (pm_name p); v = (case params (pm_name p) of None \<Rightarrow> [] | Some v \<Rightarrow> v) in
      if \<not> contains cmd ph then Inl (bad_param ('': param '' @ pm_name p @ '' is not used by '' @ aid))
      else if v = [] then Inl (bad_param ('': '' @ pm_name p @ '' is required''))
      else (case pm_pattern p of
              Some re \<Rightarrow>
                if \<not> re_match re v then Inl (bad_param ('': '' @ pm_name p @ ''='' @ go_quote v))
                else render_params aid params ps (replace_all cmd ph (shellQuote v))
            | None \<Rightarrow>
                (case safeFreeParam v of
                   Some e \<Rightarrow> Inl (bad_param ('': '' @ pm_name p @ '': '' @ err_text e))
                 | None \<Rightarrow> render_params aid params ps (replace_all cmd ph (shellQuote v)))))"

definition render :: "Action \<Rightarrow> (string \<Rightarrow> string option) \<Rightarrow> string result" where
  "render act params =
     (if act_script act \<noteq> [] then Inr ''sh -s''
      else render_params (act_id act) params (act_params act) (act_command act))"

section \<open>Root\<close>

definition applySudo :: "string \<Rightarrow> string \<Rightarrow> string \<Rightarrow> string result" where
  "applySudo want sudoMode command =
     (if sudoMode = ''root'' \<or> want = SudoNone then Inr command
      else if want = SudoRequired then
        (if sudoMode \<noteq> ''nopasswd'' then Inl (Sentinel ErrSudoUnavailable) else Inr (''sudo -n '' @ command))
      else if want = SudoPreferred then
        (if sudoMode = ''nopasswd'' then Inr (''sudo -n '' @ command) else Inr command)
      else Inr command)"

section \<open>Preparing\<close>

record 't Prepared =
  pr_action :: Action
  pr_machine :: Machine
  pr_facts :: HostFacts
  pr_target :: 't
  pr_shell :: string
  pr_script :: string
  pr_command :: string

definition no_facts :: HostFacts where
  "no_facts = \<lparr>hf_machine = 0, hf_hostname = [], hf_os_name = [], hf_os_version = [], hf_kernel = [],
     hf_arch = [], hf_init = [], hf_sudo = [], hf_caps = [], hf_fetched = 0\<rparr>"

text \<open>The overview probe may run on a host that has no facts yet; nothing else may.\<close>

definition facts_for :: "Action \<Rightarrow> int \<Rightarrow> db \<Rightarrow> HostFacts result" where
  "facts_for act i d =
     (case GetFacts i d of
        Inr f \<Rightarrow> Inr f
      | Inl e \<Rightarrow>
          if errors_is e ErrNotFound \<and> act_id act = ''system.overview'' then Inr no_facts
          else if errors_is e ErrNotFound then Inl (Sentinel ErrNoFacts)
          else Inl e)"

text \<open>The first required capability the host does not advertise.\<close>

fun missing_cap :: "HostFacts \<Rightarrow> string list \<Rightarrow> string option" where
  "missing_cap f [] = None"
| "missing_cap f (r # rs) = (if \<not> Has f r then Some r else missing_cap f rs)"

text \<open>The display and audit form of the command: with its sudo prefix, never the \<^verbatim>\<open>sh -s\<close> transport.\<close>

definition audit_command :: "Action \<Rightarrow> HostFacts \<Rightarrow> string \<Rightarrow> string" where
  "audit_command act facts command =
     (if act_script act = []
      then (case applySudo (act_sudo act) (hf_sudo facts) command of Inr c \<Rightarrow> c | Inl _ \<Rightarrow> [])
      else command)"

definition Prepare :: "(Machine \<Rightarrow> db \<Rightarrow> 't result) \<Rightarrow> Request \<Rightarrow> db \<Rightarrow> 't Prepared result" where
  "Prepare resolve req d =
     (case lookup (rq_action req) d of
        None \<Rightarrow> Inl (Sentinel ErrUnknownAction)
      | Some act \<Rightarrow>
     (case GetMachine (rq_machine req) d of
        Inl e \<Rightarrow> Inl e
      | Inr m \<Rightarrow>
     if \<not> HasHost m then Inl (Sentinel ErrNoHost)
     else (case gate act m req of
        Some e \<Rightarrow> Inl e
      | None \<Rightarrow>
     (case render act (rq_params req) of
        Inl e \<Rightarrow> Inl e
      | Inr command \<Rightarrow>
     (case facts_for act (m_id m) d of
        Inl e \<Rightarrow> Inl e
      | Inr facts \<Rightarrow>
     (case missing_cap facts (act_requires act) of
        Some r \<Rightarrow> Inl (Wrap [] (Sentinel ErrNotAvailable) ('': needs '' @ r))
      | None \<Rightarrow>
     (case applySudo (act_sudo act) (hf_sudo facts) ''sh -s'' of
        Inl e \<Rightarrow> Inl e
      | Inr shell \<Rightarrow>
     (case resolve m d of
        Inl e \<Rightarrow> Inl e
      | Inr target \<Rightarrow>
          Inr \<lparr>pr_action = act, pr_machine = m, pr_facts = facts, pr_target = target,
               pr_shell = shell,
               pr_script = (if act_script act = [] then command @ [newline] else act_script act),
               pr_command = audit_command act facts command\<rparr>))))))))"

end
