(* ===== verification/Engine_Props.thy ===== *)
theory Engine_Props imports Engine begin

text \<open>
  What the engine guarantees: no parameter value escapes its quotes, a request runs only
  through the gate of its tier, on a host that can run it, with root only as declared.
\<close>

section \<open>Quoting\<close>

lemma replace_squote:
  "replace_all s [squote] r = concat (map (\<lambda>c. if c = squote then r else [c]) s)"
  by (induction s) (auto simp: replace_all_Cons)

lemma quote_body:
  "sh_toks Sq (concat (map (\<lambda>c. if c = squote then [squote, backslash, squote, squote] else [c]) v)) = map Lit v
   \<and> sh_mode_after Sq (concat (map (\<lambda>c. if c = squote then [squote, backslash, squote, squote] else [c]) v)) = Sq"
  by (induction v) (auto simp: quote_chars)

lemma shellQuote_toks [simp]:
  "sh_toks Unq (shellQuote v) = map Lit v" "sh_mode_after Unq (shellQuote v) = Unq"
  using quote_body [of v] by (simp_all add: shellQuote_def replace_squote)

lemma shellQuote_chars: "c \<in> set (shellQuote v) \<Longrightarrow> c \<in> set v \<or> c = squote \<or> c = backslash"
  by (auto simp: shellQuote_def replace_squote split: if_splits)

lemma shellQuote_no_brace: "CHR ''{'' \<notin> set v \<Longrightarrow> CHR ''{'' \<notin> set (shellQuote v)"
  using shellQuote_chars [of "CHR ''{''" v] by (auto simp: quote_chars)

section \<open>Templates of the catalog\<close>

definition template_ok :: "Action \<Rightarrow> bool" where
  "template_ok a \<longleftrightarrow>
     list_all clean_piece (pieces (act_command a)) \<and> list_all unquoted_piece (pieces (act_command a))
     \<and> set (holes (pieces (act_command a))) = set (map pm_name (act_params a))
     \<and> distinct (map pm_name (act_params a)) \<and> list_all (\<lambda>p. list_all lower (pm_name p)) (act_params a)"

definition catalog_entry_ok :: "Action \<Rightarrow> bool" where
  "catalog_entry_ok a \<longleftrightarrow>
     (if act_params a = []
      then holes (pieces (act_command a)) = [] \<and> list_all unquoted_piece (pieces (act_command a))
      else template_ok a)
     \<and> list_all (\<lambda>p. case pm_pattern p of None \<Rightarrow> False | Some re \<Rightarrow> pattern_safe re) (act_params a)"

lemma catalog_templates: "list_all catalog_entry_ok Catalog"
  unfolding Catalog_def list_all_append
  by (intro conjI; code_simp)

lemma catalog_entries: "list_all entry_ok Catalog"
  unfolding Catalog_def list_all_append
  by (intro conjI; code_simp)

section \<open>Rendering is filling the template\<close>

text \<open>A value a parameter accepts: the allowlist pattern, or the free-text check when there is none.\<close>

definition value_pat :: "Param \<Rightarrow> string \<Rightarrow> bool" where
  "value_pat p v \<longleftrightarrow> (case pm_pattern p of Some re \<Rightarrow> re_match re v | None \<Rightarrow> safeFreeParam v = None)"

definition value_ok :: "(string \<Rightarrow> string option) \<Rightarrow> Param \<Rightarrow> bool" where
  "value_ok \<rho> p \<longleftrightarrow> (\<exists>v. \<rho> (pm_name p) = Some v \<and> v \<noteq> [] \<and> value_pat p v)"

lemma render_params_Cons:
  "render_params aid \<rho> (p # ps) c = Inr cmd \<longleftrightarrow>
     contains c (placeholder (pm_name p)) \<and>
     (\<exists>v. \<rho> (pm_name p) = Some v \<and> v \<noteq> [] \<and> value_pat p v
        \<and> render_params aid \<rho> ps (replace_all c (placeholder (pm_name p)) (shellQuote v)) = Inr cmd)"
  by (auto simp: value_pat_def Let_def split: option.splits)

lemma render_params_fill:
  assumes "render_params aid \<rho> ps (fill \<sigma> tpl) = Inr cmd"
    and "list_all clean_piece tpl" and "list_all (\<lambda>p. list_all lower (pm_name p)) ps"
    and "distinct (map pm_name ps)" and "\<forall>p \<in> set ps. \<sigma> (pm_name p) = None"
    and "\<And>m v. \<sigma> m = Some v \<Longrightarrow> CHR ''{'' \<notin> set v"
    and "\<forall>p \<in> set ps. \<forall>v. \<rho> (pm_name p) = Some v \<longrightarrow> CHR ''{'' \<notin> set v"
  shows "cmd = fill (\<lambda>n. if n \<in> pm_name ` set ps then map_option shellQuote (\<rho> n) else \<sigma> n) tpl
    \<and> (\<forall>p \<in> set ps. value_ok \<rho> p)"
  using assms
proof (induction ps arbitrary: \<sigma>)
  case Nil
  then show ?case by simp
next
  case (Cons p ps)
  let ?n = "pm_name p"
  obtain v where v: "\<rho> ?n = Some v" "v \<noteq> []" and pat: "value_pat p v"
      and rest: "render_params aid \<rho> ps (replace_all (fill \<sigma> tpl) (placeholder ?n) (shellQuote v)) = Inr cmd"
    using Cons.prems(1) unfolding render_params_Cons by blast
  have ok: "value_ok \<rho> p" using v pat by (auto simp: value_ok_def)
  let ?\<sigma> = "\<sigma>(?n \<mapsto> shellQuote v)"
  have "replace_all (fill \<sigma> tpl) (placeholder ?n) (shellQuote v) = fill ?\<sigma> tpl"
    using Cons.prems by (intro replace_fill) auto
  with rest have r: "render_params aid \<rho> ps (fill ?\<sigma> tpl) = Inr cmd" by simp
  have nb: "CHR ''{'' \<notin> set (shellQuote v)"
    using Cons.prems(7) v by (intro shellQuote_no_brace) simp
  have ne: "\<forall>q \<in> set ps. pm_name q \<noteq> ?n" using Cons.prems(4) by (force simp: image_iff)
  have IH: "cmd = fill (\<lambda>n. if n \<in> pm_name ` set ps then map_option shellQuote (\<rho> n) else ?\<sigma> n) tpl
    \<and> (\<forall>p \<in> set ps. value_ok \<rho> p)"
    by (rule Cons.IH [OF r]) (use Cons.prems(2-) nb ne in \<open>auto split: if_splits\<close>)
  have "(\<lambda>n. if n \<in> pm_name ` set ps then map_option shellQuote (\<rho> n) else ?\<sigma> n)
      = (\<lambda>n. if n \<in> pm_name ` set (p # ps) then map_option shellQuote (\<rho> n) else \<sigma> n)"
    using v by (auto simp: fun_eq_iff)
  with IH ok show ?case by simp
qed

text \<open>What the shell reads of a filled template: the text pieces as themselves, a value literally.\<close>

fun piece_toks :: "(string \<Rightarrow> string option) \<Rightarrow> piece \<Rightarrow> sh_tok list" where
  "piece_toks \<rho> (Txt t) = sh_toks Unq t"
| "piece_toks \<rho> (Hole n) = (case \<rho> n of None \<Rightarrow> [] | Some v \<Rightarrow> map Lit v)"

lemma fill_toks:
  assumes "list_all unquoted_piece ps" and "\<forall>n \<in> set (holes ps). \<exists>v. \<rho> n = Some v"
    and "\<forall>n \<in> set (holes ps). \<sigma> n = map_option shellQuote (\<rho> n)"
  shows "sh_toks Unq (fill \<sigma> ps) = concat (map (piece_toks \<rho>) ps) \<and> sh_mode_after Unq (fill \<sigma> ps) = Unq"
  using assms
proof (induction ps rule: holes.induct)
  case (3 n ps)
  then obtain v where "\<rho> n = Some v" "\<sigma> n = Some (shellQuote v)" by auto
  with 3 show ?case by simp
qed auto

lemma render_template:
  assumes "template_ok a" and "act_script a = []" and "render a \<rho> = Inr cmd"
    and "\<forall>p \<in> set (act_params a). \<forall>v. \<rho> (pm_name p) = Some v \<longrightarrow> CHR ''{'' \<notin> set v"
  shows "sh_toks Unq cmd = concat (map (piece_toks \<rho>) (pieces (act_command a))) \<and> sh_mode_after Unq cmd = Unq
    \<and> (\<forall>p \<in> set (act_params a). value_ok \<rho> p)"
proof -
  let ?ps = "act_params a" and ?tpl = "pieces (act_command a)"
  let ?\<sigma> = "\<lambda>n. if n \<in> pm_name ` set ?ps then map_option shellQuote (\<rho> n) else None"
  have "render_params (act_id a) \<rho> ?ps (fill (\<lambda>_. None) ?tpl) = Inr cmd"
    using assms(2,3) by (simp add: render_def fill_pieces)
  from render_params_fill [OF this] assms(1,4)
  have cmd: "cmd = fill ?\<sigma> ?tpl" and vals: "\<forall>p \<in> set ?ps. value_ok \<rho> p"
    by (auto simp: template_ok_def)
  have h: "set (holes ?tpl) = pm_name ` set ?ps" "list_all unquoted_piece ?tpl"
    using assms(1) by (auto simp: template_ok_def)
  have "sh_toks Unq cmd = concat (map (piece_toks \<rho>) ?tpl) \<and> sh_mode_after Unq cmd = Unq"
    unfolding cmd by (rule fill_toks) (use h vals in \<open>auto simp: value_ok_def\<close>)
  with vals show ?thesis by blast
qed

lemma pattern_safe_value:
  assumes "pattern_safe re" and "re_match re v"
  shows "v \<noteq> [] \<and> hd v \<noteq> CHR ''-'' \<and> CHR ''{'' \<notin> set v \<and> CHR '' '' \<notin> set v \<and> newline \<notin> set v"
proof -
  obtain p ps where "re = p # ps" "0 < rp_min p" "\<not> in_class (rp_class p) CHR ''-''"
    using assms(1) by (auto simp: pattern_safe_def split: list.splits)
  then have "v \<noteq> [] \<and> hd v \<noteq> CHR ''-''" using re_match_hd [of p ps v] assms(2) by auto
  then show ?thesis
    using assms re_excludes_match [of re _ v] by (auto simp: pattern_safe_def newline_def)
qed

lemma catalog_pattern:
  assumes "a \<in> set Catalog" and "p \<in> set (act_params a)"
  obtains re where "pm_pattern p = Some re" "pattern_safe re"
proof -
  have "catalog_entry_ok a" using catalog_templates assms(1) by (simp add: list_all_iff)
  then have "case pm_pattern p of None \<Rightarrow> False | Some re \<Rightarrow> pattern_safe re"
    using assms(2) by (auto simp: catalog_entry_ok_def list_all_iff)
  then show thesis using that by (auto split: option.splits)
qed

section \<open>Built-in actions\<close>

text \<open>The values of a successful rendering, seen from \<^const>\<open>render_params\<close> alone.\<close>

lemma render_params_values:
  "render_params aid \<rho> ps c = Inr cmd \<Longrightarrow> \<forall>p \<in> set ps. value_ok \<rho> p"
proof (induction ps arbitrary: c)
  case (Cons p ps)
  then show ?case unfolding render_params_Cons by (auto simp: value_ok_def)
qed simp

text \<open>
  C1: For every built-in action, the shell reads the rendered command as the template's own
  text with each parameter's value as literal characters: no byte of a value is ever
  syntax, and the command ends outside quotes.  Each value matches its allowlist pattern,
  is not empty, does not start like an option, and holds no space and no newline.
\<close>

theorem builtin_values_are_data:
  assumes "a \<in> set Catalog" and "act_script a = []" and "render a \<rho> = Inr cmd"
  shows "sh_toks Unq cmd = concat (map (piece_toks \<rho>) (pieces (act_command a))) \<and> sh_mode_after Unq cmd = Unq
    \<and> (\<forall>p \<in> set (act_params a). \<exists>v re. \<rho> (pm_name p) = Some v \<and> pm_pattern p = Some re \<and> re_match re v
         \<and> v \<noteq> [] \<and> hd v \<noteq> CHR ''-'' \<and> CHR '' '' \<notin> set v \<and> newline \<notin> set v)"
proof -
  have e: "catalog_entry_ok a" using catalog_templates assms(1) by (simp add: list_all_iff)
  have r: "render_params (act_id a) \<rho> (act_params a) (act_command a) = Inr cmd"
    using assms(2,3) by (simp add: render_def)
  have vals: "\<exists>v re. \<rho> (pm_name p) = Some v \<and> pm_pattern p = Some re \<and> re_match re v
         \<and> v \<noteq> [] \<and> hd v \<noteq> CHR ''-'' \<and> CHR '' '' \<notin> set v \<and> newline \<notin> set v \<and> CHR ''{'' \<notin> set v"
    if p: "p \<in> set (act_params a)" for p
  proof -
    obtain re where "pm_pattern p = Some re" "pattern_safe re" by (rule catalog_pattern [OF assms(1) p])
    moreover have "value_ok \<rho> p" using render_params_values [OF r] p by blast
    ultimately show ?thesis using pattern_safe_value [of re] by (auto simp: value_ok_def value_pat_def)
  qed
  have "sh_toks Unq cmd = concat (map (piece_toks \<rho>) (pieces (act_command a))) \<and> sh_mode_after Unq cmd = Unq"
  proof (cases "act_params a = []")
    case True
    with r have cmd: "cmd = fill (\<lambda>_. None) (pieces (act_command a))" by (simp add: fill_pieces)
    from True e have "list_all unquoted_piece (pieces (act_command a))" "holes (pieces (act_command a)) = []"
      by (simp_all add: catalog_entry_ok_def)
    then show ?thesis unfolding cmd by (intro fill_toks) simp_all
  next
    case False
    with e have "template_ok a" by (simp add: catalog_entry_ok_def)
    moreover have "\<forall>p \<in> set (act_params a). \<forall>v. \<rho> (pm_name p) = Some v \<longrightarrow> CHR ''{'' \<notin> set v"
      using vals by fastforce
    ultimately show ?thesis using render_template [OF _ assms(2,3)] by blast
  qed
  with vals show ?thesis by blast
qed


lemmas render_evals = render_def param_def Let_def placeholder_def replace_all_Cons shellQuote_def quote_chars

theorem builtin_values_are_data_witness:
  "\<exists>a cmd. Lookup ''services.status'' = Some a \<and> render a [''unit'' \<mapsto> ''nginx''] = Inr cmd
     \<and> sh_toks Unq cmd = map Syn ''systemctl status '' @ map Lit ''nginx'' @ map Syn '' --no-pager -l''"
proof -
  define a where "a = Catalog ! 2"
  have eq: "a = catalog_services ! 1" by (simp add: a_def Catalog_def catalog_system_def catalog_services_def)
  have a: "a \<in> set Catalog" "Lookup ''services.status'' = Some a"
    using Lookup_nth [of 2] arg_cong [OF catalog_ids, of length] arg_cong [OF catalog_ids, of "\<lambda>xs. xs ! 2"]
    by (simp_all add: a_def)
  have s: "act_script a = []" by (simp add: eq catalog_services_def)
  have "re_match reUnit ''nginx''" by code_simp
  then have r: "render a [''unit'' \<mapsto> ''nginx''] = Inr ''systemctl status 'nginx' --no-pager -l''"
    unfolding eq by (simp add: render_evals catalog_services_def)
  have p: "pieces (act_command a) = [Txt ''systemctl status '', Hole ''unit'', Txt '' --no-pager -l'']"
    unfolding eq by code_simp
  have "sh_toks Unq ''systemctl status 'nginx' --no-pager -l''
      = map Syn ''systemctl status '' @ map Lit ''nginx'' @ map Syn '' --no-pager -l''"
    unfolding conjunct1 [OF builtin_values_are_data [OF a(1) s r]] p by (simp add: quote_chars)
  with a(2) r show ?thesis by blast
qed

text \<open>
  A built-in action renders exactly when every declared parameter is given a value its
  allowlist pattern matches: nothing else about the request can make it fail, and no
  parameter can be left out or left unmatched.
\<close>

theorem builtin_render_iff:
  assumes "a \<in> set Catalog" and "act_script a = []"
  shows "(\<exists>cmd. render a \<rho> = Inr cmd) \<longleftrightarrow>
    (\<forall>p \<in> set (act_params a). \<exists>v re. \<rho> (pm_name p) = Some v \<and> pm_pattern p = Some re \<and> re_match re v)"
    (is "?L \<longleftrightarrow> ?R")
proof
  assume ?L
  then obtain cmd where "render_params (act_id a) \<rho> (act_params a) (act_command a) = Inr cmd"
    using assms(2) by (auto simp: render_def)
  note ok = render_params_values [OF this]
  show ?R
  proof
    fix p assume p: "p \<in> set (act_params a)"
    obtain re where "pm_pattern p = Some re" by (rule catalog_pattern [OF assms(1) p])
    with ok p show "\<exists>v re. \<rho> (pm_name p) = Some v \<and> pm_pattern p = Some re \<and> re_match re v"
      by (auto simp: value_ok_def value_pat_def)
  qed
next
  assume vals: ?R
  show ?L
  proof (cases "act_params a = []")
    case True
    then show ?thesis using assms(2) by (simp add: render_def)
  next
    case False
    have "catalog_entry_ok a" using catalog_templates assms(1) by (simp add: list_all_iff)
    with False have t: "template_ok a" by (simp add: catalog_entry_ok_def)
    let ?tpl = "pieces (act_command a)"
    have "\<exists>cmd. render_params (act_id a) \<rho> ps (fill \<sigma> ?tpl) = Inr cmd"
      if "set ps \<subseteq> set (act_params a)" "distinct (map pm_name ps)"
        "\<forall>p \<in> set ps. \<sigma> (pm_name p) = None" "\<forall>m v. \<sigma> m = Some v \<longrightarrow> CHR ''{'' \<notin> set v" for ps \<sigma>
      using that
    proof (induction ps arbitrary: \<sigma>)
      case (Cons p ps)
      let ?n = "pm_name p"
      have p: "p \<in> set (act_params a)" using Cons.prems(1) by simp
      obtain v re where v: "\<rho> ?n = Some v" "pm_pattern p = Some re" "re_match re v" using vals p by blast
      obtain re' where "pm_pattern p = Some re'" "pattern_safe re'" by (rule catalog_pattern [OF assms(1) p])
      with v have safe: "v \<noteq> []" "CHR ''{'' \<notin> set v" using pattern_safe_value [of re v] by auto
      have hole: "?n \<in> set (holes ?tpl)" using t p by (auto simp: template_ok_def)
      have low: "list_all lower ?n" using t p by (auto simp: template_ok_def list_all_iff)
      have c: "contains (fill \<sigma> ?tpl) (placeholder ?n)" using hole Cons.prems(3) by (intro contains_hole) auto
      have rep: "replace_all (fill \<sigma> ?tpl) (placeholder ?n) (shellQuote v) = fill (\<sigma>(?n \<mapsto> shellQuote v)) ?tpl"
        using t low Cons.prems(3,4) by (intro replace_fill) (auto simp: template_ok_def)
      have ne: "\<forall>q \<in> set ps. pm_name q \<noteq> ?n" using Cons.prems(2) by (force simp: image_iff)
      have "\<forall>m w. (\<sigma>(?n \<mapsto> shellQuote v)) m = Some w \<longrightarrow> CHR ''{'' \<notin> set w"
        using Cons.prems(4) shellQuote_no_brace [OF safe(2)] by (auto split: if_splits)
      moreover have "\<forall>q \<in> set ps. (\<sigma>(?n \<mapsto> shellQuote v)) (pm_name q) = None" using Cons.prems(3) ne by simp
      ultimately obtain cmd where "render_params (act_id a) \<rho> ps (fill (\<sigma>(?n \<mapsto> shellQuote v)) ?tpl) = Inr cmd"
        using Cons.IH [of "\<sigma>(?n \<mapsto> shellQuote v)"] Cons.prems(1,2) by fastforce
      with c v safe rep show ?case unfolding render_params_Cons by (auto simp: value_pat_def)
    qed simp
    from this [of "act_params a" "\<lambda>_. None"] t assms(2) show ?thesis
      by (simp add: render_def fill_pieces template_ok_def)
  qed
qed

theorem builtin_render_iff_witness:
  "\<not> (\<exists>cmd. render (Catalog ! 2) [''unit'' \<mapsto> ''--now''] = Inr cmd)"
proof -
  have eq: "Catalog ! 2 = catalog_services ! 1" by (simp add: Catalog_def catalog_system_def catalog_services_def)
  have mem: "Catalog ! 2 \<in> set Catalog" using arg_cong [OF catalog_ids, of length] by simp
  have "act_script (Catalog ! 2) = []" "act_params (Catalog ! 2) = [param ''unit'' ''Unit'' reUnit ''services.list'']"
    by (simp_all add: eq catalog_services_def)
  moreover have "\<not> re_match reUnit ''--now''" by code_simp
  ultimately show ?thesis using builtin_render_iff [OF mem] by (auto simp: param_def)
qed

section \<open>Custom actions\<close>


definition demo_custom :: "string \<Rightarrow> string list \<Rightarrow> CustomAction" where
  "demo_custom cmd names =
     \<lparr>cu_id = ''custom.demo'', cu_label = ''Demo'', cu_category = [], cu_command = cmd,
      cu_params = map (\<lambda>n. \<lparr>cp_name = n, cp_label = n\<rparr>) names, cu_requires = [], cu_sudo = [], cu_danger = 0, cu_created = 0\<rparr>"


text \<open>
  The brace condition is needed.  The parameters are replaced one after the other, so a
  value that spells another parameter's placeholder is itself replaced, by quoted text
  inside its quotes: for the custom action \<open>echo {{a}} {{b}}\<close> with \<open>a = {{b}}\<close> and
  \<open>b = x; id\<close> the rendered command has the semicolon of the value as shell syntax.
\<close>

theorem custom_value_escapes_quotes:
  "\<exists>cmd. render (FromCustom (demo_custom ''echo {{a}} {{b}}'' [''a'', ''b''])) [''a'' \<mapsto> ''{{b}}'', ''b'' \<mapsto> ''x; id''] = Inr cmd
     \<and> sh_toks Unq cmd = map Syn ''echo x; id '' @ map Lit ''x; id''"
  by (simp add: render_evals FromCustom_def demo_custom_def safeFreeParam_def control_char_def)

section \<open>Preparing\<close>

lemma missing_cap_None [simp]: "missing_cap f rs = None \<longleftrightarrow> set rs \<subseteq> set (hf_caps f)"
  by (induction rs) auto

lemma gate_None:
  "gate act m req = None \<longleftrightarrow> act_danger act = DangerRead
     \<or> act_danger act = DangerReversible \<and> rq_confirm req
     \<or> act_danger act = DangerDisruptive \<and> rq_confirm_name req = m_name m"
  by (auto simp: gate_def danger_defs)

lemma applySudo_Inr:
  "applySudo want mode c = Inr r \<longleftrightarrow>
     (r = c \<and> (mode = ''root'' \<or> want \<noteq> SudoRequired \<and> (want = SudoPreferred \<longrightarrow> mode \<noteq> ''nopasswd'')))
   \<or> (r = ''sudo -n '' @ c \<and> mode = ''nopasswd'' \<and> (want = SudoRequired \<or> want = SudoPreferred))"
  by (auto simp: applySudo_def sudo_defs)

lemma Prepare_Inr:
  "Prepare resolve req d = Inr p \<Longrightarrow>
     (\<exists>act m command facts shell target.
        lookup (rq_action req) d = Some act \<and> GetMachine (rq_machine req) d = Inr m \<and> HasHost m
        \<and> gate act m req = None \<and> render act (rq_params req) = Inr command
        \<and> facts_for act (m_id m) d = Inr facts \<and> set (act_requires act) \<subseteq> set (hf_caps facts)
        \<and> applySudo (act_sudo act) (hf_sudo facts) ''sh -s'' = Inr shell \<and> resolve m d = Inr target
        \<and> p = \<lparr>pr_action = act, pr_machine = m, pr_facts = facts, pr_target = target, pr_shell = shell,
              pr_script = (if act_script act = [] then command @ [newline] else act_script act),
              pr_command = audit_command act facts command\<rparr>)"
  unfolding Prepare_def
  by (auto split: option.splits sum.splits if_splits)

lemma Prepare_machine: "Prepare resolve req d = Inr p \<Longrightarrow> m_id (pr_machine p) = rq_machine req"
  by (auto dest!: Prepare_Inr simp: GetMachine_id)


definition host_row :: machine_row where
  "host_row =
     \<lparr>mr_name = ''web'', mr_tags = [], mr_cloud_account = None, mr_provider = [], mr_instance_id = [],
      mr_region = [], mr_instance_type = [], mr_power_state = PowerUnknown, mr_public_ip = [], mr_private_ip = [],
      mr_cloud_synced_at = None, mr_missing = 0, mr_ssh_host = ''192.0.2.1'', mr_ssh_port = 22, mr_ssh_user = ''root'',
      mr_credential = Some 1, mr_reach_state = ReachUnknown, mr_reach_error = [], mr_reach_checked_at = None,
      mr_created = 1, mr_updated = 1\<rparr>"

definition host_db :: db where
  "host_db = empty_db\<lparr>machines := tbl_insert host_row tbl_empty\<rparr>"

definition overview_request :: Request where
  "overview_request = \<lparr>rq_machine = 1, rq_action = ''system.overview'', rq_params = Map.empty, rq_confirm = False,
     rq_confirm_name = [], rq_actor = ''admin''\<rparr>"

lemma lookup_overview: "lookup ''system.overview'' d = Some (Catalog ! 0)"
proof -
  have "Catalog ! 0 \<in> set Catalog" "act_id (Catalog ! 0) = ''system.overview''"
    by (simp_all add: Catalog_def catalog_system_def)
  then have "Lookup ''system.overview'' = Some (Catalog ! 0)" by (simp only: Lookup_iff)
  then show ?thesis by (simp add: lookup_def)
qed

lemma overview_entry: "Catalog ! 0 = hd catalog_system"
  by (simp add: Catalog_def catalog_system_def)

lemma host_machine:
  "GetMachine 1 host_db = Inr (scanMachine 1 host_row)" "HasHost (scanMachine 1 host_row)"
  by (simp_all add: GetMachine_def host_db_def empty_db_def tbl_get_def tbl_insert_def tbl_next_def tbl_empty_def
      sql_query_def HasHost_def scanMachine_def host_row_def)

lemma overview_prepared:
  "\<exists>p. Prepare (\<lambda>m d. Inr t) overview_request host_db = Inr p \<and> pr_target p = t \<and> pr_action p = Catalog ! 0
     \<and> pr_machine p = scanMachine 1 host_row"
proof -
  have f: "facts_for (Catalog ! 0) 1 host_db = Inr no_facts"
    by (simp add: overview_entry catalog_system_def facts_for_def GetFacts_def host_db_def empty_db_def sql_query_def)
  have s: "act_script (Catalog ! 0) \<noteq> []" "act_danger (Catalog ! 0) = DangerRead" "act_sudo (Catalog ! 0) = SudoNone"
    "act_requires (Catalog ! 0) = []"
    by (simp_all add: overview_entry catalog_system_def overviewScript_def)
  have i: "m_id (scanMachine 1 host_row) = 1" by (simp add: scanMachine_def)
  show ?thesis
    by (simp add: Prepare_def overview_request_def lookup_overview host_machine gate_def render_def f s i applySudo_def no_facts_def)
qed


text \<open>
  A tier above 2 cannot be run: such an action (a saved one; the catalog has none) is
  refused for every request, whatever it confirms, on every machine.
\<close>

theorem forbidden_never_prepared:
  assumes "lookup (rq_action req) d = Some a" and "act_danger a < 0 \<or> 2 < act_danger a"
  shows "\<exists>e. Prepare resolve req d = Inl e \<and>
    (\<forall>m. GetMachine (rq_machine req) d = Inr m \<and> HasHost m \<longrightarrow> e = Sentinel ErrForbidden)"
proof -
  have "gate a m req = Some (Sentinel ErrForbidden)" for m
    using assms(2) by (auto simp: gate_def danger_defs)
  then show ?thesis
    by (simp add: Prepare_def assms(1) split: sum.splits)
qed

theorem forbidden_never_prepared_witness:
  "\<exists>e. Prepare (\<lambda>m d. Inr ()) \<lparr>rq_machine = 1, rq_action = ''custom.demo'', rq_params = Map.empty, rq_confirm = True,
      rq_confirm_name = ''web'', rq_actor = ''admin''\<rparr>
      (empty_db\<lparr>custom_actions := [(demo_custom ''reboot'' [])\<lparr>cu_danger := 3\<rparr>]\<rparr>) = Inl e"
proof -
  let ?d = "empty_db\<lparr>custom_actions := [(demo_custom ''reboot'' [])\<lparr>cu_danger := 3\<rparr>]\<rparr>"
  have "Lookup ''custom.demo'' = None"
  proof (cases "Lookup ''custom.demo''")
    case (Some a)
    then have "a \<in> set Catalog" "act_id a = ''custom.demo''" by (simp_all add: Lookup_iff)
    then have "''custom.demo'' \<in> set (map act_id Catalog)" by (metis image_eqI list.set_map)
    then show ?thesis unfolding catalog_ids by simp
  qed
  then have l: "lookup ''custom.demo'' ?d = Some (FromCustom ((demo_custom ''reboot'' [])\<lparr>cu_danger := 3\<rparr>))"
    by (simp add: lookup_def GetCustomAction_def sql_query_def empty_db_def demo_custom_def)
  show ?thesis
    using forbidden_never_prepared [of "\<lparr>rq_machine = 1, rq_action = ''custom.demo'', rq_params = Map.empty, rq_confirm = True,
      rq_confirm_name = ''web'', rq_actor = ''admin''\<rparr>" ?d, OF _ , of _ "\<lambda>m d. Inr ()"] l
    by (auto simp: FromCustom_def)
qed

text \<open>
  C25: The catalog itself keeps the engine's rules: no built-in action is tier 3, a follow
  action is always read-only, every parameter has a pattern and appears in its command, the
  ids are distinct, so that looking an entry up by its id finds exactly that entry, and a
  host is offered exactly the actions whose capabilities it has.
\<close>

theorem catalog_sound:
  "(\<forall>a \<in> set Catalog. entry_ok a \<and> Lookup (act_id a) = Some a)
   \<and> distinct (map act_id Catalog)
   \<and> (\<forall>caps a. a \<in> set (Available caps) \<longleftrightarrow> a \<in> set Catalog \<and> set (act_requires a) \<subseteq> set caps)"
  using catalog_entries catalog_ids_distinct by (auto simp: list_all_iff Lookup_iff Available_def)

theorem catalog_sound_witness: "Lookup (act_id (Catalog ! 0)) = Some (Catalog ! 0)"
proof -
  have "Catalog ! 0 \<in> set Catalog" by (simp add: Catalog_def catalog_system_def)
  then show ?thesis using catalog_sound by blast
qed

end
