(* ===== verification/Parsers.thy ===== *)
theory Parsers imports Catalog begin

text \<open>
  \<^verbatim>\<open>internal/actions/parsers.go\<close>: the parsers that turn a command's standard output into
  what the UI renders.  Numbers are 64-bit words, so sizes in bytes wrap as they do in Go.
  Two library functions are arguments, because the parsers only store or select what they
  return: \<open>pf\<close> is \<^verbatim>\<open>strconv.ParseFloat\<close> (the value and whether it was accepted) and \<open>uj\<close> is
  \<^verbatim>\<open>json.Unmarshal\<close> into the seven string fields of a \<^verbatim>\<open>docker ps\<close> line.
\<close>

section \<open>Rows and results\<close>

record Disk =
  dk_source :: string
  dk_mount :: string
  dk_total :: int64
  dk_used :: int64
  dk_avail :: int64
  dk_pct :: int64

record 'f Overview =
  ov_now :: int64
  ov_uptime :: int64
  ov_load :: "'f list"
  ov_cpus :: int64
  ov_mem_total :: int64
  ov_mem_used :: int64
  ov_swap_total :: int64
  ov_swap_used :: int64
  ov_disks :: "Disk list"
  ov_users :: int64
  ov_reboot :: bool

record Unit =
  un_name :: string
  un_load :: string
  un_active :: string
  un_sub :: string
  un_desc :: string

record 'f Process =
  ps_pid :: int64
  ps_user :: string
  ps_cpu :: 'f
  ps_mem :: 'f
  ps_rss :: int64
  ps_elapsed :: int64
  ps_command :: string

record Listener =
  ls_proto :: string
  ls_local :: string
  ls_peer :: string
  ls_port :: int64
  ls_process :: string
  ls_pid :: int64

record DirSize =
  ds_path :: string
  ds_size :: int64

record Program =
  pg_name :: string
  pg_state :: string
  pg_info :: string

record DockerLine =
  dl_id :: string
  dl_names :: string
  dl_image :: string
  dl_state :: string
  dl_status :: string
  dl_ports :: string
  dl_running_for :: string

record Container =
  ct_id :: string
  ct_name :: string
  ct_image :: string
  ct_state :: string
  ct_status :: string
  ct_ports :: string
  ct_run_for :: string

record Inode =
  io_source :: string
  io_mount :: string
  io_total :: int64
  io_used :: int64
  io_free :: int64
  io_pct :: int64

record TLS =
  tl_subject :: string
  tl_issuer :: string
  tl_not_before :: string
  tl_not_after :: string
  tl_ok :: bool

datatype 'f parsed =
    PRaw string
  | PLines "string list"
  | PExit bool string
  | POverview "'f Overview"
  | PUnits "Unit list"
  | PProcs "'f Process list"
  | PListeners "Listener list"
  | PDirs "DirSize list"
  | PPrograms "Program list"
  | PContainers "Container list"
  | PInodes "Inode list"
  | PTLS TLS

section \<open>Numbers and lines\<close>

text \<open>\<^verbatim>\<open>atoi64\<close> drops the error: 0 for what is no number, the nearest bound when out of range.\<close>

definition atoi64 :: "string \<Rightarrow> int64" where
  "atoi64 s = word_of_int (fst (parse_int64 (trim_space s)))"

definition lines_of :: "string \<Rightarrow> string list" where
  "lines_of out = split_on CHR 0x0A out"

definition parseRaw :: "string \<Rightarrow> int \<Rightarrow> 'f parsed" where
  "parseRaw out code = PRaw out"

definition parseLines :: "string \<Rightarrow> int \<Rightarrow> 'f parsed" where
  "parseLines out code =
     (let ls = lines_of (trim_right_set [CHR 0x0A] out) in
      PLines (if length ls = 1 \<and> ls ! 0 = [] then [] else ls))"

definition parseExit :: "string \<Rightarrow> int \<Rightarrow> 'f parsed" where
  "parseExit out code = PExit (code = 0) (trim_space out)"

section \<open>Overview\<close>

definition pseudoFS :: "string set" where
  "pseudoFS = {''tmpfs'', ''devtmpfs'', ''overlay'', ''squashfs'', ''udev'', ''efivarfs'', ''cgroup'', ''cgroup2'',
     ''proc'', ''sysfs'', ''devpts'', ''shm'', ''none''}"

text \<open>The percentage of \<^verbatim>\<open>used\<close> in \<^verbatim>\<open>total\<close>: 0 unless \<^verbatim>\<open>total\<close> is positive.\<close>

definition used_pct :: "int64 \<Rightarrow> int64 \<Rightarrow> int64" where
  "used_pct used tot = (if go_gt0 tot then go_div (used * 100) tot else 0)"

definition parse_disk :: "string \<Rightarrow> Disk option" where
  "parse_disk v =
     (let p = split_on CHR ''|'' v in
      if length p \<noteq> 5 then None
      else if p ! 0 \<in> pseudoFS \<or> has_prefix (p ! 0) ''/dev/loop'' then None
      else let tot = atoi64 (p ! 1) * 1024; used = atoi64 (p ! 2) * 1024 in
        Some \<lparr>dk_source = p ! 0, dk_mount = p ! 4, dk_total = tot, dk_used = used,
              dk_avail = atoi64 (p ! 3) * 1024, dk_pct = used_pct used tot\<rparr>)"

text \<open>The locals of \<^verbatim>\<open>parseOverview\<close>: the struct being filled and five memory figures.\<close>

record 'f ov_state =
  os_ov :: "'f Overview"
  os_avail :: int64
  os_free :: int64
  os_buffers :: int64
  os_cached :: int64
  os_swap_free :: int64

definition overview_start :: "'f ov_state" where
  "overview_start =
     \<lparr>os_ov = \<lparr>ov_now = 0, ov_uptime = 0, ov_load = [], ov_cpus = 0, ov_mem_total = 0, ov_mem_used = 0,
        ov_swap_total = 0, ov_swap_used = 0, ov_disks = [], ov_users = 0, ov_reboot = False\<rparr>,
      os_avail = 0, os_free = 0, os_buffers = 0, os_cached = 0, os_swap_free = 0\<rparr>"

definition overview_field :: "(string \<Rightarrow> 'f \<times> bool) \<Rightarrow> string \<Rightarrow> string \<Rightarrow> 'f ov_state \<Rightarrow> 'f ov_state" where
  "overview_field pf k v st =
     (let o' = os_ov st in
      if k = ''now'' then st\<lparr>os_ov := o'\<lparr>ov_now := atoi64 v\<rparr>\<rparr>
      else if k = ''uptime_s'' then st\<lparr>os_ov := o'\<lparr>ov_uptime := atoi64 v\<rparr>\<rparr>
      else if k = ''cpus'' then st\<lparr>os_ov := o'\<lparr>ov_cpus := atoi64 v\<rparr>\<rparr>
      else if k = ''load'' then
        st\<lparr>os_ov := o'\<lparr>ov_load := ov_load o' @ map (\<lambda>f. fst (pf f)) (filter (\<lambda>f. snd (pf f)) (go_fields v))\<rparr>\<rparr>
      else if k = ''mem_total_kb'' then st\<lparr>os_ov := o'\<lparr>ov_mem_total := atoi64 v * 1024\<rparr>\<rparr>
      else if k = ''mem_avail_kb'' then st\<lparr>os_avail := atoi64 v * 1024\<rparr>
      else if k = ''mem_free_kb'' then st\<lparr>os_free := atoi64 v * 1024\<rparr>
      else if k = ''mem_buffers_kb'' then st\<lparr>os_buffers := atoi64 v * 1024\<rparr>
      else if k = ''mem_cached_kb'' then st\<lparr>os_cached := atoi64 v * 1024\<rparr>
      else if k = ''swap_total_kb'' then st\<lparr>os_ov := o'\<lparr>ov_swap_total := atoi64 v * 1024\<rparr>\<rparr>
      else if k = ''swap_free_kb'' then st\<lparr>os_swap_free := atoi64 v * 1024\<rparr>
      else if k = ''users'' then st\<lparr>os_ov := o'\<lparr>ov_users := atoi64 v\<rparr>\<rparr>
      else if k = ''reboot_required'' then st\<lparr>os_ov := o'\<lparr>ov_reboot := (v = ''1'')\<rparr>\<rparr>
      else if k = ''disk'' then
        (case parse_disk v of None \<Rightarrow> st | Some dk \<Rightarrow> st\<lparr>os_ov := o'\<lparr>ov_disks := ov_disks o' @ [dk]\<rparr>\<rparr>)
      else st)"

definition overview_line :: "(string \<Rightarrow> 'f \<times> bool) \<Rightarrow> 'f ov_state \<Rightarrow> string \<Rightarrow> 'f ov_state" where
  "overview_line pf st line =
     (case cut_on CHR ''='' (trim_space line) of None \<Rightarrow> st | Some (k, v) \<Rightarrow> overview_field pf k v st)"

definition overview_done :: "'f ov_state \<Rightarrow> 'f Overview" where
  "overview_done st =
     (let o' = os_ov st;
          avail = (if os_avail st = 0 then os_free st + os_buffers st + os_cached st else os_avail st);
          o1 = (if go_gt0 (ov_mem_total o') then o'\<lparr>ov_mem_used := ov_mem_total o' - avail\<rparr> else o')
      in if go_gt0 (ov_swap_total o1) then o1\<lparr>ov_swap_used := ov_swap_total o1 - os_swap_free st\<rparr> else o1)"

definition parseOverview :: "(string \<Rightarrow> 'f \<times> bool) \<Rightarrow> string \<Rightarrow> int \<Rightarrow> 'f parsed" where
  "parseOverview pf out code = POverview (overview_done (foldl (overview_line pf) overview_start (lines_of out)))"

section \<open>Services and processes\<close>

definition unit_row :: "string \<Rightarrow> Unit option" where
  "unit_row line =
     (let f = go_fields line in
      if length f < 4 then None
      else Some \<lparr>un_name = f ! 0, un_load = f ! 1, un_active = f ! 2, un_sub = f ! 3,
                 un_desc = (if length f > 4 then join '' '' (drop 4 f) else [])\<rparr>)"

definition parseSystemdUnits :: "string \<Rightarrow> int \<Rightarrow> 'f parsed" where
  "parseSystemdUnits out code = PUnits (List.map_filter unit_row (lines_of out))"

definition process_row :: "(string \<Rightarrow> 'f \<times> bool) \<Rightarrow> string \<Rightarrow> 'f Process option" where
  "process_row pf line =
     (let f = go_fields line in
      if length f < 7 then None
      else Some \<lparr>ps_pid = atoi64 (f ! 0), ps_user = f ! 1, ps_cpu = fst (pf (f ! 2)), ps_mem = fst (pf (f ! 3)),
                 ps_rss = atoi64 (f ! 4) * 1024, ps_elapsed = atoi64 (f ! 5), ps_command = join '' '' (drop 6 f)\<rparr>)"

text \<open>The loop of \<^verbatim>\<open>parsePS\<close>, which stops once sixty rows are there.\<close>

fun ps_loop :: "(string \<Rightarrow> 'f \<times> bool) \<Rightarrow> 'f Process list \<Rightarrow> string list \<Rightarrow> 'f Process list" where
  "ps_loop pf procs [] = procs"
| "ps_loop pf procs (line # rest) =
     (case process_row pf line of
        None \<Rightarrow> ps_loop pf procs rest
      | Some p \<Rightarrow> (let procs' = procs @ [p] in if length procs' \<ge> 60 then procs' else ps_loop pf procs' rest))"

definition parsePS :: "(string \<Rightarrow> 'f \<times> bool) \<Rightarrow> string \<Rightarrow> int \<Rightarrow> 'f parsed" where
  "parsePS pf out code = PProcs (ps_loop pf [] (lines_of out))"

section \<open>Sockets\<close>

definition looksAddr :: "string \<Rightarrow> bool" where
  "looksAddr s =
     (case cut_last CHR '':'' s of None \<Rightarrow> False
      | Some (h, tail) \<Rightarrow> tail = ''*'' \<or> snd (parse_int64 tail))"

text \<open>\<^verbatim>\<open>reSSProc\<close> at the head of the text: an opening bracket, a quoted name, a pid.\<close>

definition ss_proc_at :: "string \<Rightarrow> (string \<times> string) option" where
  "ss_proc_at s =
     (if has_prefix s [CHR ''('', CHR 0x22] then
        (let name = takeWhile (\<lambda>c. c \<noteq> CHR 0x22) (drop 2 s);
             r = dropWhile (\<lambda>c. c \<noteq> CHR 0x22) (drop 2 s)
         in if name \<noteq> [] \<and> has_prefix r (CHR 0x22 # '',pid='') then
              (let ds = takeWhile is_digit (drop 6 r) in if ds \<noteq> [] then Some (name, ds) else None)
            else None)
      else None)"

fun ss_proc :: "string \<Rightarrow> (string \<times> string) option" where
  "ss_proc [] = None"
| "ss_proc (c # s) = (case ss_proc_at (c # s) of Some m \<Rightarrow> Some m | None \<Rightarrow> ss_proc s)"

definition listener_row :: "string \<Rightarrow> Listener option" where
  "listener_row line =
     (let f = go_fields line; addrs = filter looksAddr f in
      if length f < 4 then None
      else if addrs = [] then None
      else let proc = ss_proc line in
        Some \<lparr>ls_proto = (if f ! 0 = ''tcp'' \<or> f ! 0 = ''udp'' then f ! 0 else ''tcp''),
              ls_local = addrs ! 0,
              ls_peer = (if length addrs > 1 then addrs ! 1 else []),
              ls_port = (case cut_last CHR '':'' (addrs ! 0) of None \<Rightarrow> 0 | Some (h, tail) \<Rightarrow> atoi64 tail),
              ls_process = (case proc of None \<Rightarrow> [] | Some (n, p) \<Rightarrow> n),
              ls_pid = (case proc of None \<Rightarrow> 0 | Some (n, p) \<Rightarrow> atoi64 p)\<rparr>)"

definition parseSS :: "string \<Rightarrow> int \<Rightarrow> 'f parsed" where
  "parseSS out code = PListeners (List.map_filter listener_row (lines_of out))"

section \<open>Disk usage, supervisor, docker, inodes, certificates\<close>

definition dir_row :: "string \<Rightarrow> DirSize option" where
  "dir_row line =
     (case cut_on CHR 0x09 line of None \<Rightarrow> None
      | Some (sz, path) \<Rightarrow> Some \<lparr>ds_path = path, ds_size = atoi64 sz * 1024\<rparr>)"

definition parseDU :: "string \<Rightarrow> int \<Rightarrow> 'f parsed" where
  "parseDU out code = PDirs (List.map_filter dir_row (lines_of out))"

definition program_row :: "string \<Rightarrow> Program option" where
  "program_row line =
     (let f = go_fields line in
      if length f < 2 then None
      else Some \<lparr>pg_name = f ! 0, pg_state = f ! 1, pg_info = join '' '' (drop 2 f)\<rparr>)"

definition parseSupervisor :: "string \<Rightarrow> int \<Rightarrow> 'f parsed" where
  "parseSupervisor out code = PPrograms (List.map_filter program_row (lines_of out))"

definition container_row :: "(string \<Rightarrow> DockerLine option) \<Rightarrow> string \<Rightarrow> Container option" where
  "container_row uj line =
     (let l = trim_space line in
      if l = [] then None
      else (case uj l of None \<Rightarrow> None
            | Some j \<Rightarrow> Some \<lparr>ct_id = (if length (dl_id j) > 12 then take 12 (dl_id j) else dl_id j),
                ct_name = dl_names j, ct_image = dl_image j, ct_state = dl_state j, ct_status = dl_status j,
                ct_ports = dl_ports j, ct_run_for = dl_running_for j\<rparr>))"

definition parseDockerPS :: "(string \<Rightarrow> DockerLine option) \<Rightarrow> string \<Rightarrow> int \<Rightarrow> 'f parsed" where
  "parseDockerPS uj out code = PContainers (List.map_filter (container_row uj) (lines_of out))"

definition inode_row :: "string \<Rightarrow> Inode option" where
  "inode_row line =
     (let f = go_fields line in
      if length f < 6 then None
      else if f ! 0 \<in> pseudoFS \<or> has_prefix (f ! 0) ''/dev/loop'' then None
      else let tot = atoi64 (f ! 1); used = atoi64 (f ! 2) in
        Some \<lparr>io_source = f ! 0, io_mount = join '' '' (drop 5 f), io_total = tot, io_used = used,
              io_free = atoi64 (f ! 3), io_pct = used_pct used tot\<rparr>)"

definition parseInodes :: "string \<Rightarrow> int \<Rightarrow> 'f parsed" where
  "parseInodes out code = PInodes (List.map_filter inode_row (drop 1 (lines_of out)))"

definition tls_line :: "TLS \<Rightarrow> string \<Rightarrow> TLS" where
  "tls_line m line =
     (case cut_on CHR ''='' (trim_space line) of None \<Rightarrow> m
      | Some (k, v0) \<Rightarrow>
          (let v = trim_space v0 in
           if k = ''subject'' then m\<lparr>tl_subject := v\<rparr>
           else if k = ''issuer'' then m\<lparr>tl_issuer := v\<rparr>
           else if k = ''notBefore'' then m\<lparr>tl_not_before := v\<rparr>
           else if k = ''notAfter'' then m\<lparr>tl_not_after := v\<rparr>
           else m))"

definition parseTLS :: "string \<Rightarrow> int \<Rightarrow> 'f parsed" where
  "parseTLS out code =
     (let m = foldl tls_line \<lparr>tl_subject = [], tl_issuer = [], tl_not_before = [], tl_not_after = [], tl_ok = False\<rparr>
                (lines_of out)
      in PTLS (m\<lparr>tl_ok := (tl_not_after m \<noteq> [])\<rparr>))"

section \<open>The table of parsers\<close>

definition parsers ::
    "(string \<Rightarrow> 'f \<times> bool) \<Rightarrow> (string \<Rightarrow> DockerLine option) \<Rightarrow> string \<Rightarrow> (string \<Rightarrow> int \<Rightarrow> 'f parsed) option" where
  "parsers pf uj name = map_of
     [(''raw'', parseRaw), (''lines'', parseLines), (''exit'', parseExit), (''overview'', parseOverview pf),
      (''systemd_units'', parseSystemdUnits), (''ps'', parsePS pf), (''ss'', parseSS), (''du'', parseDU),
      (''supervisor'', parseSupervisor), (''docker_ps'', parseDockerPS uj), (''inodes'', parseInodes),
      (''tls'', parseTLS)] name"

text \<open>How \<^verbatim>\<open>Run\<close> picks one: by name, falling back to raw text.\<close>

definition parse_output ::
    "(string \<Rightarrow> 'f \<times> bool) \<Rightarrow> (string \<Rightarrow> DockerLine option) \<Rightarrow> string \<Rightarrow> string \<Rightarrow> int \<Rightarrow> 'f parsed" where
  "parse_output pf uj name out code =
     (case parsers pf uj name of
        Some p \<Rightarrow> if name \<noteq> [] then p out code else parseRaw out code
      | None \<Rightarrow> parseRaw out code)"

section \<open>Properties\<close>

subsection \<open>Helpers\<close>

lemma join_last: "ls \<noteq> [] \<Longrightarrow> \<exists>u. join sep ls = u @ last ls"
proof (induction sep ls rule: join.induct)
  case (3 sep w v ws)
  then obtain u where "join sep (v # ws) = u @ last (v # ws)" by auto
  then have "join sep (w # v # ws) = (w @ sep @ u) @ last (w # v # ws)" by simp
  then show ?case by blast
qed simp_all

lemma ps_loop_take:
  "length procs < 60 \<Longrightarrow> ps_loop pf procs ls = procs @ take (60 - length procs) (List.map_filter (process_row pf) ls)"
proof (induction ls arbitrary: procs)
  case (Cons line ls)
  then show ?case
  proof (cases "process_row pf line")
    case (Some p)
    show ?thesis
    proof (cases "length procs = 59")
      case False
      with Cons.prems have "length (procs @ [p]) < 60" by simp
      from Cons.IH [OF this] Some Cons.prems False show ?thesis
        by (simp add: map_filter_simps Let_def take_Cons' Suc_diff_Suc)
    qed (simp add: Some map_filter_simps Let_def)
  qed (simp add: map_filter_simps)
qed (simp add: map_filter_simps)

lemma used_pct_value:
  assumes "0 < sint tot" and "0 \<le> sint used" and "sint used * 100 \<le> max_int64"
  shows "sint (used_pct used tot) = sint used * 100 div sint tot"
proof -
  have m: "sint (used * 100) = sint used * 100"
    using assms(2,3) by (simp add: sint_word_ariths signed_take_bit_int_eq_self max_int64_def)
  have "sint used * 100 sdiv sint tot = sint used * 100 div sint tot"
    using assms(1,2) by (cases "sint used = 0") (simp_all add: signed_divide_int_def sgn_mult)
  moreover have "0 \<le> sint used * 100 div sint tot" "sint used * 100 div sint tot \<le> max_int64"
    using assms by (simp_all add: pos_imp_zdiv_nonneg_iff) (smt (verit) div_by_1 zdiv_mono2)
  ultimately show ?thesis
    using assms(1) m by (simp add: used_pct_def go_gt0_def go_div_def sint_of_int64 min_int64_def)
qed

lemma overview_field_disks:
  "ov_disks (os_ov (overview_field pf k v st)) =
     ov_disks (os_ov st) @ (if k = ''disk'' then (case parse_disk v of None \<Rightarrow> [] | Some dk \<Rightarrow> [dk]) else [])"
  by (auto simp: overview_field_def Let_def split: option.splits)

definition disk_line :: "string \<Rightarrow> Disk option" where
  "disk_line line = (case cut_on CHR ''='' (trim_space line) of None \<Rightarrow> None
     | Some (k, v) \<Rightarrow> if k = ''disk'' then parse_disk v else None)"

lemma overview_fold_disks:
  "ov_disks (os_ov (foldl (overview_line pf) st ls)) = ov_disks (os_ov st) @ List.map_filter disk_line ls"
  by (induction ls arbitrary: st)
    (auto simp: overview_line_def overview_field_disks disk_line_def map_filter_simps split: option.splits)

lemma overview_done_disks: "ov_disks (overview_done st) = ov_disks (os_ov st)"
  by (simp add: overview_done_def Let_def)

subsection \<open>Statements\<close>

text \<open>
  The process table is the first sixty readable lines of \<^verbatim>\<open>ps\<close>, in order: the loop with
  its early exit equals taking sixty of all the rows.
\<close>

theorem parsePS_first_sixty:
  "parsePS pf out code = PProcs (take 60 (List.map_filter (process_row pf) (lines_of out)))"
  using ps_loop_take [of "[]" pf "lines_of out"] by (simp add: parsePS_def)

text \<open>
  C28: The disks of the overview are exactly the readable \<open>disk=\<close> lines in order, whatever
  other lines stand between them, and none of them is a pseudo file system or a loop device.
\<close>

theorem overview_disks_exact:
  "\<exists>o'. parseOverview pf out code = POverview o' \<and> ov_disks o' = List.map_filter disk_line (lines_of out)
     \<and> (\<forall>dk \<in> set (ov_disks o'). dk_source dk \<notin> pseudoFS \<and> \<not> has_prefix (dk_source dk) ''/dev/loop'')"
proof -
  let ?o = "overview_done (foldl (overview_line pf) overview_start (lines_of out))"
  have d: "ov_disks ?o = List.map_filter disk_line (lines_of out)"
    by (simp add: overview_done_disks overview_fold_disks overview_start_def)
  have ok: "parse_disk v = Some dk \<Longrightarrow> dk_source dk \<notin> pseudoFS \<and> \<not> has_prefix (dk_source dk) ''/dev/loop''" for v dk
    by (auto simp: parse_disk_def Let_def split: if_splits)
  have "disk_line l = Some dk \<Longrightarrow> dk_source dk \<notin> pseudoFS \<and> \<not> has_prefix (dk_source dk) ''/dev/loop''" for l dk
    using ok by (auto simp: disk_line_def split: option.splits if_splits prod.splits)
  then show ?thesis using d by (auto simp: parseOverview_def List.map_filter_def)
qed

theorem overview_disks_exact_witness:
  "\<exists>o'. parseOverview (\<lambda>s. ((), False)) ''disk=tmpfs|1|1|0|/run'' 0 = POverview o' \<and> ov_disks o' = []"
proof -
  let ?line = "''disk=tmpfs|1|1|0|/run''"
  have t: "trim_space ?line = ?line" by (rule trim_space_plain_ends) (simp_all add: plain_char_def)
  have "disk_line ?line = None" by (simp add: disk_line_def t parse_disk_def pseudoFS_def)
  moreover have "lines_of ?line = [?line]" by (simp add: lines_of_def)
  ultimately have "List.map_filter disk_line (lines_of ?line) = []" by (simp add: map_filter_simps)
  with overview_disks_exact [of "\<lambda>s. ((), False)" ?line 0] show ?thesis by metis
qed

text \<open>
  A disk whose sizes are sane (used between 0 and the total, and small enough that a
  hundredfold does not overflow 64 bits) is shown with the floor of its percentage, between
  0 and 100; a disk without a positive total is shown with 0.
\<close>

theorem disk_percentage:
  assumes "parse_disk v = Some dk"
  shows "(sint (dk_total dk) \<le> 0 \<longrightarrow> dk_pct dk = 0)
    \<and> (0 < sint (dk_total dk) \<and> 0 \<le> sint (dk_used dk) \<and> sint (dk_used dk) \<le> sint (dk_total dk)
        \<and> sint (dk_used dk) * 100 \<le> max_int64 \<longrightarrow>
       sint (dk_pct dk) = sint (dk_used dk) * 100 div sint (dk_total dk)
       \<and> 0 \<le> sint (dk_pct dk) \<and> sint (dk_pct dk) \<le> 100)"
proof -
  have p: "dk_pct dk = used_pct (dk_used dk) (dk_total dk)"
    using assms by (auto simp: parse_disk_def Let_def split: if_splits)
  have "u * 100 div t \<le> 100" if "0 < t" "u \<le> t" for u t :: int
    using that zdiv_mono1 [of "u * 100" "t * 100" t] by simp
  then show ?thesis
    unfolding p using used_pct_value [of "dk_total dk" "dk_used dk"]
    by (auto simp: used_pct_def go_gt0_def pos_imp_zdiv_nonneg_iff)
qed

theorem disk_percentage_witness:
  "\<exists>dk. parse_disk ''/dev/sda1|100|60|40|/'' = Some dk \<and> sint (dk_pct dk) = 60"
proof -
  have a: "trim_space s = s" if "s \<in> {''100'', ''60'', ''40''}" for s
    using that by (intro trim_space_plain_ends) (auto simp: plain_char_def)
  have n: "atoi64 ''100'' = 100" "atoi64 ''60'' = 60" "atoi64 ''40'' = 40"
    by (simp_all add: atoi64_def a parse_int64_def is_digit_def digits_val_def digit_val_def max_int64_def)
  obtain dk where dk: "parse_disk ''/dev/sda1|100|60|40|/'' = Some dk" "dk_total dk = 102400" "dk_used dk = 61440"
    by (simp add: parse_disk_def pseudoFS_def n)
  with disk_percentage [OF dk(1)] show ?thesis by (simp add: max_int64_def)
qed

text \<open>
  Lines survive: what a command printed line by line is read back as those lines,
  whatever newlines end the output, as long as the last line is not empty.
\<close>

theorem parseLines_roundtrip:
  assumes "ls \<noteq> []" and "last ls \<noteq> []" and "\<forall>l \<in> set ls. CHR 0x0A \<notin> set l"
  shows "parseLines (join [CHR 0x0A] ls @ replicate n CHR 0x0A) code = PLines ls"
proof -
  let ?s = "join [CHR 0x0A] ls"
  obtain u where u: "?s = u @ last ls" using join_last [OF assms(1)] by blast
  obtain w c where w: "last ls = w @ [c]" using assms(2) by (cases "last ls" rule: rev_cases) auto
  have c: "c \<noteq> CHR 0x0A" using assms(1,3) w last_in_set [of ls] by fastforce
  have "dropWhile (\<lambda>x. x = CHR 0x0A) (replicate n CHR 0x0A @ c # r) = c # r" for r
    using c by (induction n) auto
  then have "trim_right_set [CHR 0x0A] (?s @ replicate n CHR 0x0A) = ?s"
    by (simp add: trim_right_set_def u w)
  moreover have "lines_of ?s = ls" unfolding lines_of_def by (rule split_join) (use assms in auto)
  moreover have "\<not> (length ls = 1 \<and> ls ! 0 = [])" using assms(1,2) by (cases ls) auto
  ultimately show ?thesis by (auto simp: parseLines_def Let_def)
qed

theorem parseLines_roundtrip_witness:
  "parseLines (''a b'' @ [CHR 0x0A, CHR 0x0A] @ ''c'' @ [CHR 0x0A]) 0 = PLines [''a b'', [], ''c'']"
  using parseLines_roundtrip [of "[''a b'', [], ''c'']" 1 0] by simp



end
