(* ===== verification/Broker.thy ===== *)
theory Broker imports Store begin

text \<open>
  \<^verbatim>\<open>internal/sshx/broker.go\<close>: targets, the classification of connection errors, one command
  from dial to exit code, the bounded output buffer, and the setup of terminals and streams.
  What the network and the remote side do is an argument: the outcome of each call the
  code makes (dial, open a session, start, wait), in the order it makes them.  The pool
  itself, where goroutines interleave, is the theory \<^verbatim>\<open>Pool\<close>.
\<close>

section \<open>Targets\<close>

record Auth =
  au_private_key :: string
  au_passphrase :: string
  au_password :: string

text \<open>The host-key policy of a target is the one of its machine, so the id carries it.\<close>

record Target =
  tg_id :: int
  tg_addr :: string
  tg_user :: string
  tg_auth :: Auth

section \<open>Authentication methods\<close>

text \<open>
  Parsing a private key is \<^verbatim>\<open>golang.org/x/crypto/ssh\<close>: \<open>parse key pass\<close> is a signer, or an
  error that says whether it is the missing-passphrase one.
\<close>

datatype 's auth_method = PublicKeys 's | PasswordAuth string | KeyboardInteractive string

text \<open>The answers of the keyboard-interactive method: the password to every question.\<close>

definition keyboard_answers :: "string \<Rightarrow> string list \<Rightarrow> string list" where
  "keyboard_answers password questions = map (\<lambda>_. password) questions"

definition authMethods ::
    "(string \<Rightarrow> string option \<Rightarrow> (bool \<times> go_err) + 's) \<Rightarrow> Auth \<Rightarrow> 's auth_method list result" where
  "authMethods parse a =
     (if au_private_key a \<noteq> [] then
        (case parse (au_private_key a) (if au_passphrase a \<noteq> [] then Some (au_passphrase a) else None) of
           Inl (missing, e) \<Rightarrow>
             if missing then Inl (Text ''ssh: private key is encrypted and no passphrase was given'')
             else Inl (Wrap ''ssh: parse private key: '' e [])
         | Inr signer \<Rightarrow> Inr [PublicKeys signer])
      else if au_password a \<noteq> [] then Inr [PasswordAuth (au_password a), KeyboardInteractive (au_password a)]
      else Inl (Text ''ssh: no credential provided''))"

section \<open>Error classification\<close>

text \<open>A dial error: is it a \<^verbatim>\<open>net.Error\<close> that timed out, is it a deadline, and its text.\<close>

record dial_error =
  de_timeout :: bool
  de_deadline :: bool
  de_text :: string

definition classifyDial :: "dial_error \<Rightarrow> go_err" where
  "classifyDial e =
     (if de_timeout e then Sentinel ErrTimeout
      else if de_deadline e then Sentinel ErrTimeout
      else if contains (de_text e) ''connection refused'' then Sentinel ErrRefused
      else if contains (de_text e) ''no route to host'' \<or> contains (de_text e) ''network is unreachable''
      then Sentinel ErrNoRoute
      else Wrap ''ssh: dial: '' (Text (de_text e)) [])"

definition classifyHandshake :: "go_err \<Rightarrow> go_err" where
  "classifyHandshake e =
     (case errors_as_mismatch e of
        Some (a, f) \<Rightarrow> HostKeyMismatchError a f
      | None \<Rightarrow>
          (let s = err_text e in
           if contains s ''unable to authenticate'' \<or> contains s ''no supported methods remain'' then Sentinel ErrAuth
           else if contains s ''i/o timeout'' then Sentinel ErrTimeout
           else if contains s ''host key'' then Sentinel ErrHostKeyMismatch
           else Wrap ''ssh: handshake: '' e []))"

section \<open>Dialing\<close>

text \<open>A public key as the program looks at it: its type and its SHA-256 fingerprint.\<close>

record ssh_key =
  key_type :: string
  key_fingerprint :: string

type_synonym key_check = "ssh_key \<Rightarrow> db \<Rightarrow> go_err option \<times> db"

definition hostKeyCallback :: "key_check option \<Rightarrow> key_check" where
  "hostKeyCallback policy =
     (case policy of
        None \<Rightarrow> (\<lambda>key d. (Some (Text ''ssh: no host key policy configured''), d))
      | Some check \<Rightarrow> check)"

text \<open>
  \<open>tcp\<close> is the dialer, \<open>hs\<close> is \<^verbatim>\<open>ssh.NewClientConn\<close>: it runs the handshake with the
  methods and the callback it is given and yields a connection or an error, and the
  database the callback left.
\<close>

definition dial ::
    "(string \<Rightarrow> string option \<Rightarrow> (bool \<times> go_err) + 's) \<Rightarrow> (string \<Rightarrow> dial_error + 'raw) \<Rightarrow>
     ('raw \<Rightarrow> string \<Rightarrow> 's auth_method list \<Rightarrow> key_check \<Rightarrow> db \<Rightarrow> 'c result \<times> db) \<Rightarrow>
     (int \<Rightarrow> key_check option) \<Rightarrow> Target \<Rightarrow> db \<Rightarrow> 'c result \<times> db" where
  "dial parse tcp hs policy t d =
     (case authMethods parse (tg_auth t) of
        Inl e \<Rightarrow> (Inl e, d)
      | Inr methods \<Rightarrow>
          (case tcp (tg_addr t) of
             Inl e \<Rightarrow> (Inl (classifyDial e), d)
           | Inr raw \<Rightarrow>
               (case hs raw (tg_user t) methods (hostKeyCallback (policy (tg_id t))) d of
                  (Inl e, d') \<Rightarrow> (Inl (classifyHandshake e), d')
                | (Inr c, d') \<Rightarrow> (Inr c, d'))))"

section \<open>The bounded output buffer\<close>

record limitedBuffer =
  lb_buf :: string
  lb_max :: int
  lb_truncated :: bool

definition lb_new :: "int \<Rightarrow> limitedBuffer" where
  "lb_new n = \<lparr>lb_buf = [], lb_max = n, lb_truncated = False\<rparr>"

text \<open>\<^verbatim>\<open>Write\<close>: it always claims to have written everything.\<close>

definition lb_write :: "string \<Rightarrow> limitedBuffer \<Rightarrow> nat \<times> limitedBuffer" where
  "lb_write p l =
     (let room = lb_max l - int (length (lb_buf l)) in
      if room \<le> 0 then (length p, l\<lparr>lb_truncated := True\<rparr>)
      else if int (length p) > room then
        (length p, l\<lparr>lb_buf := lb_buf l @ take (nat room) p, lb_truncated := True\<rparr>)
      else (length p, l\<lparr>lb_buf := lb_buf l @ p\<rparr>))"

definition lb_mark :: string where
  "lb_mark = [CHR 0x0A, CHR 0xE2, CHR 0x80, CHR 0xA6] @ '' output truncated''"

definition lb_string :: "limitedBuffer \<Rightarrow> string" where
  "lb_string l = (if lb_truncated l then lb_buf l @ lb_mark else lb_buf l)"

definition lb_writes :: "string list \<Rightarrow> limitedBuffer \<Rightarrow> limitedBuffer" where
  "lb_writes ps l = foldl (\<lambda>l p. snd (lb_write p l)) l ps"

section \<open>One command\<close>

record ExecResult =
  ex_stdout :: string
  ex_stderr :: string
  ex_code :: int
  ex_duration :: int

definition no_result :: ExecResult where
  "no_result = \<lparr>ex_stdout = [], ex_stderr = [], ex_code = 0, ex_duration = 0\<rparr>"

record ExecOpts =
  eo_stdin :: "string option"
  eo_timeout :: int
  eo_max_output :: int

definition defaultExecTimeout :: int where "defaultExecTimeout = 60 * 1000000000"
definition defaultMaxOutput :: int where "defaultMaxOutput = 1048576"

definition exec_defaults :: "ExecOpts \<Rightarrow> ExecOpts" where
  "exec_defaults o' =
     (let o1 = (if eo_timeout o' = 0 then o'\<lparr>eo_timeout := defaultExecTimeout\<rparr> else o') in
      if eo_max_output o1 = 0 then o1\<lparr>eo_max_output := defaultMaxOutput\<rparr> else o1)"

text \<open>\<^verbatim>\<open>Duration.String\<close> of a whole number of seconds below an hour; every timeout here is one.\<close>

definition duration_string :: "int \<Rightarrow> string" where
  "duration_string ns =
     (let s = ns div 1000000000 in
      if s < 60 then itoa s @ ''s'' else itoa (s div 60) @ ''m'' @ itoa (s mod 60) @ ''s'')"

text \<open>
  \<^verbatim>\<open>withDeadline\<close>: the call finished with an error or without, or the context expired
  first; then the machine's connection is dropped.  The second component counts the drops.
\<close>

datatype call_end = Returned "go_err option" | Expired

definition withDeadline :: "call_end \<Rightarrow> go_err option \<times> nat" where
  "withDeadline c = (case c of Returned e \<Rightarrow> (e, 0) | Expired \<Rightarrow> (Some (Sentinel ErrTimeout), 1))"

datatype wait_end = WaitNil | WaitExit int | WaitExitMissing | WaitError go_err | WaitDeadline

text \<open>What happens to one \<^verbatim>\<open>Exec\<close>: the outcome of each call, and what the two streams wrote.\<close>

record exec_world =
  ew_get :: "go_err option"
  ew_session :: call_end
  ew_stdin_pipe :: "go_err option"
  ew_start :: call_end
  ew_wait :: wait_end
  ew_stdout :: "string list"
  ew_stderr :: "string list"
  ew_duration :: int

definition Exec :: "ExecOpts \<Rightarrow> exec_world \<Rightarrow> (ExecResult \<times> go_err option) \<times> nat" where
  "Exec opts0 w =
     (let opts = exec_defaults opts0;
          out = lb_string (lb_writes (ew_stdout w) (lb_new (eo_max_output opts)));
          err = lb_string (lb_writes (ew_stderr w) (lb_new (eo_max_output opts)));
          res = \<lparr>ex_stdout = out, ex_stderr = err, ex_code = 0, ex_duration = ew_duration w\<rparr>
      in case ew_get w of Some e \<Rightarrow> ((no_result, Some e), 0)
       | None \<Rightarrow>
      (case withDeadline (ew_session w) of (Some e, n) \<Rightarrow> ((no_result, Some (Wrap ''ssh: open session: '' e [])), n + 1)
       | (None, n) \<Rightarrow>
      (case (if eo_stdin opts = None then None else ew_stdin_pipe w) of
         Some e \<Rightarrow> ((no_result, Some (Wrap ''ssh: stdin pipe: '' e [])), n)
       | None \<Rightarrow>
      (case withDeadline (ew_start w) of (Some e, k) \<Rightarrow> ((no_result, Some (Wrap ''ssh: start: '' e [])), n + k)
       | (None, k) \<Rightarrow>
      (case ew_wait w of
         WaitDeadline \<Rightarrow>
           ((res\<lparr>ex_code := - 1\<rparr>, Some (Text (''ssh: command timed out after '' @ duration_string (eo_timeout opts)))), n + k)
       | WaitNil \<Rightarrow> ((res, None), n + k)
       | WaitExit c \<Rightarrow> ((res\<lparr>ex_code := c\<rparr>, None), n + k)
       | WaitExitMissing \<Rightarrow> ((res\<lparr>ex_code := - 1\<rparr>, None), n + k)
       | WaitError e \<Rightarrow> ((res, Some (Wrap ''ssh: wait: '' e [])), n + k))))))"

section \<open>Terminals and streams\<close>

record shell_world =
  sw_get :: "go_err option"
  sw_session :: call_end
  sw_pty :: call_end
  sw_stdin_pipe :: "go_err option"
  sw_stdout_pipe :: "go_err option"
  sw_shell :: call_end

text \<open>
  \<^verbatim>\<open>OpenShell\<close>: the size of the terminal it asks for, or an error; with it, whether a
  session that was opened is left open, and the number of drops.
\<close>

definition OpenShell :: "int \<Rightarrow> int \<Rightarrow> shell_world \<Rightarrow> (int \<times> int) result \<times> bool \<times> nat" where
  "OpenShell cols rows w =
     (case sw_get w of Some e \<Rightarrow> (Inl e, False, 0)
      | None \<Rightarrow>
     (case withDeadline (sw_session w) of (Some e, n) \<Rightarrow> (Inl (Wrap ''ssh: open session: '' e []), False, n + 1)
      | (None, n) \<Rightarrow>
     (let c = (if cols \<le> 0 then 80 else cols); r = (if rows \<le> 0 then 24 else rows) in
     (case withDeadline (sw_pty w) of (Some e, k) \<Rightarrow> (Inl (Wrap ''ssh: request pty: '' e []), False, n + k)
      | (None, k) \<Rightarrow>
     (case sw_stdin_pipe w of Some e \<Rightarrow> (Inl e, False, n + k)
      | None \<Rightarrow>
     (case sw_stdout_pipe w of Some e \<Rightarrow> (Inl e, False, n + k)
      | None \<Rightarrow>
     (case withDeadline (sw_shell w) of (Some e, j) \<Rightarrow> (Inl (Wrap ''ssh: start shell: '' e []), False, n + k + j)
      | (None, j) \<Rightarrow> (Inr (c, r), True, n + k + j))))))))"

record stream_world =
  tw_get :: "go_err option"
  tw_session :: call_end
  tw_stdin_pipe :: "go_err option"
  tw_start :: call_end

definition OpenStream :: "string option \<Rightarrow> stream_world \<Rightarrow> unit result \<times> bool \<times> nat" where
  "OpenStream stdin w =
     (case tw_get w of Some e \<Rightarrow> (Inl e, False, 0)
      | None \<Rightarrow>
     (case withDeadline (tw_session w) of (Some e, n) \<Rightarrow> (Inl (Wrap ''ssh: open session: '' e []), False, n + 1)
      | (None, n) \<Rightarrow>
     (case (if stdin = None then None else tw_stdin_pipe w) of
        Some e \<Rightarrow> (Inl (Wrap ''ssh: stdin pipe: '' e []), False, n)
      | None \<Rightarrow>
     (case withDeadline (tw_start w) of (Some e, k) \<Rightarrow> (Inl (Wrap ''ssh: start: '' e []), False, n + k)
      | (None, k) \<Rightarrow> (Inr (), True, n + k)))))"

section \<open>Properties\<close>

lemma lb_write_length [simp]: "fst (lb_write p l) = length p"
  by (simp add: lb_write_def Let_def)

text \<open>The buffer that keeps \<open>n\<close> bytes of everything written, in any chunks.\<close>

definition lb_holds :: "int \<Rightarrow> string \<Rightarrow> limitedBuffer \<Rightarrow> bool" where
  "lb_holds n s l \<longleftrightarrow> l = \<lparr>lb_buf = take (nat n) s, lb_max = n, lb_truncated = (int (length s) > n)\<rparr>"

lemma lb_write_holds:
  assumes "0 \<le> n" and "p \<noteq> []" and "lb_holds n s l"
  shows "lb_holds n (s @ p) (snd (lb_write p l))"
proof (cases "int (length s) > n")
  case True
  then have "nat n < length s" using assms(1) by linarith
  with True assms show ?thesis
    by (auto simp: lb_holds_def lb_write_def Let_def min_def split: if_splits)
next
  case False
  then have "length s \<le> nat n" using assms(1) by linarith
  with False assms show ?thesis
    by (auto simp: lb_holds_def lb_write_def Let_def min_def nat_diff_distrib split: if_splits)
qed

lemma lb_writes_holds:
  assumes "0 \<le> n" and "\<forall>p \<in> set ps. p \<noteq> []" and "lb_holds n s l"
  shows "lb_holds n (s @ concat ps) (lb_writes ps l)"
  using assms
proof (induction ps arbitrary: s l)
  case (Cons p ps)
  from Cons.IH [of "s @ p" "snd (lb_write p l)"] lb_write_holds [of n p s l] Cons.prems show ?case
    by (simp add: lb_writes_def)
qed (simp add: lb_writes_def)

lemma lb_string_writes:
  assumes "0 \<le> n" and "\<forall>p \<in> set ps. p \<noteq> []"
  shows "lb_string (lb_writes ps (lb_new n)) =
      (if int (length (concat ps)) > n then take (nat n) (concat ps) @ lb_mark else concat ps)"
    and "int (length (lb_buf (lb_writes ps (lb_new n)))) \<le> n"
proof -
  have "lb_holds n [] (lb_new n)" using assms(1) by (simp add: lb_holds_def lb_new_def)
  from lb_writes_holds [OF assms this]
  show "lb_string (lb_writes ps (lb_new n)) =
      (if int (length (concat ps)) > n then take (nat n) (concat ps) @ lb_mark else concat ps)"
    and "int (length (lb_buf (lb_writes ps (lb_new n)))) \<le> n"
    using assms(1) by (auto simp: lb_holds_def lb_string_def)
qed

text \<open>
  C27: The output buffer is a bounded prefix: however the remote side cuts its output into
  chunks, what is captured is the first \<open>max\<close> bytes of all of it, never more, followed by
  the truncation mark exactly when something was left out; and every write is reported as
  complete, so that the sender never blocks or fails on it.
\<close>

theorem limitedBuffer_is_prefix:
  assumes "0 \<le> n" and "\<forall>p \<in> set ps. p \<noteq> []"
  shows "lb_string (lb_writes ps (lb_new n)) =
      (if int (length (concat ps)) > n then take (nat n) (concat ps) @ lb_mark else concat ps)
    \<and> int (length (lb_buf (lb_writes ps (lb_new n)))) \<le> n \<and> (\<forall>p l. fst (lb_write p l) = length p)"
  using lb_string_writes [OF assms] by simp

theorem limitedBuffer_is_prefix_witness:
  "lb_string (lb_writes [''abc'', ''de'', ''f''] (lb_new 4)) = ''abcd'' @ lb_mark"
  using limitedBuffer_is_prefix [of 4 "[''abc'', ''de'', ''f'']"] by (simp add: numeral_eq_Suc)

lemma classify_mismatch: "errors_as_mismatch (classifyHandshake e) = errors_as_mismatch e"
  by (auto simp: classifyHandshake_def Let_def split: option.splits)

text \<open>
  A command ends in one of three ways, and they cannot be confused.  Without an error the
  remote command ran and the exit code is the remote one (-1 when the server sent none).
  With an error the exit code is never a success of the command: either nothing was
  captured, or the wait was cut short.  Output is bounded by the configured size plus the
  mark, and the connection is dropped whenever a session could not be opened or a call hung.
\<close>

theorem Exec_outcome:
  assumes "Exec opts w = ((res, e), drops)" and "0 \<le> eo_max_output opts"
    and "\<forall>p \<in> set (ew_stdout w @ ew_stderr w). p \<noteq> []"
  shows "(e = None \<longrightarrow> ew_get w = None
      \<and> (ew_wait w = WaitNil \<and> ex_code res = 0 \<or> ew_wait w = WaitExit (ex_code res)
         \<or> ew_wait w = WaitExitMissing \<and> ex_code res = - 1))
    \<and> (e \<noteq> None \<longrightarrow> res = no_result \<or> ew_wait w = WaitDeadline \<and> ex_code res = - 1 \<or> (\<exists>x. ew_wait w = WaitError x))
    \<and> (ew_get w = None \<longrightarrow> ew_session w \<noteq> Returned None \<or> ew_start w = Expired \<and> (eo_stdin opts = None \<or> ew_stdin_pipe w = None) \<longrightarrow> 0 < drops)
    \<and> int (length (ex_stdout res)) \<le> eo_max_output (exec_defaults opts) + int (length lb_mark)
    \<and> int (length (ex_stderr res)) \<le> eo_max_output (exec_defaults opts) + int (length lb_mark)"
proof -
  let ?n = "eo_max_output (exec_defaults opts)"
  have n: "0 \<le> ?n" using assms(2) by (simp add: exec_defaults_def defaultMaxOutput_def Let_def)
  have len: "int (length (lb_string (lb_writes ps (lb_new ?n)))) \<le> ?n + int (length lb_mark)"
    if "\<forall>p \<in> set ps. p \<noteq> []" for ps
  proof -
    have "length (take (nat ?n) (concat ps)) \<le> nat ?n" by simp
    then have "int (length (take (nat ?n) (concat ps))) \<le> ?n" using n by linarith
    then show ?thesis using lb_string_writes(1) [OF n that] by auto
  qed
  have l: "int (length (lb_string (lb_writes (ew_stdout w) (lb_new ?n)))) \<le> ?n + int (length lb_mark)"
    "int (length (lb_string (lb_writes (ew_stderr w) (lb_new ?n)))) \<le> ?n + int (length lb_mark)"
    "0 \<le> ?n + int (length lb_mark)"
    using len assms(3) n by auto
  have s: "eo_stdin (exec_defaults opts) = eo_stdin opts" by (simp add: exec_defaults_def Let_def)
  show ?thesis
    using assms(1) l
    by (cases "ew_get w"; cases "ew_session w"; cases "ew_start w"; cases "ew_wait w")
      (auto simp: Exec_def Let_def withDeadline_def no_result_def s split: option.splits if_splits)
qed

definition demo_world :: exec_world where
  "demo_world = \<lparr>ew_get = None, ew_session = Returned None, ew_stdin_pipe = None, ew_start = Returned None,
     ew_wait = WaitExit 3, ew_stdout = [''out''], ew_stderr = [], ew_duration = 5\<rparr>"

theorem Exec_outcome_witness:
  "\<exists>res n. Exec \<lparr>eo_stdin = None, eo_timeout = 0, eo_max_output = 0\<rparr> demo_world = ((res, None), n) \<and> ex_code res = 3"
proof -
  obtain res n where e: "Exec \<lparr>eo_stdin = None, eo_timeout = 0, eo_max_output = 0\<rparr> demo_world = ((res, None), n)"
    by (simp add: Exec_def demo_world_def withDeadline_def exec_defaults_def Let_def)
  from Exec_outcome [OF e] e show ?thesis by (simp add: demo_world_def)
qed

end
