(* ===== verification/Engine_Run.thy ===== *)
theory Engine_Run imports Engine_Props Parsers Store_Props Broker begin

text \<open>
  \<^verbatim>\<open>Engine.Run\<close>: prepare, execute, audit, parse.  The broker's \<^verbatim>\<open>Exec\<close> is the argument
  \<open>exec\<close>: given the target, the remote command and the options it returns the captured
  result, the error if any, and the state afterwards: the database, which may differ because
  the host-key policy and every other request write to the store meanwhile, and the rest
  \<open>'x\<close> of the server, in which the broker keeps its connections.
\<close>

type_synonym ('t, 'x) exec_fn = "'t \<Rightarrow> string \<Rightarrow> ExecOpts \<Rightarrow> db \<times> 'x \<Rightarrow> (ExecResult \<times> go_err option) \<times> db \<times> 'x"

definition run_opts :: "'t Prepared \<Rightarrow> ExecOpts" where
  "run_opts p = \<lparr>eo_stdin = Some (pr_script p), eo_timeout = act_timeout (pr_action p), eo_max_output = 0\<rparr>"

text \<open>The audit row of an execution that happened.\<close>

definition run_record :: "time \<Rightarrow> Request \<Rightarrow> 't Prepared \<Rightarrow> ExecResult \<times> go_err option \<Rightarrow> Run" where
  "run_record now req p r =
     (let (res, execErr) = r in
      \<lparr>rn_id = 0, rn_machine = Some (m_id (pr_machine p)), rn_machine_name = m_name (pr_machine p),
       rn_action = act_id (pr_action p), rn_command = pr_command p, rn_danger = act_danger (pr_action p),
       rn_actor = rq_actor req,
       rn_exit = (case execErr of Some e \<Rightarrow> None | None \<Rightarrow> Some (ex_code res)),
       rn_stdout = ex_stdout res, rn_stderr = ex_stderr res,
       rn_error = (case execErr of Some e \<Rightarrow> err_text e | None \<Rightarrow> []),
       rn_duration = ex_duration res sdiv 1000000, rn_started = now\<rparr>)"

text \<open>
  The result is the saved run with the parsed data; \<open>None\<close> is Go's zero \<^verbatim>\<open>Result\<close>, and an
  error may come with a run (the execution failed and was recorded).
\<close>

definition Run_action ::
    "(Machine \<Rightarrow> db \<Rightarrow> 't result) \<Rightarrow> ('t, 'x) exec_fn \<Rightarrow> (string \<Rightarrow> 'f \<times> bool) \<Rightarrow> (string \<Rightarrow> DockerLine option) \<Rightarrow>
     time \<Rightarrow> Request \<Rightarrow> db \<times> 'x \<Rightarrow> (Run \<times> 'f parsed option) option \<times> go_err option \<times> db \<times> 'x" where
  "Run_action resolve exec pf uj now req s =
     (case Prepare resolve req (fst s) of
        Inl e \<Rightarrow> (None, Some e, s)
      | Inr p \<Rightarrow>
          (let act = pr_action p;
               ((res, execErr), d1, x1) = exec (pr_target p) (pr_shell p) (run_opts p) s
           in case InsertRun (run_record now req p (res, execErr)) d1 of
                (Inl e, d2) \<Rightarrow> (None, Some e, d2, x1)
              | (Inr saved, d2) \<Rightarrow>
                  (case execErr of
                     Some e \<Rightarrow> (Some (saved, None), Some e, d2, x1)
                   | None \<Rightarrow> (Some (saved, Some (parse_output pf uj (act_parse act) (ex_stdout res) (ex_code res))), None, d2, x1))))"

section \<open>Properties\<close>

lemma InsertRun_failed: "InsertRun r d = (Inl e, d') \<Longrightarrow> d' = d"
  by (auto simp: InsertRun_def Let_def wrap_err_def dest: sql_exec_InlD split: prod.splits sum.splits)

lemma InsertRun_id:
  assumes "InsertRun r d = (Inr r', d')"
  shows "r' = r\<lparr>rn_id := tbl_next (runs d)\<rparr>"
  using assms by (auto simp: InsertRun_def Let_def wrap_err_Inr dest!: sql_exec_InrD split: if_splits)

lemma InsertRun_saved:
  assumes "InsertRun r d = (Inr r', d')" and "db_inv d"
  shows "tbl_get (runs d') (rn_id r') = Some (stored_run r')"
proof -
  have "d' = d\<lparr>runs := tbl_insert (stored_run r') (runs d)\<rparr>"
    using assms(1) by (auto simp: InsertRun_def Let_def wrap_err_Inr dest!: sql_exec_InrD split: if_splits)
  then show ?thesis
    using tb.get_ins [OF db_inv_tables(2) [OF assms(2)]] by (simp add: InsertRun_id [OF assms(1)])
qed

text \<open>
  C8: Nothing reaches a host unrecorded, as far as the caller is told.  A request that is
  not prepared executes nothing and leaves the database alone.  One that is prepared
  executes exactly once; when a result comes back, its run is in the audit log with who, on
  which machine, which command, the tier, and either the exit code or the error, and a
  non-zero exit code is not an error; otherwise the log refused the run, the caller gets
  that error and no result.
\<close>

theorem Run_audited:
  assumes "Run_action resolve exec pf uj now req (d, x) = (r, e, d', x')"
  shows "(\<exists>err. Prepare resolve req d = Inl err \<and> r = None \<and> e = Some err \<and> d' = d \<and> x' = x)
    \<or> (\<exists>p res execErr d1. Prepare resolve req d = Inr p
        \<and> exec (pr_target p) (pr_shell p) (run_opts p) (d, x) = ((res, execErr), d1, x')
        \<and> ((r = None \<and> e \<noteq> None \<and> d' = d1)
         \<or> (\<exists>saved data. r = Some (saved, data) \<and> e = execErr \<and> (db_inv d1 \<longrightarrow>
              tbl_get (runs d') (rn_id saved) = Some (stored_run saved))
            \<and> rn_machine saved = Some (rq_machine req) \<and> rn_actor saved = rq_actor req
            \<and> rn_action saved = act_id (pr_action p) \<and> rn_command saved = pr_command p
            \<and> rn_danger saved = act_danger (pr_action p)
            \<and> (case execErr of None \<Rightarrow> rn_exit saved = Some (ex_code res) \<and> rn_error saved = [] \<and> data \<noteq> None
                | Some xe \<Rightarrow> rn_exit saved = None \<and> rn_error saved = err_text xe \<and> data = None))))"
proof (cases "Prepare resolve req d")
  case (Inl err)
  with assms show ?thesis by (simp add: Run_action_def)
next
  case (Inr p)
  obtain res execErr d1 x1 where x:
    "exec (pr_target p) (pr_shell p) (run_opts p) (d, x) = ((res, execErr), d1, x1)"
    by (metis surj_pair)
  have m: "m_id (pr_machine p) = rq_machine req"
    by (rule Prepare_machine [OF Inr])
  obtain ins d2 where i: "InsertRun (run_record now req p (res, execErr)) d1 = (ins, d2)" by fastforce
  show ?thesis
  proof (cases ins)
    case (Inl err)
    with assms Inr x i have "r = None \<and> e = Some err \<and> d' = d1 \<and> x' = x1"
      using InsertRun_failed [of _ d1 err d2] by (simp add: Run_action_def)
    with Inr x \<open>Prepare resolve req d = Inr p\<close> show ?thesis by auto
  next
    case (Inr saved)
    have s: "saved = (run_record now req p (res, execErr))\<lparr>rn_id := tbl_next (runs d1)\<rparr>"
      using InsertRun_id i Inr by blast
    have log: "db_inv d1 \<longrightarrow> tbl_get (runs d2) (rn_id saved) = Some (stored_run saved)"
      using InsertRun_saved i Inr by blast
    have r: "d' = d2 \<and> x' = x1 \<and> e = execErr \<and> (\<exists>data. r = Some (saved, data) \<and> (data = None \<longleftrightarrow> execErr \<noteq> None))"
      using assms \<open>Prepare resolve req d = Inr p\<close> x i Inr
      by (cases execErr) (auto simp: Run_action_def)
    then obtain data where "r = Some (saved, data)" "data = None \<longleftrightarrow> execErr \<noteq> None" by blast
    with r log m show ?thesis
      by (intro disjI2 exI [of _ p] exI [of _ res] exI [of _ execErr] exI [of _ d1] conjI)
        (simp_all add: \<open>Prepare resolve req d = Inr p\<close> x s run_record_def split: option.splits)
  qed
qed

definition up_result :: ExecResult where
  "up_result = \<lparr>ex_stdout = ''now=1'', ex_stderr = [], ex_code = 0, ex_duration = 2500000\<rparr>"

abbreviation up_exec :: "(unit, unit) exec_fn" where
  "up_exec \<equiv> \<lambda>t sh opts s. ((up_result, None), s)"

theorem Run_audited_witness:
  "\<exists>r e d' x'. Run_action (\<lambda>m d. Inr ()) up_exec (\<lambda>s. ((), False)) (\<lambda>s. None) 9 overview_request (host_db, ()) = (r, e, d', x')
     \<and> (e = None \<longrightarrow> (\<exists>saved data. r = Some (saved, data) \<and> rn_machine saved = Some 1 \<and> rn_exit saved = Some 0))"
proof -
  obtain r e d' x' where run: "Run_action (\<lambda>m d. Inr ()) up_exec (\<lambda>s. ((), False)) (\<lambda>s. None) 9
      overview_request (host_db, ()) = (r, e, d', x')" by (metis surj_pair)
  have i: "rq_machine overview_request = 1" "ex_code up_result = 0" by (simp_all add: overview_request_def up_result_def)
  from Run_audited [OF run] i have "e = None \<longrightarrow> (\<exists>saved data. r = Some (saved, data) \<and> rn_machine saved = Some 1 \<and> rn_exit saved = Some 0)"
    by auto
  with run show ?thesis by blast
qed

text \<open>
  The exception the statement leaves open is real: when the machine is deleted while its
  action runs, the audit log refuses the run because its machine no longer exists, so an
  action that was carried out on the host is in no log; the caller sees a store error.
\<close>

theorem deleted_machine_unrecorded:
  assumes "Prepare resolve req d = Inr p"
    and "exec (pr_target p) (pr_shell p) (run_opts p) (d, x) = ((res, execErr), d1, x')"
    and "tbl_get (machines d1) (rq_machine req) = None"
  shows "\<exists>e. Run_action resolve exec pf uj now req (d, x) = (None, Some e, d1, x')"
proof -
  have m: "m_id (pr_machine p) = rq_machine req"
    by (rule Prepare_machine [OF assms(1)])
  have "\<exists>e. InsertRun (run_record now req p (res, execErr)) d1 = (Inl e, d1)"
    using assms(3) by (auto simp: InsertRun_def Let_def run_record_def ref_ok_def m sql_exec_def wrap_err_def split: option.splits)
  then show ?thesis using assms(1,2) by (auto simp: Run_action_def)
qed

theorem deleted_machine_unrecorded_witness:
  "\<exists>e d1. Run_action (\<lambda>m d. Inr ()) (\<lambda>t sh opts (d, x). ((up_result, None), snd (DeleteMachine 1 d), x)) (\<lambda>s. ((), False)) (\<lambda>s. None) 9
     overview_request (host_db, ()) = (None, Some e, d1, ()) \<and> tbl_rows (runs d1) = []"
proof -
  let ?exec = "\<lambda>t sh opts (d, x). ((up_result, None), snd (DeleteMachine 1 d), x)"
  obtain p where p: "Prepare (\<lambda>m d. Inr ()) overview_request host_db = Inr p"
    using overview_prepared [of "()"] by (elim exE conjE) (rule that)
  have d: "tbl_get (machines (snd (DeleteMachine 1 host_db))) 1 = None" "tbl_rows (runs (snd (DeleteMachine 1 host_db))) = []"
    by (simp_all add: DeleteMachine_def sql_exec_def host_db_def empty_db_def tb.get_del tbl_update_def tbl_empty_def)
  have gone: "tbl_get (machines (snd (DeleteMachine 1 host_db))) (rq_machine overview_request) = None"
    using d(1) by (simp add: overview_request_def)
  have x: "?exec (pr_target p) (pr_shell p) (run_opts p) (host_db, ()) = ((up_result, None), snd (DeleteMachine 1 host_db), ())"
    by simp
  from deleted_machine_unrecorded [where exec = ?exec, OF p x gone, of "\<lambda>s. ((), False)" "\<lambda>s. None" 9] d(2)
  show ?thesis by blast
qed

end
