(* ===== verification/Facts.thy ===== *)
theory Facts imports Engine_Run begin

text \<open>
  \<^verbatim>\<open>internal/facts/facts.go\<close>: the script that fingerprints a host and the parser of its output.
\<close>

definition facts_script :: string where
  "facts_script = join [CHR 0x0A]
     [[],
      ''echo '' @ [CHR 0x22] @ ''hostname=$(hostname 2>/dev/null)'' @ [CHR 0x22],
      ''echo '' @ [CHR 0x22] @ ''kernel=$(uname -r 2>/dev/null)'' @ [CHR 0x22],
      ''echo '' @ [CHR 0x22] @ ''arch=$(uname -m 2>/dev/null)'' @ [CHR 0x22],
      [],
      ''if [ -r /etc/os-release ]; then'',
      ''  . /etc/os-release'',
      ''  echo '' @ [CHR 0x22] @ ''os_name=$ID'' @ [CHR 0x22],
      ''  echo '' @ [CHR 0x22] @ ''os_version=$VERSION_ID'' @ [CHR 0x22],
      ''  echo '' @ [CHR 0x22] @ ''os_pretty=$PRETTY_NAME'' @ [CHR 0x22],
      ''fi'',
      [],
      ''if [ -d /run/systemd/system ]; then'',
      ''  echo '' @ [CHR 0x22] @ ''init=systemd'' @ [CHR 0x22],
      ''elif command -v rc-service >/dev/null 2>&1; then'',
      ''  echo '' @ [CHR 0x22] @ ''init=openrc'' @ [CHR 0x22],
      ''elif [ -d /etc/init.d ]; then'',
      ''  echo '' @ [CHR 0x22] @ ''init=sysv'' @ [CHR 0x22],
      ''else'',
      ''  echo '' @ [CHR 0x22] @ ''init=unknown'' @ [CHR 0x22],
      ''fi'',
      [],
      ''if [ '' @ [CHR 0x22] @ ''$(id -u)'' @ [CHR 0x22] @ '' = '' @ [CHR 0x22] @ ''0'' @ [CHR 0x22] @ '' ]; then'',
      ''  echo '' @ [CHR 0x22] @ ''sudo=root'' @ [CHR 0x22],
      ''elif command -v sudo >/dev/null 2>&1; then'',
      ''  if sudo -n true >/dev/null 2>&1; then'',
      ''    echo '' @ [CHR 0x22] @ ''sudo=nopasswd'' @ [CHR 0x22],
      ''  else'',
      ''    echo '' @ [CHR 0x22] @ ''sudo=password'' @ [CHR 0x22],
      ''  fi'',
      ''else'',
      ''  echo '' @ [CHR 0x22] @ ''sudo=none'' @ [CHR 0x22],
      ''fi'',
      [],
      ''for c in systemctl journalctl supervisorctl docker podman nginx caddy apache2 '' @ [CHR 0x5C],
      ''         apt-get dnf yum apk pacman ss netstat curl wget jq openssl; do'',
      ''  command -v '' @ [CHR 0x22] @ ''$c'' @ [CHR 0x22] @ '' >/dev/null 2>&1 && echo '' @ [CHR 0x22] @ ''cap=$c'' @ [CHR 0x22],
      ''done'',
      []]"

text \<open>The locals of \<^verbatim>\<open>parse\<close>: the facts being filled and the pretty name.\<close>

definition facts_start :: "HostFacts \<times> string" where
  "facts_start = (no_facts\<lparr>hf_init := ''unknown'', hf_sudo := ''unknown'', hf_caps := []\<rparr>, [])"

definition facts_field :: "string \<Rightarrow> string \<Rightarrow> HostFacts \<times> string \<Rightarrow> HostFacts \<times> string" where
  "facts_field k v st =
     (let (f, pretty) = st in
      if k = ''hostname'' then (f\<lparr>hf_hostname := v\<rparr>, pretty)
      else if k = ''kernel'' then (f\<lparr>hf_kernel := v\<rparr>, pretty)
      else if k = ''arch'' then (f\<lparr>hf_arch := v\<rparr>, pretty)
      else if k = ''os_name'' then (f\<lparr>hf_os_name := v\<rparr>, pretty)
      else if k = ''os_version'' then (f\<lparr>hf_os_version := v\<rparr>, pretty)
      else if k = ''os_pretty'' then (f, v)
      else if k = ''init'' then (f\<lparr>hf_init := v\<rparr>, pretty)
      else if k = ''sudo'' then (f\<lparr>hf_sudo := v\<rparr>, pretty)
      else if k = ''cap'' then (if v \<noteq> [] then f\<lparr>hf_caps := hf_caps f @ [v]\<rparr> else f, pretty)
      else (f, pretty))"

definition facts_line :: "string \<Rightarrow> (string \<times> string) option" where
  "facts_line line =
     (case cut_on CHR ''='' (trim_space line) of None \<Rightarrow> None | Some (k, v) \<Rightarrow> Some (k, trim_set [CHR 0x22] v))"

definition facts_step :: "HostFacts \<times> string \<Rightarrow> string \<Rightarrow> HostFacts \<times> string" where
  "facts_step st line = (case facts_line line of None \<Rightarrow> st | Some (k, v) \<Rightarrow> facts_field k v st)"

definition parse_facts :: "string \<Rightarrow> HostFacts" where
  "parse_facts out =
     (let (f, pretty) = foldl facts_step facts_start (lines_of out)
      in if hf_os_name f = [] \<and> pretty \<noteq> [] then f\<lparr>hf_os_name := pretty\<rparr> else f)"

definition Fingerprint ::
    "(Target, 'x) exec_fn \<Rightarrow> time \<Rightarrow> Target \<Rightarrow> db \<times> 'x \<Rightarrow> HostFacts result \<times> db \<times> 'x" where
  "Fingerprint exec now t s =
     (case exec t ''sh -s'' \<lparr>eo_stdin = Some facts_script, eo_timeout = 20 * 1000000000, eo_max_output = 0\<rparr> s of
        ((res, Some e), s') \<Rightarrow> (Inl e, s')
      | ((res, None), s') \<Rightarrow> (Inr ((parse_facts (ex_stdout res))\<lparr>hf_machine := tg_id t, hf_fetched := now\<rparr>), s'))"

section \<open>Properties\<close>

text \<open>The last value printed for a key, or a default; the values of all its lines.\<close>

definition values_of :: "string \<Rightarrow> string \<Rightarrow> string list" where
  "values_of key out = map snd (filter (\<lambda>(k, v). k = key) (List.map_filter facts_line (lines_of out)))"

definition last_or :: "string \<Rightarrow> string list \<Rightarrow> string" where
  "last_or dflt vs = (if vs = [] then dflt else last vs)"

definition fact_keys :: "string list \<Rightarrow> string \<Rightarrow> string list" where
  "fact_keys ls key = map snd (filter (\<lambda>(k, v). k = key) (List.map_filter facts_line ls))"

lemma fact_keys_snoc:
  "fact_keys (ls @ [l]) key = fact_keys ls key @ (case facts_line l of None \<Rightarrow> [] | Some (k, v) \<Rightarrow> if k = key then [v] else [])"
  by (auto simp: fact_keys_def map_filter_def split: option.splits)

lemma last_or_snoc [simp]: "last_or dflt (vs @ [v]) = v"
  by (simp add: last_or_def)

lemma last_or_Nil [simp]: "last_or dflt [] = dflt"
  by (simp add: last_or_def)

lemma facts_fold:
  "foldl facts_step facts_start ls =
    (\<lparr>hf_machine = 0, hf_hostname = last_or [] (fact_keys ls ''hostname''), hf_os_name = last_or [] (fact_keys ls ''os_name''),
      hf_os_version = last_or [] (fact_keys ls ''os_version''), hf_kernel = last_or [] (fact_keys ls ''kernel''),
      hf_arch = last_or [] (fact_keys ls ''arch''), hf_init = last_or ''unknown'' (fact_keys ls ''init''),
      hf_sudo = last_or ''unknown'' (fact_keys ls ''sudo''), hf_caps = filter (\<lambda>v. v \<noteq> []) (fact_keys ls ''cap''), hf_fetched = 0\<rparr>,
     last_or [] (fact_keys ls ''os_pretty''))"
proof (induction ls rule: rev_induct)
  case Nil
  then show ?case by (simp add: facts_start_def no_facts_def fact_keys_def map_filter_simps)
next
  case (snoc l ls)
  show ?case
  proof (cases "facts_line l")
    case None
    with snoc show ?thesis by (simp add: facts_step_def fact_keys_snoc)
  next
    case (Some kv)
    obtain k v where "kv = (k, v)" by (cases kv)
    with snoc Some show ?thesis by (simp add: facts_step_def fact_keys_snoc facts_field_def)
  qed
qed

text \<open>
  C23: What a fingerprint says is what the host printed, read line by line.  Each fact is the
  value of the last line with its key; init and sudo are \<^verbatim>\<open>unknown\<close> when no line gives them, so
  that an empty or foreign output never grants anything; the capabilities are the values
  of all the \<^verbatim>\<open>cap\<close> lines, in order, without empty ones; the system's name falls back to the pretty
  name only when it is empty.
\<close>

theorem facts_are_last_lines:
  "let f = parse_facts out; pretty = last_or [] (values_of ''os_pretty'' out); name = last_or [] (values_of ''os_name'' out) in
     hf_hostname f = last_or [] (values_of ''hostname'' out) \<and> hf_kernel f = last_or [] (values_of ''kernel'' out)
   \<and> hf_arch f = last_or [] (values_of ''arch'' out) \<and> hf_os_version f = last_or [] (values_of ''os_version'' out)
   \<and> hf_init f = last_or ''unknown'' (values_of ''init'' out) \<and> hf_sudo f = last_or ''unknown'' (values_of ''sudo'' out)
   \<and> hf_caps f = filter (\<lambda>v. v \<noteq> []) (values_of ''cap'' out)
   \<and> hf_os_name f = (if name = [] then pretty else name)"
  by (simp add: parse_facts_def facts_fold Let_def values_of_def fact_keys_def)

end
