(* ===== verification/Keyring.thy ===== *)
theory Keyring imports Go_Strings begin

text \<open>
  \<^verbatim>\<open>internal/keyring/keyring.go\<close>: the master key and the sealing of secrets.  Base64 is
  modelled in full (\<^verbatim>\<open>encoding/base64\<close>, standard alphabet with padding; the decoder skips line
  breaks).  The cipher is Go's \<^verbatim>\<open>cipher.AEAD\<close> made from the key: a nonce size and two
  functions, with the one documented law that opening undoes sealing.  Random bytes and
  the key file are arguments.
\<close>

section \<open>Base64\<close>

definition b64_alphabet :: string where
  "b64_alphabet = ''ABCDEFGHIJKLMNOPQRSTUVWXYZabcdefghijklmnopqrstuvwxyz0123456789+/''"

definition b64_char :: "nat \<Rightarrow> char" where
  "b64_char n = b64_alphabet ! n"

fun index_of :: "char \<Rightarrow> string \<Rightarrow> nat option" where
  "index_of c [] = None"
| "index_of c (x # xs) = (if c = x then Some 0 else map_option Suc (index_of c xs))"

definition b64_val :: "char \<Rightarrow> nat option" where
  "b64_val c = index_of c b64_alphabet"

abbreviation byte_val :: "char \<Rightarrow> nat" where
  "byte_val c \<equiv> of_char c"

abbreviation b64_pad :: char where
  "b64_pad \<equiv> CHR ''=''"

fun b64_encode :: "string \<Rightarrow> string" where
  "b64_encode [] = []"
| "b64_encode [a] = [b64_char (byte_val a div 4), b64_char (byte_val a mod 4 * 16), b64_pad, b64_pad]"
| "b64_encode [a, b] =
     [b64_char (byte_val a div 4), b64_char (byte_val a mod 4 * 16 + byte_val b div 16),
      b64_char (byte_val b mod 16 * 4), b64_pad]"
| "b64_encode (a # b # c # s) =
     b64_char (byte_val a div 4) # b64_char (byte_val a mod 4 * 16 + byte_val b div 16)
     # b64_char (byte_val b mod 16 * 4 + byte_val c div 64) # b64_char (byte_val c mod 64) # b64_encode s"

text \<open>One quantum of two, three or four digits gives one, two or three bytes.\<close>

definition quantum :: "nat \<Rightarrow> nat \<Rightarrow> nat \<Rightarrow> nat \<Rightarrow> string" where
  "quantum w x y z = [char_of (w * 4 + x div 16), char_of (x mod 16 * 16 + y div 4), char_of (y mod 4 * 64 + z)]"

fun b64_quanta :: "string \<Rightarrow> string option" where
  "b64_quanta [] = Some []"
| "b64_quanta (a # b # c # e # s) =
     (case (b64_val a, b64_val b) of
        (Some w, Some x) \<Rightarrow>
          if c = b64_pad then (if e = b64_pad \<and> s = [] then Some (take 1 (quantum w x 0 0)) else None)
          else (case b64_val c of
              None \<Rightarrow> None
            | Some y \<Rightarrow>
                if e = b64_pad then (if s = [] then Some (take 2 (quantum w x y 0)) else None)
                else (case b64_val e of
                    None \<Rightarrow> None
                  | Some z \<Rightarrow> map_option (\<lambda>r. quantum w x y z @ r) (b64_quanta s)))
      | _ \<Rightarrow> None)"
| "b64_quanta _ = None"

definition b64_decode :: "string \<Rightarrow> string option" where
  "b64_decode s = b64_quanta (filter (\<lambda>c. c \<noteq> CHR 0x0A \<and> c \<noteq> CHR 0x0D) s)"

text \<open>The decoder's error; its text names the position of the first bad byte, which is left out here.\<close>

definition b64_error :: go_err where
  "b64_error = Text ''illegal base64 data''"

section \<open>The master key\<close>

definition keyLen :: nat where "keyLen = 32"

definition blob_prefix :: string where "blob_prefix = ''bsn1:''"

datatype key_read = FileText string | NoFile | ReadError go_err

text \<open>
  \<^verbatim>\<open>loadOrCreate\<close>: the key, and what it wrote to the file, if it did.  \<open>rnd\<close>, \<open>mkdir\<close> and \<open>write\<close>
  are the outcomes of drawing the key, making the directory and writing the file.
\<close>

definition loadOrCreate ::
    "string \<Rightarrow> string \<Rightarrow> key_read \<Rightarrow> string result \<Rightarrow> go_err option \<Rightarrow> go_err option \<Rightarrow> string result \<times> string option" where
  "loadOrCreate path envValue file rnd mkdir write =
     (if envValue \<noteq> [] then
        (case b64_decode (trim_space envValue) of
           None \<Rightarrow> (Inl (Wrap ''keyring: CLOUDROOF_MASTER_KEY is not valid base64: '' b64_error []), None)
         | Some key \<Rightarrow>
             if length key \<noteq> keyLen
             then (Inl (Text (''keyring: CLOUDROOF_MASTER_KEY must decode to 32 bytes, got '' @ itoa (int (length key)))), None)
             else (Inr key, None))
      else (case file of
          FileText raw \<Rightarrow>
            (case b64_decode (trim_space raw) of
               None \<Rightarrow> (Inl (Wrap (''keyring: master key file '' @ path @ '' is corrupt: '') b64_error []), None)
             | Some key \<Rightarrow>
                 if length key \<noteq> keyLen
                 then (Inl (Text (''keyring: master key file '' @ path @ '' holds '' @ itoa (int (length key)) @ '' bytes, want 32'')), None)
                 else (Inr key, None))
        | ReadError e \<Rightarrow> (Inl (Wrap ''keyring: read master key: '' e []), None)
        | NoFile \<Rightarrow>
            (case rnd of
               Inl e \<Rightarrow> (Inl (Wrap ''keyring: generate master key: '' e []), None)
             | Inr key \<Rightarrow>
                 (case mkdir of
                    Some e \<Rightarrow> (Inl (Wrap ''keyring: create key dir: '' e []), None)
                  | None \<Rightarrow>
                      (case write of
                         Some e \<Rightarrow> (Inl (Wrap ''keyring: write master key: '' e []), None)
                       | None \<Rightarrow> (Inr key, Some (b64_encode key @ [CHR 0x0A])))))))"

section \<open>Sealing\<close>

record aead =
  ad_nonce_size :: nat
  ad_seal :: "string \<Rightarrow> string \<Rightarrow> string"
  ad_open :: "string \<Rightarrow> string \<Rightarrow> string option"

definition aead_ok :: "aead \<Rightarrow> bool" where
  "aead_ok k \<longleftrightarrow> (\<forall>nonce plain. length nonce = ad_nonce_size k \<longrightarrow> ad_open k nonce (ad_seal k nonce plain) = Some plain)"

text \<open>\<^verbatim>\<open>Open\<close>: the keyring of the loaded key; \<open>mk\<close> is \<^verbatim>\<open>aes.NewCipher\<close> followed by \<^verbatim>\<open>cipher.NewGCM\<close>.\<close>

definition Open_keyring ::
    "(string \<Rightarrow> aead result) \<Rightarrow> string result \<times> string option \<Rightarrow> aead result \<times> string option" where
  "Open_keyring mk loaded = (res_bind (fst loaded) mk, snd loaded)"

definition Seal :: "aead \<Rightarrow> string result \<Rightarrow> string \<Rightarrow> string result" where
  "Seal k rnd plaintext =
     (case rnd of
        Inl e \<Rightarrow> Inl (Wrap ''keyring: nonce: '' e [])
      | Inr nonce \<Rightarrow> Inr (blob_prefix @ b64_encode (nonce @ ad_seal k nonce plaintext)))"

definition OpenSealed :: "aead \<Rightarrow> string \<Rightarrow> string result" where
  "OpenSealed k blob =
     (if \<not> has_prefix blob blob_prefix then Inl (Text ''keyring: unrecognized sealed-blob format'')
      else (case b64_decode (trim_prefix blob blob_prefix) of
          None \<Rightarrow> Inl (Wrap ''keyring: decode sealed blob: '' b64_error [])
        | Some raw \<Rightarrow>
            if length raw < ad_nonce_size k then Inl (Text ''keyring: sealed blob truncated'')
            else (case ad_open k (take (ad_nonce_size k) raw) (drop (ad_nonce_size k) raw) of
                None \<Rightarrow> Inl (Text (''keyring: cannot decrypt secret '' @ [CHR 0xE2, CHR 0x80, CHR 0x94]
                   @ '' wrong master key, or the database was moved without its key file''))
              | Some plain \<Rightarrow> Inr plain)))"

section \<open>Properties\<close>

lemma b64_digits_ok:
  "list_all (\<lambda>n. b64_val (b64_char n) = Some n \<and> b64_char n \<noteq> b64_pad \<and> plain_char (b64_char n)
     \<and> b64_char n \<noteq> CHR 0x0A \<and> b64_char n \<noteq> CHR 0x0D) [0..<64]"
  by code_simp

lemma b64_digit:
  assumes "n < 64"
  shows "b64_val (b64_char n) = Some n" "b64_char n \<noteq> b64_pad" "plain_char (b64_char n)"
    "b64_char n \<noteq> CHR 0x0A" "b64_char n \<noteq> CHR 0x0D"
  using b64_digits_ok assms by (simp_all add: list_all_iff)

lemma byte_val_less [simp]: "byte_val c < 256"
  by (rule nat_of_char_less_256)

text \<open>The arithmetic of one quantum: regrouping three bytes as four digits and back.\<close>

lemma digit_ranges:
  assumes "a < (256::nat)"
  shows "a div 4 < 64" "a div 16 < 16" "a div 64 < 4" "a mod 4 < 4" "a mod 16 < 16" "a mod 64 < 64"
  using assms by (simp_all add: less_mult_imp_div_less)

lemma digits_small:
  assumes "a < (256::nat)" "b < 256" "c < 256"
  shows "a div 4 < 64" "a mod 4 * 16 < 64" "a mod 4 * 16 + b div 16 < 64" "b mod 16 * 4 < 64"
    "b mod 16 * 4 + c div 64 < 64" "c mod 64 < 64"
  using digit_ranges [OF assms(1)] digit_ranges [OF assms(2)] digit_ranges [OF assms(3)] by linarith+

lemma regroup:
  assumes "b < (256::nat)" "c < 256"
  shows "a div 4 * 4 + (a mod 4 * 16 + b div 16) div 16 = a"
    "(a mod 4 * 16 + b div 16) mod 16 * 16 + (b mod 16 * 4 + c div 64) div 4 = b"
    "(b mod 16 * 4 + c div 64) mod 4 * 64 + c mod 64 = c"
proof -
  have q: "b div 16 < 16" "c div 64 < 4" using digit_ranges [OF assms(1)] digit_ranges [OF assms(2)] by simp_all
  have "(a mod 4 * 16 + b div 16) div 16 = a mod 4" "(b mod 16 * 4 + c div 64) div 4 = b mod 16"
    "(a mod 4 * 16 + b div 16) mod 16 = b div 16" "(b mod 16 * 4 + c div 64) mod 4 = c div 64"
    using q by (simp_all add: div_mult_self3 del: div_mult_mod_eq)
  then show "a div 4 * 4 + (a mod 4 * 16 + b div 16) div 16 = a"
    "(a mod 4 * 16 + b div 16) mod 16 * 16 + (b mod 16 * 4 + c div 64) div 4 = b"
    "(b mod 16 * 4 + c div 64) mod 4 * 64 + c mod 64 = c"
    by (simp_all only: div_mult_mod_eq)
qed

lemma quantum_bytes:
  "quantum (byte_val a div 4) (byte_val a mod 4 * 16 + byte_val b div 16)
     (byte_val b mod 16 * 4 + byte_val c div 64) (byte_val c mod 64) = [a, b, c]"
  using regroup [of "byte_val b" "byte_val c"] regroup(1) [of "byte_val b" 0 "byte_val a"] by (simp add: quantum_def)

definition clean_digit :: "char \<Rightarrow> bool" where
  "clean_digit c \<longleftrightarrow> plain_char c \<and> c \<noteq> CHR 0x0A \<and> c \<noteq> CHR 0x0D"

lemma clean_digit_char: "n < 64 \<Longrightarrow> clean_digit (b64_char n)" "clean_digit b64_pad"
  by (simp_all add: clean_digit_def b64_digit) (simp add: plain_char_def)

lemma b64_encode_clean: "list_all clean_digit (b64_encode s)"
proof (induction s rule: b64_encode.induct)
  case (2 a)
  then show ?case using digits_small [of "byte_val a" 0 0] by (simp add: clean_digit_char)
next
  case (3 a b)
  then show ?case using digits_small [of "byte_val a" "byte_val b" 0] by (simp add: clean_digit_char)
next
  case (4 a b c s)
  then show ?case using digits_small [of "byte_val a" "byte_val b" "byte_val c"] by (simp add: clean_digit_char)
qed simp

lemma b64_quanta_encode: "b64_quanta (b64_encode s) = Some s"
proof (induction s rule: b64_encode.induct)
  case (2 a)
  show ?case using digits_small [of "byte_val a" 0 0] quantum_bytes [of a "char_of (0::nat)" "char_of (0::nat)"]
    by (simp add: b64_digit)
next
  case (3 a b)
  show ?case using digits_small [of "byte_val a" "byte_val b" 0] quantum_bytes [of a b "char_of (0::nat)"]
    by (simp add: b64_digit)
next
  case (4 a b c s)
  then show ?case using digits_small [of "byte_val a" "byte_val b" "byte_val c"] quantum_bytes [of a b c]
    by (simp add: b64_digit)
qed simp

lemma b64_roundtrip: "b64_decode (b64_encode s) = Some s"
proof -
  have "filter (\<lambda>c. c \<noteq> CHR 0x0A \<and> c \<noteq> CHR 0x0D) (b64_encode s) = b64_encode s"
    using b64_encode_clean [of s] by (intro filter_True) (auto simp: list_all_iff clean_digit_def)
  then show ?thesis by (simp add: b64_decode_def b64_quanta_encode)
qed

lemma b64_encode_Nil [simp]: "b64_encode s = [] \<longleftrightarrow> s = []"
  by (cases s rule: b64_encode.cases) simp_all

text \<open>The newline \<open>loadOrCreate\<close> writes after the key is trimmed away again.\<close>

lemma trim_newline:
  assumes "s \<noteq> []" and "\<forall>c \<in> set s. plain_char c"
  shows "trim_space (s @ [CHR 0x0A]) = s"
proof -
  obtain c t where s: "s = c # t" using assms(1) by (cases s) auto
  then have l: "trim_left_space (s @ [CHR 0x0A]) = s @ [CHR 0x0A]" using assms(2) by (simp add: trim_left_plain)
  have "space_len (map rev space_runes) (CHR 0x0A # rev s) = 1"
    by (simp add: space_len_def space_runes_def)
  then have "trim_runes (map rev space_runes) (CHR 0x0A # rev s) = trim_runes (map rev space_runes) (rev s)"
    by (simp add: trim_runes.simps [of _ "CHR 0x0A # rev s"])
  moreover obtain u e where "s = u @ [e]" using assms(1) by (cases s rule: rev_cases) auto
  moreover have "trim_right_space (u @ [e]) = u @ [e]" using \<open>s = u @ [e]\<close> assms(2) by (simp add: trim_right_plain)
  ultimately have "trim_right_space (s @ [CHR 0x0A]) = s" by (simp add: trim_right_space_def)
  with l show ?thesis by (simp add: trim_space_def)
qed

lemma OpenSealed_blob:
  assumes "aead_ok k" and "length nonce = ad_nonce_size k"
  shows "OpenSealed k (blob_prefix @ b64_encode (nonce @ ad_seal k nonce plain)) = Inr plain"
proof -
  let ?b = "blob_prefix @ b64_encode (nonce @ ad_seal k nonce plain)"
  have "has_prefix ?b blob_prefix" "trim_prefix ?b blob_prefix = b64_encode (nonce @ ad_seal k nonce plain)"
    by (simp_all add: has_prefix_iff trim_prefix_def)
  with assms show ?thesis by (simp add: OpenSealed_def b64_roundtrip aead_ok_def)
qed

text \<open>
  C12: What is sealed comes back: with a cipher whose opening undoes its sealing, every blob
  \<open>Seal\<close> makes of a secret, with any nonce of the right size, is opened to that secret.
\<close>

theorem Seal_roundtrip:
  assumes "aead_ok k" and "length nonce = ad_nonce_size k" and "Seal k (Inr nonce) plain = Inr blob"
  shows "OpenSealed k blob = Inr plain \<and> has_prefix blob blob_prefix"
  using assms(3) OpenSealed_blob [OF assms(1,2), of plain] by (auto simp: Seal_def has_prefix_iff)

definition demo_aead :: aead where
  "demo_aead = \<lparr>ad_nonce_size = 2, ad_seal = (\<lambda>n p. p @ n),
     ad_open = (\<lambda>n c. if drop (length c - length n) c = n then Some (take (length c - length n) c) else None)\<rparr>"

lemma demo_aead_ok: "aead_ok demo_aead"
  by (simp add: aead_ok_def demo_aead_def)

theorem Seal_roundtrip_witness:
  "\<exists>blob. Seal demo_aead (Inr ''xy'') ''secret'' = Inr blob \<and> OpenSealed demo_aead blob = Inr ''secret''"
proof -
  obtain blob where s: "Seal demo_aead (Inr ''xy'') ''secret'' = Inr blob" by (simp add: Seal_def)
  have "length ''xy'' = ad_nonce_size demo_aead" by (simp add: demo_aead_def)
  from Seal_roundtrip [OF demo_aead_ok this s] s show ?thesis by blast
qed

text \<open>
  The master key survives a restart: the key the first run draws and writes, 32 bytes,
  is the key every later run reads from that file, whatever its own random source, directory
  and disk would say; and a later run writes nothing.
\<close>

theorem master_key_survives_restart:
  assumes "loadOrCreate path [] NoFile (Inr key) mkdir write = (Inr key', Some content)" and "length key = keyLen"
  shows "key' = key \<and> loadOrCreate path [] (FileText content) rnd2 mkdir2 write2 = (Inr key, None)"
proof -
  have c: "key' = key" "content = b64_encode key @ [CHR 0x0A]"
    using assms(1) by (auto simp: loadOrCreate_def split: option.splits)
  have "b64_encode key \<noteq> []" using assms(2) by (auto simp: keyLen_def)
  then have "trim_space content = b64_encode key"
    unfolding c(2) by (rule trim_newline) (use b64_encode_clean [of key] in \<open>auto simp: list_all_iff clean_digit_def\<close>)
  with assms(2) c(1) show ?thesis by (simp add: loadOrCreate_def b64_roundtrip)
qed

theorem master_key_survives_restart_witness:
  "\<exists>content. loadOrCreate ''master.key'' [] NoFile (Inr (replicate 32 CHR ''k'')) None None = (Inr (replicate 32 CHR ''k''), Some content)
     \<and> loadOrCreate ''master.key'' [] (FileText content) (Inl b64_error) None (Some b64_error) = (Inr (replicate 32 CHR ''k''), None)"
proof -
  let ?k = "replicate 32 CHR ''k''"
  obtain content where f: "loadOrCreate ''master.key'' [] NoFile (Inr ?k) None None = (Inr ?k, Some content)"
    by (simp add: loadOrCreate_def)
  have "length ?k = keyLen" by (simp add: keyLen_def)
  from master_key_survives_restart [OF f this, of "Inl b64_error" None "Some b64_error"] f show ?thesis by blast
qed

end
