(* ===== verification/Provider.thy ===== *)
theory Provider imports Engine Keyring "HOL-Library.Multiset" begin

text \<open>
  \<^verbatim>\<open>internal/provider/provider.go\<close>: the power actions, the credentials of a cloud account and
  their validation against a provider's form, and the registry of providers.  A provider is
  the Go interface: its operations act on a world \<open>'w\<close>, the cloud.
\<close>

section \<open>Power actions\<close>

definition PowerStart :: string where "PowerStart = ''start''"
definition PowerStop :: string where "PowerStop = ''stop''"
definition PowerReboot :: string where "PowerReboot = ''reboot''"
definition PowerForceStop :: string where "PowerForceStop = ''force_stop''"
definition PowerForceReboot :: string where "PowerForceReboot = ''force_reboot''"

lemmas power_names = PowerStart_def PowerStop_def PowerReboot_def PowerForceStop_def PowerForceReboot_def

definition Danger :: "string \<Rightarrow> nat" where
  "Danger a = (if a = PowerStart then 1 else 2)"

definition Valid :: "string \<Rightarrow> bool" where
  "Valid a \<longleftrightarrow> a = PowerStart \<or> a = PowerStop \<or> a = PowerReboot \<or> a = PowerForceStop \<or> a = PowerForceReboot"

record 'w Provider =
  pv_name :: string
  pv_list :: "'w \<Rightarrow> CloudInstance list result \<times> 'w"
  pv_state :: "string \<Rightarrow> 'w \<Rightarrow> string result \<times> 'w"
  pv_power :: "string \<Rightarrow> string \<Rightarrow> 'w \<Rightarrow> go_err option \<times> 'w"

section \<open>Credentials\<close>

record Credentials =
  cd_token :: string
  cd_access_key_id :: string
  cd_secret_access_key :: string
  cd_regions :: "string list"
  cd_subscription_id :: string
  cd_tenant_id :: string
  cd_client_id :: string
  cd_client_secret :: string
  cd_service_account :: string
  cd_projects :: "string list"

definition no_credentials :: Credentials where
  "no_credentials = \<lparr>cd_token = [], cd_access_key_id = [], cd_secret_access_key = [], cd_regions = [],
     cd_subscription_id = [], cd_tenant_id = [], cd_client_id = [], cd_client_secret = [],
     cd_service_account = [], cd_projects = []\<rparr>"

definition Get :: "Credentials \<Rightarrow> string \<Rightarrow> string" where
  "Get c name =
     (if name = ''token'' then cd_token c
      else if name = ''accessKeyId'' then cd_access_key_id c
      else if name = ''secretAccessKey'' then cd_secret_access_key c
      else if name = ''regions'' then join '','' (cd_regions c)
      else if name = ''subscriptionId'' then cd_subscription_id c
      else if name = ''tenantId'' then cd_tenant_id c
      else if name = ''clientId'' then cd_client_id c
      else if name = ''clientSecret'' then cd_client_secret c
      else if name = ''serviceAccountJson'' then cd_service_account c
      else if name = ''projects'' then join '','' (cd_projects c)
      else [])"

definition Empty :: "Credentials \<Rightarrow> bool" where
  "Empty c \<longleftrightarrow> cd_token c = [] \<and> cd_access_key_id c = [] \<and> cd_secret_access_key c = [] \<and> length (cd_regions c) = 0
     \<and> cd_subscription_id c = [] \<and> cd_tenant_id c = [] \<and> cd_client_id c = [] \<and> cd_client_secret c = []
     \<and> cd_service_account c = [] \<and> length (cd_projects c) = 0"

section \<open>Forms\<close>

definition FieldText :: string where "FieldText = ''text''"

definition FieldSecret :: string where "FieldSecret = ''secret''"

definition FieldList :: string where "FieldList = ''list''"

definition FieldTextarea :: string where "FieldTextarea = ''textarea''"

record Field =
  fd_name :: string
  fd_label :: string
  fd_kind :: string
  fd_optional :: bool
  fd_hint :: string

record Spec =
  sp_name :: string
  sp_label :: string
  sp_form :: "Field list"
  sp_notes :: string

fun validate_form :: "Field list \<Rightarrow> Credentials \<Rightarrow> go_err option" where
  "validate_form [] c = None"
| "validate_form (f # fs) c =
     (if \<not> fd_optional f \<and> trim_space (Get c (fd_name f)) = [] then Some (Text (fd_label f @ '' is required''))
      else validate_form fs c)"

definition Validate :: "Spec \<Rightarrow> Credentials \<Rightarrow> go_err option" where
  "Validate s c = validate_form (sp_form s) c"

section \<open>The registry\<close>

record 'w entry =
  et_spec :: Spec
  et_factory :: "Credentials \<Rightarrow> 'w Provider result"

text \<open>The map from names to entries, as the list of its bindings in some order (Go's map order is arbitrary).\<close>

type_synonym 'w registry = "(string \<times> 'w entry) list"

definition Register :: "Spec \<Rightarrow> (Credentials \<Rightarrow> 'w Provider result) \<Rightarrow> 'w registry \<Rightarrow> 'w registry" where
  "Register spec f reg = (sp_name spec, \<lparr>et_spec = spec, et_factory = f\<rparr>) # filter (\<lambda>(n, _). n \<noteq> sp_name spec) reg"

definition New_provider :: "'w registry \<Rightarrow> string \<Rightarrow> Credentials \<Rightarrow> 'w Provider result" where
  "New_provider reg name c =
     (case map_of reg name of
        None \<Rightarrow> Inl (Wrap [] (Sentinel ErrUnknownProvider) ('': '' @ go_quote name))
      | Some e \<Rightarrow>
          (case Validate (et_spec e) c of
             Some err \<Rightarrow> Inl (Wrap (sp_label (et_spec e) @ '': '') err [])
           | None \<Rightarrow> et_factory e c))"

definition Lookup_spec :: "'w registry \<Rightarrow> string \<Rightarrow> Spec option" where
  "Lookup_spec reg name = map_option et_spec (map_of reg name)"

definition Specs :: "'w registry \<Rightarrow> Spec list" where
  "Specs reg = sort_key sp_name (map (\<lambda>(_, e). et_spec e) reg)"

definition Names :: "'w registry \<Rightarrow> string list" where
  "Names reg = sort (map fst reg)"

section \<open>Properties\<close>

text \<open>A registry made by registrations: names are distinct and each is the name of its spec.\<close>

definition registry_ok :: "'w registry \<Rightarrow> bool" where
  "registry_ok reg \<longleftrightarrow> distinct (map fst reg) \<and> (\<forall>(n, e) \<in> set reg. sp_name (et_spec e) = n)"

definition register_all :: "(Spec \<times> (Credentials \<Rightarrow> 'w Provider result)) list \<Rightarrow> 'w registry" where
  "register_all ps = fold (\<lambda>(s, f). Register s f) ps []"

lemma registry_ok_Register: "registry_ok reg \<Longrightarrow> registry_ok (Register s f reg)"
  by (auto simp: registry_ok_def Register_def image_iff)

lemma registry_ok_fold: "registry_ok reg \<Longrightarrow> registry_ok (fold (\<lambda>(s, f). Register s f) ps reg)"
  by (induction ps arbitrary: reg) (auto simp: registry_ok_Register)

lemma map_of_Register:
  "map_of (Register s f reg) n = (if n = sp_name s then Some \<lparr>et_spec = s, et_factory = f\<rparr> else map_of reg n)"
proof -
  have "map_of (filter (\<lambda>(n, _). n \<noteq> k) reg) n = (if n = k then None else map_of reg n)" for k
    by (induction reg) auto
  then show ?thesis by (simp add: Register_def)
qed

lemma validate_form_iff:
  "validate_form fs c = None \<longleftrightarrow> (\<forall>f \<in> set fs. fd_optional f \<or> trim_space (Get c (fd_name f)) \<noteq> [])"
  by (induction fs) auto

lemma Lookup_fold:
  "Lookup_spec (fold (\<lambda>(s, f). Register s f) ps reg) n =
     (case find (\<lambda>(s, f). sp_name s = n) (rev ps) of Some (s, f) \<Rightarrow> Some s | None \<Rightarrow> Lookup_spec reg n)"
proof (induction ps arbitrary: reg)
  case (Cons p ps)
  have snoc: "find P (xs @ [x]) = (case find P xs of None \<Rightarrow> if P x then Some x else None | Some y \<Rightarrow> Some y)"
    for P and xs :: "'b list" and x by (induction xs) auto
  obtain s f where p: "p = (s, f)" by (cases p)
  have "Lookup_spec (Register s f reg) n = (if n = sp_name s then Some s else Lookup_spec reg n)"
    by (simp add: Lookup_spec_def map_of_Register)
  with Cons.IH [of "Register s f reg"] show ?case by (auto simp: p snoc split: option.splits)
qed simp

text \<open>
  The registry, after any registrations.  Each name has the spec registered last under
  it; the list of specs the interface shows is in strictly increasing order of names, so
  it has each provider once and does not depend on the order of Go's map, and agrees with the
  lookup; a provider is made only of credentials that fill in every required field of its form.
\<close>

theorem registry_lists_each_once:
  "(Lookup_spec (register_all ps) n = map_option fst (find (\<lambda>(s, f). sp_name s = n) (rev ps)))
   \<and> sorted (map sp_name (Specs (register_all ps))) \<and> distinct (map sp_name (Specs (register_all ps)))
   \<and> map sp_name (Specs (register_all ps)) = Names (register_all ps)
   \<and> (s \<in> set (Specs (register_all ps)) \<longleftrightarrow> Lookup_spec (register_all ps) (sp_name s) = Some s)
   \<and> (\<forall>p. New_provider (register_all ps) n c = Inr p \<longrightarrow>
        (\<exists>s. Lookup_spec (register_all ps) n = Some s
           \<and> (\<forall>f \<in> set (sp_form s). fd_optional f \<or> trim_space (Get c (fd_name f)) \<noteq> [])))"
proof -
  let ?reg = "register_all ps"
  have ok: "registry_ok ?reg" unfolding register_all_def by (rule registry_ok_fold) (simp add: registry_ok_def)
  have names: "map sp_name (map (\<lambda>(_, e). et_spec e) ?reg) = map fst ?reg"
    using ok by (auto simp: registry_ok_def)
  have sorted: "sorted (map sp_name (Specs ?reg))" by (simp add: Specs_def)
  have m: "mset (map sp_name (Specs ?reg)) = mset (map fst ?reg)"
    unfolding names [symmetric] Specs_def by (simp only: mset_map mset_sort)
  have dist: "distinct (map sp_name (Specs ?reg))"
    using ok mset_eq_imp_distinct_iff [OF m] by (simp add: registry_ok_def)
  have same: "map sp_name (Specs ?reg) = Names ?reg"
    unfolding Names_def by (rule properties_for_sort [symmetric]) (use m sorted in auto)
  have mem: "s \<in> set (Specs ?reg) \<longleftrightarrow> Lookup_spec ?reg (sp_name s) = Some s"
  proof
    assume "s \<in> set (Specs ?reg)"
    then obtain n e where ne: "(n, e) \<in> set ?reg" "s = et_spec e" by (auto simp: Specs_def)
    then have "map_of ?reg n = Some e" "sp_name s = n"
      using ok by (auto simp: registry_ok_def)
    then show "Lookup_spec ?reg (sp_name s) = Some s" by (simp add: Lookup_spec_def ne(2))
  next
    assume "Lookup_spec ?reg (sp_name s) = Some s"
    then obtain e where "(sp_name s, e) \<in> set ?reg" "s = et_spec e"
      by (auto simp: Lookup_spec_def dest: map_of_SomeD)
    then show "s \<in> set (Specs ?reg)" by (force simp: Specs_def)
  qed
  have look: "Lookup_spec ?reg n = map_option fst (find (\<lambda>(s, f). sp_name s = n) (rev ps))"
  proof -
    have "Lookup_spec [] n = None" by (simp add: Lookup_spec_def)
    then show ?thesis unfolding register_all_def Lookup_fold by (auto split: option.splits)
  qed
  have new: "\<exists>s. Lookup_spec ?reg n = Some s \<and> (\<forall>f \<in> set (sp_form s). fd_optional f \<or> trim_space (Get c (fd_name f)) \<noteq> [])"
    if "New_provider ?reg n c = Inr p" for p
    using that by (auto simp: New_provider_def Lookup_spec_def Validate_def validate_form_iff split: option.splits)
  show ?thesis using look sorted dist same mem new by blast
qed

theorem registry_lists_each_once_witness:
  "map sp_name (Specs (register_all [(\<lparr>sp_name = ''b'', sp_label = ''B'', sp_form = [], sp_notes = []\<rparr>, \<lambda>c. Inl (Text []) :: unit Provider result),
      (\<lparr>sp_name = ''a'', sp_label = ''A'', sp_form = [], sp_notes = []\<rparr>, \<lambda>c. Inl (Text []))])) = [''a'', ''b'']"
proof -
  let ?ps = "[(\<lparr>sp_name = ''b'', sp_label = ''B'', sp_form = [], sp_notes = []\<rparr>, \<lambda>c. Inl (Text []) :: unit Provider result),
      (\<lparr>sp_name = ''a'', sp_label = ''A'', sp_form = [], sp_notes = []\<rparr>, \<lambda>c. Inl (Text []))]"
  from registry_lists_each_once [of ?ps] have "map sp_name (Specs (register_all ?ps)) = Names (register_all ?ps)" by blast
  also have "\<dots> = [''a'', ''b'']" by (simp add: Names_def register_all_def Register_def)
  finally show ?thesis .
qed

end
