(* ===== verification/Server.thy ===== *)
theory Server imports Engine Broker Keyring begin

text \<open>
  \<^verbatim>\<open>internal/api/server.go\<close>: what every request passes (the guard against other web sites), how
  errors become responses, and how a machine becomes an SSH target.  A response carries its
  status and either a value (whose JSON is not modelled), an \<^verbatim>\<open>apiError\<close> or nothing.
  Parsing a URL (\<^verbatim>\<open>net/url\<close>) and JSON are arguments.
\<close>

section \<open>Responses\<close>

text \<open>The details some errors carry: a host key's algorithm and fingerprint, or the hosts a bulk run would touch.\<close>

datatype details = KeyDetails string string | HostDetails nat "string list"

record apiError =
  ae_error :: string
  ae_code :: string
  ae_details :: "details option"

datatype 'v response = Reply int 'v | Refuse int apiError | NoBody int

definition api_error :: "string \<Rightarrow> string \<Rightarrow> apiError" where
  "api_error e c = \<lparr>ae_error = e, ae_code = c, ae_details = None\<rparr>"

definition badRequest :: "string \<Rightarrow> 'v response" where
  "badRequest msg = Refuse 400 (api_error msg ''bad_request'')"

definition fail_code :: "go_err \<Rightarrow> int \<times> string" where
  "fail_code e =
     (if errors_is e ErrNotFound then (404, ''not_found'')
      else if errors_is e ErrNeedsConfirm then (428, ''needs_confirm'')
      else if errors_is e ErrNeedsName then (428, ''needs_name'')
      else if errors_is e ErrForbidden then (403, ''forbidden'')
      else if errors_is e ErrBadParam \<or> errors_is e ErrUnknownAction then (400, ''bad_request'')
      else if errors_is e ErrNotAvailable \<or> errors_is e ErrNoHost \<or> errors_is e ErrNoFacts \<or> errors_is e ErrSudoUnavailable
      then (409, ''not_available'')
      else if errors_is e ErrHostKeyMismatch then (409, ''hostkey_changed'')
      else if errors_is e ErrAuth then (502, ''auth_failed'')
      else if errors_is e ErrTimeout \<or> errors_is e ErrRefused \<or> errors_is e ErrNoRoute then (502, ''unreachable'')
      else (500, ''internal''))"

definition fail :: "go_err \<Rightarrow> 'v response" where
  "fail e = Refuse (fst (fail_code e))
     \<lparr>ae_error = err_text e, ae_code = snd (fail_code e), ae_details = map_option (\<lambda>(a, f). KeyDetails a f) (errors_as_mismatch e)\<rparr>"

definition pathID :: "string \<Rightarrow> int option" where
  "pathID s = (case parse_int64 s of (n, ok) \<Rightarrow> if ok then Some n else None)"

section \<open>Host names\<close>

text \<open>\<^verbatim>\<open>net.SplitHostPort\<close>: host and port, or nothing on any of its errors.\<close>

definition SplitHostPort :: "string \<Rightarrow> (string \<times> string) option" where
  "SplitHostPort hostport =
     (case cut_last CHR '':'' hostport of
        None \<Rightarrow> None
      | Some (before, port) \<Rightarrow>
          if has_prefix hostport ''['' then
            (case cut_on CHR '']'' hostport of
               None \<Rightarrow> None
             | Some (bracketed, after) \<Rightarrow>
                 if after = CHR '':'' # port \<and> CHR ''['' \<notin> set (tl hostport) \<and> CHR '']'' \<notin> set after
                 then Some (tl bracketed, port) else None)
          else if CHR '':'' \<in> set before \<or> CHR ''['' \<in> set hostport \<or> CHR '']'' \<in> set hostport then None
          else Some (before, port))"

definition hostOnly :: "string \<Rightarrow> string" where
  "hostOnly h =
     (let h' = (case SplitHostPort h of None \<Rightarrow> h | Some (host, _) \<Rightarrow> host)
      in to_lower (trim_set [CHR ''['', CHR '']''] h'))"

text \<open>
  \<^verbatim>\<open>strings.EqualFold\<close> on ASCII and on the two other runes whose fold is an ASCII letter
  (the Kelvin sign and the long s); any other rune equals only itself here.
\<close>

fun fold_case :: "string \<Rightarrow> string" where
  "fold_case (a # b # c # s) =
     (if a = CHR 0xE2 \<and> b = CHR 0x84 \<and> c = CHR 0xAA then CHR ''k'' # fold_case s
      else if a = CHR 0xC5 \<and> b = CHR 0xBF then CHR ''s'' # fold_case (c # s)
      else ascii_lower a # fold_case (b # c # s))"
| "fold_case [a, b] = (if a = CHR 0xC5 \<and> b = CHR 0xBF then ''s'' else [ascii_lower a, ascii_lower b])"
| "fold_case s = map ascii_lower s"

definition EqualFold :: "string \<Rightarrow> string \<Rightarrow> bool" where
  "EqualFold s t \<longleftrightarrow> fold_case s = fold_case t"

section \<open>The server and its guard\<close>

text \<open>The part of \<^verbatim>\<open>Server\<close> that \<^verbatim>\<open>New\<close> computes: the allowlist of hosts.\<close>

record Server =
  sv_hosts :: "string list"
  sv_any_host :: bool

definition New :: "string list \<Rightarrow> bool \<Rightarrow> Server" where
  "New allowed any = \<lparr>sv_hosts = [''localhost'', ''127.0.0.1'', ''::1''] @ map hostOnly allowed, sv_any_host = any\<rparr>"

definition hostAllowed :: "Server \<Rightarrow> string \<Rightarrow> bool" where
  "hostAllowed s host \<longleftrightarrow> sv_any_host s \<or> list_has (sv_hosts s) (hostOnly host)"

text \<open>\<open>url_host\<close> is \<^verbatim>\<open>url.Parse\<close> as far as it is used: the \<^verbatim>\<open>Host\<close> of the URL, or its error.\<close>

definition originMatches :: "(string \<Rightarrow> string option) \<Rightarrow> Server \<Rightarrow> string \<Rightarrow> string \<Rightarrow> bool" where
  "originMatches url_host s origin reqHost =
     (case url_host origin of
        None \<Rightarrow> False
      | Some h \<Rightarrow> h \<noteq> [] \<and> hostAllowed s h \<and> EqualFold h reqHost)"

record http_request =
  hr_method :: string
  hr_path :: string
  hr_host :: string
  hr_origin :: string
  hr_fetch_site :: string
  hr_content_type :: string
  hr_content_length :: int

definition originOK :: "(string \<Rightarrow> string option) \<Rightarrow> Server \<Rightarrow> http_request \<Rightarrow> bool" where
  "originOK url_host s r =
     (if hr_origin r = [] then hostAllowed s (hr_host r) else originMatches url_host s (hr_origin r) (hr_host r))"

definition isJSON :: "string \<Rightarrow> bool" where
  "isJSON contentType \<longleftrightarrow>
     to_lower (trim_space (case cut_on CHR '';'' contentType of None \<Rightarrow> contentType | Some (mt, _) \<Rightarrow> mt)) = ''application/json''"

definition safe_method :: "string \<Rightarrow> bool" where
  "safe_method m \<longleftrightarrow> m = ''GET'' \<or> m = ''HEAD'' \<or> m = ''OPTIONS''"

definition is_api :: "http_request \<Rightarrow> bool" where
  "is_api r \<longleftrightarrow> has_prefix (hr_path r) ''/api/''"

definition guard ::
    "(string \<Rightarrow> string option) \<Rightarrow> Server \<Rightarrow> (http_request \<Rightarrow> 'w \<Rightarrow> 'v response \<times> 'w) \<Rightarrow> http_request \<Rightarrow> 'w \<Rightarrow> 'v response \<times> 'w" where
  "guard url_host s next_handler r w =
     (if \<not> is_api r then next_handler r w
      else if \<not> hostAllowed s (hr_host r) then
        (Refuse 421 (api_error (''cloudroof is not configured to serve on host '' @ go_quote (hr_host r)
           @ [CHR 0x20, CHR 0xE2, CHR 0x80, CHR 0x94] @ '' start it with -hosts '' @ hostOnly (hr_host r)) ''bad_host''), w)
      else if hr_origin r \<noteq> [] \<and> \<not> originMatches url_host s (hr_origin r) (hr_host r) then
        (Refuse 403 (api_error ''cross-origin request refused'' ''forbidden_origin''), w)
      else if hr_fetch_site r \<noteq> [] \<and> hr_fetch_site r \<noteq> ''same-origin'' \<and> hr_fetch_site r \<noteq> ''none'' then
        (Refuse 403 (api_error ''cross-site request refused'' ''forbidden_origin''), w)
      else if \<not> safe_method (hr_method r) \<and> hr_content_length r \<noteq> 0 \<and> \<not> isJSON (hr_content_type r) then
        (Refuse 415 (api_error ''request body must be application/json'' ''bad_request''), w)
      else next_handler r w)"

section \<open>Targets\<close>

record sealedSecret =
  sk_private_key :: string
  sk_passphrase :: string
  sk_password :: string

text \<open>\<^verbatim>\<open>net.JoinHostPort\<close>.\<close>

definition JoinHostPort :: "string \<Rightarrow> string \<Rightarrow> string" where
  "JoinHostPort host port =
     (if CHR '':'' \<in> set host then CHR ''['' # host @ '']:'' @ port else host @ CHR '':'' # port)"

text \<open>\<open>open_sealed\<close> is the keyring's \<open>OpenSealed\<close>, \<open>uj\<close> is \<^verbatim>\<open>json.Unmarshal\<close> into a \<^verbatim>\<open>sealedSecret\<close>.\<close>

definition resolveTarget ::
    "aead \<Rightarrow> (string \<Rightarrow> sealedSecret option) \<Rightarrow> Machine \<Rightarrow> db \<Rightarrow> Target result" where
  "resolveTarget keys uj m d =
     (case m_credential m of
        None \<Rightarrow> Inl (Sentinel ErrNoHost)
      | Some cid \<Rightarrow>
          (case GetCredential cid d of
             Inl e \<Rightarrow> Inl (Wrap ''credential: '' e [])
           | Inr cred \<Rightarrow>
               (case OpenSealed keys (cr_sealed cred) of
                  Inl e \<Rightarrow> Inl e
                | Inr plain \<Rightarrow>
                    (case uj plain of
                       None \<Rightarrow> Inl (Text (''credential '' @ itoa (cr_id cred) @ '': malformed secret''))
                     | Some secret \<Rightarrow>
                         let port = (if m_ssh_port m = 0 then 22 else m_ssh_port m) in
                         Inr \<lparr>tg_id = m_id m,
                           tg_addr = JoinHostPort (trim_set [CHR ''['', CHR '']''] (m_ssh_host m)) (itoa port),
                           tg_user = m_ssh_user m,
                           tg_auth = \<lparr>au_private_key = sk_private_key secret, au_passphrase = sk_passphrase secret,
                                      au_password = sk_password secret\<rparr>\<rparr>))))"

section \<open>Properties\<close>

text \<open>The name part of a Host header, whatever the port.\<close>

definition bare_name :: "string \<Rightarrow> bool" where
  "bare_name s \<longleftrightarrow> CHR '':'' \<notin> set s \<and> CHR ''['' \<notin> set s \<and> CHR '']'' \<notin> set s"

lemma trim_set_bare:
  assumes "CHR ''['' \<notin> set s" and "CHR '']'' \<notin> set s"
  shows "trim_set [CHR ''['', CHR '']''] s = s"
proof -
  have "dropWhile (\<lambda>c. c \<in> set [CHR ''['', CHR '']'']) t = t" if "set t = set s" for t
    using that assms by (cases t) auto
  from this [of s] this [of "rev s"] show ?thesis by (simp add: trim_set_def)
qed

lemma bare_parts: "bare_name s \<Longrightarrow> CHR '':'' \<notin> set s" "bare_name s \<Longrightarrow> CHR ''['' \<notin> set s" "bare_name s \<Longrightarrow> CHR '']'' \<notin> set s"
  by (simp_all add: bare_name_def)

lemma hostOnly_port:
  assumes "bare_name name" and "bare_name port" and "name \<noteq> []"
  shows "hostOnly (name @ CHR '':'' # port) = to_lower name"
proof -
  have "cut_last CHR '':'' (name @ CHR '':'' # port) = Some (name, port)"
    using assms(2) by (simp add: cut_last_append bare_name_def)
  moreover have "\<not> has_prefix (name @ CHR '':'' # port) ''[''"
    using assms(1,3) by (cases name) (auto simp: bare_name_def)
  ultimately have "SplitHostPort (name @ CHR '':'' # port) = Some (name, port)"
    using assms(1,2) by (simp add: SplitHostPort_def bare_name_def)
  then show ?thesis using bare_parts [OF assms(1)] by (simp add: hostOnly_def trim_set_bare del: set_simps)
qed

lemma hostOnly_v6:
  assumes "CHR ''['' \<notin> set a" "CHR '']'' \<notin> set a" and "bare_name port" and "a \<noteq> []"
  shows "hostOnly (CHR ''['' # a @ CHR '']'' # CHR '':'' # port) = to_lower a"
proof -
  let ?h = "CHR ''['' # a @ CHR '']'' # CHR '':'' # port"
  have "cut_last CHR '':'' ?h = Some (CHR ''['' # a @ [CHR '']''], port)"
    using cut_last_append [of "CHR '':''" port "CHR ''['' # a @ [CHR '']'']"] assms(3) by (simp add: bare_name_def)
  moreover have "cut_on CHR '']'' ?h = Some (CHR ''['' # a, CHR '':'' # port)"
    using cut_on_append [of "CHR '']''" "CHR ''['' # a" "CHR '':'' # port"] assms(2) by simp
  ultimately have "SplitHostPort ?h = Some (a, port)"
    using assms by (auto simp: SplitHostPort_def bare_name_def)
  then show ?thesis using trim_set_bare [OF assms(1,2)] by (simp add: hostOnly_def)
qed

text \<open>The names a server answers to.\<close>

definition served_names :: "string list \<Rightarrow> string set" where
  "served_names allowed = {''localhost'', ''127.0.0.1'', ''::1''} \<union> hostOnly ` set allowed"

lemma hostAllowed_New: "hostAllowed (New allowed False) h \<longleftrightarrow> hostOnly h \<in> served_names allowed"
  by (auto simp: hostAllowed_def New_def served_names_def)


definition rebound_request :: http_request where
  "rebound_request = \<lparr>hr_method = ''GET'', hr_path = ''/api/machines'', hr_host = ''Evil.example:7070'', hr_origin = [],
     hr_fetch_site = [], hr_content_type = [], hr_content_length = 0\<rparr>"


end
