(* ===== verification/Pool.thy ===== *)
theory Pool imports Broker begin

text \<open>
  The connection pool of \<^verbatim>\<open>broker.go\<close> as a step relation.  Each step is one critical section
  of \<^verbatim>\<open>b.mu\<close> or one action between two of them; any number of goroutines take them in any
  order.  Connections are numbered as they are dialed.  The state records, beside the map
  \<^verbatim>\<open>conns\<close>, which clients are open, which \<^verbatim>\<open>done\<close> channels are closed, which goroutine is
  between two of its steps with which connection in hand, and which keepalive loops run.
\<close>

record pool =
  pl_conns :: "int \<Rightarrow> nat option"
  pl_next :: nat
  pl_open :: "nat set"
  pl_done :: "nat set"
  pl_panicked :: bool
  pl_dialed :: "(int \<times> nat) set"
  pl_losing :: "nat set"
  pl_dropping :: "nat set"
  pl_keep :: "(int \<times> nat) set"

definition NewBroker :: pool where
  "NewBroker = \<lparr>pl_conns = Map.empty, pl_next = 0, pl_open = {}, pl_done = {}, pl_panicked = False,
     pl_dialed = {}, pl_losing = {}, pl_dropping = {}, pl_keep = {}\<rparr>"

section \<open>The operations\<close>

text \<open>\<^verbatim>\<open>Get\<close>: the first lookup; a dial that succeeded; the second lookup, which installs or loses the race; the loser closing its client.\<close>

definition get_lookup :: "int \<Rightarrow> pool \<Rightarrow> nat option" where
  "get_lookup i p = pl_conns p i"

definition get_dialed :: "int \<Rightarrow> pool \<Rightarrow> pool" where
  "get_dialed i p = p\<lparr>pl_next := pl_next p + 1, pl_open := insert (pl_next p) (pl_open p),
     pl_dialed := insert (i, pl_next p) (pl_dialed p)\<rparr>"

definition get_install :: "int \<Rightarrow> nat \<Rightarrow> pool \<Rightarrow> nat \<times> pool" where
  "get_install i c p =
     (case pl_conns p i of
        Some existing \<Rightarrow> (existing, p\<lparr>pl_dialed := pl_dialed p - {(i, c)}, pl_losing := insert c (pl_losing p)\<rparr>)
      | None \<Rightarrow> (c, p\<lparr>pl_dialed := pl_dialed p - {(i, c)}, pl_conns := (pl_conns p)(i \<mapsto> c), pl_keep := insert (i, c) (pl_keep p)\<rparr>))"

definition get_lose :: "nat \<Rightarrow> pool \<Rightarrow> pool" where
  "get_lose c p = p\<lparr>pl_losing := pl_losing p - {c}, pl_open := pl_open p - {c}\<rparr>"

text \<open>\<^verbatim>\<open>Drop\<close>: forget the machine's connection; then close its \<^verbatim>\<open>done\<close> (twice would panic) and its client.\<close>

definition drop_take :: "int \<Rightarrow> pool \<Rightarrow> pool" where
  "drop_take i p =
     (case pl_conns p i of
        None \<Rightarrow> p
      | Some c \<Rightarrow> p\<lparr>pl_conns := (pl_conns p)(i := None), pl_dropping := insert c (pl_dropping p)\<rparr>)"

definition drop_finish :: "nat \<Rightarrow> pool \<Rightarrow> pool" where
  "drop_finish c p = p\<lparr>pl_panicked := (pl_panicked p \<or> c \<in> pl_done p), pl_done := insert c (pl_done p),
     pl_open := pl_open p - {c}, pl_dropping := pl_dropping p - {c}\<rparr>"

definition Drop :: "int \<Rightarrow> pool \<Rightarrow> pool" where
  "Drop i p = (case pl_conns p i of None \<Rightarrow> p | Some c \<Rightarrow> drop_finish c (drop_take i p))"

text \<open>\<^verbatim>\<open>Close\<close>: one snapshot of the ids, then a \<^verbatim>\<open>Drop\<close> for each.\<close>

definition Close_all :: "int list \<Rightarrow> pool \<Rightarrow> pool" where
  "Close_all is p = fold Drop is p"

text \<open>The keepalive loop ends when \<^verbatim>\<open>done\<close> is closed, or after a failed or missing reply, with a \<^verbatim>\<open>Drop\<close> of its machine.\<close>

definition keep_exit :: "int \<Rightarrow> nat \<Rightarrow> pool \<Rightarrow> pool" where
  "keep_exit i c p = p\<lparr>pl_keep := pl_keep p - {(i, c)}\<rparr>"

definition keep_fail :: "int \<Rightarrow> nat \<Rightarrow> pool \<Rightarrow> pool" where
  "keep_fail i c p = drop_take i (keep_exit i c p)"

lemmas pool_defs [pool_simps] = get_dialed_def get_install_def get_lose_def drop_take_def drop_finish_def
  keep_exit_def keep_fail_def

inductive pool_step :: "pool \<Rightarrow> pool \<Rightarrow> bool" where
  pl_dial: "pool_step p (get_dialed i p)"
| pl_install: "(i, c) \<in> pl_dialed p \<Longrightarrow> pool_step p (snd (get_install i c p))"
| pl_lose: "c \<in> pl_losing p \<Longrightarrow> pool_step p (get_lose c p)"
| pl_take: "pool_step p (drop_take i p)"
| pl_finish: "c \<in> pl_dropping p \<Longrightarrow> pool_step p (drop_finish c p)"
| pl_keep_done: "(i, c) \<in> pl_keep p \<Longrightarrow> c \<in> pl_done p \<Longrightarrow> pool_step p (keep_exit i c p)"
| pl_keep_fail: "(i, c) \<in> pl_keep p \<Longrightarrow> pool_step p (keep_fail i c p)"

inductive_cases pool_stepE: "pool_step p q"

abbreviation pool_steps :: "pool \<Rightarrow> pool \<Rightarrow> bool" where
  "pool_steps \<equiv> pool_step\<^sup>*\<^sup>*"

section \<open>The life of a connection\<close>

text \<open>
  The abstract view: each connection is in one place, and moves along one path.  A machine
  has at most one pooled connection, which is all the map of the code promises.
\<close>

datatype place = Undialed | Dialed int | Pooled int | Losing | Dropping | Closed

inductive life_step :: "(nat \<Rightarrow> place) \<Rightarrow> (nat \<Rightarrow> place) \<Rightarrow> bool" where
  ls_dial: "loc c = Undialed \<Longrightarrow> life_step loc (loc(c := Dialed i))"
| ls_pool: "loc c = Dialed i \<Longrightarrow> \<forall>b. loc b \<noteq> Pooled i \<Longrightarrow> life_step loc (loc(c := Pooled i))"
| ls_lose: "loc c = Dialed i \<Longrightarrow> life_step loc (loc(c := Losing))"
| ls_drop: "loc c = Pooled i \<Longrightarrow> life_step loc (loc(c := Dropping))"
| ls_close: "loc c = Losing \<or> loc c = Dropping \<Longrightarrow> life_step loc (loc(c := Closed))"
| ls_stay: "life_step loc loc"

definition pool_rel :: "pool \<Rightarrow> (nat \<Rightarrow> place) \<Rightarrow> bool" where
  "pool_rel p loc \<longleftrightarrow>
     (\<forall>i c. pl_conns p i = Some c \<longleftrightarrow> loc c = Pooled i)
   \<and> pl_dialed p = {(i, c). loc c = Dialed i} \<and> pl_losing p = {c. loc c = Losing} \<and> pl_dropping p = {c. loc c = Dropping}
   \<and> pl_open p = {c. loc c \<noteq> Undialed \<and> loc c \<noteq> Closed}
   \<and> (\<forall>c. loc c = Undialed \<longleftrightarrow> pl_next p \<le> c)
   \<and> (\<forall>c \<in> pl_done p. loc c = Closed) \<and> \<not> pl_panicked p
   \<and> (\<forall>i c. loc c = Pooled i \<longrightarrow> (i, c) \<in> pl_keep p)
   \<and> (\<forall>i c. (i, c) \<in> pl_keep p \<longrightarrow> loc c = Pooled i \<or> loc c = Dropping \<or> c \<in> pl_done p)"

lemma rel_new: "pool_rel NewBroker (\<lambda>_. Undialed)"
  by (simp add: pool_rel_def NewBroker_def)

lemma rel_done: "pool_rel p loc \<Longrightarrow> c \<in> pl_done p \<Longrightarrow> loc c = Closed"
  by (simp add: pool_rel_def)

lemma rel_keep: "pool_rel p loc \<Longrightarrow> (i, c) \<in> pl_keep p \<Longrightarrow> loc c = Pooled i \<or> loc c = Dropping \<or> loc c = Closed \<and> c \<in> pl_done p"
  unfolding pool_rel_def by metis

lemma rel_conns: "pool_rel p loc \<Longrightarrow> pl_conns p i = Some c \<longleftrightarrow> loc c = Pooled i"
  by (simp add: pool_rel_def)

lemma rel_dialed:
  assumes "pool_rel p loc"
  shows "loc (pl_next p) = Undialed \<and> pool_rel (get_dialed i p) (loc(pl_next p := Dialed i))"
proof -
  have u: "loc (pl_next p) = Undialed" using assms by (simp add: pool_rel_def)
  then have "pl_next p \<notin> pl_done p" "\<forall>j. (j, pl_next p) \<notin> pl_keep p"
    using rel_done [OF assms] rel_keep [OF assms] by fastforce+
  with u assms show ?thesis by (auto simp: pool_rel_def get_dialed_def not_less_eq_eq)
qed

lemma get_install_snd:
  "pl_conns p i = None \<Longrightarrow> snd (get_install i c p) =
     p\<lparr>pl_dialed := pl_dialed p - {(i, c)}, pl_conns := (pl_conns p)(i \<mapsto> c), pl_keep := insert (i, c) (pl_keep p)\<rparr>"
  "pl_conns p i = Some e \<Longrightarrow> snd (get_install i c p) =
     p\<lparr>pl_dialed := pl_dialed p - {(i, c)}, pl_losing := insert c (pl_losing p)\<rparr>"
  by (simp_all add: get_install_def)

lemma rel_install:
  assumes "pool_rel p loc" and "(i, c) \<in> pl_dialed p"
  shows "loc c = Dialed i \<and> (if pl_conns p i = None
      then (\<forall>b. loc b \<noteq> Pooled i) \<and> pool_rel (snd (get_install i c p)) (loc(c := Pooled i))
      else pool_rel (snd (get_install i c p)) (loc(c := Losing)))"
proof -
  have c: "loc c = Dialed i" using assms by (auto simp: pool_rel_def)
  have k: "c \<notin> pl_done p" "\<forall>j. (j, c) \<notin> pl_keep p"
    using rel_done [OF assms(1)] rel_keep [OF assms(1)] c by fastforce+
  show ?thesis
  proof (cases "pl_conns p i")
    case None
    then have "\<forall>b. loc b \<noteq> Pooled i" using rel_conns [OF assms(1), of i] by auto
    with None c k assms(1) show ?thesis
      by (simp add: get_install_snd) (auto simp: pool_rel_def)
  next
    case (Some e)
    with c k assms(1) show ?thesis
      by (simp add: get_install_snd) (auto simp: pool_rel_def)
  qed
qed

lemma rel_lose:
  assumes "pool_rel p loc" and "c \<in> pl_losing p"
  shows "loc c = Losing \<and> pool_rel (get_lose c p) (loc(c := Closed))"
proof -
  have c: "loc c = Losing" using assms by (auto simp: pool_rel_def)
  have "\<forall>j. (j, c) \<notin> pl_keep p" using rel_keep [OF assms(1)] c by fastforce
  with c assms show ?thesis by (auto simp: pool_rel_def get_lose_def)
qed

lemma rel_take:
  assumes "pool_rel p loc"
  shows "case pl_conns p i of None \<Rightarrow> drop_take i p = p
    | Some c \<Rightarrow> loc c = Pooled i \<and> pool_rel (drop_take i p) (loc(c := Dropping))"
proof (cases "pl_conns p i")
  case (Some c)
  then have c: "loc c = Pooled i" using rel_conns [OF assms] by simp
  have other: "\<forall>b. loc b = Pooled i \<longrightarrow> b = c"
  proof (intro allI impI)
    fix b assume "loc b = Pooled i"
    then have "pl_conns p i = Some b" using rel_conns [OF assms] by simp
    with Some show "b = c" by simp
  qed
  have nd: "c \<notin> pl_done p" using rel_done [OF assms] c by fastforce
  have conns: "((pl_conns p)(i := None)) j = Some b \<longleftrightarrow> (loc(c := Dropping)) b = Pooled j" for j b
  proof (cases "j = i")
    case True
    have "(loc(c := Dropping)) b \<noteq> Pooled i" using other by (cases "b = c") auto
    with True show ?thesis by simp
  next
    case False
    then have "loc c \<noteq> Pooled j" using c by simp
    with False rel_conns [OF assms, of j b] show ?thesis by (cases "b = c") auto
  qed
  have eq: "drop_take i p = p\<lparr>pl_conns := (pl_conns p)(i := None), pl_dropping := insert c (pl_dropping p)\<rparr>"
    using Some by (simp add: drop_take_def)
  have "pool_rel (p\<lparr>pl_conns := (pl_conns p)(i := None), pl_dropping := insert c (pl_dropping p)\<rparr>) (loc(c := Dropping))"
    unfolding pool_rel_def
  proof (intro conjI)
    show "\<forall>j b. pl_conns (p\<lparr>pl_conns := (pl_conns p)(i := None), pl_dropping := insert c (pl_dropping p)\<rparr>) j = Some b
        \<longleftrightarrow> (loc(c := Dropping)) b = Pooled j"
      using conns by simp
  qed (use assms c nd in \<open>auto simp: pool_rel_def\<close>)
  with Some c eq show ?thesis by simp
qed (simp add: drop_take_def)

lemma rel_finish:
  assumes "pool_rel p loc" and "c \<in> pl_dropping p"
  shows "loc c = Dropping \<and> pool_rel (drop_finish c p) (loc(c := Closed))"
proof -
  have c: "loc c = Dropping" using assms by (auto simp: pool_rel_def)
  have "c \<notin> pl_done p" using rel_done [OF assms(1)] c by fastforce
  with c assms show ?thesis by (auto simp: pool_rel_def drop_finish_def)
qed

lemma rel_keep_exit:
  assumes "pool_rel p loc" and "loc c \<noteq> Pooled i"
  shows "pool_rel (keep_exit i c p) loc"
  using assms by (auto simp: pool_rel_def keep_exit_def)

text \<open>A failing keepalive leaves its loop and drops whatever its machine has pooled now.\<close>

lemma rel_keep_fail:
  assumes "pool_rel p loc"
  shows "case pl_conns p i of None \<Rightarrow> pool_rel (keep_fail i c p) loc
    | Some b \<Rightarrow> loc b = Pooled i \<and> pool_rel (keep_fail i c p) (loc(b := Dropping))"
proof (cases "pl_conns p i")
  case None
  then have "loc c \<noteq> Pooled i" using rel_conns [OF assms, of i c] by simp
  from rel_keep_exit [OF assms this] None show ?thesis by (simp add: keep_fail_def drop_take_def keep_exit_def)
next
  case (Some b)
  have "keep_fail i c p = keep_exit i c (drop_take i p)"
    using Some by (simp add: keep_fail_def drop_take_def keep_exit_def)
  moreover have b: "loc b = Pooled i" "pool_rel (drop_take i p) (loc(b := Dropping))"
    using rel_take [OF assms, of i] Some by simp_all
  moreover have "(loc(b := Dropping)) c \<noteq> Pooled i"
    using rel_conns [OF assms, of i c] Some by auto
  ultimately show ?thesis using Some rel_keep_exit [of "drop_take i p" "loc(b := Dropping)" c i] by simp
qed

text \<open>Every step of the pool is one step in the life of one connection, or none.\<close>

lemma pool_refines_life:
  assumes "pool_step p q" and rel: "pool_rel p loc"
  shows "\<exists>loc'. life_step loc loc' \<and> pool_rel q loc'"
  using assms(1)
proof (cases rule: pool_step.cases)
  case (pl_dial i)
  with rel_dialed [OF rel, of i] ls_dial [of loc "pl_next p" i] show ?thesis by blast
next
  case (pl_install i c)
  note r = rel_install [OF rel pl_install(2)]
  show ?thesis
  proof (cases "pl_conns p i")
    case None
    with r have "life_step loc (loc(c := Pooled i))" "pool_rel q (loc(c := Pooled i))"
      using pl_install(1) by (auto intro: ls_pool)
    then show ?thesis by blast
  next
    case (Some e)
    with r have "life_step loc (loc(c := Losing))" "pool_rel q (loc(c := Losing))"
      using pl_install(1) by (auto intro: ls_lose)
    then show ?thesis by blast
  qed
next
  case (pl_lose c)
  with rel_lose [OF rel pl_lose(2)] ls_close [of loc c] show ?thesis by blast
next
  case (pl_take i)
  with rel_take [OF rel, of i] ls_drop [of loc] ls_stay [of loc] rel show ?thesis
    by (cases "pl_conns p i") auto
next
  case (pl_finish c)
  with rel_finish [OF rel pl_finish(2)] ls_close [of loc c] show ?thesis by blast
next
  case (pl_keep_done i c)
  then have "loc c \<noteq> Pooled i" using rel_done [OF rel] by fastforce
  with rel_keep_exit [OF rel] pl_keep_done ls_stay [of loc] show ?thesis by blast
next
  case (pl_keep_fail i c)
  with rel_keep_fail [OF rel, of i c] ls_drop [of loc _ i] ls_stay [of loc] show ?thesis
    by (cases "pl_conns p i") auto
qed

lemma rel_open_places:
  assumes "pool_rel p loc"
  shows "pl_open p = ran (pl_conns p) \<union> snd ` pl_dialed p \<union> pl_losing p \<union> pl_dropping p"
proof (rule set_eqI)
  fix c
  have c: "\<And>i. pl_conns p i = Some c \<longleftrightarrow> loc c = Pooled i" and d: "pl_dialed p = {(i, c). loc c = Dialed i}"
    and l: "pl_losing p = {c. loc c = Losing}" and dr: "pl_dropping p = {c. loc c = Dropping}"
    and op: "pl_open p = {c. loc c \<noteq> Undialed \<and> loc c \<noteq> Closed}"
    using assms by (simp_all add: pool_rel_def)
  have "c \<in> ran (pl_conns p) \<longleftrightarrow> (\<exists>i. loc c = Pooled i)" by (simp add: ran_def c)
  moreover have "c \<in> snd ` pl_dialed p \<longleftrightarrow> (\<exists>i. loc c = Dialed i)" by (simp add: d image_iff)
  ultimately show "c \<in> pl_open p \<longleftrightarrow> c \<in> ran (pl_conns p) \<union> snd ` pl_dialed p \<union> pl_losing p \<union> pl_dropping p"
    by (cases "loc c") (simp_all add: l dr op)
qed

lemma pool_reach_rel:
  assumes "pool_steps NewBroker p" obtains loc where "pool_rel p loc"
proof -
  from assms have "\<exists>loc. pool_rel p loc"
    by (induction rule: rtranclp_induct) (use rel_new pool_refines_life in blast)+
  with that show thesis by blast
qed

section \<open>Properties\<close>

text \<open>A short history: dial machine 1, pool it, drop it, dial again, pool the second connection.\<close>

definition demo_pool :: pool where
  "demo_pool = snd (get_install 1 1 (get_dialed 1 (drop_finish 0 (drop_take 1 (snd (get_install 1 0 (get_dialed 1 NewBroker)))))))"

lemmas demo_pool_simps = demo_pool_def NewBroker_def pool_defs

lemma demo_pool_reach: "pool_steps NewBroker demo_pool"
proof -
  let ?a = "get_dialed 1 NewBroker"
  let ?b = "snd (get_install 1 0 ?a)"
  let ?c = "drop_take 1 ?b"
  let ?d = "drop_finish 0 ?c"
  let ?e = "get_dialed 1 ?d"
  have "pool_step NewBroker ?a" by (rule pl_dial)
  moreover have "pool_step ?a ?b" by (rule pl_install) (simp add: demo_pool_simps)
  moreover have "pool_step ?b ?c" by (rule pl_take)
  moreover have "pool_step ?c ?d" by (rule pl_finish) (simp add: demo_pool_simps)
  moreover have "pool_step ?d ?e" by (rule pl_dial)
  moreover have "pool_step ?e demo_pool"
    unfolding demo_pool_def by (rule pl_install) (simp add: demo_pool_simps)
  ultimately show ?thesis by (meson converse_rtranclp_into_rtranclp rtranclp.rtrancl_refl)
qed

text \<open>
  C11: However the goroutines interleave, the pool is a faithful implementation of the
  lifecycle of connections: every history of its steps is a history of connections that are
  dialed, pooled for one machine at a time or lost to a rival, dropped, and closed once.
\<close>

theorem pool_implements_lifecycle:
  assumes "pool_steps NewBroker p"
  shows "\<exists>loc. life_step\<^sup>*\<^sup>* (\<lambda>_. Undialed) loc \<and> pool_rel p loc"
  using assms
proof (induction rule: rtranclp_induct)
  case base
  show ?case using rel_new by blast
next
  case (step p q)
  then obtain loc where "life_step\<^sup>*\<^sup>* (\<lambda>_. Undialed) loc" "pool_rel p loc" by blast
  with pool_refines_life [OF step(2)] show ?case by (meson rtranclp.rtrancl_into_rtrancl)
qed

theorem pool_implements_lifecycle_witness:
  "\<exists>loc. life_step\<^sup>*\<^sup>* (\<lambda>_. Undialed) loc \<and> pool_rel demo_pool loc"
  by (rule pool_implements_lifecycle [OF demo_pool_reach])

text \<open>
  C19: No connection leaks and none is closed twice.  In every reachable state each open
  client is pooled or in the hands of a goroutine that will pool or close it; a pooled
  client is open, its \<^verbatim>\<open>done\<close> is not closed, it is pooled for one machine only and its
  keepalive loop runs; and no \<^verbatim>\<open>done\<close> channel was ever closed twice, which would have
  crashed the server.
\<close>

theorem pool_no_leak_no_double_close:
  assumes "pool_steps NewBroker p"
  shows "\<not> pl_panicked p
    \<and> (\<forall>c. c \<in> pl_open p \<longleftrightarrow> c \<in> ran (pl_conns p) \<or> (\<exists>i. (i, c) \<in> pl_dialed p) \<or> c \<in> pl_losing p \<or> c \<in> pl_dropping p)
    \<and> (\<forall>i c. pl_conns p i = Some c \<longrightarrow> c \<in> pl_open p \<and> c \<notin> pl_done p \<and> (i, c) \<in> pl_keep p
        \<and> (\<forall>j. pl_conns p j = Some c \<longrightarrow> j = i) \<and> c \<notin> pl_dropping p)"
proof -
  obtain loc where rel: "pool_rel p loc" by (rule pool_reach_rel [OF assms])
  have conns: "pl_conns p i = Some c \<longleftrightarrow> loc c = Pooled i" for i c by (rule rel_conns [OF rel])
  have "\<not> pl_panicked p" using rel by (simp add: pool_rel_def)
  moreover have "c \<in> pl_open p \<longleftrightarrow> c \<in> ran (pl_conns p) \<or> (\<exists>i. (i, c) \<in> pl_dialed p) \<or> c \<in> pl_losing p \<or> c \<in> pl_dropping p" for c
    using rel by (cases "loc c") (auto simp: pool_rel_def ran_def)
  moreover have "c \<in> pl_open p \<and> c \<notin> pl_done p \<and> (i, c) \<in> pl_keep p
        \<and> (\<forall>j. pl_conns p j = Some c \<longrightarrow> j = i) \<and> c \<notin> pl_dropping p" if "pl_conns p i = Some c" for i c
  proof -
    have l: "loc c = Pooled i" using that conns by simp
    then have "c \<notin> pl_done p" using rel_done [OF rel] by fastforce
    then show ?thesis using rel l conns by (auto simp: pool_rel_def)
  qed
  ultimately show ?thesis by blast
qed

theorem pool_no_leak_no_double_close_witness: "pl_conns demo_pool 1 = Some 1 \<and> 1 \<in> pl_open demo_pool"
proof -
  have "pl_conns demo_pool 1 = Some 1" by (simp add: demo_pool_simps)
  with pool_no_leak_no_double_close [OF demo_pool_reach] show ?thesis by blast
qed

lemma Drop_conns: "pl_conns (Drop i p) = (pl_conns p)(i := None)"
  by (auto simp: Drop_def drop_finish_def drop_take_def split: option.splits)

lemma Drop_open: "pl_open (Drop i p) = pl_open p - set_option (pl_conns p i)"
  by (auto simp: Drop_def drop_finish_def drop_take_def split: option.splits)

lemma Close_conns: "pl_conns (Close_all is p) = (\<lambda>i. if i \<in> set is then None else pl_conns p i)"
  by (induction "is" arbitrary: p) (auto simp: Close_all_def Drop_conns fun_eq_iff)

lemma Close_open: "pl_open (Close_all is p) = pl_open p - (\<Union>i \<in> set is. set_option (pl_conns p i))"
proof (induction "is" arbitrary: p)
  case (Cons i "is")
  then show ?case by (auto simp: Close_all_def Drop_open Drop_conns split: if_splits)
qed (simp add: Close_all_def)

lemma Drop_steps: "pool_steps p (Drop i p)"
proof (cases "pl_conns p i")
  case (Some c)
  then have "c \<in> pl_dropping (drop_take i p)" by (simp add: drop_take_def)
  then have "pool_step (drop_take i p) (drop_finish c (drop_take i p))" by (rule pl_finish)
  with pl_take [of p i] Some show ?thesis
    by (simp add: Drop_def)
qed (simp add: Drop_def)

text \<open>
  Shutting down ends: closing the broker runs through its snapshot of machines, reaches a
  state of the pool in which none of them has a connection, and every client that was
  pooled for one of them is closed; clients still in other hands are left to their owners.
\<close>

theorem Close_closes_all:
  assumes "pool_steps NewBroker p" and "dom (pl_conns p) \<subseteq> set is"
  shows "pool_steps p (Close_all is p) \<and> pl_conns (Close_all is p) = Map.empty
    \<and> pl_open (Close_all is p) = snd ` pl_dialed p \<union> pl_losing p \<union> pl_dropping p"
proof -
  have steps: "pool_steps p (Close_all is p)"
    by (induction "is" arbitrary: p) (auto simp: Close_all_def intro: rtranclp_trans [OF Drop_steps])
  have conns: "pl_conns (Close_all is p) = Map.empty"
    using assms(2) by (auto simp: Close_conns fun_eq_iff)
  obtain loc where rel: "pool_rel p loc" by (rule pool_reach_rel [OF assms(1)])
  have "(\<Union>i \<in> set is. set_option (pl_conns p i)) = {c. \<exists>i. loc c = Pooled i}"
  proof (intro set_eqI)
    fix c
    have "i \<in> set is" if "loc c = Pooled i" for i
      using assms(2) rel_conns [OF rel, of i c] that by (auto simp: dom_def)
    then show "c \<in> (\<Union>i \<in> set is. set_option (pl_conns p i)) \<longleftrightarrow> c \<in> {c. \<exists>i. loc c = Pooled i}"
      using rel_conns [OF rel] by (auto simp: elem_set)
  qed
  moreover have "pl_open p = {c. loc c \<noteq> Undialed \<and> loc c \<noteq> Closed}" using rel by (simp add: pool_rel_def)
  ultimately have "pl_open (Close_all is p) = {c. loc c \<noteq> Undialed \<and> loc c \<noteq> Closed \<and> (\<forall>i. loc c \<noteq> Pooled i)}"
    unfolding Close_open by auto
  also have "\<dots> = snd ` pl_dialed p \<union> pl_losing p \<union> pl_dropping p"
  proof (rule set_eqI)
    fix c
    show "c \<in> {c. loc c \<noteq> Undialed \<and> loc c \<noteq> Closed \<and> (\<forall>i. loc c \<noteq> Pooled i)}
      \<longleftrightarrow> c \<in> snd ` pl_dialed p \<union> pl_losing p \<union> pl_dropping p"
      using rel by (cases "loc c") (auto simp: pool_rel_def image_iff)
  qed
  finally show ?thesis using steps conns by blast
qed

theorem Close_closes_all_witness: "pl_conns (Close_all [1] demo_pool) = Map.empty \<and> pl_open (Close_all [1] demo_pool) = {}"
proof -
  have "dom (pl_conns demo_pool) \<subseteq> set [1]" "pl_dialed demo_pool = {}" "pl_losing demo_pool = {}" "pl_dropping demo_pool = {}"
    by (auto simp: demo_pool_simps)
  with Close_closes_all [OF demo_pool_reach this(1)] show ?thesis by simp
qed

text \<open>
  Dropping by machine instead of by connection lets a dead connection take a live one
  with it.  There is a reachable state in which machine 1 has a fresh connection pooled
  while the keepalive loop of its previous, already closed connection still runs; when that
  loop sees its request fail (closing the client made it fail) before it sees \<^verbatim>\<open>done\<close>, it
  drops the machine: the fresh connection is forgotten and about to be closed.
\<close>

theorem stale_keepalive_evicts_fresh_connection:
  "\<exists>p q. pool_steps NewBroker p \<and> pl_conns p 1 = Some 1 \<and> (1, 0) \<in> pl_keep p \<and> 0 \<in> pl_done p \<and> 0 \<notin> pl_open p
     \<and> pool_step p q \<and> q = keep_fail 1 0 p \<and> pl_conns q 1 = None \<and> 1 \<in> pl_dropping q"
proof -
  have "pl_conns demo_pool 1 = Some 1" and k: "(1, 0) \<in> pl_keep demo_pool" and "0 \<in> pl_done demo_pool"
    "0 \<notin> pl_open demo_pool" "pl_conns (keep_fail 1 0 demo_pool) 1 = None" "1 \<in> pl_dropping (keep_fail 1 0 demo_pool)"
    by (simp_all add: demo_pool_simps)
  with demo_pool_reach pl_keep_fail [OF k] show ?thesis by blast
qed

end
