(* ===== verification/Hostkey.thy ===== *)
theory Hostkey imports Server Pool Engine_Props begin

text \<open>
  Trust on first use: \<^verbatim>\<open>hostKeyPolicy\<close> of \<^verbatim>\<open>internal/api/server.go\<close>, which the handshake calls with the
  key a host presents, and the handlers \<^verbatim>\<open>getHostKey\<close> and \<^verbatim>\<open>trustHostKey\<close> of
  \<^verbatim>\<open>internal/api/handlers.go\<close>.  The server's state is the database and the connection pool.
\<close>

type_synonym srv = "db \<times> pool"

section \<open>The policy\<close>

text \<open>The decision taken on what \<open>GetHostKey\<close> returned; the statements it makes run on the database as it is then.\<close>

definition hostKey_decide :: "time \<Rightarrow> int \<Rightarrow> ssh_key \<Rightarrow> HostKey result \<Rightarrow> db \<Rightarrow> go_err option \<times> db" where
  "hostKey_decide now i key looked d =
     (let fp = key_fingerprint key in
      case looked of
        Inl e \<Rightarrow>
          if errors_is e ErrNotFound
          then (case PinHostKey now i (key_type key) fp d of (Inl e', d') \<Rightarrow> (Some e', d') | (Inr _, d') \<Rightarrow> (None, d'))
          else (Some e, d)
      | Inr pinned \<Rightarrow>
          if hk_fingerprint pinned \<noteq> fp
          then (Some (HostKeyMismatchError (key_type key) fp), snd (RecordSeenHostKey i (key_type key) fp d))
          else (None, if hk_seen_fingerprint pinned \<noteq> [] then snd (ClearSeenHostKey i d) else d))"

definition hostKeyPolicy :: "time \<Rightarrow> int \<Rightarrow> key_check" where
  "hostKeyPolicy now i key d = hostKey_decide now i key (GetHostKey i d) d"

section \<open>The handlers\<close>

definition getHostKey :: "string \<Rightarrow> srv \<Rightarrow> HostKey response \<times> srv" where
  "getHostKey path sv =
     (case pathID path of
        None \<Rightarrow> (badRequest ''bad id'', sv)
      | Some i \<Rightarrow> (case GetHostKey i (fst sv) of Inl e \<Rightarrow> (fail e, sv) | Inr k \<Rightarrow> (Reply 200 k, sv)))"

record trustInput =
  ti_algorithm :: string
  ti_fingerprint :: string

definition trustHostKey :: "time \<Rightarrow> string \<Rightarrow> trustInput result \<Rightarrow> srv \<Rightarrow> unit response \<times> srv" where
  "trustHostKey now path body sv =
     (case pathID path of
        None \<Rightarrow> (badRequest ''bad id'', sv)
      | Some i \<Rightarrow>
     (case body of
        Inl e \<Rightarrow> (badRequest (err_text e), sv)
      | Inr inp \<Rightarrow>
     (case GetHostKey i (fst sv) of
        Inl e \<Rightarrow> (fail e, sv)
      | Inr k \<Rightarrow>
          if hk_seen_fingerprint k = []
          then (Refuse 409 (api_error ''no host key change is pending for this machine'' ''stale''), sv)
          else if ti_fingerprint inp \<noteq> hk_seen_fingerprint k \<or> ti_algorithm inp \<noteq> hk_seen_algorithm k
          then (Refuse 409 \<lparr>ae_error = ''fingerprint does not match the key last seen from this host ''
                   @ [CHR 0xE2, CHR 0x80, CHR 0x94] @ '' re-probe and review again'', ae_code = ''stale'',
                   ae_details = Some (KeyDetails (hk_seen_algorithm k) (hk_seen_fingerprint k))\<rparr>, sv)
          else (case TrustHostKey now i (hk_seen_algorithm k) (hk_seen_fingerprint k) (fst sv) of
              (Inl e, d') \<Rightarrow> (fail e, (d', snd sv))
            | (Inr _, d') \<Rightarrow>
                (NoBody 204, (snd (SetReach now i ReachUnknown [] d'), Drop i (snd sv)))))))"

section \<open>Histories of one machine's key\<close>

text \<open>
  The events of machine \<open>i\<close>: a key presented in a handshake, accepted or not; a trust request
  that succeeded; anything else that leaves its row of \<^verbatim>\<open>host_keys\<close> alone.
\<close>

datatype hk_event = Presented ssh_key bool | Trusted string string

definition accepted_keys :: "hk_event list \<Rightarrow> string set" where
  "accepted_keys evs = {key_fingerprint k | k. Presented k True \<in> set evs}"

definition refused_keys :: "hk_event list \<Rightarrow> (string \<times> string) set" where
  "refused_keys evs = {(key_type k, key_fingerprint k) | k. Presented k False \<in> set evs}"

inductive hk_history :: "int \<Rightarrow> srv \<Rightarrow> hk_event list \<Rightarrow> srv \<Rightarrow> bool" for i where
  hk_start: "hk_history i sv [] sv"
| hk_check: "hk_history i sv evs (d, p) \<Longrightarrow> hostKeyPolicy now i key d = (r, d')
     \<Longrightarrow> hk_history i sv (evs @ [Presented key (r = None)]) (d', p)"
| hk_trust: "hk_history i sv evs (d, p) \<Longrightarrow> pathID path = Some i
     \<Longrightarrow> trustHostKey now path (Inr inp) (d, p) = (NoBody 204, sv')
     \<Longrightarrow> hk_history i sv (evs @ [Trusted (ti_algorithm inp) (ti_fingerprint inp)]) sv'"
| hk_other: "hk_history i sv evs (d, p) \<Longrightarrow> host_keys d' i = host_keys d i \<Longrightarrow> hk_history i sv evs (d', p')"

section \<open>Properties\<close>

lemma GetHostKey_found: "GetHostKey i d = Inr k \<Longrightarrow> \<exists>k0. host_keys d i = Some k0 \<and> k = k0\<lparr>hk_machine := i\<rparr>"
  by (auto simp: GetHostKey_def res_bind_Inr_conv sql_query_def split: option.splits)

lemma GetHostKey_missing: "GetHostKey i d = Inl e \<Longrightarrow> errors_is e ErrNotFound \<Longrightarrow> host_keys d i = None"
  by (auto simp: GetHostKey_def res_bind_Inl_conv sql_query_def split: option.splits)

lemma PinHostKey_effect:
  "host_keys d i = None \<Longrightarrow> PinHostKey now i a fp d = (r, d')
     \<Longrightarrow> (\<exists>e. r = Inl e \<and> d' = d) \<or> r = Inr () \<and> host_keys d' i = Some (new_pin now i a fp)"
  by (auto simp: PinHostKey_def sql_exec_def split: option.splits if_splits)

lemma RecordSeen_effect:
  "host_keys d i = Some k \<Longrightarrow> host_keys (snd (RecordSeenHostKey i a fp d)) i = Some k
     \<or> host_keys (snd (RecordSeenHostKey i a fp d)) i = Some (k\<lparr>hk_seen_algorithm := a, hk_seen_fingerprint := fp\<rparr>)"
  by (auto simp: RecordSeenHostKey_def sql_exec_def split: option.splits)

lemma ClearSeen_effect:
  "host_keys d i = Some k \<Longrightarrow> host_keys (snd (ClearSeenHostKey i d)) i = Some k
     \<or> host_keys (snd (ClearSeenHostKey i d)) i = Some (k\<lparr>hk_seen_algorithm := [], hk_seen_fingerprint := []\<rparr>)"
  by (auto simp: ClearSeenHostKey_def sql_exec_def split: option.splits)

lemma SetReach_host_keys [simp]: "host_keys (snd (SetReach now i st e d)) = host_keys d"
  by (simp add: SetReach_def sql_exec_def split: option.splits)

text \<open>What one check does to the machine's row, and when it accepts.\<close>

lemma hostKeyPolicy_cases:
  assumes "hostKeyPolicy now i key d = (r, d')"
  obtains (not_checked) "r \<noteq> None" "d' = d"
  | (pinned) "host_keys d i = None" "r = None"
      "host_keys d' i = Some (new_pin now i (key_type key) (key_fingerprint key))"
  | (matched) k where "host_keys d i = Some k" "hk_fingerprint k = key_fingerprint key" "r = None"
      "host_keys d' i = Some k \<or> host_keys d' i = Some (k\<lparr>hk_seen_algorithm := [], hk_seen_fingerprint := []\<rparr>)"
  | (mismatched) k where "host_keys d i = Some k" "hk_fingerprint k \<noteq> key_fingerprint key"
      "r = Some (HostKeyMismatchError (key_type key) (key_fingerprint key))"
      "host_keys d' i = Some k \<or> host_keys d' i
         = Some (k\<lparr>hk_seen_algorithm := key_type key, hk_seen_fingerprint := key_fingerprint key\<rparr>)"
proof (cases "GetHostKey i d")
  case (Inl e)
  show ?thesis
  proof (cases "errors_is e ErrNotFound")
    case True
    then have none: "host_keys d i = None" using Inl GetHostKey_missing by blast
    obtain q dq where q: "PinHostKey now i (key_type key) (key_fingerprint key) d = (q, dq)" by fastforce
    then have rd: "r = (case q of Inl e' \<Rightarrow> Some e' | Inr _ \<Rightarrow> None)" "d' = dq"
      using assms Inl True by (auto simp: hostKeyPolicy_def hostKey_decide_def split: sum.splits)
    from PinHostKey_effect [OF none q] show ?thesis
      using rd none by (auto intro: not_checked pinned)
  next
    case False
    with assms Inl show ?thesis by (intro not_checked) (auto simp: hostKeyPolicy_def hostKey_decide_def)
  qed
next
  case (Inr k')
  then obtain k where k: "host_keys d i = Some k" "k' = k\<lparr>hk_machine := i\<rparr>" using GetHostKey_found by blast
  show ?thesis
  proof (cases "hk_fingerprint k = key_fingerprint key")
    case True
    with assms Inr k have "r = None" "d' = (if hk_seen_fingerprint k \<noteq> [] then snd (ClearSeenHostKey i d) else d)"
      by (auto simp: hostKeyPolicy_def hostKey_decide_def)
    with True k ClearSeen_effect [OF k(1)] show ?thesis by (intro matched) auto
  next
    case False
    with assms Inr k have "r = Some (HostKeyMismatchError (key_type key) (key_fingerprint key))"
      "d' = snd (RecordSeenHostKey i (key_type key) (key_fingerprint key) d)"
      by (auto simp: hostKeyPolicy_def hostKey_decide_def Let_def)
    with False k RecordSeen_effect [OF k(1)] show ?thesis by (intro mismatched) auto
  qed
qed

lemma trustHostKey_done:
  assumes "trustHostKey now path (Inr inp) (d, p) = (NoBody 204, (d', p'))" and "pathID path = Some i"
  obtains k where "host_keys d i = Some k" "hk_seen_fingerprint k \<noteq> []" "ti_fingerprint inp = hk_seen_fingerprint k"
    "ti_algorithm inp = hk_seen_algorithm k"
    "host_keys d' i = Some (new_pin now i (ti_algorithm inp) (ti_fingerprint inp))" "p' = Drop i p"
proof -
  from assms obtain k' where k': "GetHostKey i d = Inr k'" "hk_seen_fingerprint k' \<noteq> []"
      "ti_fingerprint inp = hk_seen_fingerprint k'" "ti_algorithm inp = hk_seen_algorithm k'"
    by (auto simp: trustHostKey_def badRequest_def fail_def split: sum.splits if_splits)
  obtain q dq where q: "TrustHostKey now i (hk_seen_algorithm k') (hk_seen_fingerprint k') d = (q, dq)" by fastforce
  with assms k' have r: "q = Inr ()" "d' = snd (SetReach now i ReachUnknown [] dq)" "p' = Drop i p"
    by (auto simp: trustHostKey_def fail_def split: sum.splits)
  have "host_keys dq i = Some (new_pin now i (hk_seen_algorithm k') (hk_seen_fingerprint k'))"
    using q r(1) by (auto simp: TrustHostKey_def sql_exec_def split: option.splits if_splits)
  moreover obtain k where "host_keys d i = Some k" "k' = k\<lparr>hk_machine := i\<rparr>" using GetHostKey_found [OF k'(1)] by blast
  ultimately show ?thesis using k' r by (intro that [of k]) auto
qed

text \<open>The invariant of a history that starts without a pin.\<close>

definition tofu_inv :: "int \<Rightarrow> hk_event list \<Rightarrow> db \<Rightarrow> bool" where
  "tofu_inv i evs d \<longleftrightarrow>
     (case host_keys d i of
        None \<Rightarrow> accepted_keys evs = {} \<and> (\<forall>a fp. Trusted a fp \<notin> set evs)
      | Some k \<Rightarrow>
          (hk_fingerprint k \<in> accepted_keys evs \<or> (\<exists>a. (a, hk_fingerprint k) \<in> refused_keys evs \<and> Trusted a (hk_fingerprint k) \<in> set evs))
        \<and> (hk_seen_fingerprint k \<noteq> [] \<longrightarrow> (hk_seen_algorithm k, hk_seen_fingerprint k) \<in> refused_keys evs)
        \<and> ((\<forall>a fp. Trusted a fp \<notin> set evs) \<longrightarrow> accepted_keys evs = {hk_fingerprint k}))
   \<and> (\<forall>a fp. Trusted a fp \<in> set evs \<longrightarrow> (a, fp) \<in> refused_keys evs)"

lemma accepted_snoc [simp]:
  "accepted_keys (evs @ [Presented k b]) = (if b then insert (key_fingerprint k) (accepted_keys evs) else accepted_keys evs)"
  "accepted_keys (evs @ [Trusted a fp]) = accepted_keys evs"
  by (auto simp: accepted_keys_def)

lemma refused_snoc [simp]:
  "refused_keys (evs @ [Presented k b]) = (if b then refused_keys evs else insert (key_type k, key_fingerprint k) (refused_keys evs))"
  "refused_keys (evs @ [Trusted a fp]) = refused_keys evs"
  by (auto simp: refused_keys_def)

lemma tofu_check:
  assumes "tofu_inv i evs d" and "hostKeyPolicy now i key d = (r, d')"
  shows "tofu_inv i (evs @ [Presented key (r = None)]) d'"
  using assms(2)
proof (cases rule: hostKeyPolicy_cases)
  case not_checked
  with assms(1) show ?thesis by (auto simp: tofu_inv_def split: option.splits)
next
  case pinned
  with assms(1) show ?thesis by (auto simp: tofu_inv_def new_pin_def split: option.splits)
next
  case (matched k)
  with assms(1) show ?thesis by (auto simp: tofu_inv_def split: option.splits)
next
  case (mismatched k)
  with assms(1) show ?thesis by (auto simp: tofu_inv_def split: option.splits)
qed

lemma tofu_trust:
  assumes "tofu_inv i evs d" and "pathID path = Some i"
    and "trustHostKey now path (Inr inp) (d, p) = (NoBody 204, (d', p'))"
  shows "tofu_inv i (evs @ [Trusted (ti_algorithm inp) (ti_fingerprint inp)]) d'"
proof -
  from trustHostKey_done [OF assms(3,2)] obtain k where k: "host_keys d i = Some k" "hk_seen_fingerprint k \<noteq> []"
    "ti_fingerprint inp = hk_seen_fingerprint k" "ti_algorithm inp = hk_seen_algorithm k"
    "host_keys d' i = Some (new_pin now i (ti_algorithm inp) (ti_fingerprint inp))" by metis
  then have "(ti_algorithm inp, ti_fingerprint inp) \<in> refused_keys evs"
    using assms(1) by (auto simp: tofu_inv_def)
  with k assms(1) show ?thesis by (auto simp: tofu_inv_def new_pin_def)
qed

lemma tofu_history: "hk_history i sv evs sv' \<Longrightarrow> host_keys (fst sv) i = None \<Longrightarrow> tofu_inv i evs (fst sv')"
proof (induction rule: hk_history.induct)
  case hk_start
  then show ?case by (simp add: tofu_inv_def accepted_keys_def)
next
  case (hk_check sv evs d p now key r d')
  then show ?case using tofu_check [of i evs d now key r d'] by simp
next
  case (hk_trust sv evs d p path now inp sv')
  then show ?case using tofu_trust [of i evs d path now inp p "fst sv'" "snd sv'"] by simp
next
  case (hk_other sv evs d p d' p')
  then show ?case by (simp add: tofu_inv_def)
qed


definition key_a :: ssh_key where "key_a = \<lparr>key_type = ''ssh-ed25519'', key_fingerprint = ''SHA256:a''\<rparr>"
definition key_b :: ssh_key where "key_b = \<lparr>key_type = ''ssh-rsa'', key_fingerprint = ''SHA256:b''\<rparr>"

lemma host_db_keys:
  "host_keys host_db 1 = None" "db_fail host_db st = None" "tbl_get (machines host_db) 1 \<noteq> None"
  by (simp_all add: host_db_def empty_db_def tbl_get_def tbl_insert_def tbl_next_def tbl_empty_def)

lemma first_check:
  assumes "host_keys d i = None" and "\<And>st. db_fail d st = None" and "tbl_get (machines d) i \<noteq> None"
  shows "hostKeyPolicy now i key d
    = (None, d\<lparr>host_keys := (host_keys d)(i \<mapsto> new_pin now i (key_type key) (key_fingerprint key))\<rparr>)"
  using assms by (auto simp: hostKeyPolicy_def hostKey_decide_def GetHostKey_def PinHostKey_def sql_query_def sql_exec_def Let_def)


text \<open>
  The policy reads and writes in two statements, and two first handshakes can run at
  once.  When both read before either writes, both keys are accepted although only the first
  is pinned: the second \<open>INSERT OR IGNORE\<close> does nothing and reports success.  A check made
  after it with the same key is refused.
\<close>

theorem first_sight_race:
  assumes "host_keys d i = None" and "\<forall>st. db_fail d st = None" and "tbl_get (machines d) i \<noteq> None"
    and "key_fingerprint k1 \<noteq> key_fingerprint k2"
    and "hostKey_decide now i k1 (GetHostKey i d) d = (r1, d1)"
    and "hostKey_decide now i k2 (GetHostKey i d) d1 = (r2, d2)"
  shows "r1 = None \<and> r2 = None
    \<and> (\<exists>pin. host_keys d2 i = Some pin \<and> hk_fingerprint pin = key_fingerprint k1)
    \<and> fst (hostKeyPolicy now i k2 d2) = Some (HostKeyMismatchError (key_type k2) (key_fingerprint k2))"
proof -
  have g: "GetHostKey i d = Inl (Sentinel ErrNotFound)" using assms(1,2) by (simp add: GetHostKey_def sql_query_def)
  have d1: "r1 = None" "d1 = d\<lparr>host_keys := (host_keys d)(i \<mapsto> new_pin now i (key_type k1) (key_fingerprint k1))\<rparr>"
    using assms(5) first_check [OF assms(1) _ assms(3), of now k1] assms(2) by (simp_all add: hostKeyPolicy_def)
  have "r2 = None" "d2 = d1"
    using assms(2,6) g by (simp_all add: hostKey_decide_def PinHostKey_def sql_exec_def d1(2) Let_def)
  moreover have "fst (hostKeyPolicy now i k2 d1) = Some (HostKeyMismatchError (key_type k2) (key_fingerprint k2))"
    using assms(2,4) by (simp add: hostKeyPolicy_def hostKey_decide_def GetHostKey_def sql_query_def d1(2) new_pin_def Let_def)
  ultimately show ?thesis using d1 by (simp add: new_pin_def)
qed

theorem first_sight_race_witness:
  "\<exists>r1 d1 r2 d2. hostKey_decide 5 1 key_a (GetHostKey 1 host_db) host_db = (r1, d1)
     \<and> hostKey_decide 5 1 key_b (GetHostKey 1 host_db) d1 = (r2, d2) \<and> r1 = None \<and> r2 = None"
proof -
  obtain r1 d1 where c1: "hostKey_decide 5 1 key_a (GetHostKey 1 host_db) host_db = (r1, d1)" by fastforce
  obtain r2 d2 where c2: "hostKey_decide 5 1 key_b (GetHostKey 1 host_db) d1 = (r2, d2)" by fastforce
  have "key_fingerprint key_a \<noteq> key_fingerprint key_b" "\<forall>st. db_fail host_db st = None"
    by (simp_all add: key_a_def key_b_def host_db_keys)
  from first_sight_race [OF host_db_keys(1) this(2) host_db_keys(3) this(1) c1 c2] c1 c2 show ?thesis by blast
qed

end
