(* ===== verification/Sync.thy ===== *)
theory Sync imports Provider Hostkey Store_Props begin

text \<open>
  \<^verbatim>\<open>internal/api/sync.go\<close>: reconciling the inventory with a cloud account, and the periodic
  refresh of every account.  \<open>keys\<close> is the keyring, \<open>uj\<close> JSON decoding of credentials, \<open>reg\<close>
  the registry of providers; the state is the database, the connection pool and the cloud.
\<close>

record syncResult =
  sy_count :: nat
  sy_created :: nat
  sy_updated :: nat

definition sync_zero :: syncResult where
  "sync_zero = \<lparr>sy_count = 0, sy_created = 0, sy_updated = 0\<rparr>"

definition providerFor ::
    "aead \<Rightarrow> (string \<Rightarrow> Credentials option) \<Rightarrow> 'w registry \<Rightarrow> int \<Rightarrow> db \<Rightarrow> 'w Provider result" where
  "providerFor keys uj reg acct d =
     (case GetCloudAccount acct d of
        Inl e \<Rightarrow> Inl e
      | Inr a \<Rightarrow>
          (case OpenSealed keys (ac_sealed_token a) of
             Inl e \<Rightarrow> Inl e
           | Inr plain \<Rightarrow>
               let c = (case uj plain of
                          None \<Rightarrow> no_credentials\<lparr>cd_token := trim_space plain\<rparr>
                        | Some c \<Rightarrow> if Empty c then no_credentials\<lparr>cd_token := trim_space plain\<rparr> else c)
               in New_provider reg (ac_provider a) c))"

text \<open>The loop over the instances: what was counted, the ids seen, and the error that ended it early.\<close>

fun sync_loop ::
    "time \<Rightarrow> int \<Rightarrow> string \<Rightarrow> CloudInstance list \<Rightarrow> syncResult \<Rightarrow> string list \<Rightarrow> srv
       \<Rightarrow> (syncResult \<times> string list \<times> go_err option) \<times> srv" where
  "sync_loop now acct prov [] res seen sv = ((res, seen, None), sv)"
| "sync_loop now acct prov (n # ns) res seen (d, p) =
     (case UpsertFromCloud now acct prov n d of
        (Inl e, d') \<Rightarrow> ((res, seen, Some e), (snd (SetSyncResult acct now (err_text e) d'), p))
      | (Inr (i, created, hostChanged), d') \<Rightarrow>
          (let res' = (if created then res\<lparr>sy_created := sy_created res + 1\<rparr> else res\<lparr>sy_updated := sy_updated res + 1\<rparr>);
               sv' = (if hostChanged then (snd (SetReach now i ReachUnknown [] d'), Drop i p) else (d', p))
           in sync_loop now acct prov ns res' (seen @ [in_instance_id n]) sv'))"

definition sync ::
    "aead \<Rightarrow> (string \<Rightarrow> Credentials option) \<Rightarrow> 'w registry \<Rightarrow> time \<Rightarrow> int \<Rightarrow> srv \<times> 'w \<Rightarrow> (syncResult \<times> go_err option) \<times> srv \<times> 'w" where
  "sync keys uj reg now acct s =
     (let ((d, p), w) = s in
      case GetCloudAccount acct d of
        Inl e \<Rightarrow> ((sync_zero, Some e), (d, p), w)
      | Inr a \<Rightarrow>
     (case providerFor keys uj reg acct d of
        Inl e \<Rightarrow> ((sync_zero, Some e), (d, p), w)
      | Inr pv \<Rightarrow>
     (case pv_list pv w of
        (Inl e, w') \<Rightarrow>
          ((sync_zero, Some (Wrap (''sync '' @ ac_name a @ '': '') e [])), (snd (SetSyncResult acct now (err_text e) d), p), w')
      | (Inr ns, w') \<Rightarrow>
          (case sync_loop now acct (ac_provider a) ns sync_zero [] (d, p) of
             ((res, seen, Some e), sv') \<Rightarrow> ((res, Some e), sv', w')
           | ((res, seen, None), d', p') \<Rightarrow>
               (let res' = res\<lparr>sy_count := length ns\<rparr> in
                case MarkMissing now acct seen d' of
                  (Inl e, d'') \<Rightarrow> ((res', Some e), (d'', p'), w')
                | (Inr _, d'') \<Rightarrow> ((res', None), (snd (SetSyncResult acct now [] d''), p'), w'))))))"

text \<open>The timer's work: every account in turn; an account that fails does not stop the others.\<close>

definition refreshPowerStates ::
    "aead \<Rightarrow> (string \<Rightarrow> Credentials option) \<Rightarrow> 'w registry \<Rightarrow> time \<Rightarrow> srv \<times> 'w \<Rightarrow> srv \<times> 'w" where
  "refreshPowerStates keys uj reg now s =
     (case ListCloudAccounts (fst (fst s)) of
        Inl e \<Rightarrow> s
      | Inr accounts \<Rightarrow> fold (\<lambda>a s. snd (sync keys uj reg now (ac_id a) s)) accounts s)"

section \<open>What a sync does to the inventory\<close>

text \<open>What identifies a machine and what a user entered: everything a sync must leave alone.\<close>

definition kept_columns :: "machine_row \<Rightarrow> string \<times> string \<times> int option \<times> string \<times> string \<times> int \<times> string \<times> int option" where
  "kept_columns r = (mr_name r, mr_tags r, mr_cloud_account r, mr_provider r, mr_instance_id r,
     mr_ssh_port r, mr_ssh_user r, mr_credential r)"

definition sync_keeps :: "int \<Rightarrow> db \<Rightarrow> db \<Rightarrow> bool" where
  "sync_keeps acct d d' \<longleftrightarrow> (\<forall>j.
     (\<forall>r. tbl_get (machines d) j = Some r \<longrightarrow> (\<exists>r'. tbl_get (machines d') j = Some r' \<and> kept_columns r' = kept_columns r
        \<and> (mr_cloud_account r \<noteq> Some acct \<longrightarrow> r' = r)))
   \<and> (tbl_get (machines d) j = None \<longrightarrow> (\<forall>r'. tbl_get (machines d') j = Some r' \<longrightarrow> mr_cloud_account r' = Some acct)))"

text \<open>The account's machines of one instance, none of them flagged as missing.\<close>

definition covered :: "int \<Rightarrow> string \<Rightarrow> db \<Rightarrow> bool" where
  "covered acct x d \<longleftrightarrow> (\<exists>j r. tbl_get (machines d) j = Some r \<and> mr_cloud_account r = Some acct \<and> mr_instance_id r = x \<and> mr_missing r = 0)"

lemma sync_keeps_refl: "sync_keeps acct d d"
  by (simp add: sync_keeps_def)

lemma kept_account: "kept_columns r' = kept_columns r \<Longrightarrow> mr_cloud_account r' = mr_cloud_account r"
  by (simp add: kept_columns_def)

lemma sync_keeps_old:
  assumes "sync_keeps acct d d'" and "tbl_get (machines d) j = Some r"
  shows "\<exists>r'. tbl_get (machines d') j = Some r' \<and> kept_columns r' = kept_columns r \<and> (mr_cloud_account r \<noteq> Some acct \<longrightarrow> r' = r)"
  using assms(1) [unfolded sync_keeps_def, THEN spec [of _ j], THEN conjunct1] assms(2) by blast

lemma sync_keeps_new:
  assumes "sync_keeps acct d d'" and "tbl_get (machines d) j = None" and "tbl_get (machines d') j = Some r'"
  shows "mr_cloud_account r' = Some acct"
  using assms(1) [unfolded sync_keeps_def, THEN spec [of _ j], THEN conjunct2] assms(2,3) by blast

lemma sync_keeps_trans:
  assumes "sync_keeps acct d d1" and "sync_keeps acct d1 d2"
  shows "sync_keeps acct d d2"
  unfolding sync_keeps_def
proof (intro allI conjI impI)
  fix j r assume "tbl_get (machines d) j = Some r"
  then obtain r1 where r1: "tbl_get (machines d1) j = Some r1" "kept_columns r1 = kept_columns r"
      "mr_cloud_account r \<noteq> Some acct \<longrightarrow> r1 = r" using sync_keeps_old [OF assms(1)] by blast
  then obtain r2 where "tbl_get (machines d2) j = Some r2" "kept_columns r2 = kept_columns r1"
      "mr_cloud_account r1 \<noteq> Some acct \<longrightarrow> r2 = r1" using sync_keeps_old [OF assms(2)] by blast
  with r1 kept_account show "\<exists>r'. tbl_get (machines d2) j = Some r' \<and> kept_columns r' = kept_columns r
      \<and> (mr_cloud_account r \<noteq> Some acct \<longrightarrow> r' = r)" by metis
next
  fix j r2 assume n: "tbl_get (machines d) j = None" and r2: "tbl_get (machines d2) j = Some r2"
  show "mr_cloud_account r2 = Some acct"
  proof (cases "tbl_get (machines d1) j")
    case None
    with r2 sync_keeps_new [OF assms(2)] show ?thesis by blast
  next
    case (Some r1)
    then have "mr_cloud_account r1 = Some acct" using sync_keeps_new [OF assms(1) n] by blast
    moreover have "kept_columns r2 = kept_columns r1" using sync_keeps_old [OF assms(2) Some] r2 by auto
    ultimately show ?thesis using kept_account by metis
  qed
qed

lemma SetSyncResult_machines [simp]: "machines (snd (SetSyncResult i at e d)) = machines d"
  by (simp add: SetSyncResult_def sql_exec_def split: option.splits)

text \<open>An update that keeps the kept columns of one row of the account, and its flag when it was clear.\<close>

lemma one_row_update:
  assumes "\<And>j. tbl_get (machines d') j = map_option (\<lambda>s. if j = i then f s else s) (tbl_get (machines d) j)"
    and "tbl_get (machines d) i = Some r" "mr_cloud_account r = Some acct"
    and "\<And>s. kept_columns (f s) = kept_columns s" and "\<And>s. mr_missing s = 0 \<Longrightarrow> mr_missing (f s) = 0"
  shows "sync_keeps acct d d'" and "covered acct x d \<Longrightarrow> covered acct x d'"
proof -
  show "sync_keeps acct d d'" using assms by (auto simp: sync_keeps_def)
  assume "covered acct x d"
  then obtain j s where s: "tbl_get (machines d) j = Some s" "mr_cloud_account s = Some acct" "mr_instance_id s = x" "mr_missing s = 0"
    by (auto simp: covered_def)
  have "kept_columns (if j = i then f s else s) = kept_columns s" using assms(4) by simp
  moreover have "mr_missing (if j = i then f s else s) = 0" using assms(5) s(4) by simp
  ultimately have "tbl_get (machines d') j = Some (if j = i then f s else s)"
     "mr_cloud_account (if j = i then f s else s) = Some acct" "mr_instance_id (if j = i then f s else s) = x"
     "mr_missing (if j = i then f s else s) = 0"
    using assms(1) [of j] s by (simp_all add: kept_columns_def)
  then show "covered acct x d'" unfolding covered_def by blast
qed

lemma SetReach_row:
  "snd (SetReach now i st e d) = d \<or> (\<forall>j. tbl_get (machines (snd (SetReach now i st e d))) j
     = map_option (\<lambda>s. if j = i then s\<lparr>mr_reach_state := st, mr_reach_error := e, mr_reach_checked_at := Some now, mr_updated := now\<rparr> else s)
         (tbl_get (machines d) j))"
  by (auto simp: SetReach_def sql_exec_def tb.get_upd split: option.splits)

lemma SetReach_keeps:
  assumes "tbl_get (machines d) i = Some r" "mr_cloud_account r = Some acct"
  shows "sync_keeps acct d (snd (SetReach now i st e d))" "covered acct x d \<Longrightarrow> covered acct x (snd (SetReach now i st e d))"
proof -
  let ?f = "\<lambda>s. s\<lparr>mr_reach_state := st, mr_reach_error := e, mr_reach_checked_at := Some now, mr_updated := now\<rparr>"
  have f: "kept_columns (?f s) = kept_columns s" "mr_missing s = 0 \<Longrightarrow> mr_missing (?f s) = 0" for s
    by (simp_all add: kept_columns_def)
  consider "snd (SetReach now i st e d) = d" | (row) "\<forall>j. tbl_get (machines (snd (SetReach now i st e d))) j
     = map_option (\<lambda>s. if j = i then ?f s else s) (tbl_get (machines d) j)"
    using SetReach_row [of now i st e d] by blast
  then have "sync_keeps acct d (snd (SetReach now i st e d)) \<and> (covered acct x d \<longrightarrow> covered acct x (snd (SetReach now i st e d)))"
  proof cases
    case row
    then show ?thesis using one_row_update [OF row [rule_format] assms f] by blast
  qed (simp add: sync_keeps_refl)
  then show "sync_keeps acct d (snd (SetReach now i st e d))" "covered acct x d \<Longrightarrow> covered acct x (snd (SetReach now i st e d))"
    by blast+
qed

lemma Upsert_keeps:
  assumes inv: "db_inv d" and up: "UpsertFromCloud now acct prov n d = (Inr (i, created, hostChanged), d')"
  shows "sync_keeps acct d d'" "covered acct x d \<Longrightarrow> covered acct x d'" "covered acct (in_instance_id n) d'"
    "\<exists>r. tbl_get (machines d') i = Some r \<and> mr_cloud_account r = Some acct"
proof -
  note t = db_inv_tables(1) [OF inv]
  have "sync_keeps acct d d' \<and> (covered acct x d \<longrightarrow> covered acct x d') \<and> covered acct (in_instance_id n) d'
     \<and> (\<exists>r. tbl_get (machines d') i = Some r \<and> mr_cloud_account r = Some acct)"
    using up
  proof (cases rule: UpsertFromCloud_cases)
    case (created k)
    let ?row = "machine_cols (machine_defaults now (new_cloud_machine now acct prov n))"
    have get: "tbl_get (machines d') j = (if j = i then Some ?row else tbl_get (machines d) j)" for j
      using created by (simp add: tb.get_ins [OF t])
    have free: "tbl_get (machines d) i = None" using tb.next_fresh [OF t] created by simp
    have row: "mr_cloud_account ?row = Some acct" "mr_instance_id ?row = in_instance_id n" "mr_missing ?row = 0"
      by (simp_all add: machine_cols_def machine_defaults_def new_cloud_machine_def boolInt_def)
    have "sync_keeps acct d d'" using get free row by (auto simp: sync_keeps_def)
    moreover have "covered acct x d \<longrightarrow> covered acct x d'" using get free unfolding covered_def by (metis option.distinct(1))
    moreover have "covered acct (in_instance_id n) d'" using get row unfolding covered_def by metis
    ultimately show ?thesis using get row by simp
  next
    case (refreshed k r)
    let ?f = "refresh_row now (fst (follow_ip (mr_ssh_host r) (mr_public_ip r) (in_public_ip n))) n"
    have k: "k = i" using refreshed(2) by simp
    have r: "tbl_get (machines d) i = Some r" "mr_cloud_account r = Some acct" "mr_instance_id r = in_instance_id n"
      using find_instance_Some [OF t refreshed(1)] k by simp_all
    have get: "tbl_get (machines d') j = map_option (\<lambda>s. if j = i then ?f s else s) (tbl_get (machines d) j)" for j
      using refreshed(3) k by (simp add: tb.get_upd)
    have f: "kept_columns (?f s) = kept_columns s" "mr_missing (?f s) = 0" for s
      by (simp_all add: refresh_row_def kept_columns_def)
    have "tbl_get (machines d') i = Some (?f r)" using get r(1) by simp
    moreover have "mr_cloud_account (?f r) = Some acct" "mr_instance_id (?f r) = in_instance_id n"
      using r by (simp_all add: refresh_row_def)
    moreover have "covered acct (in_instance_id n) d'" using calculation f(2) unfolding covered_def by blast
    ultimately show ?thesis using one_row_update [OF get r(1,2) f(1) f(2)] by blast
  qed simp
  then show "sync_keeps acct d d'" "covered acct x d \<Longrightarrow> covered acct x d'" "covered acct (in_instance_id n) d'"
    "\<exists>r. tbl_get (machines d') i = Some r \<and> mr_cloud_account r = Some acct" by blast+
qed

lemma MarkMissing_rows:
  assumes "MarkMissing now a seen d = (Inr (), d')"
  shows "tbl_get (machines d') j = map_option
    (\<lambda>r. if mr_cloud_account r = Some a \<and> mr_instance_id r \<noteq> [] \<and> mr_instance_id r \<notin> set seen
         then r\<lparr>mr_missing := 1, mr_updated := now\<rparr> else r) (tbl_get (machines d) j)"
  using assms
  by (auto simp: MarkMissing_def Let_def tb.get_upd dest!: sql_exec_InrD intro!: option.map_cong split: if_splits)

lemma sync_loop_keeps:
  assumes "db_inv d" and "sync_loop now acct prov ns res seen (d, p) = ((res', seen', None), d', p')"
  shows "sync_keeps acct d d' \<and> (\<forall>x. covered acct x d \<longrightarrow> covered acct x d')
    \<and> (\<forall>n \<in> set ns. covered acct (in_instance_id n) d') \<and> seen' = seen @ map in_instance_id ns
    \<and> sy_created res' + sy_updated res' = sy_created res + sy_updated res + length ns"
  using assms
proof (induction ns arbitrary: res seen d p)
  case Nil
  then show ?case by (simp add: sync_keeps_refl)
next
  case (Cons n ns)
  obtain i created hostChanged d1 where up: "UpsertFromCloud now acct prov n d = (Inr (i, created, hostChanged), d1)"
    using Cons.prems(2) by (auto split: prod.splits sum.splits)
  let ?res = "if created then res\<lparr>sy_created := sy_created res + 1\<rparr> else res\<lparr>sy_updated := sy_updated res + 1\<rparr>"
  define d2 where "d2 = (if hostChanged then snd (SetReach now i ReachUnknown [] d1) else d1)"
  define p2 where "p2 = (if hostChanged then Drop i p else p)"
  have rest: "sync_loop now acct prov ns ?res (seen @ [in_instance_id n]) (d2, p2) = ((res', seen', None), d', p')"
    using Cons.prems(2) up by (simp add: d2_def p2_def Let_def split: if_splits)
  have inv1: "db_inv d1" using UpsertFromCloud_inv [OF Cons.prems(1), of now acct prov n] up by simp
  have inv2: "db_inv d2" using inv1 by (simp add: d2_def SetReach_inv)
  note u = Upsert_keeps [OF Cons.prems(1) up]
  obtain r where r: "tbl_get (machines d1) i = Some r" "mr_cloud_account r = Some acct" using u(4) by blast
  have 12: "sync_keeps acct d1 d2" "covered acct x d1 \<Longrightarrow> covered acct x d2" for x
    using SetReach_keeps [OF r] by (auto simp: d2_def sync_keeps_refl)
  have cnt: "sy_created ?res + sy_updated ?res = sy_created res + sy_updated res + 1" by simp
  note IH = Cons.IH [OF inv2 rest]
  have "sync_keeps acct d d'" using sync_keeps_trans [OF sync_keeps_trans [OF u(1) 12(1)]] IH by blast
  moreover have "\<forall>x. covered acct x d \<longrightarrow> covered acct x d'" using u(2) 12(2) IH by blast
  moreover have "covered acct (in_instance_id n) d'" using u(3) 12(2) IH by blast
  ultimately show ?case using IH cnt by simp
qed

text \<open>
  C15: A sync that succeeds makes the account's part of the inventory agree with the cloud and
  leaves the rest alone.  Every listed instance has a machine of the account that is not
  flagged; every machine of the account whose instance is not listed is flagged as missing;
  no machine is lost, none changes its name, tags, link, port, user or credential, machines
  outside the account do not change at all, and new ones belong to the account.  The counts
  add up.
\<close>

theorem sync_reconciles:
  assumes inv: "db_inv d" and run: "sync keys uj reg now acct ((d, p), w) = ((res, None), (d', p'), w')"
  shows "\<exists>pv ns. providerFor keys uj reg acct d = Inr pv \<and> pv_list pv w = (Inr ns, w')
    \<and> sync_keeps acct d d'
    \<and> (\<forall>n \<in> set ns. covered acct (in_instance_id n) d')
    \<and> (\<forall>j r'. tbl_get (machines d') j = Some r' \<and> mr_cloud_account r' = Some acct \<and> mr_instance_id r' \<noteq> []
         \<and> mr_instance_id r' \<notin> in_instance_id ` set ns \<longrightarrow> mr_missing r' = 1)
    \<and> sy_count res = length ns \<and> sy_created res + sy_updated res = length ns"
proof -
  obtain a where a: "GetCloudAccount acct d = Inr a"
    using run by (auto simp: sync_def Let_def split: sum.splits)
  obtain pv where pv: "providerFor keys uj reg acct d = Inr pv"
    using run a by (auto simp: sync_def Let_def split: sum.splits)
  obtain ns w1 where ns: "pv_list pv w = (Inr ns, w1)"
    using run a pv by (cases "pv_list pv w") (auto simp: sync_def Let_def split: sum.splits)
  obtain res1 seen e d1 p1 where loop: "sync_loop now acct (ac_provider a) ns sync_zero [] (d, p) = ((res1, seen, e), d1, p1)"
    by (metis surj_pair)
  have e: "e = None" using run a pv ns loop by (cases e) (simp_all add: sync_def Let_def)
  obtain q d2 where mark: "MarkMissing now acct seen d1 = (q, d2)" by fastforce
  have out: "q = Inr ()" "res = res1\<lparr>sy_count := length ns\<rparr>" "d' = snd (SetSyncResult acct now [] d2)" "w' = w1"
    using run a pv ns loop e mark by (cases q, simp_all add: sync_def Let_def)+
  note k = sync_loop_keeps [OF inv loop [unfolded e]]
  have seen: "set seen = in_instance_id ` set ns" using k by simp
  have m: "tbl_get (machines d') j = map_option
    (\<lambda>r. if mr_cloud_account r = Some acct \<and> mr_instance_id r \<noteq> [] \<and> mr_instance_id r \<notin> set seen
         then r\<lparr>mr_missing := 1, mr_updated := now\<rparr> else r) (tbl_get (machines d1) j)" for j
    using MarkMissing_rows [OF mark [unfolded out(1)]] by (simp add: out(3))
  have "sync_keeps acct d1 d'" unfolding sync_keeps_def by (auto simp: m kept_columns_def)
  then have "sync_keeps acct d d'" using sync_keeps_trans k by blast
  moreover have "covered acct (in_instance_id n) d'" if "n \<in> set ns" for n
  proof -
    have "covered acct (in_instance_id n) d1"
      using k [THEN conjunct2, THEN conjunct2, THEN conjunct1] that by (rule bspec)
    then obtain j r where "tbl_get (machines d1) j = Some r" "mr_cloud_account r = Some acct"
        "mr_instance_id r = in_instance_id n" "mr_missing r = 0"
      unfolding covered_def by (elim exE conjE) (rule that)
    moreover have "in_instance_id n \<in> set seen" using that seen by simp
    ultimately have "tbl_get (machines d') j = Some r" using m [of j] by simp
    with \<open>mr_cloud_account r = Some acct\<close> \<open>mr_instance_id r = in_instance_id n\<close> \<open>mr_missing r = 0\<close>
    show ?thesis unfolding covered_def by blast
  qed
  moreover have "mr_missing r' = 1" if r': "tbl_get (machines d') j = Some r'" "mr_cloud_account r' = Some acct"
      "mr_instance_id r' \<noteq> []" "mr_instance_id r' \<notin> in_instance_id ` set ns" for j r'
  proof -
    obtain r where r: "r' = (if mr_cloud_account r = Some acct \<and> mr_instance_id r \<noteq> [] \<and> mr_instance_id r \<notin> set seen
         then r\<lparr>mr_missing := 1, mr_updated := now\<rparr> else r)" using r'(1) m [of j] by (auto simp del: if_split)
    have "mr_cloud_account r = mr_cloud_account r'" "mr_instance_id r = mr_instance_id r'" by (simp_all add: r)
    then have "r' = r\<lparr>mr_missing := 1, mr_updated := now\<rparr>" using r r'(2-4) seen by metis
    then show ?thesis by simp
  qed
  moreover have "sy_count res = length ns" "sy_created res + sy_updated res = length ns"
    using k out(2) by (simp_all add: sync_zero_def)
  ultimately show ?thesis using pv ns out(4) by blast
qed

text \<open>An account whose token is sealed, and a provider that lists one instance.\<close>

definition token_blob :: string where
  "token_blob = blob_prefix @ b64_encode (''xy'' @ ad_seal demo_aead ''xy'' ''tok'')"

definition sealed_account :: CloudAccount where
  "sealed_account = demo_cloud_account\<lparr>ac_sealed_token := token_blob\<rparr>"

definition account_db :: db where
  "account_db = snd (CreateCloudAccount 1 sealed_account empty_db)"

definition demo_provider :: "unit Provider" where
  "demo_provider = \<lparr>pv_name = ''vultr'', pv_list = (\<lambda>w. (Inr [demo_instance], w)), pv_state = (\<lambda>i w. (Inr PowerRunning, w)),
     pv_power = (\<lambda>i a w. (None, w))\<rparr>"

definition demo_registry :: "unit registry" where
  "demo_registry = [(''vultr'', \<lparr>et_spec = \<lparr>sp_name = ''vultr'', sp_label = ''Vultr'', sp_form = [], sp_notes = []\<rparr>,
     et_factory = (\<lambda>c. Inr demo_provider)\<rparr>)]"

lemma account_db_facts:
  "db_inv account_db" "db_fail account_db st = None" "tbl_rows (machines account_db) = []"
  "GetCloudAccount 1 account_db = Inr (sealed_account\<lparr>ac_id := 1, ac_created := 1\<rparr>)"
proof -
  show "db_inv account_db" unfolding account_db_def by (rule CreateCloudAccount_inv [OF db_inv_empty])
  show "db_fail account_db st = None" "tbl_rows (machines account_db) = []"
    "GetCloudAccount 1 account_db = Inr (sealed_account\<lparr>ac_id := 1, ac_created := 1\<rparr>)"
    by (simp_all add: account_db_def CreateCloudAccount_def GetCloudAccount_def sql_exec_def sql_query_def wrap_err_def empty_db_def
        tbl_empty_def tbl_insert_def tbl_get_def tbl_next_def sealed_account_def demo_cloud_account_def Let_def)
qed

lemma account_provider: "providerFor demo_aead (\<lambda>s. None) demo_registry 1 account_db = Inr demo_provider"
proof -
  have "OpenSealed demo_aead token_blob = Inr ''tok''"
    unfolding token_blob_def by (rule OpenSealed_blob [OF demo_aead_ok]) (simp add: demo_aead_def)
  then show ?thesis
    by (simp add: providerFor_def account_db_facts(4) sealed_account_def demo_cloud_account_def New_provider_def
        demo_registry_def Validate_def Let_def)
qed

lemma demo_instance_id: "in_instance_id demo_instance = ''i-1''"
  by (simp add: demo_instance_def)

lemma account_up: "\<exists>i d1. UpsertFromCloud 7 1 ''vultr'' demo_instance account_db = (Inr (i, True, False), d1) \<and> db_fail d1 = db_fail account_db"
proof -
  have "find_instance 1 (in_instance_id demo_instance) account_db = None" by (simp add: find_instance_def account_db_facts(3))
  moreover have "ref_ok (cloud_accounts account_db) (Some 1)"
    using account_db_facts(4) by (auto simp: GetCloudAccount_def res_bind_Inr_conv sql_query_def ref_ok_def split: option.splits)
  ultimately show ?thesis
    by (simp add: UpsertFromCloud_def sql_query_def account_db_facts CreateMachine_def Let_def wrap_err_def sql_exec_def
        insert_machine_row_def instance_taken_def machine_cols_def machine_defaults_def new_cloud_machine_def)
qed

theorem sync_reconciles_witness:
  "\<exists>res d' p' w'. sync demo_aead (\<lambda>s. None) demo_registry 7 1 ((account_db, NewBroker), ()) = ((res, None), (d', p'), w')
     \<and> sy_count res = 1 \<and> covered 1 ''i-1'' d'"
proof -
  have g: "GetCloudAccount 1 account_db = Inr (sealed_account\<lparr>ac_id := 1, ac_created := 1\<rparr>)" by (rule account_db_facts)
  have l: "pv_list demo_provider () = (Inr [demo_instance], ())" by (simp add: demo_provider_def)
  obtain i d1 where up: "UpsertFromCloud 7 1 ''vultr'' demo_instance account_db = (Inr (i, True, False), d1)"
    and f1: "db_fail d1 = db_fail account_db"
    using account_up by blast
  obtain d2 where mk: "MarkMissing 7 1 [''i-1''] d1 = (Inr (), d2)"
    by (simp add: MarkMissing_def Let_def sql_exec_def f1 account_db_facts(2))
  obtain res d' p' where run: "sync demo_aead (\<lambda>s. None) demo_registry 7 1 ((account_db, NewBroker), ()) = ((res, None), (d', p'), ())"
    using g account_provider l up mk
    by (simp add: sync_def Let_def sealed_account_def demo_cloud_account_def demo_instance_id split: prod.splits sum.splits)
  from sync_reconciles [OF account_db_facts(1) run] l account_provider
  have "sy_count res = 1 \<and> covered 1 (in_instance_id demo_instance) d'" by auto
  with run demo_instance_id show ?thesis by auto
qed

end
