(* ===== verification/Reach.thy ===== *)
theory Reach imports Hostkey Store_Props "HOL-Library.Multiset" begin

text \<open>
  \<^verbatim>\<open>internal/api/reach.go\<close>: the reachability poller, with the classification of errors it shares
  with the handlers (\<^verbatim>\<open>classifyReach\<close> and \<^verbatim>\<open>reachCode\<close> of \<^verbatim>\<open>handlers.go\<close>).  Times and durations
  are nanoseconds; the backoff is computed on Go's 64-bit \<^verbatim>\<open>time.Duration\<close>.
\<close>

section \<open>Classification\<close>

definition classifyReach :: "go_err \<Rightarrow> string" where
  "classifyReach e =
     (if errors_is e ErrAuth then ReachAuthFailed
      else if errors_is e ErrHostKeyMismatch then ReachHostKeyChanged
      else if errors_is e ErrTimeout \<or> errors_is e ErrNoRoute then ReachTimeout
      else if errors_is e ErrRefused then ReachRefused
      else ReachUnknown)"

definition reachCode :: "go_err \<Rightarrow> string" where
  "reachCode e =
     (let c = classifyReach e in
      if c = ReachAuthFailed then ''auth_failed''
      else if c = ReachHostKeyChanged then ''hostkey_changed''
      else if c = ReachTimeout \<or> c = ReachRefused then ''unreachable''
      else ''internal'')"

section \<open>The schedule\<close>

definition second :: int where "second = 1000000000"

definition reachHealthy :: int64 where "reachHealthy = 60000000000"
definition reachBackoff :: int64 where "reachBackoff = 900000000000"

record reachSched =
  rs_next :: time
  rs_fails :: nat

text \<open>\<^verbatim>\<open>d := reachHealthy << sc.fails\<close>, capped, and also when the shift overflowed to nothing or below.\<close>

definition backoff :: "nat \<Rightarrow> int64" where
  "backoff fails =
     (let d = push_bit fails reachHealthy in
      if sint d > sint reachBackoff \<or> sint d \<le> 0 then reachBackoff else d)"

definition scheduleNext :: "time \<Rightarrow> bool \<Rightarrow> reachSched \<Rightarrow> reachSched" where
  "scheduleNext now ok sc =
     (if ok then \<lparr>rs_next = now + sint reachHealthy, rs_fails = 0\<rparr>
      else let fails = rs_fails sc + 1 in \<lparr>rs_next = now + sint (backoff fails), rs_fails = fails\<rparr>)"

section \<open>One check\<close>

definition sshExit0 :: ExecOpts where
  "sshExit0 = \<lparr>eo_stdin = Some (''exit 0'' @ [CHR 0x0A]), eo_timeout = 12 * second, eo_max_output = 256\<rparr>"

text \<open>
  \<open>resolve\<close> is \<open>resolveTarget\<close>, \<open>exec\<close> the broker's \<open>Exec\<close> (it may change the database, by
  the host-key policy, and the pool); \<open>now\<close> the time when the check ends.
\<close>

definition reachCheck ::
    "(Machine \<Rightarrow> db \<Rightarrow> 't result) \<Rightarrow> ('t \<Rightarrow> string \<Rightarrow> ExecOpts \<Rightarrow> srv \<Rightarrow> (ExecResult \<times> go_err option) \<times> srv) \<Rightarrow>
     time \<Rightarrow> Machine \<Rightarrow> reachSched \<times> srv \<Rightarrow> reachSched \<times> srv" where
  "reachCheck resolve exec now m s =
     (let (sc, d, p) = s in
      case resolve m d of
        Inl e \<Rightarrow> (scheduleNext now False sc, d, p)
      | Inr target \<Rightarrow>
          (case exec target ''sh -s'' sshExit0 (d, p) of
             ((_, Some e), d', p') \<Rightarrow>
               (scheduleNext now False sc, snd (SetReach now (m_id m) (classifyReach e) (err_text e) d'), Drop (m_id m) p')
           | ((_, None), d', p') \<Rightarrow>
               (scheduleNext now True sc, snd (SetReach now (m_id m) ReachOK [] d'), p')))"

section \<open>A sweep\<close>

type_synonym schedule = "int \<Rightarrow> reachSched option"

definition skipped :: "Machine \<Rightarrow> bool" where
  "skipped m \<longleftrightarrow> \<not> HasHost m \<or> HasCloud m \<and> m_power_state m = PowerStopped"

text \<open>The loop over the machines: it enters new ones into the schedule and picks those that are due.\<close>

fun due_loop :: "time \<Rightarrow> Machine list \<Rightarrow> schedule \<Rightarrow> Machine list \<times> schedule" where
  "due_loop now [] sched = ([], sched)"
| "due_loop now (m # ms) sched =
     (if skipped m then due_loop now ms sched
      else let sc = (case sched (m_id m) of None \<Rightarrow> \<lparr>rs_next = now, rs_fails = 0\<rparr> | Some sc \<Rightarrow> sc);
               sched' = sched(m_id m \<mapsto> sc);
               (due, sched'') = due_loop now ms sched'
           in (if now < rs_next sc then due else m # due, sched''))"

text \<open>The due machines are checked by concurrent goroutines, each with its own schedule entry; \<open>order\<close> is the order in which they finish.\<close>

definition run_check ::
    "(Machine \<Rightarrow> db \<Rightarrow> 't result) \<Rightarrow> ('t \<Rightarrow> string \<Rightarrow> ExecOpts \<Rightarrow> srv \<Rightarrow> (ExecResult \<times> go_err option) \<times> srv) \<Rightarrow>
     (int \<Rightarrow> time) \<Rightarrow> Machine \<Rightarrow> schedule \<times> srv \<Rightarrow> schedule \<times> srv" where
  "run_check resolve exec clock m s =
     (case fst s (m_id m) of
        None \<Rightarrow> s
      | Some sc \<Rightarrow> (let (sc', sv) = reachCheck resolve exec (clock (m_id m)) m (sc, snd s) in ((fst s)(m_id m \<mapsto> sc'), sv)))"

definition reachSweep ::
    "(Machine \<Rightarrow> db \<Rightarrow> 't result) \<Rightarrow> ('t \<Rightarrow> string \<Rightarrow> ExecOpts \<Rightarrow> srv \<Rightarrow> (ExecResult \<times> go_err option) \<times> srv) \<Rightarrow>
     (Machine list \<Rightarrow> Machine list) \<Rightarrow> time \<Rightarrow> (int \<Rightarrow> time) \<Rightarrow> schedule \<times> srv \<Rightarrow> schedule \<times> srv" where
  "reachSweep resolve exec order now clock s =
     (case ListMachines (fst (snd s)) of
        Inl e \<Rightarrow> s
      | Inr ms \<Rightarrow>
          (let (due, sched1) = due_loop now ms (fst s);
               (sched2, sv) = fold (run_check resolve exec clock) (order due) (sched1, snd s)
           in (\<lambda>i. if i \<in> m_id ` set ms then sched2 i else None, sv)))"

section \<open>Properties\<close>

lemma sint_60: "sint reachHealthy = 60 * second" and sint_900: "sint reachBackoff = 900 * second"
  by (simp_all add: reachHealthy_def reachBackoff_def second_def sint_word_ariths)

lemma sint_push_bit:
  "sint (push_bit n reachHealthy) = (60000000000 * 2 ^ n + 9223372036854775808) mod 18446744073709551616 - 9223372036854775808"
proof -
  have "push_bit n reachHealthy = word_of_int (60000000000 * 2 ^ n)"
    by (simp add: push_bit_eq_mult reachHealthy_def)
  then have "sint (push_bit n reachHealthy) = sint (word_of_int (60000000000 * 2 ^ n) :: int64)" by (rule arg_cong)
  also have "\<dots> = signed_take_bit 63 (60000000000 * 2 ^ n)" by (subst sint_sbintrunc') simp
  finally show ?thesis by (simp add: signed_take_bit_eq_take_bit_shift take_bit_eq_mod)
qed

definition capped :: "int \<Rightarrow> int" where
  "capped k = (let d = (k + 9223372036854775808) mod 18446744073709551616 - 9223372036854775808
               in if d > 900000000000 \<or> d \<le> 0 then 900000000000 else d)"

lemma backoff_capped: "sint (backoff n) = capped (60000000000 * 2 ^ n)"
  by (simp add: backoff_def capped_def sint_push_bit sint_900 second_def Let_def)

lemma backoff_small:
  "list_all (\<lambda>n. capped (60000000000 * 2 ^ n) = min (60 * second * 2 ^ n) (900 * second)) [0..<64]"
  by (simp add: upt_rec capped_def second_def Let_def)

lemma backoff_value: "sint (backoff n) = min (60 * second * 2 ^ n) (900 * second)"
proof (cases "n < 64")
  case True
  then show ?thesis using backoff_small by (simp add: list_all_iff backoff_capped)
next
  case False
  then have "push_bit n reachHealthy = 0" by (intro bit_eqI) (auto simp: bit_push_bit_iff)
  then have "sint (backoff n) = 900 * second" by (simp add: backoff_def sint_900)
  moreover have "(900 * second :: int) \<le> 60 * second * 2 ^ n"
  proof -
    have "(2::int) ^ 4 \<le> 2 ^ n" using False by (intro power_increasing) auto
    then show ?thesis by (simp add: second_def)
  qed
  ultimately show ?thesis by simp
qed

text \<open>
  C21: The poller's backoff, computed by a shift on 64 bits, is the arithmetic it means at
  every count of failures, also where the shift overflows: after \<open>n\<close> failures in a row the next
  check is \<open>min (60 * 2\<^sup>n) 900\<close> seconds away, so always between one and fifteen minutes; a
  success makes it one minute and forgets the failures.
\<close>

theorem backoff_is_capped_doubling:
  "rs_next (scheduleNext now False sc) = now + min (60 * second * 2 ^ (rs_fails sc + 1)) (900 * second)
    \<and> rs_fails (scheduleNext now False sc) = rs_fails sc + 1
    \<and> scheduleNext now True sc = \<lparr>rs_next = now + 60 * second, rs_fails = 0\<rparr>
    \<and> now + 60 * second \<le> rs_next (scheduleNext now b sc) \<and> rs_next (scheduleNext now b sc) \<le> now + 900 * second"
proof -
  have "(1::int) \<le> 2 ^ Suc (rs_fails sc)" by (rule one_le_power) simp
  then have "60 * second \<le> 60 * second * 2 ^ Suc (rs_fails sc)" by (simp add: second_def)
  then show ?thesis by (cases b) (simp_all add: scheduleNext_def backoff_value sint_60 Let_def second_def)
qed

lemma errors_is_leaf: "errors_is e s \<Longrightarrow> errors_is e t \<longleftrightarrow> s = t"
  by (induction e) auto

text \<open>
  The two tables that turn an error into a code agree: an error that comes from the
  transport (reachability is not "unknown") gets from \<open>fail\<close>, which answers actions, the
  very code that \<open>reachCode\<close> gives a probe, with a status of 409 or 502; and an error that
  is not one of the program's own gets 500 from \<open>fail\<close> exactly when it wraps none of the
  sentinels of its table.
\<close>

theorem error_tables_agree:
  "(classifyReach e \<noteq> ReachUnknown \<longrightarrow> snd (fail_code e) = reachCode e \<and> fst (fail_code e) \<in> {409, 502})
   \<and> (fst (fail_code e) = 500 \<longleftrightarrow> (\<forall>s. errors_is e s \<longrightarrow> s \<in> {ErrUnsupportedAction, ErrUnknownProvider}))"
proof -
  have "(classifyReach e \<noteq> ReachUnknown \<longrightarrow> snd (fail_code e) = reachCode e \<and> fst (fail_code e) \<in> {409, 502})
   \<and> (fst (fail_code e) = 500 \<longleftrightarrow> s \<in> {ErrUnsupportedAction, ErrUnknownProvider})" if "errors_is e s" for s
    using errors_is_leaf [OF that]
    by (cases s) (simp_all add: fail_code_def classifyReach_def reachCode_def ReachUnknown_def ReachAuthFailed_def
      ReachHostKeyChanged_def ReachTimeout_def ReachRefused_def)
  moreover have "(classifyReach e \<noteq> ReachUnknown \<longrightarrow> snd (fail_code e) = reachCode e \<and> fst (fail_code e) \<in> {409, 502})
   \<and> fst (fail_code e) = 500" if "\<forall>s. \<not> errors_is e s"
    using that by (simp add: fail_code_def classifyReach_def)
  ultimately show ?thesis using errors_is_leaf by metis
qed

theorem error_tables_agree_witness:
  "classifyReach (Wrap ''dial: '' (Sentinel ErrTimeout) []) \<noteq> ReachUnknown
   \<and> snd (fail_code (Wrap ''dial: '' (Sentinel ErrTimeout) [])) = reachCode (Wrap ''dial: '' (Sentinel ErrTimeout) [])"
proof -
  have "classifyReach (Wrap ''dial: '' (Sentinel ErrTimeout) []) \<noteq> ReachUnknown"
    by (simp add: classifyReach_def ReachTimeout_def ReachUnknown_def)
  then show ?thesis using error_tables_agree [of "Wrap ''dial: '' (Sentinel ErrTimeout) []"] by blast
qed

subsection \<open>A sweep\<close>

text \<open>The entry a machine is judged by: its own, or for a machine not seen before one that is due now.\<close>

definition entry_of :: "time \<Rightarrow> schedule \<Rightarrow> int \<Rightarrow> reachSched" where
  "entry_of now sched i = (case sched i of None \<Rightarrow> \<lparr>rs_next = now, rs_fails = 0\<rparr> | Some sc \<Rightarrow> sc)"

definition due_now :: "time \<Rightarrow> schedule \<Rightarrow> Machine \<Rightarrow> bool" where
  "due_now now sched m \<longleftrightarrow> \<not> skipped m \<and> rs_next (entry_of now sched (m_id m)) \<le> now"

lemma entry_of_enter [simp]: "entry_of now (sched(i \<mapsto> entry_of now sched i)) j = entry_of now sched j"
  by (simp add: entry_of_def)

lemma due_loop_eq:
  "due_loop now ms sched =
     (filter (due_now now sched) ms,
      \<lambda>i. if \<exists>m \<in> set ms. \<not> skipped m \<and> m_id m = i then Some (entry_of now sched i) else sched i)"
proof (induction ms arbitrary: sched)
  case (Cons m ms)
  show ?case
  proof (cases "skipped m")
    case True
    then show ?thesis by (auto simp: Cons.IH due_now_def)
  next
    case False
    let ?sc = "entry_of now sched (m_id m)"
    have e: "(case sched (m_id m) of None \<Rightarrow> \<lparr>rs_next = now, rs_fails = 0\<rparr> | Some sc \<Rightarrow> sc) = ?sc"
      by (simp add: entry_of_def)
    have en: "entry_of now (sched(m_id m \<mapsto> ?sc)) = entry_of now sched" by (rule ext) simp
    have d: "due_now now (sched(m_id m \<mapsto> ?sc)) = due_now now sched" by (rule ext) (simp add: due_now_def)
    have f: "(\<lambda>i. if \<exists>x \<in> set ms. \<not> skipped x \<and> m_id x = i then Some (entry_of now sched i) else (sched(m_id m \<mapsto> ?sc)) i)
      = (\<lambda>i. if \<exists>x \<in> set (m # ms). \<not> skipped x \<and> m_id x = i then Some (entry_of now sched i) else sched i)"
      using False by (intro ext) auto
    have g: "filter (due_now now sched) (m # ms)
      = (if now < rs_next ?sc then filter (due_now now sched) ms else m # filter (due_now now sched) ms)"
      using False by (simp add: due_now_def)
    show ?thesis using False unfolding due_loop.simps e Let_def Cons.IH d en f g by simp
  qed
qed simp

lemma reachCheck_schedule: "\<exists>b. fst (reachCheck resolve exec now m (sc, sv)) = scheduleNext now b sc"
  by (auto simp: reachCheck_def Let_def split: prod.splits sum.splits option.splits)

lemma run_check_schedule:
  assumes "sched (m_id m) = Some sc"
  shows "\<exists>b. fst (run_check resolve exec clock m (sched, sv)) = sched(m_id m \<mapsto> scheduleNext (clock (m_id m)) b sc)"
  using assms reachCheck_schedule [of resolve exec "clock (m_id m)" m sc sv]
  by (auto simp: run_check_def split: prod.splits)

lemma run_checks_schedule:
  assumes "distinct (map m_id ms)" and "\<forall>m \<in> set ms. sched (m_id m) \<noteq> None"
  shows "if i \<in> m_id ` set ms
     then \<exists>b. fst (fold (run_check resolve exec clock) ms (sched, sv)) i = Some (scheduleNext (clock i) b (the (sched i)))
     else fst (fold (run_check resolve exec clock) ms (sched, sv)) i = sched i"
  using assms
proof (induction ms arbitrary: sched sv)
  case (Cons m ms)
  obtain sc where sc: "sched (m_id m) = Some sc" using Cons.prems(2) by auto
  obtain b sv' where s: "run_check resolve exec clock m (sched, sv) = (sched(m_id m \<mapsto> scheduleNext (clock (m_id m)) b sc), sv')"
    using run_check_schedule [of sched m sc resolve exec clock sv, OF sc] by (metis prod.collapse)
  let ?t = "sched(m_id m \<mapsto> scheduleNext (clock (m_id m)) b sc)"
  have d: "distinct (map m_id ms)" "m_id m \<notin> m_id ` set ms" using Cons.prems(1) by auto
  have "\<forall>x \<in> set ms. ?t (m_id x) \<noteq> None" using Cons.prems(2) by auto
  note IH = Cons.IH [OF d(1) this, of sv']
  have f: "fold (run_check resolve exec clock) (m # ms) (sched, sv) = fold (run_check resolve exec clock) ms (?t, sv')"
    by (simp add: s)
  show ?case
  proof (cases "i = m_id m")
    case True
    then show ?thesis using IH d(2) sc unfolding f by auto
  next
    case False
    then show ?thesis using IH unfolding f by auto
  qed
qed simp

lemma ListMachines_ids:
  assumes "db_inv d" and "ListMachines d = Inr ms"
  shows "distinct (map m_id ms)"
proof -
  have ms: "ms = sort_key (\<lambda>m. nocase (m_name m)) (map (\<lambda>(i, r). scanMachine i r) (tbl_rows (machines d)))"
    using assms(2) by (auto simp: ListMachines_def wrap_query_Inr dest!: sql_query_InrD)
  have "m_id (case x of (i, r) \<Rightarrow> scanMachine i r) = fst x" for x
    by (cases x) (simp add: scanMachine_def)
  then have "mset (map m_id ms) = mset (map fst (tbl_rows (machines d)))" by (simp add: ms multiset.map_comp comp_def)
  moreover have "distinct (map fst (tbl_rows (machines d)))" using db_inv_tables(1) [OF assms(1)] by (simp add: tbl_inv_def)
  ultimately show ?thesis by (metis mset_eq_imp_distinct_iff)
qed



end
