(* ===== verification/Handlers.thy ===== *)
theory Handlers imports Facts Sync Reach begin

text \<open>
  \<^verbatim>\<open>internal/api/handlers.go\<close>: the REST handlers for machines, power, actions, credentials,
  accounts and the audit log (those for host keys are in \<^verbatim>\<open>Hostkey\<close>).  A handler takes the path
  value and the decoded body (or the decoder's error) and the server's state, and returns
  the response and the new state.  Errors the code ignores with \<open>_ =\<close> are dropped by taking
  the state only.
\<close>

definition actor :: string where "actor = ''admin''"

type_synonym machineView = "Machine \<times> HostFacts option"

definition view_of :: "db \<Rightarrow> Machine \<Rightarrow> machineView" where
  "view_of d m = (m, case GetFacts (m_id m) d of Inl e \<Rightarrow> None | Inr f \<Rightarrow> Some f)"

section \<open>Machines\<close>

definition listMachines :: "srv \<Rightarrow> machineView list response \<times> srv" where
  "listMachines sv =
     (case ListMachines (fst sv) of
        Inl e \<Rightarrow> (fail e, sv)
      | Inr ms \<Rightarrow> (Reply 200 (map (view_of (fst sv)) ms), sv))"

definition getMachine :: "string \<Rightarrow> srv \<Rightarrow> machineView response \<times> srv" where
  "getMachine path sv =
     (case pathID path of
        None \<Rightarrow> (badRequest ''bad id'', sv)
      | Some i \<Rightarrow>
          (case GetMachine i (fst sv) of
             Inl e \<Rightarrow> (fail e, sv)
           | Inr m \<Rightarrow> (Reply 200 (view_of (fst sv) m), sv)))"

record machineInput =
  mi_name :: string
  mi_tags :: "string list"
  mi_ssh_host :: string
  mi_ssh_port :: int
  mi_ssh_user :: string
  mi_credential :: "int option"
  mi_cloud_account :: "int option"
  mi_instance_id :: string
  mi_provider :: string

definition normalize :: "machineInput \<Rightarrow> machineInput" where
  "normalize i = i\<lparr>mi_name := trim_space (mi_name i),
     mi_ssh_host := trim_set [CHR ''['', CHR '']''] (trim_space (mi_ssh_host i)),
     mi_ssh_user := trim_space (mi_ssh_user i),
     mi_ssh_port := (if mi_ssh_port i = 0 then 22 else mi_ssh_port i)\<rparr>"

definition validate :: "machineInput \<Rightarrow> string option" where
  "validate i =
     (if trim_space (mi_name i) = [] then Some ''name is required''
      else if mi_ssh_port i < 0 \<or> mi_ssh_port i > 65535 then Some ''sshPort out of range''
      else if (mi_instance_id i \<noteq> []) \<noteq> (mi_cloud_account i \<noteq> None)
      then Some ''instanceId and cloudAccountId must be set together''
      else None)"

text \<open>The \<^verbatim>\<open>store.Machine\<close> literal of \<open>createMachine\<close>: the input's fields, zero values elsewhere.\<close>

definition input_machine :: "machineInput \<Rightarrow> Machine" where
  "input_machine i =
     \<lparr>m_id = 0, m_name = mi_name i, m_tags = mi_tags i, m_cloud_account = mi_cloud_account i,
      m_provider = mi_provider i, m_instance_id = mi_instance_id i, m_region = [], m_instance_type = [],
      m_power_state = [], m_public_ip = [], m_private_ip = [], m_cloud_synced_at = None, m_missing = False,
      m_ssh_host = mi_ssh_host i, m_ssh_port = mi_ssh_port i, m_ssh_user = mi_ssh_user i,
      m_credential = mi_credential i, m_reach_state = [], m_reach_error = [], m_reach_checked_at = None,
      m_created = 0, m_updated = 0\<rparr>"

definition createMachine :: "time \<Rightarrow> machineInput result \<Rightarrow> srv \<Rightarrow> machineView response \<times> srv" where
  "createMachine now body sv =
     (case body of
        Inl e \<Rightarrow> (badRequest (err_text e), sv)
      | Inr i0 \<Rightarrow>
          (let i = normalize i0 in
           case validate i of
             Some msg \<Rightarrow> (badRequest msg, sv)
           | None \<Rightarrow>
               (case CreateMachine now (input_machine i) (fst sv) of
                  (Inl e, d') \<Rightarrow> (fail e, (d', snd sv))
                | (Inr m, d') \<Rightarrow> (Reply 201 (m, None), (d', snd sv)))))"

definition updated_machine :: "machineInput \<Rightarrow> Machine \<Rightarrow> Machine" where
  "updated_machine i m = m\<lparr>m_name := mi_name i, m_tags := mi_tags i, m_ssh_host := mi_ssh_host i,
     m_ssh_port := mi_ssh_port i, m_ssh_user := mi_ssh_user i, m_credential := mi_credential i,
     m_cloud_account := mi_cloud_account i, m_instance_id := mi_instance_id i, m_provider := mi_provider i\<rparr>"

definition boxChanged :: "Machine \<Rightarrow> machineInput \<Rightarrow> bool" where
  "boxChanged m i \<longleftrightarrow> m_ssh_host m \<noteq> mi_ssh_host i \<or> m_ssh_port m \<noteq> mi_ssh_port i"

definition sessionChanged :: "Machine \<Rightarrow> machineInput \<Rightarrow> bool" where
  "sessionChanged m i \<longleftrightarrow> boxChanged m i \<or> m_ssh_user m \<noteq> mi_ssh_user i \<or> m_credential m \<noteq> mi_credential i"

text \<open>A failed re-read leaves Go's zero \<^verbatim>\<open>Machine\<close>.\<close>

definition zero_machine :: Machine where
  "zero_machine =
     \<lparr>m_id = 0, m_name = [], m_tags = [], m_cloud_account = None, m_provider = [], m_instance_id = [], m_region = [],
      m_instance_type = [], m_power_state = [], m_public_ip = [], m_private_ip = [], m_cloud_synced_at = None,
      m_missing = False, m_ssh_host = [], m_ssh_port = 0, m_ssh_user = [], m_credential = None, m_reach_state = [],
      m_reach_error = [], m_reach_checked_at = None, m_created = 0, m_updated = 0\<rparr>"

definition reread :: "int \<Rightarrow> db \<Rightarrow> Machine" where
  "reread i d = (case GetMachine i d of Inl e \<Rightarrow> zero_machine | Inr m \<Rightarrow> m)"

definition updateMachine :: "time \<Rightarrow> string \<Rightarrow> machineInput result \<Rightarrow> srv \<Rightarrow> machineView response \<times> srv" where
  "updateMachine now path body sv =
     (case pathID path of
        None \<Rightarrow> (badRequest ''bad id'', sv)
      | Some k \<Rightarrow>
     (case GetMachine k (fst sv) of
        Inl e \<Rightarrow> (fail e, sv)
      | Inr m \<Rightarrow>
     (case body of
        Inl e \<Rightarrow> (badRequest (err_text e), sv)
      | Inr i0 \<Rightarrow>
     (let i = normalize i0 in
      case validate i of
        Some msg \<Rightarrow> (badRequest msg, sv)
      | None \<Rightarrow>
     (case UpdateMachine now (updated_machine i m) (fst sv) of
        (Inl e, d') \<Rightarrow> (fail e, (d', snd sv))
      | (Inr _, d1) \<Rightarrow>
          (let (d2, p2) = (if sessionChanged m i then (snd (SetReach now (m_id m) ReachUnknown [] d1), Drop (m_id m) (snd sv))
                           else (d1, snd sv));
               d3 = (if boxChanged m i then snd (ResetHostIdentity (m_id m) d2) else d2)
           in (Reply 200 (reread k d3, None), (d3, p2))))))))"

definition deleteMachine :: "string \<Rightarrow> srv \<Rightarrow> unit response \<times> srv" where
  "deleteMachine path sv =
     (case pathID path of
        None \<Rightarrow> (badRequest ''bad id'', sv)
      | Some i \<Rightarrow>
          (let p' = Drop i (snd sv) in
           case DeleteMachine i (fst sv) of
             (Inl e, d') \<Rightarrow> (fail e, (d', p'))
           | (Inr _, d') \<Rightarrow> (NoBody 204, (d', p'))))"

section \<open>Probing\<close>

definition probe ::
    "(Machine \<Rightarrow> db \<Rightarrow> Target result) \<Rightarrow> (Target, pool) exec_fn \<Rightarrow> time \<Rightarrow> Machine \<Rightarrow> srv \<Rightarrow> HostFacts result \<times> srv" where
  "probe resolve exec now m sv =
     (case resolve m (fst sv) of
        Inl e \<Rightarrow> (Inl e, (snd (SetReach now (m_id m) ReachUnknown (err_text e) (fst sv)), snd sv))
      | Inr target \<Rightarrow>
          (case Fingerprint exec now target sv of
             (Inl e, d', p') \<Rightarrow>
               (Inl e, (snd (SetReach now (m_id m) (classifyReach e) (err_text e) d'), Drop (m_id m) p'))
           | (Inr f, d', p') \<Rightarrow>
               (case UpsertFacts now f d' of
                  (Inl e, d'') \<Rightarrow> (Inl e, (d'', p'))
                | (Inr _, d'') \<Rightarrow> (Inr f, (snd (SetReach now (m_id m) ReachOK [] d''), p')))))"

text \<open>The response to a failed probe carries the machine as well; only its status and error are kept here.\<close>

definition probeMachine ::
    "(Machine \<Rightarrow> db \<Rightarrow> Target result) \<Rightarrow> (Target, pool) exec_fn \<Rightarrow> time \<Rightarrow> string \<Rightarrow> srv \<Rightarrow> machineView response \<times> srv" where
  "probeMachine resolve exec now path sv =
     (case pathID path of
        None \<Rightarrow> (badRequest ''bad id'', sv)
      | Some i \<Rightarrow>
     (case GetMachine i (fst sv) of
        Inl e \<Rightarrow> (fail e, sv)
      | Inr m \<Rightarrow>
          if \<not> HasHost m then (fail (Sentinel ErrNoHost), sv)
          else (case probe resolve exec now m (fst sv, Drop (m_id m) (snd sv)) of
              (Inl e, sv') \<Rightarrow> (Refuse 502 (api_error (err_text e) (reachCode e)), sv')
            | (Inr f, sv') \<Rightarrow> (Reply 200 (reread i (fst sv'), Some f), sv'))))"

section \<open>Power\<close>

record powerInput =
  pi_action :: string
  pi_confirm :: bool
  pi_confirm_name :: string

definition power_gate :: "Machine \<Rightarrow> powerInput \<Rightarrow> go_err option" where
  "power_gate m i =
     (if int (Danger (pi_action i)) = DangerReversible then
        (if \<not> pi_confirm i then Some (Sentinel ErrNeedsConfirm) else None)
      else if pi_confirm_name i \<noteq> m_name m then Some (Sentinel ErrNeedsName)
      else None)"

definition power_run :: "time \<Rightarrow> int \<Rightarrow> Machine \<Rightarrow> string \<Rightarrow> string \<Rightarrow> go_err option \<Rightarrow> Run" where
  "power_run now millis m pname action perr =
     \<lparr>rn_id = 0, rn_machine = Some (m_id m), rn_machine_name = m_name m, rn_action = ''power.'' @ action,
      rn_command = pname @ '' '' @ action @ '' '' @ m_instance_id m, rn_danger = int (Danger action), rn_actor = actor,
      rn_exit = (case perr of None \<Rightarrow> Some 0 | Some e \<Rightarrow> None), rn_stdout = [], rn_stderr = [],
      rn_error = (case perr of None \<Rightarrow> [] | Some e \<Rightarrow> err_text e), rn_duration = millis, rn_started = now\<rparr>"

definition powerMachine ::
    "(int \<Rightarrow> db \<Rightarrow> 'w Provider result) \<Rightarrow> time \<Rightarrow> int \<Rightarrow> string \<Rightarrow> powerInput result \<Rightarrow> srv \<times> 'w \<Rightarrow> machineView response \<times> srv \<times> 'w" where
  "powerMachine provider_for now millis path body s =
     (let ((d, p), w) = s in
      case pathID path of
        None \<Rightarrow> (badRequest ''bad id'', s)
      | Some k \<Rightarrow>
     (case body of
        Inl e \<Rightarrow> (badRequest (err_text e), s)
      | Inr i \<Rightarrow>
     if \<not> Valid (pi_action i) then (badRequest ''unknown power action'', s)
     else (case GetMachine k d of
        Inl e \<Rightarrow> (fail e, s)
      | Inr m \<Rightarrow>
     if \<not> HasCloud m then (Refuse 409 (api_error ''machine is not linked to a cloud instance'' ''not_available''), s)
     else (case power_gate m i of
        Some e \<Rightarrow> (fail e, s)
      | None \<Rightarrow>
     (case provider_for (the (m_cloud_account m)) d of
        Inl e \<Rightarrow> (fail e, s)
      | Inr pv \<Rightarrow>
     (let (perr, w1) = pv_power pv (m_instance_id m) (pi_action i) w in
      case InsertRun (power_run now millis m (pv_name pv) (pi_action i) perr) d of
        (Inl e, d1) \<Rightarrow> (fail e, (d1, p), w1)
      | (Inr _, d1) \<Rightarrow>
     (case perr of
        Some e \<Rightarrow> (Refuse 502 (api_error (err_text e) ''provider_error''), (d1, p), w1)
      | None \<Rightarrow>
     (let p1 = Drop (m_id m) p;
          (st, w2) = pv_state pv (m_instance_id m) w1;
          d2 = (case st of Inl e \<Rightarrow> d1 | Inr st' \<Rightarrow> snd (SetPowerState now (m_id m) st' d1))
      in (Reply 200 (reread k d2, None), (d2, p1), w2)))))))))"

section \<open>Actions\<close>

text \<open>The catalog and the saved custom actions whose requirements the capabilities satisfy; only the catalog when the store fails.\<close>

definition availableActions :: "string list \<Rightarrow> db \<Rightarrow> Action list" where
  "availableActions caps d =
     (case ListCustomActions d of
        Inl e \<Rightarrow> Available caps
      | Inr customs \<Rightarrow>
          Available caps @ filter (\<lambda>a. list_all (\<lambda>r. r \<in> set caps) (act_requires a)) (map FromCustom customs))"

definition listActions :: "string \<Rightarrow> srv \<Rightarrow> Action list response \<times> srv" where
  "listActions path sv =
     (case pathID path of
        None \<Rightarrow> (badRequest ''bad id'', sv)
      | Some i \<Rightarrow>
          (case GetFacts i (fst sv) of
             Inr f \<Rightarrow> (Reply 200 (availableActions (hf_caps f) (fst sv)), sv)
           | Inl e \<Rightarrow>
               if errors_is e ErrNotFound then (Reply 200 (availableActions [] (fst sv)), sv)
               else (fail e, sv)))"

record actionInput =
  ai_params :: "string \<Rightarrow> string option"
  ai_confirm :: bool
  ai_confirm_name :: string

definition no_input :: actionInput where
  "no_input = \<lparr>ai_params = (\<lambda>_. None), ai_confirm = False, ai_confirm_name = []\<rparr>"

text \<open>The body: none at all (or an empty one, \<^verbatim>\<open>io.EOF\<close>), one that does not decode, or the input.\<close>

datatype action_body = NoBodySent | BadBody go_err | Decoded actionInput

definition action_request :: "int \<Rightarrow> string \<Rightarrow> actionInput \<Rightarrow> Request" where
  "action_request i aid inp = \<lparr>rq_machine = i, rq_action = aid, rq_params = ai_params inp, rq_confirm = ai_confirm inp,
     rq_confirm_name = ai_confirm_name inp, rq_actor = actor\<rparr>"

text \<open>A transport failure updates reachability and drops the connection.\<close>

definition note_reach :: "time \<Rightarrow> int \<Rightarrow> go_err \<Rightarrow> srv \<Rightarrow> srv" where
  "note_reach now i e sv =
     (if classifyReach e \<noteq> ReachUnknown
      then (snd (SetReach now i (classifyReach e) (err_text e) (fst sv)), Drop i (snd sv)) else sv)"

definition runAction ::
    "(Machine \<Rightarrow> db \<Rightarrow> 't result) \<Rightarrow> ('t, pool) exec_fn \<Rightarrow> (string \<Rightarrow> 'f \<times> bool) \<Rightarrow> (string \<Rightarrow> DockerLine option) \<Rightarrow>
     time \<Rightarrow> string \<Rightarrow> string \<Rightarrow> action_body \<Rightarrow> srv \<Rightarrow> (Run \<times> 'f parsed option) option response \<times> srv" where
  "runAction resolve exec pf uj now path aid body sv =
     (case pathID path of
        None \<Rightarrow> (badRequest ''bad id'', sv)
      | Some i \<Rightarrow>
     (case (case body of BadBody e \<Rightarrow> Inl e | NoBodySent \<Rightarrow> Inr no_input | Decoded inp \<Rightarrow> Inr inp) of
        Inl e \<Rightarrow> (badRequest (err_text e), sv)
      | Inr inp \<Rightarrow>
          (case Run_action resolve exec pf uj now (action_request i aid inp) sv of
             (res, Some e, sv') \<Rightarrow> (fail e, note_reach now i e sv')
           | (res, None, sv') \<Rightarrow> (Reply 200 res, sv'))))"

section \<open>Credentials\<close>

record credentialInput =
  ci_name :: string
  ci_kind :: string
  ci_private_key :: string
  ci_passphrase :: string
  ci_password :: string

definition listCredentials :: "srv \<Rightarrow> Credential list response \<times> srv" where
  "listCredentials sv = (case ListCredentials (fst sv) of Inl e \<Rightarrow> (fail e, sv) | Inr cs \<Rightarrow> (Reply 200 cs, sv))"

text \<open>
  The secret to seal and the fingerprint to show, or the message of the refusal.  \<open>parse\<close> is
  the SSH library's key parser, as in \<open>authMethods\<close>; its signer carries the fingerprint of
  the public key.
\<close>

definition credential_secret ::
    "(string \<Rightarrow> string option \<Rightarrow> (bool \<times> go_err) + string) \<Rightarrow> credentialInput \<Rightarrow> string + sealedSecret \<times> string" where
  "credential_secret parse i =
     (if ci_kind i = CredSSHKey then
        (if ci_private_key i = [] then Inl ''privateKey is required''
         else (case parse (ci_private_key i) (if ci_passphrase i \<noteq> [] then Some (ci_passphrase i) else None) of
             Inl (missing, e) \<Rightarrow>
               if missing then Inl (''this key is encrypted '' @ [CHR 0xE2, CHR 0x80, CHR 0x94] @ '' provide its passphrase'')
               else Inl (''could not parse private key: '' @ err_text e)
           | Inr fp \<Rightarrow> Inr (\<lparr>sk_private_key = ci_private_key i, sk_passphrase = ci_passphrase i, sk_password = []\<rparr>, fp)))
      else if ci_kind i = CredPassword then
        (if ci_password i = [] then Inl ''password is required''
         else Inr (\<lparr>sk_private_key = [], sk_passphrase = [], sk_password = ci_password i\<rparr>, []))
      else Inl ''kind must be ssh_key or password'')"

text \<open>\<open>mj\<close> is \<^verbatim>\<open>json.Marshal\<close> of the secret, \<open>rnd\<close> the nonce drawn by \<open>Seal\<close>.\<close>

definition createCredential ::
    "(string \<Rightarrow> string option \<Rightarrow> (bool \<times> go_err) + string) \<Rightarrow> (sealedSecret \<Rightarrow> string) \<Rightarrow> aead \<Rightarrow> string result \<Rightarrow>
     time \<Rightarrow> credentialInput result \<Rightarrow> srv \<Rightarrow> Credential response \<times> srv" where
  "createCredential parse mj keys rnd now body sv =
     (case body of
        Inl e \<Rightarrow> (badRequest (err_text e), sv)
      | Inr i \<Rightarrow>
     if trim_space (ci_name i) = [] then (badRequest ''name is required'', sv)
     else (case credential_secret parse i of
        Inl msg \<Rightarrow> (badRequest msg, sv)
      | Inr (secret, fp) \<Rightarrow>
     (case Seal keys rnd (mj secret) of
        Inl e \<Rightarrow> (fail e, sv)
      | Inr sealed \<Rightarrow>
     (case CreateCredential now \<lparr>cr_id = 0, cr_name = ci_name i, cr_kind = ci_kind i, cr_sealed = sealed,
                               cr_fingerprint = fp, cr_created = 0\<rparr> (fst sv) of
        (Inl e, d') \<Rightarrow> (fail e, (d', snd sv))
      | (Inr c, d') \<Rightarrow> (Reply 201 c, (d', snd sv))))))"

definition deleteCredential :: "string \<Rightarrow> srv \<Rightarrow> unit response \<times> srv" where
  "deleteCredential path sv =
     (case pathID path of
        None \<Rightarrow> (badRequest ''bad id'', sv)
      | Some i \<Rightarrow>
          (let ids = (case MachineIDsByCredential i (fst sv) of Inl e \<Rightarrow> [] | Inr ids \<Rightarrow> ids) in
           case DeleteCredential i (fst sv) of
             (Inl e, d') \<Rightarrow> (fail e, (d', snd sv))
           | (Inr _, d') \<Rightarrow> (NoBody 204, (d', fold Drop ids (snd sv)))))"

section \<open>Cloud accounts\<close>

record accountInput =
  ac_in_name :: string
  ac_in_provider :: string
  ac_in_credentials :: Credentials

definition listAccounts :: "srv \<Rightarrow> CloudAccount list response \<times> srv" where
  "listAccounts sv = (case ListCloudAccounts (fst sv) of Inl e \<Rightarrow> (fail e, sv) | Inr xs \<Rightarrow> (Reply 200 xs, sv))"

text \<open>\<open>mj\<close> is \<^verbatim>\<open>json.Marshal\<close> of the credentials, which may fail.\<close>

definition createAccount ::
    "'w registry \<Rightarrow> (Credentials \<Rightarrow> string result) \<Rightarrow> aead \<Rightarrow> string result \<Rightarrow> time \<Rightarrow> accountInput result \<Rightarrow> srv \<times> 'w
       \<Rightarrow> CloudAccount response \<times> srv \<times> 'w" where
  "createAccount reg mj keys rnd now body s =
     (let ((d, p), w) = s in
      case body of
        Inl e \<Rightarrow> (badRequest (err_text e), s)
      | Inr i \<Rightarrow>
     if trim_space (ac_in_name i) = [] then (badRequest ''name is required'', s)
     else (case Lookup_spec reg (ac_in_provider i) of
        None \<Rightarrow> (badRequest (''unknown provider '' @ go_quote (ac_in_provider i)), s)
      | Some spec \<Rightarrow>
     (case Validate spec (ac_in_credentials i) of
        Some e \<Rightarrow> (badRequest (err_text e), s)
      | None \<Rightarrow>
     (case New_provider reg (ac_in_provider i) (ac_in_credentials i) of
        Inl e \<Rightarrow> (badRequest (err_text e), s)
      | Inr pv \<Rightarrow>
     (case pv_list pv w of
        (Inl e, w1) \<Rightarrow>
          (Refuse 502 (api_error (''provider rejected the credentials: '' @ err_text e) ''provider_error''), (d, p), w1)
      | (Inr _, w1) \<Rightarrow>
     (case mj (ac_in_credentials i) of
        Inl e \<Rightarrow> (fail e, (d, p), w1)
      | Inr plain \<Rightarrow>
     (case Seal keys rnd plain of
        Inl e \<Rightarrow> (fail e, (d, p), w1)
      | Inr sealed \<Rightarrow>
     (case CreateCloudAccount now \<lparr>ac_id = 0, ac_name = ac_in_name i, ac_provider = ac_in_provider i, ac_sealed_token = sealed,
                                 ac_last_sync_at = None, ac_last_sync_error = [], ac_created = 0\<rparr> d of
        (Inl e, d') \<Rightarrow> (fail e, (d', p), w1)
      | (Inr a, d') \<Rightarrow> (Reply 201 a, (d', p), w1)))))))))"

definition deleteAccount :: "time \<Rightarrow> string \<Rightarrow> srv \<Rightarrow> unit response \<times> srv" where
  "deleteAccount now path sv =
     (case pathID path of
        None \<Rightarrow> (badRequest ''bad id'', sv)
      | Some i \<Rightarrow>
          (case DeleteCloudAccount now i (fst sv) of
             (Inl e, d') \<Rightarrow> (fail e, (d', snd sv))
           | (Inr _, d') \<Rightarrow> (NoBody 204, (d', snd sv))))"

definition syncAccount ::
    "aead \<Rightarrow> (string \<Rightarrow> Credentials option) \<Rightarrow> 'w registry \<Rightarrow> time \<Rightarrow> string \<Rightarrow> srv \<times> 'w \<Rightarrow> syncResult response \<times> srv \<times> 'w" where
  "syncAccount keys uj reg now path s =
     (case pathID path of
        None \<Rightarrow> (badRequest ''bad id'', s)
      | Some i \<Rightarrow>
          (case sync keys uj reg now i s of
             ((res, Some e), s') \<Rightarrow> (fail e, s')
           | ((res, None), s') \<Rightarrow> (Reply 200 res, s')))"

section \<open>The audit log and the catalogs\<close>

text \<open>The query values are strings, empty when absent; \<^verbatim>\<open>strconv.Atoi\<close>'s error is ignored (0 or the bound).\<close>

definition listRuns :: "string \<Rightarrow> string \<Rightarrow> srv \<Rightarrow> Run list response \<times> srv" where
  "listRuns machine limit sv =
     (let mid = (if machine = [] then Inr None else (case pathID machine of None \<Rightarrow> Inl () | Some i \<Rightarrow> Inr (Some i))) in
      case mid of
        Inl _ \<Rightarrow> (badRequest ''bad machine id'', sv)
      | Inr m \<Rightarrow>
          (case ListRuns m (fst (parse_int64 limit)) (fst sv) of
             Inl e \<Rightarrow> (fail e, sv)
           | Inr rs \<Rightarrow> (Reply 200 rs, sv)))"

definition catalog :: "srv \<Rightarrow> Action list response \<times> srv" where
  "catalog sv = (Reply 200 Catalog, sv)"

definition providers :: "'w registry \<Rightarrow> srv \<Rightarrow> Spec list response \<times> srv" where
  "providers reg sv = (Reply 200 (Specs reg), sv)"

end
