(* ===== verification/Handlers_Props.thy ===== *)
theory Handlers_Props imports Handlers begin

text \<open>
  What the handlers of \<^verbatim>\<open>Handlers\<close> guarantee: editing a machine, power actions, and the list of
  actions a host is offered.
\<close>

section \<open>Editing a machine\<close>

lemma UpdateMachine_effect:
  assumes "UpdateMachine now m d = (Inr u, d')"
  shows "db_fail d' = db_fail d" "host_keys d' = host_keys d" "host_facts d' = host_facts d"
    "j \<noteq> m_id m \<Longrightarrow> tbl_get (machines d') j = tbl_get (machines d) j"
  using assms by (auto simp: UpdateMachine_def Let_def sql_exec_def tb.get_upd option.map_ident split: option.splits if_splits)

lemma SetReach_effect:
  "db_fail (snd (SetReach now i st e d)) = db_fail d" "host_facts (snd (SetReach now i st e d)) = host_facts d"
  "j \<noteq> i \<Longrightarrow> tbl_get (machines (snd (SetReach now i st e d))) j = tbl_get (machines d) j"
  by (auto simp: SetReach_def sql_exec_def tb.get_upd option.map_ident split: option.splits)

lemma ResetHostIdentity_effect:
  "machines (snd (ResetHostIdentity i d)) = machines d"
  "db_fail d = (\<lambda>_. None) \<Longrightarrow> host_keys (snd (ResetHostIdentity i d)) i = None \<and> host_facts (snd (ResetHostIdentity i d)) i = None"
  by (auto simp: ResetHostIdentity_def sql_exec_def split: option.splits)

lemma Drop_effect:
  "pl_conns (Drop i p) i = None" "j \<noteq> i \<Longrightarrow> pl_conns (Drop i p) j = pl_conns p j"
  "pl_conns p i = Some c \<Longrightarrow> c \<notin> pl_open (Drop i p)" "pl_dialed (Drop i p) = pl_dialed p"
  by (auto simp: Drop_def pool_defs split: option.splits)

lemma validate_None:
  assumes "validate (normalize i) = None"
  shows "mi_name (normalize i) \<noteq> [] \<and> 0 < mi_ssh_port (normalize i) \<and> mi_ssh_port (normalize i) \<le> 65535
    \<and> (mi_instance_id (normalize i) \<noteq> [] \<longleftrightarrow> mi_cloud_account (normalize i) \<noteq> None)"
proof -
  have "mi_name (normalize i) \<noteq> []" using assms by (auto simp: validate_def)
  moreover have "mi_ssh_port (normalize i) \<noteq> 0" by (simp add: normalize_def)
  ultimately show ?thesis using assms by (auto simp: validate_def split: if_splits)
qed

text \<open>What a successful edit did, step by step.\<close>

lemma updateMachine_done:
  assumes "updateMachine now path (Inr i0) (d, p) = (Reply st v, (d', p'))" and "pathID path = Some k" and "GetMachine k d = Inr m"
  obtains d1 where "validate (normalize i0) = None" "UpdateMachine now (updated_machine (normalize i0) m) d = (Inr (), d1)"
    "p' = (if sessionChanged m (normalize i0) then Drop k p else p)"
    "d' = (let d2 = (if sessionChanged m (normalize i0) then snd (SetReach now k ReachUnknown [] d1) else d1)
           in if boxChanged m (normalize i0) then snd (ResetHostIdentity k d2) else d2)"
proof -
  have id: "m_id m = k" using GetMachine_id [OF assms(3)] .
  have v: "validate (normalize i0) = None"
    using assms by (auto simp: updateMachine_def badRequest_def Let_def split: option.splits)
  obtain q d1 where u: "UpdateMachine now (updated_machine (normalize i0) m) d = (q, d1)" by (rule prod.exhaust)
  have q: "q = Inr ()" using assms v u by (cases q) (auto simp: updateMachine_def fail_def Let_def)
  show ?thesis
    using that [OF v u [unfolded q]] assms v u q id
    by (simp add: updateMachine_def Let_def split: if_splits)
qed

text \<open>
  C16: Editing a machine leaves nothing of the box it was.  The input is valid: a name, a port
  from 1 to 65535, cloud account and instance together.  When host, port, user or credential
  changed, the machine's connection is out of the pool and closed; when host or port
  changed, its pinned key and its facts are gone too (the store permitting), and otherwise
  they stay; no other machine, nor its connection, is touched.
\<close>

theorem edit_forgets_old_box:
  assumes "updateMachine now path (Inr i0) (d, p) = (Reply st v, (d', p'))" and "pathID path = Some k" and "GetMachine k d = Inr m"
  shows "(let i = normalize i0 in
      mi_name i \<noteq> [] \<and> 0 < mi_ssh_port i \<and> mi_ssh_port i \<le> 65535 \<and> (mi_instance_id i \<noteq> [] \<longleftrightarrow> mi_cloud_account i \<noteq> None)
    \<and> (if (m_ssh_host m \<noteq> mi_ssh_host i \<or> m_ssh_port m \<noteq> mi_ssh_port i) \<or> m_ssh_user m \<noteq> mi_ssh_user i \<or> m_credential m \<noteq> mi_credential i
       then pl_conns p' k = None \<and> (\<forall>c. pl_conns p k = Some c \<longrightarrow> c \<notin> pl_open p') else p' = p)
    \<and> (if m_ssh_host m \<noteq> mi_ssh_host i \<or> m_ssh_port m \<noteq> mi_ssh_port i then db_fail d = (\<lambda>_. None) \<longrightarrow> host_keys d' k = None \<and> host_facts d' k = None
       else host_keys d' = host_keys d \<and> host_facts d' = host_facts d))
    \<and> (\<forall>j. j \<noteq> k \<longrightarrow> tbl_get (machines d') j = tbl_get (machines d) j \<and> pl_conns p' j = pl_conns p j)"
proof -
  from updateMachine_done [OF assms] obtain d1 where v: "validate (normalize i0) = None"
    and u: "UpdateMachine now (updated_machine (normalize i0) m) d = (Inr (), d1)"
    and p': "p' = (if sessionChanged m (normalize i0) then Drop k p else p)"
    and d': "d' = (let d2 = (if sessionChanged m (normalize i0) then snd (SetReach now k ReachUnknown [] d1) else d1)
           in if boxChanged m (normalize i0) then snd (ResetHostIdentity k d2) else d2)" by metis
  have id: "m_id (updated_machine (normalize i0) m) = k" using GetMachine_id [OF assms(3)] by (simp add: updated_machine_def)
  note ue = UpdateMachine_effect [OF u, unfolded id]
  have box: "if boxChanged m (normalize i0) then db_fail d = (\<lambda>_. None) \<longrightarrow> host_keys d' k = None \<and> host_facts d' k = None
       else host_keys d' = host_keys d \<and> host_facts d' = host_facts d"
    using ue(1-3) ResetHostIdentity_effect(2) SetReach_effect(1,2) by (simp add: d' Let_def)
  have rest: "tbl_get (machines d') j = tbl_get (machines d) j \<and> pl_conns p' j = pl_conns p j" if "j \<noteq> k" for j
    using ue(4) [OF that] SetReach_effect(3) [OF that] Drop_effect(2) [OF that] by (simp add: d' p' Let_def ResetHostIdentity_effect(1))
  have sess: "if sessionChanged m (normalize i0) then pl_conns p' k = None \<and> (\<forall>c. pl_conns p k = Some c \<longrightarrow> c \<notin> pl_open p') else p' = p"
    using Drop_effect(1,3) by (simp add: p')
  from validate_None [OF v] box [unfolded boxChanged_def] rest sess [unfolded sessionChanged_def boxChanged_def] show ?thesis by (simp only: Let_def) blast
qed

definition edit_input :: machineInput where
  "edit_input = \<lparr>mi_name = '' web'', mi_tags = [], mi_ssh_host = ''[new]'', mi_ssh_port = 0, mi_ssh_user = ''ops'',
     mi_credential = None, mi_cloud_account = None, mi_instance_id = [], mi_provider = []\<rparr>"

lemma edit_input_normal:
  "normalize edit_input = \<lparr>mi_name = ''web'', mi_tags = [], mi_ssh_host = ''new'', mi_ssh_port = 22, mi_ssh_user = ''ops'',
     mi_credential = None, mi_cloud_account = None, mi_instance_id = [], mi_provider = []\<rparr>"
proof -
  have "trim_space '' web'' = ''web''" "trim_set [CHR ''['', CHR '']''] (trim_space ''[new]'') = ''new''" "trim_space ''ops'' = ''ops''"
    by code_simp+
  then show ?thesis by (simp add: normalize_def edit_input_def)
qed

lemma edit_done:
  obtains v d' p' where "updateMachine 9 ''1'' (Inr edit_input) (host_db, p) = (Reply 200 v, (d', p'))"
    "GetMachine 1 host_db = Inr (scanMachine 1 host_row)" "pathID ''1'' = Some 1"
    "boxChanged (scanMachine 1 host_row) (normalize edit_input)"
proof -
  have path: "pathID ''1'' = Some 1" by code_simp
  have g: "GetMachine 1 host_db = Inr (scanMachine 1 host_row)" by (rule host_machine)
  have t: "trim_space ''web'' = ''web''" by code_simp
  have v: "validate (normalize edit_input) = None" by (simp add: edit_input_normal validate_def t)
  have box: "boxChanged (scanMachine 1 host_row) (normalize edit_input)"
    by (simp add: boxChanged_def edit_input_normal scanMachine_def host_row_def)
  have row: "tbl_get (machines host_db) 1 = Some host_row"
    by (simp add: host_db_def tbl_get_def tbl_insert_def tbl_next_def tbl_empty_def)
  let ?m = "updated_machine (normalize edit_input) (scanMachine 1 host_row)"
  have m: "m_id ?m = 1" "m_credential ?m = None" "m_cloud_account ?m = None" "m_instance_id ?m = []"
    by (simp_all add: updated_machine_def edit_input_normal scanMachine_def)
  have nofail: "db_fail host_db = (\<lambda>_. None)" by (simp add: host_db_def empty_db_def)
  obtain d1 where u: "UpdateMachine 9 ?m host_db = (Inr (), d1)"
    unfolding UpdateMachine_def Let_def m by (simp add: row instance_taken_def ref_ok_def sql_exec_def nofail)
  have "\<exists>v d' p'. updateMachine 9 ''1'' (Inr edit_input) (host_db, p) = (Reply 200 v, (d', p'))"
    using path g v u by (simp add: updateMachine_def Let_def split: prod.splits)
  then show ?thesis using that [OF _ g path box] by blast
qed

theorem edit_forgets_old_box_witness:
  "\<exists>v d' p'. updateMachine 9 ''1'' (Inr edit_input) (host_db, demo_pool) = (Reply 200 v, (d', p')) \<and> pl_conns p' 1 = None"
proof -
  obtain v d' p' where u: "updateMachine 9 ''1'' (Inr edit_input) (host_db, demo_pool) = (Reply 200 v, (d', p'))"
    and g: "GetMachine 1 host_db = Inr (scanMachine 1 host_row)" and path: "pathID ''1'' = Some 1"
    and box: "boxChanged (scanMachine 1 host_row) (normalize edit_input)" using edit_done [of demo_pool] .
  from edit_forgets_old_box [OF u path g] box u show ?thesis by (auto simp: Let_def boxChanged_def)
qed

text \<open>
  One thing survives an edit: a connection to the old box whose dial had finished but was
  not pooled yet.  The edit drops what is in the pool, the goroutine that dialed then finds
  the machine's slot free and installs its connection, so that the next actions for the
  edited machine run on the old host.
\<close>

theorem dial_in_flight_survives_edit:
  assumes "updateMachine now path (Inr i0) (d, p) = (Reply st v, (d', p'))" and "pathID path = Some k" and "GetMachine k d = Inr m"
    and "boxChanged m (normalize i0)" and "(k, c) \<in> pl_dialed p"
  shows "pool_step p' (snd (get_install k c p')) \<and> pl_conns (snd (get_install k c p')) k = Some c"
proof -
  from updateMachine_done [OF assms(1-3)] obtain d1 where
    "p' = (if sessionChanged m (normalize i0) then Drop k p else p)" by metis
  then have p': "p' = Drop k p" using assms(4) by (simp add: sessionChanged_def)
  have "(k, c) \<in> pl_dialed p'" using assms(5) by (simp add: p' Drop_effect)
  then have "pool_step p' (snd (get_install k c p'))" by (rule pl_install)
  moreover have "pl_conns (snd (get_install k c p')) k = Some c"
    using Drop_effect(1) [of k p] by (simp add: p' get_install_def)
  ultimately show ?thesis by blast
qed

theorem dial_in_flight_survives_edit_witness:
  "\<exists>v d' p'. updateMachine 9 ''1'' (Inr edit_input) (host_db, get_dialed 1 NewBroker) = (Reply 200 v, (d', p'))
     \<and> pl_conns (snd (get_install 1 0 p')) 1 = Some 0"
proof -
  obtain v d' p' where u: "updateMachine 9 ''1'' (Inr edit_input) (host_db, get_dialed 1 NewBroker) = (Reply 200 v, (d', p'))"
    and g: "GetMachine 1 host_db = Inr (scanMachine 1 host_row)" and path: "pathID ''1'' = Some 1"
    and box: "boxChanged (scanMachine 1 host_row) (normalize edit_input)" using edit_done [of "get_dialed 1 NewBroker"] .
  have "(1, 0) \<in> pl_dialed (get_dialed 1 NewBroker)" by (simp add: get_dialed_def NewBroker_def)
  from dial_in_flight_survives_edit [OF u path g box this] u show ?thesis by blast
qed

section \<open>Power\<close>

text \<open>
  C17: A power action is gated like any other and always audited.  The provider is called only
  for a valid action on a machine linked to a cloud instance, with the confirmation flag for
  a start and the machine's exact name for everything else; otherwise nothing happens at
  all.  When it was called, then either the run is in the log, with exit code 0 or with the
  provider's error, or the caller is told that the log failed; and success is reported only
  when the provider accepted the action and the run was recorded.
\<close>

theorem power_gated_and_audited:
  assumes "powerMachine provider_for now ms path body ((d, p), w) = (resp, (d', p'), w')"
  shows "(\<exists>st e. resp = Refuse st e \<and> (d', p', w') = (d, p, w))
    \<or> (\<exists>k i m pv perr w1 ins d1. pathID path = Some k \<and> body = Inr i \<and> GetMachine k d = Inr m \<and> HasCloud m \<and> Valid (pi_action i)
        \<and> (if pi_action i = PowerStart then pi_confirm i else pi_confirm_name i = m_name m)
        \<and> provider_for (the (m_cloud_account m)) d = Inr pv
        \<and> pv_power pv (m_instance_id m) (pi_action i) w = (perr, w1)
        \<and> InsertRun (power_run now ms m (pv_name pv) (pi_action i) perr) d = (ins, d1)
        \<and> (case ins of
             Inl e \<Rightarrow> resp = fail e \<and> d' = d \<and> p' = p
           | Inr saved \<Rightarrow> (db_inv d \<longrightarrow> tbl_get (runs d1) (rn_id saved) = Some (stored_run saved)) \<and> rn_machine saved = Some k
               \<and> (case perr of
                    None \<Rightarrow> rn_exit saved = Some 0 \<and> (\<exists>v. resp = Reply 200 v) \<and> runs d' = runs d1 \<and> pl_conns p' k = None
                  | Some e \<Rightarrow> rn_exit saved = None \<and> rn_error saved = err_text e
                      \<and> resp = Refuse 502 (api_error (err_text e) ''provider_error'') \<and> d' = d1 \<and> p' = p)))"
proof (cases "\<exists>st e. resp = Refuse st e \<and> (d', p', w') = (d, p, w)")
  case False
  have f: "\<And>e. fail e = Refuse (fst (fail_code e)) \<lparr>ae_error = err_text e, ae_code = snd (fail_code e),
      ae_details = map_option (\<lambda>(a, f). KeyDetails a f) (errors_as_mismatch e)\<rparr>" by (simp add: fail_def)
  obtain k where k: "pathID path = Some k" using assms False by (auto simp: powerMachine_def badRequest_def split: option.splits)
  obtain i where i: "body = Inr i" using assms False k by (auto simp: powerMachine_def badRequest_def split: sum.splits)
  have v: "Valid (pi_action i)" using assms False k i by (auto simp: powerMachine_def badRequest_def split: if_splits)
  obtain m where m: "GetMachine k d = Inr m" using assms False k i v by (auto simp: powerMachine_def fail_def split: sum.splits)
  have c: "HasCloud m" using assms False k i v m by (auto simp: powerMachine_def split: if_splits)
  have g: "power_gate m i = None" using assms False k i v m c by (auto simp: powerMachine_def fail_def split: option.splits)
  obtain pv where pv: "provider_for (the (m_cloud_account m)) d = Inr pv"
    using assms False k i v m c g by (auto simp: powerMachine_def fail_def split: sum.splits)
  obtain perr w1 where call: "pv_power pv (m_instance_id m) (pi_action i) w = (perr, w1)" by (rule prod.exhaust)
  obtain ins d1 where ins: "InsertRun (power_run now ms m (pv_name pv) (pi_action i) perr) d = (ins, d1)" by (rule prod.exhaust)
  have gate: "if pi_action i = PowerStart then pi_confirm i else pi_confirm_name i = m_name m"
    using g by (auto simp: power_gate_def Danger_def danger_defs split: if_splits)
  have id: "m_id m = k" using GetMachine_id [OF m] .
  have last: "case ins of
             Inl e \<Rightarrow> resp = fail e \<and> d' = d \<and> p' = p
           | Inr saved \<Rightarrow> (db_inv d \<longrightarrow> tbl_get (runs d1) (rn_id saved) = Some (stored_run saved)) \<and> rn_machine saved = Some k
               \<and> (case perr of
                    None \<Rightarrow> rn_exit saved = Some 0 \<and> (\<exists>v. resp = Reply 200 v) \<and> runs d' = runs d1 \<and> pl_conns p' k = None
                  | Some e \<Rightarrow> rn_exit saved = None \<and> rn_error saved = err_text e
                      \<and> resp = Refuse 502 (api_error (err_text e) ''provider_error'') \<and> d' = d1 \<and> p' = p)"
  proof (cases ins)
    case (Inl e)
    then show ?thesis
      using assms k i v m c g pv call ins InsertRun_failed [of _ d e d1] by (simp add: powerMachine_def)
  next
    case (Inr saved)
    have s: "saved = (power_run now ms m (pv_name pv) (pi_action i) perr)\<lparr>rn_id := tbl_next (runs d)\<rparr>"
      using InsertRun_id ins Inr by blast
    have log: "db_inv d \<longrightarrow> tbl_get (runs d1) (rn_id saved) = Some (stored_run saved)"
      using ins Inr InsertRun_saved by metis
    have sp: "runs (snd (SetPowerState t j st e)) = runs e" for t j st and e :: db
      by (simp add: SetPowerState_def sql_exec_def split: option.splits)
    show ?thesis
    proof (cases perr)
      case None
      then show ?thesis
        using assms k i v m c g pv call ins Inr log id Drop_effect(1) [of k p]
        by (auto simp: powerMachine_def Let_def s power_run_def sp split: prod.splits sum.splits)
    next
      case (Some e)
      then show ?thesis
        using assms k i v m c g pv call ins Inr log id by (auto simp: powerMachine_def Let_def s power_run_def)
    qed
  qed
  show ?thesis using k i m c v gate pv call ins last by blast
qed simp

definition power_db :: db where
  "power_db = empty_db\<lparr>machines := tbl_insert (host_row\<lparr>mr_cloud_account := Some 1, mr_instance_id := ''i-1''\<rparr>) tbl_empty\<rparr>"

definition power_provider :: "string list Provider" where
  "power_provider = \<lparr>pv_name = ''aws'', pv_list = (\<lambda>w. (Inr [], w)),
     pv_state = (\<lambda>i w. (Inr PowerRunning, w)), pv_power = (\<lambda>i a w. (None, (i @ a) # w))\<rparr>"

definition stop_input :: powerInput where
  "stop_input = \<lparr>pi_action = PowerStop, pi_confirm = False, pi_confirm_name = ''web''\<rparr>"

theorem power_gated_and_audited_witness:
  "\<exists>resp d' p' w'. powerMachine (\<lambda>a d. Inr power_provider) 9 2 ''1'' (Inr stop_input) ((power_db, demo_pool), []) = (resp, (d', p'), w')
     \<and> w' = [''i-1stop''] \<and> ((\<exists>v. resp = Reply 200 v) \<or> (\<exists>e. resp = fail e \<and> d' = power_db))"
proof -
  obtain resp d' p' w' where r:
    "powerMachine (\<lambda>a d. Inr power_provider) 9 2 ''1'' (Inr stop_input) ((power_db, demo_pool), []) = (resp, (d', p'), w')"
    by (metis prod.exhaust)
  let ?row = "host_row\<lparr>mr_cloud_account := Some 1, mr_instance_id := ''i-1''\<rparr>"
  have path: "pathID ''1'' = Some 1" by code_simp
  have g: "GetMachine 1 power_db = Inr (scanMachine 1 ?row)"
    by (simp add: GetMachine_def power_db_def empty_db_def tbl_get_def tbl_insert_def tbl_next_def tbl_empty_def sql_query_def)
  have c: "HasCloud (scanMachine 1 ?row)" by (simp add: HasCloud_def scanMachine_def)
  have m: "m_instance_id (scanMachine 1 ?row) = ''i-1''" "m_name (scanMachine 1 ?row) = ''web''"
    by (simp_all add: scanMachine_def host_row_def)
  have v: "Valid PowerStop" by code_simp
  have pg: "power_gate (scanMachine 1 ?row) stop_input = None"
    by (simp add: power_gate_def stop_input_def m Danger_def danger_defs PowerStop_def PowerStart_def)
  have w: "w' = [''i-1stop'']"
    using r path g c v pg m
    by (auto simp: powerMachine_def stop_input_def power_provider_def PowerStop_def Let_def split: prod.splits sum.splits)
  from power_gated_and_audited [OF r] w have "(\<exists>v. resp = Reply 200 v) \<or> (\<exists>e. resp = fail e \<and> d' = power_db)"
    using path by (auto simp: power_provider_def split: sum.splits option.splits) (metis sum.exhaust)+
  with r w show ?thesis by blast
qed

end
