(* ===== verification/Fleet_Api.thy ===== *)
theory Fleet_Api imports Handlers begin

text \<open>
  The handlers over many machines and over saved buttons: groups (\<^verbatim>\<open>internal/api/groups.go\<close>),
  bulk runs (\<^verbatim>\<open>internal/api/bulk.go\<close>) and custom actions (\<^verbatim>\<open>internal/api/custom_actions.go\<close>).
\<close>

section \<open>Groups\<close>

definition cleanTags :: "string list \<Rightarrow> string list" where
  "cleanTags ts = filter (\<lambda>t. t \<noteq> []) (map trim_space ts)"

fun count_loop :: "string list \<Rightarrow> Machine list \<Rightarrow> nat" where
  "count_loop want [] = 0"
| "count_loop want (m # ms) = (if has_all (m_tags m) want then 1 else 0) + count_loop want ms"

definition countMatching :: "Machine list \<Rightarrow> string list \<Rightarrow> nat" where
  "countMatching ms want = (if want = [] then 0 else count_loop want ms)"

definition listGroups :: "srv \<Rightarrow> Group list response \<times> srv" where
  "listGroups sv =
     (case ListGroups (fst sv) of
        Inl e \<Rightarrow> (fail e, sv)
      | Inr gs \<Rightarrow>
          (case ListMachines (fst sv) of
             Inl e \<Rightarrow> (fail e, sv)
           | Inr ms \<Rightarrow> (Reply 200 (map (\<lambda>g. g\<lparr>gr_members := countMatching ms (gr_tags g)\<rparr>) gs), sv)))"

record groupInput =
  gi_name :: string
  gi_tags :: "string list"

definition createGroup :: "time \<Rightarrow> groupInput result \<Rightarrow> srv \<Rightarrow> Group response \<times> srv" where
  "createGroup now body sv =
     (case body of
        Inl e \<Rightarrow> (badRequest (err_text e), sv)
      | Inr i \<Rightarrow>
          (let name = trim_space (gi_name i); tags = cleanTags (gi_tags i) in
           if name = [] then (badRequest ''name is required'', sv)
           else if length tags = 0 then (badRequest ''a group needs at least one tag'', sv)
           else (case CreateGroup now \<lparr>gr_id = 0, gr_name = name, gr_tags = tags, gr_created = 0, gr_members = 0\<rparr> (fst sv) of
               (Inl e, d') \<Rightarrow> (fail e, (d', snd sv))
             | (Inr g, d') \<Rightarrow> (Reply 201 g, (d', snd sv)))))"

definition deleteGroup :: "string \<Rightarrow> srv \<Rightarrow> unit response \<times> srv" where
  "deleteGroup path sv =
     (case pathID path of
        None \<Rightarrow> (badRequest ''bad id'', sv)
      | Some i \<Rightarrow>
          (case DeleteGroup i (fst sv) of
             (Inl e, d') \<Rightarrow> (fail e, (d', snd sv))
           | (Inr _, d') \<Rightarrow> (NoBody 204, (d', snd sv))))"

definition withFacts :: "db \<Rightarrow> Machine list \<Rightarrow> machineView list" where
  "withFacts d ms = map (view_of d) ms"

definition groupMachines :: "string \<Rightarrow> srv \<Rightarrow> machineView list response \<times> srv" where
  "groupMachines path sv =
     (case pathID path of
        None \<Rightarrow> (badRequest ''bad id'', sv)
      | Some i \<Rightarrow>
          (case GroupMembers i (fst sv) of
             Inl e \<Rightarrow> (fail e, sv)
           | Inr ms \<Rightarrow> (Reply 200 (withFacts (fst sv) ms), sv)))"

section \<open>Bulk runs\<close>

record bulkInput =
  bi_machines :: "int list"
  bi_group :: "int option"
  bi_params :: "string \<Rightarrow> string option"
  bi_confirm :: bool
  bi_confirm_text :: string

record bulkResult =
  br_machine :: int
  br_name :: string
  br_ok :: bool
  br_exit :: "int option"
  br_error :: string

definition bulk_candidates :: "bulkInput \<Rightarrow> db \<Rightarrow> Machine list result" where
  "bulk_candidates i d =
     (case bi_group i of
        Some g \<Rightarrow> GroupMembers g d
      | None \<Rightarrow> Inr (List.map_filter (\<lambda>k. case GetMachine k d of Inl e \<Rightarrow> None | Inr m \<Rightarrow> Some m) (bi_machines i)))"

definition bulk_gate :: "Action \<Rightarrow> bulkInput \<Rightarrow> Machine list \<Rightarrow> apiError option" where
  "bulk_gate act i targets =
     (let n = length targets; det = Some (HostDetails n (map m_name targets)) in
      if act_danger act = DangerRead then
        (if \<not> bi_confirm i
         then Some \<lparr>ae_error = ''confirm the bulk read'', ae_code = ''needs_confirm'', ae_details = det\<rparr> else None)
      else if bi_confirm_text i \<noteq> itoa (int n)
      then Some \<lparr>ae_error = ''type the number of affected hosts to confirm'', ae_code = ''needs_count'', ae_details = det\<rparr>
      else None)"

text \<open>One machine's turn: each machine's own name satisfies the engine's gate.\<close>

definition bulk_request :: "string \<Rightarrow> bulkInput \<Rightarrow> Machine \<Rightarrow> Request" where
  "bulk_request aid i m = \<lparr>rq_machine = m_id m, rq_action = aid, rq_params = bi_params i, rq_confirm = True,
     rq_confirm_name = m_name m, rq_actor = actor\<rparr>"

definition bulk_one ::
    "(Machine \<Rightarrow> db \<Rightarrow> 't result) \<Rightarrow> ('t, pool) exec_fn \<Rightarrow> (string \<Rightarrow> 'f \<times> bool) \<Rightarrow> (string \<Rightarrow> DockerLine option) \<Rightarrow>
     time \<Rightarrow> string \<Rightarrow> bulkInput \<Rightarrow> Machine \<Rightarrow> srv \<Rightarrow> bulkResult \<times> srv" where
  "bulk_one resolve exec pf uj now aid i m sv =
     (let br = \<lparr>br_machine = m_id m, br_name = m_name m, br_ok = False, br_exit = None, br_error = []\<rparr> in
      case Run_action resolve exec pf uj now (bulk_request aid i m) sv of
        (res, Some e, sv') \<Rightarrow> (br\<lparr>br_error := err_text e\<rparr>, note_reach now (m_id m) e sv')
      | (res, None, sv') \<Rightarrow>
          (let x = (case res of None \<Rightarrow> None | Some (saved, data) \<Rightarrow> rn_exit saved)
           in (br\<lparr>br_exit := x, br_ok := (x = Some 0)\<rparr>, sv')))"

text \<open>The goroutines, in the order in which they get their turn; each writes its own slot of the results.\<close>

fun bulk_loop ::
    "(Machine \<Rightarrow> srv \<Rightarrow> bulkResult \<times> srv) \<Rightarrow> Machine list \<Rightarrow> nat list \<Rightarrow> bulkResult option list \<Rightarrow> srv \<Rightarrow> bulkResult option list \<times> srv" where
  "bulk_loop one targets [] results sv = (results, sv)"
| "bulk_loop one targets (k # ks) results sv =
     (let (br, sv') = one (targets ! k) sv in bulk_loop one targets ks (results[k := Some br]) sv')"

definition runBulk ::
    "(Machine \<Rightarrow> db \<Rightarrow> 't result) \<Rightarrow> ('t, pool) exec_fn \<Rightarrow> (string \<Rightarrow> 'f \<times> bool) \<Rightarrow> (string \<Rightarrow> DockerLine option) \<Rightarrow>
     (nat \<Rightarrow> nat list) \<Rightarrow> time \<Rightarrow> string \<Rightarrow> bulkInput result \<Rightarrow> srv \<Rightarrow> (nat \<times> bulkResult option list) response \<times> srv" where
  "runBulk resolve exec pf uj turns now aid body sv =
     (case lookup aid (fst sv) of
        None \<Rightarrow> (badRequest ''unknown action'', sv)
      | Some act \<Rightarrow>
     (case body of
        Inl e \<Rightarrow> (badRequest (err_text e), sv)
      | Inr i \<Rightarrow>
     (case bulk_candidates i (fst sv) of
        Inl e \<Rightarrow> (fail e, sv)
      | Inr cands \<Rightarrow>
     (let targets = filter HasHost cands; n = length targets in
      if n = 0 then (Refuse 400 (api_error ''no targets with SSH configured'' ''bad_request''), sv)
      else (case bulk_gate act i targets of
          Some e \<Rightarrow> (Refuse 428 e, sv)
        | None \<Rightarrow>
            (let (results, sv') = bulk_loop (bulk_one resolve exec pf uj now aid i) targets (turns n) (replicate n None) sv
             in (Reply 200 (n, results), sv')))))))"

section \<open>Custom actions\<close>

record customActionInput =
  xi_label :: string
  xi_category :: string
  xi_command :: string
  xi_params :: "CustomActionParam list"
  xi_requires :: "string list"
  xi_sudo :: string
  xi_danger :: int

definition is_lower :: "char \<Rightarrow> bool" where
  "is_lower c \<longleftrightarrow> CHR ''a'' \<le> c \<and> c \<le> CHR ''z''"

text \<open>\<^verbatim>\<open>reParamName\<close>.\<close>

definition reParamName :: "string \<Rightarrow> bool" where
  "reParamName s \<longleftrightarrow> s \<noteq> [] \<and> is_lower (hd s) \<and> list_all (\<lambda>c. is_lower c \<or> is_digit c \<or> c = CHR ''_'') (tl s) \<and> length s \<le> 32"

text \<open>The loop of \<^verbatim>\<open>slug\<close>: what is written so far and whether it ends in a dash written for other characters.\<close>

fun slug_loop :: "string \<Rightarrow> bool \<Rightarrow> string \<Rightarrow> string" where
  "slug_loop b prevDash [] = b"
| "slug_loop b prevDash (c # s) =
     (if is_lower c \<or> is_digit c then slug_loop (b @ [c]) False s
      else if \<not> prevDash \<and> length b > 0 then slug_loop (b @ ''-'') True s
      else slug_loop b prevDash s)"

definition slug :: "string \<Rightarrow> string" where
  "slug label = trim_set ''-'' (slug_loop [] False (to_lower label))"

definition listCustomActions :: "srv \<Rightarrow> CustomAction list response \<times> srv" where
  "listCustomActions sv = (case ListCustomActions (fst sv) of Inl e \<Rightarrow> (fail e, sv) | Inr xs \<Rightarrow> (Reply 200 xs, sv))"

definition hole_text :: "string \<Rightarrow> string" where
  "hole_text name = ''{{'' @ name @ ''}}''"

fun check_params :: "string \<Rightarrow> CustomActionParam list \<Rightarrow> string option" where
  "check_params command [] = None"
| "check_params command (p # ps) =
     (if \<not> reParamName (cp_name p)
      then Some (''param names must be lowercase letters/digits/underscore, starting with a letter: '' @ cp_name p)
      else if \<not> contains command (hole_text (cp_name p))
      then Some (''param '' @ cp_name p @ '' is declared but not used as '' @ hole_text (cp_name p) @ '' in the command'')
      else check_params command ps)"

definition createCustomAction :: "time \<Rightarrow> customActionInput result \<Rightarrow> srv \<Rightarrow> CustomAction response \<times> srv" where
  "createCustomAction now body sv =
     (case body of
        Inl e \<Rightarrow> (badRequest (err_text e), sv)
      | Inr i \<Rightarrow>
     (let label = trim_space (xi_label i); command = trim_space (xi_command i) in
      if label = [] \<or> command = [] then (badRequest ''label and command are required'', sv)
      else if xi_danger i < DangerRead \<or> xi_danger i > DangerDisruptive
      then (badRequest ''danger must be 0 (read), 1 (confirm), or 2 (type-to-confirm)'', sv)
      else if xi_sudo i \<noteq> [] \<and> xi_sudo i \<noteq> SudoPreferred \<and> xi_sudo i \<noteq> SudoRequired
      then (badRequest ''sudo must be empty, preferred, or required'', sv)
      else (case check_params command (xi_params i) of
        Some msg \<Rightarrow> (badRequest msg, sv)
      | None \<Rightarrow>
     (let aid = ''custom.'' @ slug label in
      case GetCustomAction aid (fst sv) of
        Inr _ \<Rightarrow> (badRequest ''a custom action with that name already exists'', sv)
      | Inl _ \<Rightarrow>
          if Lookup aid \<noteq> None then (badRequest ''that name collides with a built-in action'', sv)
          else (let category = (if trim_space (xi_category i) = [] then ''custom'' else trim_space (xi_category i)) in
             case CreateCustomAction now \<lparr>cu_id = aid, cu_label = label, cu_category = category, cu_command = command,
                    cu_params = xi_params i, cu_requires = cleanTags (xi_requires i), cu_sudo = xi_sudo i,
                    cu_danger = xi_danger i, cu_created = 0\<rparr> (fst sv) of
               (Inl e, d') \<Rightarrow> (fail e, (d', snd sv))
             | (Inr a, d') \<Rightarrow> (Reply 201 a, (d', snd sv)))))))"

definition deleteCustomAction :: "string \<Rightarrow> srv \<Rightarrow> unit response \<times> srv" where
  "deleteCustomAction aid sv =
     (case DeleteCustomAction aid (fst sv) of
        (Inl e, d') \<Rightarrow> (fail e, (d', snd sv))
      | (Inr _, d') \<Rightarrow> (NoBody 204, (d', snd sv)))"

end
