(* ===== verification/Fleet_Props.thy ===== *)
theory Fleet_Props imports Fleet_Api begin

text \<open>
  What the handlers of \<^verbatim>\<open>Fleet_Api\<close> guarantee: bulk runs are gated and are nothing but single
  runs, saved buttons are sound, group counts agree with group members.
\<close>

section \<open>Ids in paths\<close>

text \<open>An id printed in decimal is read back from the path.\<close>

lemma pathID_itoa: "min_int64 \<le> i \<Longrightarrow> i \<le> max_int64 \<Longrightarrow> pathID (itoa i) = Some i"
  by (simp add: pathID_def parse_int64_itoa)

section \<open>Groups\<close>

lemma count_loop_length: "count_loop want ms = length (filter (\<lambda>m. has_all (m_tags m) want) ms)"
  by (induction ms) auto

lemma countMatching_matchAll: "countMatching ms want = length (matchAll ms want)"
  by (simp add: countMatching_def matchAll_def count_loop_length)

lemma ListGroups_GetGroup:
  assumes "db_inv d" and "ListGroups d = Inr gs" and "g \<in> set gs" and "db_fail d (SelGroup (gr_id g)) = None"
  shows "GetGroup (gr_id g) d = Inr g"
proof -
  have gs: "gs = sort_key (\<lambda>g. nocase (gr_name g)) (map (\<lambda>(i, r). scanGroup i r) (tbl_rows (groups d)))"
    using assms(2) by (auto simp: ListGroups_def wrap_query_Inr dest!: sql_query_InrD)
  then obtain i r where ir: "(i, r) \<in> set (tbl_rows (groups d))" "g = scanGroup i r" using assms(3) by auto
  have "tbl_get (groups d) i = Some r"
    using ir(1) db_inv_tables(5) [OF assms(1)] by (simp add: tbl_get_eq_mem)
  with ir(2) assms(4) show ?thesis by (simp add: GetGroup_def scanGroup_def)
qed

text \<open>
  The number of members a group is listed with, which the list handler counts by itself,
  is the number of machines that the group's own page and a bulk run over it get.
\<close>

theorem group_counts_agree:
  assumes "db_inv d" and "listGroups (d, p) = (Reply 200 gs, sv')" and "g \<in> set gs"
    and "db_fail d (SelGroup (gr_id g)) = None"
  shows "\<exists>ms. GroupMembers (gr_id g) d = Inr ms \<and> gr_members g = length ms \<and> sv' = (d, p)"
proof -
  obtain gs0 ms where l: "ListGroups d = Inr gs0" "ListMachines d = Inr ms"
      "gs = map (\<lambda>g. g\<lparr>gr_members := countMatching ms (gr_tags g)\<rparr>) gs0" "sv' = (d, p)"
    using assms(2) by (auto simp: listGroups_def fail_def split: sum.splits)
  then obtain g0 where g0: "g0 \<in> set gs0" "g = g0\<lparr>gr_members := countMatching ms (gr_tags g0)\<rparr>" using assms(3) by auto
  have "GetGroup (gr_id g0) d = Inr g0"
    using ListGroups_GetGroup [OF assms(1) l(1) g0(1)] assms(4) g0(2) by simp
  with g0 l show ?thesis by (simp add: GroupMembers_def countMatching_matchAll)
qed

definition group_db :: db where
  "group_db = snd (CreateGroup 4 \<lparr>gr_id = 0, gr_name = ''g'', gr_tags = [''prod''], gr_created = 0, gr_members = 0\<rparr> demo_db)"

theorem group_counts_agree_witness:
  "\<exists>gs ms. listGroups (group_db, NewBroker) = (Reply 200 gs, (group_db, NewBroker)) \<and> gs \<noteq> []
     \<and> GroupMembers (gr_id (hd gs)) group_db = Inr ms \<and> gr_members (hd gs) = length ms"
proof -
  have inv: "db_inv group_db" unfolding group_db_def by (rule CreateGroup_inv [OF demo_inv])
  have f: "db_fail group_db st = None" for st
    by (simp add: group_db_def CreateGroup_def Let_def wrap_err_def sql_exec_def demo_db_eval)
  obtain gs0 where g0: "ListGroups group_db = Inr gs0" "gs0 \<noteq> []"
  proof -
    have "tbl_rows (groups group_db) \<noteq> []"
      by (simp add: group_db_def CreateGroup_def Let_def wrap_err_def sql_exec_def demo_db_eval tbl_insert_def)
    moreover have "sort_key k xs \<noteq> []" if "xs \<noteq> []" for k :: "Group \<Rightarrow> string" and xs
      using that length_sort [of k xs] by (metis length_0_conv)
    ultimately show ?thesis using that by (simp add: ListGroups_def wrap_query_def f)
  qed
  obtain ms where m: "ListMachines group_db = Inr ms" by (simp add: ListMachines_def wrap_query_def f)
  let ?gs = "map (\<lambda>g. g\<lparr>gr_members := countMatching ms (gr_tags g)\<rparr>) gs0"
  have l: "listGroups (group_db, NewBroker) = (Reply 200 ?gs, (group_db, NewBroker))" by (simp add: listGroups_def g0 m)
  have "hd ?gs \<in> set ?gs" using g0(2) by (intro hd_in_set) simp
  from group_counts_agree [OF inv l this f] l g0(2) show ?thesis by blast
qed

section \<open>Bulk runs\<close>

lemma bulk_one_state:
  assumes "pathID path = Some (m_id m)"
  shows "snd (bulk_one resolve exec pf uj now aid i m sv) =
     snd (runAction resolve exec pf uj now path aid
       (Decoded \<lparr>ai_params = bi_params i, ai_confirm = True, ai_confirm_name = m_name m\<rparr>) sv)"
  using assms
  by (auto simp: bulk_one_def runAction_def bulk_request_def action_request_def Let_def split: prod.splits option.splits)

lemma bulk_loop_state:
  assumes "\<forall>k \<in> set ks. pathID (path (targets ! k)) = Some (m_id (targets ! k))"
  shows "snd (bulk_loop (bulk_one resolve exec pf uj now aid i) targets ks results sv) =
     fold (\<lambda>k sv. snd (runAction resolve exec pf uj now (path (targets ! k)) aid
       (Decoded \<lparr>ai_params = bi_params i, ai_confirm = True, ai_confirm_name = m_name (targets ! k)\<rparr>) sv)) ks sv"
  using assms
proof (induction ks arbitrary: results sv)
  case (Cons k ks)
  have p: "pathID (path (targets ! k)) = Some (m_id (targets ! k))" using Cons.prems by simp
  obtain br sv1 where b: "bulk_one resolve exec pf uj now aid i (targets ! k) sv = (br, sv1)" by (rule prod.exhaust)
  have "snd (runAction resolve exec pf uj now (path (targets ! k)) aid
       (Decoded \<lparr>ai_params = bi_params i, ai_confirm = True, ai_confirm_name = m_name (targets ! k)\<rparr>) sv) = sv1"
    using bulk_one_state [OF p, of resolve exec pf uj now aid i sv] b by simp
  with Cons b show ?case by simp
qed simp

lemma bulk_loop_length: "length (fst (bulk_loop one targets ks results sv)) = length results"
  by (induction one targets ks results sv rule: bulk_loop.induct) (simp_all split: prod.splits)

lemma bulk_one_names:
  "bulk_one resolve exec pf uj now aid i m sv = (br, sv') \<Longrightarrow> br_machine br = m_id m \<and> br_name br = m_name m"
  by (auto simp: bulk_one_def Let_def split: prod.splits option.splits)

lemma bulk_loop_slots:
  assumes "\<forall>k \<in> set ks. k < length results"
  shows "\<forall>k < length results.
     if k \<in> set ks then \<exists>br. fst (bulk_loop (bulk_one resolve exec pf uj now aid i) targets ks results sv) ! k = Some br
         \<and> br_machine br = m_id (targets ! k) \<and> br_name br = m_name (targets ! k)
     else fst (bulk_loop (bulk_one resolve exec pf uj now aid i) targets ks results sv) ! k = results ! k"
  using assms
proof (induction ks arbitrary: results sv)
  case (Cons k ks)
  obtain br sv1 where b: "bulk_one resolve exec pf uj now aid i (targets ! k) sv = (br, sv1)" by (rule prod.exhaust)
  have pre: "\<forall>j \<in> set ks. j < length (results[k := Some br])" using Cons.prems by simp
  note IH = Cons.IH [OF pre, of sv1]
  have fresh: "fst (bulk_loop (bulk_one resolve exec pf uj now aid i) targets (k # ks) results sv)
     = fst (bulk_loop (bulk_one resolve exec pf uj now aid i) targets ks (results[k := Some br]) sv1)"
    by (simp add: b)
  show ?case
  proof (intro allI impI)
    fix j assume j: "j < length results"
    have "j < length (results[k := Some br])" using j by simp
    note J = IH [THEN spec, THEN mp, OF this]
    show "if j \<in> set (k # ks) then \<exists>br. fst (bulk_loop (bulk_one resolve exec pf uj now aid i) targets (k # ks) results sv) ! j = Some br
         \<and> br_machine br = m_id (targets ! j) \<and> br_name br = m_name (targets ! j)
     else fst (bulk_loop (bulk_one resolve exec pf uj now aid i) targets (k # ks) results sv) ! j = results ! j"
      unfolding fresh using J j bulk_one_names [OF b] by (cases "j \<in> set ks"; cases "j = k") auto
  qed
qed simp

text \<open>Row ids are SQLite's: they fit in 64 bits.\<close>

definition row_ids_fit :: "db \<Rightarrow> bool" where
  "row_ids_fit d \<longleftrightarrow> list_all (\<lambda>(k, r). min_int64 \<le> k \<and> k \<le> max_int64) (tbl_rows (machines d))"

lemma bulk_ids_fit:
  assumes "row_ids_fit d" and "bulk_candidates i d = Inr cands" and "m \<in> set cands"
  shows "min_int64 \<le> m_id m \<and> m_id m \<le> max_int64"
proof -
  have sid: "m_id (scanMachine k r) = k" for k r by (simp add: scanMachine_def)
  have listed: "\<exists>k r. (k, r) \<in> set (tbl_rows (machines d)) \<and> m_id x = k" if "x \<in> set ms" "ListMachines d = Inr ms" for x ms
  proof -
    have "ms = sort_key (\<lambda>m. nocase (m_name m)) (map (\<lambda>(i, r). scanMachine i r) (tbl_rows (machines d)))"
      using that(2) by (auto simp: ListMachines_def wrap_query_Inr dest!: sql_query_InrD)
    then have "x \<in> (\<lambda>(i, r). scanMachine i r) ` set (tbl_rows (machines d))" using that(1) by simp
    then obtain k r where "(k, r) \<in> set (tbl_rows (machines d))" "x = scanMachine k r" by (elim imageE) (auto simp del: scanMachine_def)
    then show ?thesis using sid by metis
  qed
  have got: "\<exists>k r. (k, r) \<in> set (tbl_rows (machines d)) \<and> m_id x = k" if g: "GetMachine k d = Inr x" for x k
  proof -
    obtain r where "tbl_get (machines d) k = Some r" "x = scanMachine k r"
      using g by (auto simp: GetMachine_def res_bind_Inr_conv dest!: sql_query_InrD split: option.splits) (metis)
    then show ?thesis using tbl_get_Some_mem sid by metis
  qed
  have "\<exists>k r. (k, r) \<in> set (tbl_rows (machines d)) \<and> m_id m = k"
  proof (cases "bi_group i")
    case None
    then obtain k where "GetMachine k d = Inr m"
      using assms(2,3) by (auto simp: bulk_candidates_def map_filter_def split: sum.splits)
    then show ?thesis by (rule got)
  next
    case (Some g)
    then obtain ms where "ListMachines d = Inr ms" "m \<in> set ms"
      using assms(2,3) by (auto simp: bulk_candidates_def GroupMembers_def res_bind_Inr_conv matchAll_def split: if_splits)
    then show ?thesis using listed by blast
  qed
  with assms(1) show ?thesis by (auto simp: row_ids_fit_def list_all_iff)
qed



subsection \<open>The same machine twice\<close>

text \<open>
  An explicit list of machines is taken as it is: a machine named twice is two targets, so
  one host has to be confirmed as two and runs the action twice.
\<close>

lemma bulk_counts_duplicates:
  assumes "GetMachine k d = Inr m" and "HasHost m" and "bi_group i = None" and "bi_machines i = [k, k]"
    and "act_danger act \<noteq> DangerRead"
  shows "bulk_candidates i d = Inr [m, m]"
    and "bulk_gate act i (filter HasHost [m, m]) = None \<longleftrightarrow> bi_confirm_text i = ''2''"
proof -
  show "bulk_candidates i d = Inr [m, m]" using assms(1,3,4) by (simp add: bulk_candidates_def map_filter_simps)
  have "itoa 2 = ''2''" by code_simp
  then show "bulk_gate act i (filter HasHost [m, m]) = None \<longleftrightarrow> bi_confirm_text i = ''2''"
    using assms(2,5) by (simp add: bulk_gate_def Let_def)
qed

section \<open>Custom actions\<close>

lemma slug_loop_chars:
  "c \<in> set (slug_loop b pd s) \<Longrightarrow> c \<in> set b \<or> is_lower c \<or> is_digit c \<or> c = CHR ''-''"
  by (induction b pd s rule: slug_loop.induct) (auto split: if_splits)

lemma trim_set_sub: "set (trim_set cs s) \<subseteq> set s"
  by (auto simp: trim_set_def dest!: set_dropWhileD)

lemma trim_set_last: "trim_set cs s \<noteq> [] \<Longrightarrow> last (trim_set cs s) \<notin> set cs"
  unfolding trim_set_def using hd_dropWhile [of "\<lambda>c. c \<in> set cs"] by (simp add: last_rev)

lemma trim_set_hd:
  assumes "trim_set cs s \<noteq> []"
  shows "hd (trim_set cs s) \<notin> set cs"
proof -
  let ?t = "dropWhile (\<lambda>c. c \<in> set cs) s"
  let ?u = "takeWhile (\<lambda>c. c \<in> set cs) (rev ?t)"
  have t: "trim_set cs s @ rev ?u = ?t" unfolding trim_set_def
    by (metis rev_append rev_rev_ident takeWhile_dropWhile_id)
  then have "?t \<noteq> []" and "hd ?t = hd (trim_set cs s)" using assms by (metis Nil_is_append_conv, metis hd_append2)
  with hd_dropWhile [of "\<lambda>c. c \<in> set cs" s] show ?thesis by simp
qed

definition slug_ok :: "string \<Rightarrow> bool" where
  "slug_ok s \<longleftrightarrow> list_all (\<lambda>c. is_lower c \<or> is_digit c \<or> c = CHR ''-'') s
     \<and> (s = [] \<or> hd s \<noteq> CHR ''-'' \<and> last s \<noteq> CHR ''-'')"

lemma slug_is_ok: "slug_ok (slug label)"
proof -
  have "is_lower c \<or> is_digit c \<or> c = CHR ''-''" if "c \<in> set (slug label)" for c
    using that trim_set_sub [of "''-''" "slug_loop [] False (to_lower label)"] slug_loop_chars [of c "[]" False]
    by (auto simp: slug_def)
  moreover have "slug label = [] \<or> hd (slug label) \<noteq> CHR ''-'' \<and> last (slug label) \<noteq> CHR ''-''"
    using trim_set_hd [of "''-''"] trim_set_last [of "''-''"] by (auto simp: slug_def)
  ultimately show ?thesis by (simp add: slug_ok_def list_all_iff)
qed

text \<open>A label without a single Latin letter or digit has the empty slug, so all such labels share one id.\<close>

lemma slug_loop_none: "list_all (\<lambda>c. \<not> is_lower c \<and> \<not> is_digit c) s \<Longrightarrow> slug_loop [] pd s = []"
  by (induction s arbitrary: pd) simp_all

lemma foreign_labels_share_an_id:
  assumes "list_all (\<lambda>c. \<not> is_lower c \<and> \<not> is_digit c) (to_lower label)"
  shows "''custom.'' @ slug label = ''custom.''"
  using slug_loop_none [OF assms] by (simp add: slug_def trim_set_def)

lemma check_params_None:
  "check_params command ps = None \<longleftrightarrow> (\<forall>q \<in> set ps. reParamName (cp_name q) \<and> contains command (hole_text (cp_name q)))"
  by (induction ps) auto

lemma CreateCustomAction_saved:
  assumes "CreateCustomAction now a d = (Inr a', d')"
  shows "a' = a\<lparr>cu_created := now\<rparr>" "d' = d\<lparr>custom_actions := custom_actions d @ [a']\<rparr>"
    "\<forall>b \<in> set (custom_actions d). cu_id b \<noteq> cu_id a"
  using assms
  by (auto simp: CreateCustomAction_def Let_def wrap_err_Inr list_ex_iff dest!: sql_exec_InrD split: if_splits)

lemma lookup_saved:
  assumes "CreateCustomAction now a d = (Inr a', d')" and "Lookup (cu_id a) = None"
    and "db_fail d (SelCustomAction (cu_id a)) = None"
  shows "lookup x d' = (if x = cu_id a then Some (FromCustom a') else lookup x d)"
proof -
  note s = CreateCustomAction_saved [OF assms(1)]
  have snoc: "find P (xs @ [y]) = (case find P xs of None \<Rightarrow> if P y then Some y else None | Some z \<Rightarrow> Some z)"
    for P and xs :: "CustomAction list" and y by (induction xs) auto
  have none: "find (\<lambda>b. cu_id b = cu_id a) (custom_actions d) = None" using s(3) by (simp add: find_None_all)
  have id: "cu_id a' = cu_id a" by (simp add: s(1))
  show ?thesis
  proof (cases "x = cu_id a")
    case True
    then show ?thesis using assms(2,3) none
      by (simp add: lookup_def GetCustomAction_def s(2) snoc id sql_query_def)
  next
    case False
    have "find (\<lambda>b. cu_id b = x) (custom_actions d @ [a']) = find (\<lambda>b. cu_id b = x) (custom_actions d)"
      using False id by (simp add: snoc split: option.split)
    then show ?thesis using False
      by (simp add: lookup_def GetCustomAction_def s(2) sql_query_def split: option.split)
  qed
qed

text \<open>
  C18: A button that is saved is sound and runs.  Its tier is read, reversible or disruptive, so
  the gate can always be satisfied; its sudo mode is one the engine knows; its parameters
  have plain names and are all used in the command; its id is \<^verbatim>\<open>custom.\<close> and a slug of
  lower-case letters, digits and inner dashes, and is no built-in's; from then on that id
  names this action, and every other id what it named before.
\<close>

theorem saved_button_sound:
  assumes "createCustomAction now body (d, p) = (Reply st a, (d', p'))"
    and "db_fail d (SelCustomAction (cu_id a)) = None"
  shows "st = 201 \<and> p' = p \<and> cu_danger a \<in> {0, 1, 2} \<and> cu_sudo a \<in> {SudoNone, SudoPreferred, SudoRequired}
    \<and> (\<forall>q \<in> set (cu_params a). reParamName (cp_name q) \<and> contains (cu_command a) (hole_text (cp_name q)))
    \<and> (\<exists>s. cu_id a = ''custom.'' @ s \<and> slug_ok s) \<and> Lookup (cu_id a) = None
    \<and> (\<forall>x. lookup x d' = (if x = cu_id a then Some (FromCustom a) else lookup x d))
    \<and> (\<forall>m. \<exists>req. gate (FromCustom a) m req = None)"
proof -
  obtain i where body: "body = Inr i" using assms(1) by (cases body) (auto simp: createCustomAction_def badRequest_def)
  define label where "label = trim_space (xi_label i)"
  define command where "command = trim_space (xi_command i)"
  define aid where "aid = ''custom.'' @ slug label"
  define new where "new = \<lparr>cu_id = aid, cu_label = label,
     cu_category = (if trim_space (xi_category i) = [] then ''custom'' else trim_space (xi_category i)), cu_command = command,
     cu_params = xi_params i, cu_requires = cleanTags (xi_requires i), cu_sudo = xi_sudo i, cu_danger = xi_danger i, cu_created = 0\<rparr>"
  note run = assms(1) [unfolded createCustomAction_def body sum.case, folded label_def command_def, unfolded Let_def,
      folded aid_def, folded new_def]
  have ok: "label \<noteq> []" "command \<noteq> []" "xi_danger i \<in> {0, 1, 2}" "xi_sudo i \<in> {SudoNone, SudoPreferred, SudoRequired}"
      "check_params command (xi_params i) = None" "Lookup aid = None"
    using run by (auto simp: badRequest_def fail_def danger_defs sudo_defs split: if_splits option.splits sum.splits)
  obtain q d1 where c: "CreateCustomAction now new d = (q, d1)" by (rule prod.exhaust)
  have r: "q = Inr a" "d' = d1" "st = 201" "p' = p"
    using run ok c by (auto simp: badRequest_def fail_def danger_defs sudo_defs split: if_splits sum.splits)
  note saved = CreateCustomAction_saved [OF c [unfolded r(1)]]
  have a: "cu_id a = aid" "cu_danger a = xi_danger i" "cu_sudo a = xi_sudo i" "cu_params a = xi_params i" "cu_command a = command"
    by (simp_all add: saved(1) new_def)
  have id: "cu_id new = aid" by (simp add: new_def)
  have look: "\<forall>x. lookup x d' = (if x = aid then Some (FromCustom a) else lookup x d)"
    using lookup_saved [OF c [unfolded r(1)]] ok(6) assms(2) id a(1) r(2) by simp
  have "\<exists>req. gate (FromCustom a) m req = None" for m
    using ok(3) a(2) by (intro exI [of _ "\<lparr>rq_machine = 0, rq_action = [], rq_params = (\<lambda>_. None), rq_confirm = True,
        rq_confirm_name = m_name m, rq_actor = []\<rparr>"]) (auto simp: gate_None FromCustom_def danger_defs)
  with look ok a r slug_is_ok [of label] show ?thesis by (auto simp: check_params_None aid_def)
qed

definition button_input :: customActionInput where
  "button_input = \<lparr>xi_label = ''Clear Cache!'', xi_category = [], xi_command = ''rm {{f}}'', xi_params = [\<lparr>cp_name = ''f'', cp_label = ''f''\<rparr>],
     xi_requires = [], xi_sudo = [], xi_danger = 1\<rparr>"

theorem saved_button_sound_witness:
  "\<exists>a d'. createCustomAction 7 (Inr button_input) (empty_db, NewBroker) = (Reply 201 a, (d', NewBroker))
     \<and> cu_id a = ''custom.clear-cache'' \<and> lookup ''custom.clear-cache'' d' = Some (FromCustom a)"
proof -
  have n: "trim_space ''Clear Cache!'' = ''Clear Cache!''" "trim_space ''rm {{f}}'' = ''rm {{f}}''" "slug ''Clear Cache!'' = ''clear-cache''"
    by code_simp+
  have cp: "check_params ''rm {{f}}'' [\<lparr>cp_name = ''f'', cp_label = ''f''\<rparr>] = None" by code_simp
  have "''custom.clear-cache'' \<notin> set (map act_id Catalog)" unfolding catalog_ids by simp
  then have l: "Lookup ''custom.clear-cache'' = None" 
    using Lookup_iff [of "''custom.clear-cache''"] by (cases "Lookup ''custom.clear-cache''") force+
  obtain a d' where run: "createCustomAction 7 (Inr button_input) (empty_db, NewBroker) = (Reply 201 a, (d', NewBroker))" "cu_id a = ''custom.clear-cache''"
    by (simp add: createCustomAction_def button_input_def n cp l danger_defs sudo_defs Let_def GetCustomAction_def CreateCustomAction_def
        empty_db_def sql_query_def sql_exec_def wrap_err_def del: check_params.simps)
  have "db_fail empty_db (SelCustomAction (cu_id a)) = None" by (simp add: empty_db_def)
  from saved_button_sound [OF run(1) this] run show ?thesis by auto
qed

end
