(* ===== verification/Migrate.thy ===== *)
theory Migrate imports Store "HOL-Library.Sublist" begin

text \<open>
  Opening the database: the migrations of \<^verbatim>\<open>internal/store/store.go\<close>, and its time and NULL
  conversions.

  The schema is an abstract value \<open>'s\<close>; \<open>exec\<close> is SQLite executing one DDL statement on it inside
  the transaction of its migration, a new schema or an error.  The table of applied versions
  is kept beside it.  \<open>fails\<close> says which of the other statements the driver fails and how; a
  transaction that is rolled back, or whose commit fails, leaves nothing.
\<close>

section \<open>Statements of a migration\<close>

text \<open>\<^verbatim>\<open>strings.Index(line, "--")\<close>, and the line up to there.\<close>

fun cut_comment :: "string \<Rightarrow> string" where
  "cut_comment [] = []"
| "cut_comment (c # s) = (if has_prefix (c # s) ''--'' then [] else c # cut_comment s)"

definition clean_sql :: "string \<Rightarrow> string" where
  "clean_sql stmt = concat (map (\<lambda>line. cut_comment line @ [CHR 0x0A]) (split_on CHR 0x0A stmt))"

definition sql_statements :: "string \<Rightarrow> string list" where
  "sql_statements stmt = filter (\<lambda>s. s \<noteq> []) (map trim_space (split_on CHR '';'' (clean_sql stmt)))"

fun exec_statements :: "(string \<Rightarrow> 's \<Rightarrow> 's result) \<Rightarrow> string list \<Rightarrow> 's \<Rightarrow> 's result" where
  "exec_statements exec [] s = Inr s"
| "exec_statements exec (q # qs) s =
     (case exec q s of
        Inr s' \<Rightarrow> exec_statements exec qs s'
      | Inl e \<Rightarrow> if contains (err_text e) ''duplicate column name'' then exec_statements exec qs s else Inl e)"

definition execMigration :: "(string \<Rightarrow> 's \<Rightarrow> 's result) \<Rightarrow> string \<Rightarrow> 's \<Rightarrow> 's result" where
  "execMigration exec stmt s = exec_statements exec (sql_statements stmt) s"

section \<open>Applying what is pending\<close>

datatype mig_stmt = CreateVersions | ReadVersion | BeginMigration nat | RecordVersion nat | CommitMigration nat

record 's sqlite =
  sq_schema :: 's
  sq_versions :: "(nat \<times> time) list"

definition current_version :: "(nat \<times> time) list \<Rightarrow> nat" where
  "current_version vs = fold max (map fst vs) 0"

definition mig_err :: "string \<Rightarrow> nat \<Rightarrow> go_err \<Rightarrow> go_err" where
  "mig_err what v e = Wrap (''store: '' @ what @ '' migration '' @ nat_digits v @ '': '') e []"

fun mig_loop ::
    "(mig_stmt \<Rightarrow> go_err option) \<Rightarrow> (string \<Rightarrow> 's \<Rightarrow> 's result) \<Rightarrow> time \<Rightarrow> nat \<Rightarrow> nat \<Rightarrow> string list \<Rightarrow> 's sqlite
       \<Rightarrow> go_err option \<times> 's sqlite" where
  "mig_loop fails exec now current version [] d = (None, d)"
| "mig_loop fails exec now current version (stmt # rest) d =
     (if version \<le> current then mig_loop fails exec now current (version + 1) rest d
      else (case fails (BeginMigration version) of
        Some e \<Rightarrow> (Some (mig_err ''begin'' version e), d)
      | None \<Rightarrow>
     (case execMigration exec stmt (sq_schema d) of
        Inl e \<Rightarrow> (Some (mig_err ''apply'' version e), d)
      | Inr s' \<Rightarrow>
     (case fails (RecordVersion version) of
        Some e \<Rightarrow> (Some (mig_err ''record'' version e), d)
      | None \<Rightarrow>
     (case fails (CommitMigration version) of
        Some e \<Rightarrow> (Some (mig_err ''commit'' version e), d)
      | None \<Rightarrow> mig_loop fails exec now current (version + 1) rest
          \<lparr>sq_schema = s', sq_versions = sq_versions d @ [(version, now)]\<rparr>)))))"

definition migrate ::
    "(mig_stmt \<Rightarrow> go_err option) \<Rightarrow> (string \<Rightarrow> 's \<Rightarrow> 's result) \<Rightarrow> time \<Rightarrow> string list \<Rightarrow> 's sqlite \<Rightarrow> go_err option \<times> 's sqlite" where
  "migrate fails exec now migrations d =
     (case fails CreateVersions of
        Some e \<Rightarrow> (Some (Wrap ''store: create migrations table: '' e []), d)
      | None \<Rightarrow>
     (case fails ReadVersion of
        Some e \<Rightarrow> (Some (Wrap ''store: read schema version: '' e []), d)
      | None \<Rightarrow> mig_loop fails exec now (current_version (sq_versions d)) 1 migrations d))"

text \<open>\<^verbatim>\<open>Open\<close>: the driver opens the file and answers a ping, then the migrations run; \<open>path\<close> is in the errors.\<close>

definition Open_store ::
    "go_err option \<Rightarrow> go_err option \<Rightarrow> (mig_stmt \<Rightarrow> go_err option) \<Rightarrow> (string \<Rightarrow> 's \<Rightarrow> 's result) \<Rightarrow> time \<Rightarrow> string list \<Rightarrow> string
       \<Rightarrow> 's sqlite \<Rightarrow> go_err option \<times> 's sqlite" where
  "Open_store opened ping fails exec now migrations path d =
     (case opened of
        Some e \<Rightarrow> (Some (Wrap (''store: open '' @ path @ '': '') e []), d)
      | None \<Rightarrow>
     (case ping of
        Some e \<Rightarrow> (Some (Wrap ''store: ping: '' e []), d)
      | None \<Rightarrow> migrate fails exec now migrations d))"

section \<open>Conversions\<close>

text \<open>An instant is its nanoseconds since the epoch; \<^verbatim>\<open>UnixMilli\<close> rounds down.\<close>

definition ms :: "int \<Rightarrow> int" where "ms t = t div 1000000"

definition fromMs :: "int \<Rightarrow> int" where "fromMs v = v * 1000000"

definition msPtr :: "int option \<Rightarrow> int option" where
  "msPtr t = (case t of None \<Rightarrow> None | Some t \<Rightarrow> Some (ms t))"

definition fromMsPtr :: "int option \<Rightarrow> int option" where
  "fromMsPtr v = (case v of None \<Rightarrow> None | Some v \<Rightarrow> Some (fromMs v))"

lemma stored_time: "ms (fromMs v) = v" "fromMs (ms t) \<le> t" "t < fromMs (ms t) + 1000000"
  by (simp_all add: ms_def fromMs_def)

lemma stored_time_ptr: "msPtr (fromMsPtr v) = v"
  by (cases v) (simp_all add: msPtr_def fromMsPtr_def stored_time)

section \<open>Properties\<close>

lemma current_version_prefix:
  assumes "map fst vs = [1..<Suc k]"
  shows "current_version vs = k"
proof -
  have "fold max [1..<Suc k] a = max a k" for a :: nat
    by (induction k) (auto simp: max_def)
  then show ?thesis by (simp only: current_version_def assms)
qed

text \<open>The schema the first migrations give.\<close>

fun steps :: "(string \<Rightarrow> 's \<Rightarrow> 's result) \<Rightarrow> string list \<Rightarrow> 's \<Rightarrow> 's result" where
  "steps exec [] s = Inr s"
| "steps exec (m # rest) s = (case execMigration exec m s of Inl e \<Rightarrow> Inl e | Inr s' \<Rightarrow> steps exec rest s')"

lemma steps_append: "steps exec (as @ bs) s = (case steps exec as s of Inl e \<Rightarrow> Inl e | Inr s' \<Rightarrow> steps exec bs s')"
  by (induction as arbitrary: s) (auto split: sum.splits)

text \<open>A database at version \<open>k\<close>: versions 1 to \<open>k\<close> are recorded and their migrations, no more, are in the schema.\<close>

definition at_version :: "(string \<Rightarrow> 's \<Rightarrow> 's result) \<Rightarrow> string list \<Rightarrow> 's \<Rightarrow> nat \<Rightarrow> 's sqlite \<Rightarrow> bool" where
  "at_version exec migs s0 k d \<longleftrightarrow> k \<le> length migs \<and> map fst (sq_versions d) = [1..<Suc k]
     \<and> steps exec (take k migs) s0 = Inr (sq_schema d)"

lemma mig_loop_at_version:
  assumes "j + length rest = length migs" and "rest = drop j migs" and "at_version exec migs s0 (max j k) d"
    and "mig_loop fails exec now k (Suc j) rest d = (r, d')"
  shows "\<exists>k' \<ge> max j k. at_version exec migs s0 k' d' \<and> prefix (sq_versions d) (sq_versions d')
     \<and> (r = None \<longrightarrow> k' = length migs) \<and> (fails = (\<lambda>_. None) \<and> (\<exists>s. steps exec migs s0 = Inr s) \<longrightarrow> r = None)"
  using assms
proof (induction rest arbitrary: j d)
  case Nil
  then have "max j k = length migs" by (auto simp: at_version_def)
  then show ?case using Nil by (intro exI [of _ "max j k"]) auto
next
  case (Cons m rest)
  have j: "j < length migs" "Suc j + length rest = length migs" using Cons.prems(1) by simp_all
  have m: "migs ! j = m" by (rule nth_via_drop [OF Cons.prems(2) [symmetric]])
  have rest: "rest = drop (Suc j) migs" using Cons.prems(2) by (metis drop_Suc list.sel(3) tl_drop)
  show ?case
  proof (cases "Suc j \<le> k")
    case True
    then have mx: "max (Suc j) k = max j k" by simp
    have "mig_loop fails exec now k (Suc (Suc j)) rest d = (r, d')" using Cons.prems(4) True by simp
    then show ?thesis using Cons.IH [OF j(2) rest, unfolded mx, OF Cons.prems(3)] by blast
  next
    case False
    then have mx: "max j k = j" "max (Suc j) k = Suc j" by simp_all
    have at: "at_version exec migs s0 j d" using Cons.prems(3) by (simp add: mx)
    have take: "take (Suc j) migs = take j migs @ [m]" using j m by (simp add: take_Suc_conv_app_nth)
    have stay: "?thesis" if "d' = d" "r \<noteq> None" "fails \<noteq> (\<lambda>_. None) \<or> (\<exists>e. execMigration exec m (sq_schema d) = Inl e)"
    proof -
      have "steps exec migs s0 \<noteq> Inr s" if x: "execMigration exec m (sq_schema d) = Inl e" for s e
      proof -
        have "migs = take (Suc j) migs @ drop (Suc j) migs" by simp
        then have "steps exec migs s0 = (case steps exec (take (Suc j) migs) s0 of Inl e \<Rightarrow> Inl e | Inr s' \<Rightarrow> steps exec (drop (Suc j) migs) s')"
          by (metis steps_append)
        moreover have "steps exec (take (Suc j) migs) s0 = Inl e" using at x by (simp add: take steps_append at_version_def)
        ultimately show ?thesis by simp
      qed
      then show ?thesis using that at mx by (intro exI [of _ j]) auto
    qed
    show ?thesis
    proof (cases "fails (BeginMigration (Suc j)) = None \<and> (\<exists>s'. execMigration exec m (sq_schema d) = Inr s')
        \<and> fails (RecordVersion (Suc j)) = None \<and> fails (CommitMigration (Suc j)) = None")
      case True
      then obtain s' where s': "execMigration exec m (sq_schema d) = Inr s'" by blast
      let ?d = "\<lparr>sq_schema = s', sq_versions = sq_versions d @ [(Suc j, now)]\<rparr>"
      have at': "at_version exec migs s0 (max (Suc j) k) ?d"
        using at s' j by (simp add: at_version_def mx take steps_append)
      have "mig_loop fails exec now k (Suc (Suc j)) rest ?d = (r, d')" using Cons.prems(4) False True s' by simp
      from Cons.IH [OF j(2) rest at' this] obtain k' where k': "max (Suc j) k \<le> k'" "at_version exec migs s0 k' d'"
        "prefix (sq_versions ?d) (sq_versions d')" "r = None \<longrightarrow> k' = length migs"
        "fails = (\<lambda>_. None) \<and> (\<exists>s. steps exec migs s0 = Inr s) \<longrightarrow> r = None" by blast
      have "prefix (sq_versions d) (sq_versions d')" using k'(3) by (auto simp: prefix_def)
      then show ?thesis using k' by (intro exI [of _ k']) auto
    next
      case f: False
      show ?thesis by (rule stay) (use Cons.prems(4) False f in \<open>auto split: option.splits sum.splits\<close>)
    qed
  qed
qed

lemma migrate_at_version:
  assumes "at_version exec migs s0 k d" and "migrate fails exec now migs d = (r, d')"
  shows "\<exists>k' \<ge> k. at_version exec migs s0 k' d' \<and> prefix (sq_versions d) (sq_versions d')
     \<and> (r = None \<longrightarrow> k' = length migs) \<and> (fails = (\<lambda>_. None) \<and> (\<exists>s. steps exec migs s0 = Inr s) \<longrightarrow> r = None)"
proof (cases "fails CreateVersions = None \<and> fails ReadVersion = None")
  case True
  have "current_version (sq_versions d) = k" using assms(1) by (intro current_version_prefix) (simp add: at_version_def)
  then have "mig_loop fails exec now k (Suc 0) migs d = (r, d')" using assms(2) True by (simp add: migrate_def)
  then show ?thesis using mig_loop_at_version [of 0 migs migs exec s0 k d fails now r d'] assms(1) by simp
next
  case False
  then show ?thesis using assms by (intro exI [of _ k]) (auto simp: migrate_def split: option.splits)
qed

text \<open>
  C39: Opening a database brings it to the newest version, and an opening that fails loses
  nothing.  After any run the recorded versions are 1 to some \<open>k\<close>, not less than before, and the
  schema is exactly what those migrations make of an empty one; a run without error ended at
  the last migration.  And however often openings were cut short, the next one that is not
  gives the schema that a single undisturbed opening gives, and no later opening changes the
  database.
\<close>

theorem migrations_resume:
  assumes "at_version exec migs s0 k d" and "steps exec migs s0 = Inr s"
  shows "case migrate fails exec now migs d of (r, d') \<Rightarrow>
     (\<exists>k' \<ge> k. at_version exec migs s0 k' d' \<and> prefix (sq_versions d) (sq_versions d') \<and> (r = None \<longrightarrow> k' = length migs))
     \<and> (\<exists>d''. migrate (\<lambda>_. None) exec now' migs d' = (None, d'') \<and> sq_schema d'' = s
        \<and> snd (migrate fails' exec now'' migs d'') = d'')"
proof -
  obtain r d' where m: "migrate fails exec now migs d = (r, d')" by (rule prod.exhaust)
  from migrate_at_version [OF assms(1) m] obtain k' where k': "k' \<ge> k" "at_version exec migs s0 k' d'"
    "prefix (sq_versions d) (sq_versions d')" "r = None \<longrightarrow> k' = length migs" by blast
  obtain r2 d2 where m2: "migrate (\<lambda>_. None) exec now' migs d' = (r2, d2)" by (rule prod.exhaust)
  from migrate_at_version [OF k'(2) m2] assms(2) have r2: "r2 = None" "at_version exec migs s0 (length migs) d2" by auto
  have s2: "sq_schema d2 = s" using r2(2) assms(2) by (simp add: at_version_def)
  have skip: "mig_loop fails' exec now'' (length migs) (Suc j) rest d2 = (None, d2)" if "j + length rest = length migs" for j rest
    using that by (induction rest arbitrary: j) auto
  have c: "current_version (sq_versions d2) = length migs" using r2(2) by (intro current_version_prefix) (simp add: at_version_def)
  have again: "snd (migrate fails' exec now'' migs d2) = d2"
    using skip [of 0 migs] by (auto simp: migrate_def c split: option.splits)
  show ?thesis using k' m2 r2(1) s2 again by (auto simp: m)
qed

section \<open>Comments\<close>

lemma contains_append: "contains s p \<Longrightarrow> contains (s @ t) p"
  by (metis append.assoc contains_iff)

lemma cut_comment_plain: "\<not> contains s ''--'' \<Longrightarrow> cut_comment s = s"
  by (induction s) auto

lemma cut_comment_comment: "\<not> contains (s @ ''-'') ''--'' \<Longrightarrow> cut_comment (s @ ''--'' @ k) = s"
proof (induction s)
  case (Cons c s)
  have "\<not> has_prefix (c # s @ ''--'' @ k) ''--''" using Cons.prems by (cases s) auto
  then show ?case using Cons by simp
qed simp

text \<open>
  A comment has no influence on the statements of a migration, whatever it contains: a
  semicolon in it splits nothing, and the text after it on later lines is not affected.
\<close>

lemma comments_are_ignored:
  assumes "ls \<noteq> []" and "\<forall>(c, k) \<in> set ls. CHR 0x0A \<notin> set c \<and> CHR 0x0A \<notin> set k \<and> \<not> contains (c @ ''-'') ''--''"
  shows "sql_statements (join [CHR 0x0A] (map (\<lambda>(c, k). c @ ''--'' @ k) ls)) = sql_statements (join [CHR 0x0A] (map fst ls))"
proof -
  have "\<not> contains c ''--''" if "(c, k) \<in> set ls" for c k
    using assms(2) that contains_append by blast
  then have plain: "map (\<lambda>l. cut_comment l @ [CHR 0x0A]) (map fst ls) = map (\<lambda>(c, k). c @ [CHR 0x0A]) ls"
    by (auto simp: cut_comment_plain)
  have comments: "map (\<lambda>l. cut_comment l @ [CHR 0x0A]) (map (\<lambda>(c, k). c @ ''--'' @ k) ls) = map (\<lambda>(c, k). c @ [CHR 0x0A]) ls"
    using assms(2) cut_comment_comment by (auto simp del: cut_comment.simps append_Cons)
  have "split_on CHR 0x0A (join [CHR 0x0A] (map (\<lambda>(c, k). c @ ''--'' @ k) ls)) = map (\<lambda>(c, k). c @ ''--'' @ k) ls"
    "split_on CHR 0x0A (join [CHR 0x0A] (map fst ls)) = map fst ls"
    using assms by (intro split_join; auto)+
  then show ?thesis unfolding sql_statements_def clean_sql_def by (simp only: plain comments)
qed

text \<open>Migration 002, and what is sent to SQLite for it.\<close>

definition migration_2 :: string where
  "migration_2 = join [CHR 0x0A]
     [[],
      [CHR 0x09] @ ''ALTER TABLE host_keys ADD COLUMN seen_algorithm   TEXT NOT NULL DEFAULT '' @ [CHR 0x27, CHR 0x27] @ '';'',
      [CHR 0x09] @ ''ALTER TABLE host_keys ADD COLUMN seen_fingerprint TEXT NOT NULL DEFAULT '' @ [CHR 0x27, CHR 0x27] @ '';'',
      [CHR 0x09]]"

lemma migration_2_statements:
  "sql_statements migration_2 =
     [''ALTER TABLE host_keys ADD COLUMN seen_algorithm   TEXT NOT NULL DEFAULT '' @ [CHR 0x27, CHR 0x27],
      ''ALTER TABLE host_keys ADD COLUMN seen_fingerprint TEXT NOT NULL DEFAULT '' @ [CHR 0x27, CHR 0x27]]"
  by code_simp

text \<open>A database created while the columns were part of migration 001: both statements fail, and the migration is applied.\<close>

definition dup_column :: "string \<Rightarrow> unit \<Rightarrow> unit result" where
  "dup_column q s = Inl (Text ''SQL logic error: duplicate column name: seen_algorithm (1)'')"

lemma duplicate_tolerated: "execMigration dup_column migration_2 () = Inr ()"
proof -
  have "contains ''SQL logic error: duplicate column name: seen_algorithm (1)'' ''duplicate column name''" by code_simp
  then show ?thesis by (simp add: execMigration_def migration_2_statements dup_column_def del: contains.simps)
qed

theorem migrations_resume_witness:
  "\<exists>d''. migrate (\<lambda>_. None) dup_column 7 [migration_2] (snd (migrate (\<lambda>q. if q = CommitMigration 1 then Some (Text []) else None)
      dup_column 5 [migration_2] \<lparr>sq_schema = (), sq_versions = []\<rparr>)) = (None, d'')"
proof -
  have a: "at_version dup_column [migration_2] () 0 \<lparr>sq_schema = (), sq_versions = []\<rparr>" by (simp add: at_version_def)
  have s: "steps dup_column [migration_2] () = Inr ()" by (simp add: duplicate_tolerated)
  from migrations_resume [OF a s, where fails = "\<lambda>q. if q = CommitMigration 1 then Some (Text []) else None" and now = 5 and now' = 7
      and fails' = "\<lambda>_. None" and now'' = 9, unfolded case_prod_beta]
  show ?thesis by blast
qed

end
