(* ===== verification/Sessions.thy ===== *)
theory Sessions imports Handlers "HOL-Library.Sublist" begin

text \<open>
  The interactive handlers, which end in a websocket: \<^verbatim>\<open>internal/api/terminal.go\<close> (a shell on a
  machine) and \<^verbatim>\<open>internal/api/stream.go\<close> (following a command's output).

  \<open>open_shell\<close> and \<open>open_stream\<close> are the broker's \<^verbatim>\<open>OpenShell\<close> and \<^verbatim>\<open>OpenStream\<close> with their effect on
  the server's state.  Once a shell is open its handler is three goroutines; what they do is
  a sequence of \<open>term_io\<close> events, in any interleaving, acting on \<open>term_state\<close>.
\<close>

section \<open>Websockets\<close>

datatype frame = Binary string | TextFrame string | CloseNormal string | ClosePolicy string

text \<open>How a handler ended: an HTTP answer, no upgrade (the upgrader answered), an error on the socket, or a session.\<close>

datatype ('v, 's) ws_result = Http "'v response" | NotUpgraded | WsFailed "frame list" | Session 's

definition writeWSError :: "string \<Rightarrow> frame list" where
  "writeWSError msg = [TextFrame ([CHR ''{'', CHR 0x22] @ ''type'' @ [CHR 0x22, CHR '':'', CHR 0x22] @ ''error'' @ [CHR 0x22, CHR '',''] @
     [CHR 0x22] @ ''message'' @ [CHR 0x22, CHR '':''] @ go_quote msg @ ''}''), ClosePolicy msg]"

text \<open>The upgrade: the origin check of \<^verbatim>\<open>New\<close>, and whether the request is a proper handshake.\<close>

definition upgrades :: "(string \<Rightarrow> string option) \<Rightarrow> Server \<Rightarrow> http_request \<Rightarrow> bool \<Rightarrow> bool" where
  "upgrades url_host s r handshake \<longleftrightarrow> handshake \<and> originOK url_host s r"

section \<open>The terminal\<close>

record controlMsg =
  cm_type :: string
  cm_cols :: int
  cm_rows :: int

text \<open>
  What happens around an open shell: a chunk read from it (and whether the browser took it),
  the end of its output, a frame from the browser (and whether the shell took it), the
  browser gone, the shell's exit noticed, and the handler's own return.
\<close>

datatype term_io =
    ShellChunk string bool | ShellEnd | BrowserBinary string bool | BrowserText string | BrowserGone | ShellExited | Returns

record term_state =
  ts_out :: bool
  ts_in :: bool
  ts_cancelled :: bool
  ts_exited :: bool
  ts_closed :: bool
  ts_to_browser :: "frame list"
  ts_to_shell :: "string list"
  ts_sizes :: "(int \<times> int) list"

definition term_start :: term_state where
  "term_start = \<lparr>ts_out = True, ts_in = True, ts_cancelled = False, ts_exited = False, ts_closed = False,
     ts_to_browser = [], ts_to_shell = [], ts_sizes = []\<rparr>"

text \<open>
  One event.  Each pump runs until its first failure and cancels the context; the handler
  returns when the context is cancelled or the shell has exited, closing both ends.
  \<open>uj\<close> is \<^verbatim>\<open>json.Unmarshal\<close> of a control message, \<open>None\<close> its error.
\<close>

fun term_step :: "(string \<Rightarrow> controlMsg option) \<Rightarrow> term_io \<Rightarrow> term_state \<Rightarrow> term_state" where
  "term_step uj (ShellChunk b ok) t =
     (if ts_closed t \<or> \<not> ts_out t then t
      else if ok then t\<lparr>ts_to_browser := ts_to_browser t @ [Binary b]\<rparr>
      else t\<lparr>ts_out := False, ts_cancelled := True\<rparr>)"
| "term_step uj ShellEnd t =
     (if ts_closed t \<or> \<not> ts_out t then t else t\<lparr>ts_out := False, ts_cancelled := True\<rparr>)"
| "term_step uj (BrowserBinary b ok) t =
     (if ts_closed t \<or> \<not> ts_in t then t
      else if ok then t\<lparr>ts_to_shell := ts_to_shell t @ [b]\<rparr>
      else t\<lparr>ts_in := False, ts_cancelled := True\<rparr>)"
| "term_step uj (BrowserText b) t =
     (if ts_closed t \<or> \<not> ts_in t then t
      else (case uj b of
          Some c \<Rightarrow> if cm_type c = ''resize'' then t\<lparr>ts_sizes := ts_sizes t @ [(cm_cols c, cm_rows c)]\<rparr> else t
        | None \<Rightarrow> t))"
| "term_step uj BrowserGone t =
     (if ts_closed t \<or> \<not> ts_in t then t else t\<lparr>ts_in := False, ts_cancelled := True\<rparr>)"
| "term_step uj ShellExited t = (if ts_closed t then t else t\<lparr>ts_exited := True\<rparr>)"
| "term_step uj Returns t =
     (if ts_closed t \<or> \<not> ts_cancelled t \<and> \<not> ts_exited t then t
      else t\<lparr>ts_closed := True, ts_to_browser := ts_to_browser t @ [CloseNormal ''shell exited'']\<rparr>)"

definition term_run :: "(string \<Rightarrow> controlMsg option) \<Rightarrow> term_io list \<Rightarrow> term_state" where
  "term_run uj ios = fold (term_step uj) ios term_start"

definition terminal_record :: "time \<Rightarrow> Machine \<Rightarrow> Run" where
  "terminal_record now m =
     \<lparr>rn_id = 0, rn_machine = Some (m_id m), rn_machine_name = m_name m, rn_action = ''terminal.open'',
      rn_command = ''(interactive shell)'', rn_danger = DangerDisruptive, rn_actor = actor, rn_exit = None,
      rn_stdout = [], rn_stderr = [], rn_error = [], rn_duration = 0, rn_started = now\<rparr>"

definition Atoi :: "string \<Rightarrow> int" where
  "Atoi s = fst (parse_int64 s)"

definition terminal ::
    "(Machine \<Rightarrow> db \<Rightarrow> 't result) \<Rightarrow> ('t \<Rightarrow> int \<Rightarrow> int \<Rightarrow> srv \<Rightarrow> go_err option \<times> srv) \<Rightarrow> (string \<Rightarrow> controlMsg option) \<Rightarrow> bool \<Rightarrow>
     time \<Rightarrow> string \<Rightarrow> string \<times> string \<Rightarrow> term_io list \<Rightarrow> srv \<Rightarrow> (unit, term_state) ws_result \<times> srv" where
  "terminal resolve open_shell uj upgraded now path size_query ios sv =
     (case pathID path of
        None \<Rightarrow> (Http (badRequest ''bad id''), sv)
      | Some i \<Rightarrow>
     (case GetMachine i (fst sv) of
        Inl e \<Rightarrow> (Http (fail e), sv)
      | Inr m \<Rightarrow>
     if \<not> HasHost m then (Http (fail (Sentinel ErrNoHost)), sv)
     else (case resolve m (fst sv) of
        Inl e \<Rightarrow> (Http (fail e), sv)
      | Inr target \<Rightarrow>
     if \<not> upgraded then (NotUpgraded, sv)
     else (case open_shell target (Atoi (fst size_query)) (Atoi (snd size_query)) sv of
        (Some e, (d, p)) \<Rightarrow> (WsFailed (writeWSError (err_text e)), (snd (SetReach now (m_id m) (classifyReach e) (err_text e) d), p))
      | (None, (d, p)) \<Rightarrow>
     (case InsertRun (terminal_record now m) d of
        (Inl e, d') \<Rightarrow> (WsFailed (writeWSError (''audit log write failed: '' @ err_text e)), (d', p))
      | (Inr _, d') \<Rightarrow> (Session (term_run uj ios), (snd (SetReach now (m_id m) ReachOK [] d'), p)))))))"

section \<open>Following a command\<close>

definition stream_record :: "time \<Rightarrow> 't Prepared \<Rightarrow> Action \<Rightarrow> Run" where
  "stream_record now p act =
     \<lparr>rn_id = 0, rn_machine = Some (m_id (pr_machine p)), rn_machine_name = m_name (pr_machine p), rn_action = act_id act,
      rn_command = pr_command p @ ''  (streamed)'', rn_danger = act_danger act, rn_actor = actor, rn_exit = None,
      rn_stdout = [], rn_stderr = [], rn_error = [], rn_duration = 0, rn_started = now\<rparr>"

definition stream_request :: "int \<Rightarrow> string \<Rightarrow> (string \<Rightarrow> string) \<Rightarrow> Action \<Rightarrow> Request" where
  "stream_request i aid query act =
     \<lparr>rq_machine = i, rq_action = aid,
      rq_params = (\<lambda>n. if n \<in> pm_name ` set (act_params act) then Some (query n) else None),
      rq_confirm = False, rq_confirm_name = [], rq_actor = actor\<rparr>"

text \<open>
  \<^verbatim>\<open>bufio.Scanner\<close> over the whole output: lines without their end (and a carriage return
  before it), up to the first that does not fit the scanner's buffer of 1 MiB.
\<close>

definition scan_limit :: nat where "scan_limit = 1048576"

definition dropCR :: "string \<Rightarrow> string" where
  "dropCR l = (if l \<noteq> [] \<and> last l = CHR 0x0D then butlast l else l)"

definition raw_lines :: "string \<Rightarrow> string list" where
  "raw_lines out = (let ps = lines_of out in if last ps = [] then butlast ps else ps)"

definition scan_lines :: "string \<Rightarrow> string list" where
  "scan_lines out = map dropCR (takeWhile (\<lambda>l. length l < scan_limit) (raw_lines out))"

text \<open>The frames of a follow: one per line, until the client has left or a write fails after \<open>n\<close> of them.\<close>

definition stream_frames :: "nat option \<Rightarrow> string \<Rightarrow> frame list" where
  "stream_frames left out =
     map TextFrame (case left of None \<Rightarrow> scan_lines out | Some n \<Rightarrow> take n (scan_lines out)) @ [CloseNormal ''stream ended'']"

definition streamAction ::
    "(Machine \<Rightarrow> db \<Rightarrow> 't result) \<Rightarrow> ('t \<Rightarrow> string \<Rightarrow> string \<Rightarrow> srv \<Rightarrow> (go_err + string) \<times> srv) \<Rightarrow> bool \<Rightarrow>
     time \<Rightarrow> string \<Rightarrow> string \<Rightarrow> (string \<Rightarrow> string) \<Rightarrow> nat option \<Rightarrow> srv \<Rightarrow> (unit, frame list) ws_result \<times> srv" where
  "streamAction resolve open_stream upgraded now path aid query left sv =
     (case pathID path of
        None \<Rightarrow> (Http (badRequest ''bad id''), sv)
      | Some i \<Rightarrow>
     (case Lookup aid of
        None \<Rightarrow> (Http (badRequest ''unknown action''), sv)
      | Some act \<Rightarrow>
     if \<not> act_stream act then (Http (badRequest ''action is not streamable''), sv)
     else (case Prepare resolve (stream_request i aid query act) (fst sv) of
        Inl e \<Rightarrow> (Http (fail e), sv)
      | Inr p \<Rightarrow>
     if \<not> upgraded then (NotUpgraded, sv)
     else (case InsertRun (stream_record now p act) (fst sv) of
        (Inl e, d) \<Rightarrow> (WsFailed (writeWSError (''audit log write failed: '' @ err_text e)), (d, snd sv))
      | (Inr _, d) \<Rightarrow>
     (case open_stream (pr_target p) (pr_shell p) (pr_script p) (d, snd sv) of
        (Inl e, (d', p')) \<Rightarrow>
          (WsFailed (writeWSError (err_text e)), (snd (SetReach now (m_id (pr_machine p)) (classifyReach e) (err_text e) d'), p'))
      | (Inr out, (d', p')) \<Rightarrow>
          (Session (stream_frames left out), (snd (SetReach now (m_id (pr_machine p)) ReachOK [] d'), p')))))))"

section \<open>Properties of the terminal\<close>

definition shell_chunks :: "term_io list \<Rightarrow> string list" where
  "shell_chunks ios = concat (map (\<lambda>io. case io of ShellChunk b _ \<Rightarrow> [b] | _ \<Rightarrow> []) ios)"

definition typed_chunks :: "term_io list \<Rightarrow> string list" where
  "typed_chunks ios = concat (map (\<lambda>io. case io of BrowserBinary b _ \<Rightarrow> [b] | _ \<Rightarrow> []) ios)"

text \<open>
  The invariant of a session: what went each way is a prefix of what came, all of it while
  the pump of that direction runs; the browser got the shell's bytes and then at most the
  closing frame.
\<close>

definition term_inv :: "term_io list \<Rightarrow> term_state \<Rightarrow> bool" where
  "term_inv ios t \<longleftrightarrow>
     (\<exists>bs. ts_to_browser t = map Binary bs @ (if ts_closed t then [CloseNormal ''shell exited''] else [])
        \<and> prefix bs (shell_chunks ios) \<and> (ts_out t \<and> \<not> ts_closed t \<longrightarrow> bs = shell_chunks ios))
   \<and> prefix (ts_to_shell t) (typed_chunks ios) \<and> (ts_in t \<and> \<not> ts_closed t \<longrightarrow> ts_to_shell t = typed_chunks ios)
   \<and> (ts_closed t \<longrightarrow> ts_cancelled t \<or> ts_exited t) \<and> (\<not> ts_out t \<or> \<not> ts_in t \<longrightarrow> ts_cancelled t)"

lemma chunks_snoc [simp]:
  "shell_chunks (ios @ [io]) = shell_chunks ios @ (case io of ShellChunk b _ \<Rightarrow> [b] | _ \<Rightarrow> [])"
  "typed_chunks (ios @ [io]) = typed_chunks ios @ (case io of BrowserBinary b _ \<Rightarrow> [b] | _ \<Rightarrow> [])"
  by (simp_all add: shell_chunks_def typed_chunks_def)

lemma term_inv_step:
  assumes "term_inv ios t"
  shows "term_inv (ios @ [io]) (term_step uj io t)"
proof -
  obtain bs where bs: "ts_to_browser t = map Binary bs @ (if ts_closed t then [CloseNormal ''shell exited''] else [])"
      "prefix bs (shell_chunks ios)" "ts_out t \<and> \<not> ts_closed t \<longrightarrow> bs = shell_chunks ios"
    and rest: "prefix (ts_to_shell t) (typed_chunks ios)" "ts_in t \<and> \<not> ts_closed t \<longrightarrow> ts_to_shell t = typed_chunks ios"
      "ts_closed t \<longrightarrow> ts_cancelled t \<or> ts_exited t" "\<not> ts_out t \<or> \<not> ts_in t \<longrightarrow> ts_cancelled t"
    using assms by (auto simp: term_inv_def)
  note pre = prefix_order.trans [OF bs(2) prefixI [OF refl]] prefix_order.trans [OF rest(1) prefixI [OF refl]]
  show ?thesis
  proof (cases io)
    case (ShellChunk b ok)
    let ?bs = "if ts_closed t \<or> \<not> ts_out t \<or> \<not> ok then bs else bs @ [b]"
    show ?thesis unfolding term_inv_def
      by (intro conjI exI [of _ ?bs]) (use bs rest pre ShellChunk in \<open>auto simp: prefix_def\<close>)
  next
    case (BrowserBinary b ok)
    show ?thesis unfolding term_inv_def
      by (intro conjI exI [of _ bs]) (use bs rest pre BrowserBinary in \<open>auto simp: prefix_def\<close>)
  next
    case (BrowserText b)
    show ?thesis unfolding term_inv_def
      by (intro conjI exI [of _ bs]) (use bs rest BrowserText in \<open>auto split: option.splits\<close>)
  qed (unfold term_inv_def, (intro conjI exI [of _ bs], (use bs rest in auto))+)
qed

lemma term_run_inv: "term_inv ios (term_run uj ios)"
proof (induction ios rule: rev_induct)
  case Nil
  then show ?case by (simp add: term_run_def term_inv_def term_start_def shell_chunks_def typed_chunks_def)
next
  case (snoc io ios)
  then show ?case using term_inv_step by (simp add: term_run_def)
qed

text \<open>
  C37: A terminal neither loses, reorders nor invents bytes, however its goroutines
  interleave.  The browser has received the shell's output up to some point, in order, then
  at most the closing frame and nothing after it; the shell has received what was typed up
  to some point, in order, and never a control message; as long as a direction's pump runs,
  it is complete; and the session is only closed after one side ended.
\<close>

theorem terminal_pumps_faithful:
  "(\<exists>bs. ts_to_browser (term_run uj ios) = map Binary bs @ (if ts_closed (term_run uj ios) then [CloseNormal ''shell exited''] else [])
      \<and> prefix bs (shell_chunks ios) \<and> (\<not> ts_cancelled (term_run uj ios) \<and> \<not> ts_closed (term_run uj ios) \<longrightarrow> bs = shell_chunks ios))
   \<and> prefix (ts_to_shell (term_run uj ios)) (typed_chunks ios)
   \<and> (\<not> ts_cancelled (term_run uj ios) \<and> \<not> ts_closed (term_run uj ios) \<longrightarrow> ts_to_shell (term_run uj ios) = typed_chunks ios)
   \<and> (ts_closed (term_run uj ios) \<longrightarrow> ts_cancelled (term_run uj ios) \<or> ts_exited (term_run uj ios))"
  using term_run_inv [of ios uj] by (auto simp: term_inv_def)

theorem terminal_pumps_faithful_witness:
  "ts_to_shell (term_run (\<lambda>_. None) [BrowserBinary ''ls'' True, ShellChunk ''a'' True, BrowserText ''x'', BrowserBinary ''id'' True]) = [''ls'', ''id'']"
proof -
  let ?ios = "[BrowserBinary ''ls'' True, ShellChunk ''a'' True, BrowserText ''x'', BrowserBinary ''id'' True]"
  have "\<not> ts_cancelled (term_run (\<lambda>_. None) ?ios) \<and> \<not> ts_closed (term_run (\<lambda>_. None) ?ios)"
    by (simp add: term_run_def term_start_def)
  moreover have "typed_chunks ?ios = [''ls'', ''id'']" by (simp add: typed_chunks_def)
  ultimately show ?thesis using terminal_pumps_faithful [of "\<lambda>_. None" ?ios] by metis
qed

section \<open>What opening a session leaves behind\<close>

lemma SetReach_runs [simp]: "runs (snd (SetReach now i st e d)) = runs d"
  by (simp add: SetReach_def sql_exec_def split: option.splits)


definition shell_db :: db where
  "shell_db = empty_db\<lparr>machines := tbl_insert host_row tbl_empty,
     credentials := tbl_insert \<lparr>cr_id = 1, cr_name = ''k'', cr_kind = CredPassword, cr_sealed = [], cr_fingerprint = [], cr_created = 1\<rparr> tbl_empty\<rparr>"

lemma shell_db_row: "tbl_get (machines shell_db) 1 = Some host_row" "db_fail shell_db = (\<lambda>_. None)"
  by (simp_all add: shell_db_def empty_db_def tbl_get_def tbl_insert_def tbl_next_def tbl_empty_def)

lemma shell_db_inv: "db_inv shell_db"
  by (auto simp: db_inv_def inv_parts keys_unique_def shell_db_def empty_db_def tbl_get_def tbl_insert_def tbl_next_def tbl_empty_def
      tbl_inv_def ref_ok_def host_row_def inst_key_def)


text \<open>A line that does not fit the scanner ends the follow: it and all that comes after are not delivered.\<close>

lemma long_line_ends_follow:
  "CHR 0x0A \<notin> set l \<Longrightarrow> scan_limit \<le> length l \<Longrightarrow> scan_lines (l @ CHR 0x0A # rest) = []"
  by (auto simp: scan_lines_def raw_lines_def lines_of_def split_on_append_sep Let_def)

end
