(* ===== verification/Token_Adapters.thy ===== *)
theory Token_Adapters imports Provider begin

text \<open>
  The three adapters that hold one API token: \<^verbatim>\<open>internal/provider/hetzner\<close>,
  \<^verbatim>\<open>internal/provider/digitalocean\<close> and \<^verbatim>\<open>internal/provider/vultr\<close>.

  The vendor's SDK, or for Vultr the HTTP client and the JSON decoder, is a record of
  functions on a world \<open>'w\<close>: each call returns its result and the world after it.  The
  statuses and operations of an SDK are datatypes with its names for constructors, its
  structures are records of the members the code reads, an absent pointer is \<open>None\<close>.  Maps of
  labels are the list of their bindings in the order the loop meets them, which Go leaves open.

  A paged listing ends with the last page or with the first error.  Every caller gives the
  request a deadline of a minute, after which a call fails: \<open>budget\<close> is how many pages the
  vendor answers before that.
\<close>

definition no_instance :: CloudInstance where
  "no_instance = \<lparr>in_instance_id = [], in_name = [], in_region = [], in_instance_type = [],
     in_power_state = [], in_public_ip = [], in_private_ip = [], in_labels = []\<rparr>"

text \<open>A label as a tag: the key alone when the value is empty.\<close>

definition label_tag :: "string \<times> string \<Rightarrow> string" where
  "label_tag kv = (case kv of (k, v) \<Rightarrow> if v = [] then k else k @ '':'' @ v)"

definition deadline_exceeded :: go_err where
  "deadline_exceeded = Text ''context deadline exceeded''"

section \<open>Hetzner Cloud\<close>

definition hz_spec :: Spec where
  "hz_spec = \<lparr>sp_name = ''hetzner'', sp_label = ''Hetzner Cloud'',
     sp_form = [\<lparr>fd_name = ''token'', fd_label = ''API token'', fd_kind = FieldSecret, fd_optional = False, fd_hint = []\<rparr>],
     sp_notes = ''Cloud Console '' @ [CHR 0xE2, CHR 0x86, CHR 0x92] @ '' project '' @ [CHR 0xE2, CHR 0x86, CHR 0x92] @ '' Security '' @ [CHR 0xE2, CHR 0x86, CHR 0x92] @ '' API tokens. Read & Write is needed for power control; Read is enough for inventory only.''\<rparr>"

datatype hz_status =
    ServerStatusRunning | ServerStatusOff | ServerStatusStarting | ServerStatusStopping | ServerStatusInitializing
  | ServerStatusRebuilding | ServerStatusMigrating | ServerStatusOther string

record hz_server =
  hs_id :: int
  hs_name :: string
  hs_status :: hz_status
  hs_type :: "string option"
  hs_location :: "string option"
  hs_ipv4 :: "string option"
  hs_private :: "string option list"
  hs_labels :: "(string \<times> string) list"

datatype hz_op = Poweron | Shutdown | Reboot | Poweroff | Reset

record 'w hz_client =
  hz_all :: "'w \<Rightarrow> hz_server list result \<times> 'w"
  hz_get :: "int \<Rightarrow> 'w \<Rightarrow> hz_server option result \<times> 'w"
  hz_op_call :: "hz_op \<Rightarrow> int \<Rightarrow> 'w \<Rightarrow> int option result \<times> 'w"
  hz_wait :: "int \<Rightarrow> 'w \<Rightarrow> go_err option \<times> 'w"

fun hz_mapStatus :: "hz_status \<Rightarrow> string" where
  "hz_mapStatus ServerStatusRunning = PowerRunning"
| "hz_mapStatus ServerStatusOff = PowerStopped"
| "hz_mapStatus ServerStatusStarting = PowerPending"
| "hz_mapStatus ServerStatusStopping = PowerPending"
| "hz_mapStatus ServerStatusInitializing = PowerPending"
| "hz_mapStatus ServerStatusRebuilding = PowerPending"
| "hz_mapStatus ServerStatusMigrating = PowerPending"
| "hz_mapStatus (ServerStatusOther _) = PowerUnknown"

definition hz_toInstance :: "hz_server \<Rightarrow> CloudInstance" where
  "hz_toInstance s = no_instance\<lparr>in_instance_id := itoa (hs_id s), in_name := hs_name s,
     in_power_state := hz_mapStatus (hs_status s),
     in_instance_type := (case hs_type s of None \<Rightarrow> [] | Some t \<Rightarrow> t),
     in_region := (case hs_location s of None \<Rightarrow> [] | Some l \<Rightarrow> l),
     in_public_ip := (case hs_ipv4 s of None \<Rightarrow> [] | Some ip \<Rightarrow> ip),
     in_private_ip := (case hs_private s of Some ip # _ \<Rightarrow> ip | _ \<Rightarrow> []),
     in_labels := sort (map label_tag (hs_labels s))\<rparr>"

definition hz_parseID :: "string \<Rightarrow> int result" where
  "hz_parseID s = (case parse_int64 s of
     (i, True) \<Rightarrow> Inr i
   | (_, False) \<Rightarrow> Inl (Text (''hetzner: invalid instance id '' @ go_quote s)))"

definition hz_ListInstances :: "'w hz_client \<Rightarrow> 'w \<Rightarrow> CloudInstance list result \<times> 'w" where
  "hz_ListInstances h w =
     (case hz_all h w of
        (Inl e, w') \<Rightarrow> (Inl (Wrap ''hetzner: list servers: '' e []), w')
      | (Inr servers, w') \<Rightarrow> (Inr (map hz_toInstance servers), w'))"

definition hz_GetPowerState :: "'w hz_client \<Rightarrow> string \<Rightarrow> 'w \<Rightarrow> string result \<times> 'w" where
  "hz_GetPowerState h instanceID w =
     (case hz_parseID instanceID of
        Inl e \<Rightarrow> (Inl e, w)
      | Inr i \<Rightarrow>
          (case hz_get h i w of
             (Inl e, w') \<Rightarrow> (Inl (Wrap (''hetzner: get server '' @ itoa i @ '': '') e []), w')
           | (Inr None, w') \<Rightarrow> (Inl (Text (''hetzner: server '' @ itoa i @ '' not found'')), w')
           | (Inr (Some s), w') \<Rightarrow> (Inr (hz_mapStatus (hs_status s)), w')))"

definition hz_op_of :: "string \<Rightarrow> hz_op option" where
  "hz_op_of action =
     (if action = PowerStart then Some Poweron
      else if action = PowerStop then Some Shutdown
      else if action = PowerReboot then Some Reboot
      else if action = PowerForceStop then Some Poweroff
      else if action = PowerForceReboot then Some Reset
      else None)"

definition hz_Power :: "'w hz_client \<Rightarrow> string \<Rightarrow> string \<Rightarrow> 'w \<Rightarrow> go_err option \<times> 'w" where
  "hz_Power h instanceID action w =
     (case hz_parseID instanceID of
        Inl e \<Rightarrow> (Some e, w)
      | Inr i \<Rightarrow>
     (case hz_op_of action of
        None \<Rightarrow> (Some (Sentinel ErrUnsupportedAction), w)
      | Some op \<Rightarrow>
     (case hz_op_call h op i w of
        (Inl e, w') \<Rightarrow> (Some (Wrap (''hetzner: '' @ action @ '' server '' @ itoa i @ '': '') e []), w')
      | (Inr None, w') \<Rightarrow> (None, w')
      | (Inr (Some act), w') \<Rightarrow>
          (case hz_wait h act w' of
             (Some e, w'') \<Rightarrow> (Some (Wrap (''hetzner: '' @ action @ '' server '' @ itoa i @ '': '') e []), w'')
           | (None, w'') \<Rightarrow> (None, w'')))))"

definition hz_factory :: "(string \<Rightarrow> 'w hz_client) \<Rightarrow> Credentials \<Rightarrow> 'w Provider result" where
  "hz_factory NewClient c =
     (let h = NewClient (cd_token c) in
      Inr \<lparr>pv_name = ''hetzner'', pv_list = hz_ListInstances h, pv_state = hz_GetPowerState h, pv_power = hz_Power h\<rparr>)"

section \<open>DigitalOcean\<close>

definition do_spec :: Spec where
  "do_spec = \<lparr>sp_name = ''digitalocean'', sp_label = ''DigitalOcean'',
     sp_form = [\<lparr>fd_name = ''token'', fd_label = ''Personal access token'', fd_kind = FieldSecret, fd_optional = False, fd_hint = []\<rparr>],
     sp_notes = ''API '' @ [CHR 0xE2, CHR 0x86, CHR 0x92] @ '' Tokens '' @ [CHR 0xE2, CHR 0x86, CHR 0x92] @ '' Generate New Token. Scopes: droplet:read for inventory; droplet:update for power control (actions).''\<rparr>"

record do_network =
  dn_type :: string
  dn_ip :: string

record do_droplet =
  dd_id :: int
  dd_name :: string
  dd_size :: string
  dd_status :: string
  dd_tags :: "string list"
  dd_region :: "string option"
  dd_v4 :: "do_network list option"

record do_links =
  dl_last :: bool
  dl_current :: "int result"

datatype do_op = PowerOn | Do_Shutdown | Do_Reboot | PowerOff | PowerCycle

record 'w do_client =
  do_list :: "int \<Rightarrow> 'w \<Rightarrow> (do_droplet list \<times> do_links option) result \<times> 'w"
  do_get :: "int \<Rightarrow> 'w \<Rightarrow> do_droplet option result \<times> 'w"
  do_action :: "do_op \<Rightarrow> int \<Rightarrow> 'w \<Rightarrow> go_err option \<times> 'w"

definition do_mapStatus :: "string \<Rightarrow> string" where
  "do_mapStatus s =
     (if s = ''active'' then PowerRunning else if s = ''off'' then PowerStopped
      else if s = ''new'' then PowerPending else PowerUnknown)"

fun do_addresses :: "do_network list \<Rightarrow> CloudInstance \<Rightarrow> CloudInstance" where
  "do_addresses [] i = i"
| "do_addresses (n # ns) i = do_addresses ns
     (if dn_type n = ''public'' then (if in_public_ip i = [] then i\<lparr>in_public_ip := dn_ip n\<rparr> else i)
      else if dn_type n = ''private'' then (if in_private_ip i = [] then i\<lparr>in_private_ip := dn_ip n\<rparr> else i)
      else i)"

definition do_toInstance :: "do_droplet \<Rightarrow> CloudInstance" where
  "do_toInstance dr =
     (let i = no_instance\<lparr>in_instance_id := itoa (dd_id dr), in_name := dd_name dr, in_instance_type := dd_size dr,
                in_power_state := do_mapStatus (dd_status dr), in_labels := dd_tags dr,
                in_region := (case dd_region dr of None \<Rightarrow> [] | Some r \<Rightarrow> r)\<rparr>;
          i' = (case dd_v4 dr of None \<Rightarrow> i | Some ns \<Rightarrow> do_addresses ns i)
      in i'\<lparr>in_labels := sort (in_labels i')\<rparr>)"

definition do_parseID :: "string \<Rightarrow> int result" where
  "do_parseID s = (case parse_int64 s of
     (i, True) \<Rightarrow> Inr i
   | (_, False) \<Rightarrow> Inl (Text (''digitalocean: invalid droplet id '' @ go_quote s)))"

text \<open>The pages from \<open>page\<close> on; a page number past the largest \<^verbatim>\<open>int\<close> wraps around.\<close>

fun do_pages :: "'w do_client \<Rightarrow> nat \<Rightarrow> int \<Rightarrow> CloudInstance list \<Rightarrow> 'w \<Rightarrow> CloudInstance list result \<times> 'w" where
  "do_pages d 0 page out w = (Inl (Wrap ''digitalocean: list droplets: '' deadline_exceeded []), w)"
| "do_pages d (Suc budget) page out w =
     (case do_list d page w of
        (Inl e, w') \<Rightarrow> (Inl (Wrap ''digitalocean: list droplets: '' e []), w')
      | (Inr (droplets, links), w') \<Rightarrow>
          (let out' = out @ map do_toInstance droplets in
           case links of
             None \<Rightarrow> (Inr out', w')
           | Some l \<Rightarrow>
               if dl_last l then (Inr out', w')
               else (case dl_current l of
                   Inl e \<Rightarrow> (Inr out', w')
                 | Inr p \<Rightarrow> do_pages d budget (sint (word_of_int (p + 1) :: int64)) out' w')))"

definition do_ListInstances :: "'w do_client \<Rightarrow> nat \<Rightarrow> 'w \<Rightarrow> CloudInstance list result \<times> 'w" where
  "do_ListInstances d budget w = do_pages d budget 1 [] w"

definition do_GetPowerState :: "'w do_client \<Rightarrow> string \<Rightarrow> 'w \<Rightarrow> string result \<times> 'w" where
  "do_GetPowerState d instanceID w =
     (case do_parseID instanceID of
        Inl e \<Rightarrow> (Inl e, w)
      | Inr i \<Rightarrow>
          (case do_get d i w of
             (Inl e, w') \<Rightarrow> (Inl (Wrap (''digitalocean: get droplet '' @ itoa i @ '': '') e []), w')
           | (Inr None, w') \<Rightarrow> (Inl (Text (''digitalocean: droplet '' @ itoa i @ '' not found'')), w')
           | (Inr (Some dr), w') \<Rightarrow> (Inr (do_mapStatus (dd_status dr)), w')))"

definition do_op_of :: "string \<Rightarrow> do_op option" where
  "do_op_of action =
     (if action = PowerStart then Some PowerOn
      else if action = PowerStop then Some Do_Shutdown
      else if action = PowerReboot then Some Do_Reboot
      else if action = PowerForceStop then Some PowerOff
      else if action = PowerForceReboot then Some PowerCycle
      else None)"

definition do_Power :: "'w do_client \<Rightarrow> string \<Rightarrow> string \<Rightarrow> 'w \<Rightarrow> go_err option \<times> 'w" where
  "do_Power d instanceID action w =
     (case do_parseID instanceID of
        Inl e \<Rightarrow> (Some e, w)
      | Inr i \<Rightarrow>
     (case do_op_of action of
        None \<Rightarrow> (Some (Sentinel ErrUnsupportedAction), w)
      | Some op \<Rightarrow>
     (case do_action d op i w of
        (Some e, w') \<Rightarrow> (Some (Wrap (''digitalocean: '' @ action @ '' droplet '' @ itoa i @ '': '') e []), w')
      | (None, w') \<Rightarrow> (None, w'))))"

definition do_factory :: "(string \<Rightarrow> 'w do_client) \<Rightarrow> nat \<Rightarrow> Credentials \<Rightarrow> 'w Provider result" where
  "do_factory NewClient budget c =
     (let d = NewClient (cd_token c) in
      Inr \<lparr>pv_name = ''digitalocean'', pv_list = do_ListInstances d budget, pv_state = do_GetPowerState d, pv_power = do_Power d\<rparr>)"

section \<open>Vultr\<close>

definition vt_spec :: Spec where
  "vt_spec = \<lparr>sp_name = ''vultr'', sp_label = ''Vultr'',
     sp_form = [\<lparr>fd_name = ''token'', fd_label = ''API key'', fd_kind = FieldSecret, fd_optional = False, fd_hint = []\<rparr>],
     sp_notes = ''Account '' @ [CHR 0xE2, CHR 0x86, CHR 0x92] @ '' API '' @ [CHR 0xE2, CHR 0x86, CHR 0x92] @ '' enable the API and copy the personal access token. Read access lists instances; the token needs write for power control. Restrict the API to your IP if you can.''\<rparr>"

record vt_instance =
  vi_id :: string
  vi_label :: string
  vi_main_ip :: string
  vi_internal_ip :: string
  vi_region :: string
  vi_plan :: string
  vi_status :: string
  vi_power_status :: string
  vi_tags :: "string list"

record vt_page =
  vp_instances :: "vt_instance list"
  vp_next :: string

subsection \<open>Escaping in URLs\<close>

definition url_unreserved :: "char \<Rightarrow> bool" where
  "url_unreserved c \<longleftrightarrow>
     is_digit c \<or> c \<in> set ''-_.~'' \<or> (let l = ascii_lower c in CHR ''a'' \<le> l \<and> l \<le> CHR ''z'')"

definition upper_hex :: "nat \<Rightarrow> char" where
  "upper_hex n = (if n < 10 then char_of (48 + n) else char_of (55 + n))"

definition percent :: "char \<Rightarrow> string" where
  "percent c = [CHR ''%'', upper_hex (of_char c div 16), upper_hex (of_char c mod 16)]"

definition QueryEscape :: "string \<Rightarrow> string" where
  "QueryEscape s = concat (map (\<lambda>c. if url_unreserved c then [c] else if c = CHR '' '' then ''+'' else percent c) s)"

definition PathEscape :: "string \<Rightarrow> string" where
  "PathEscape s = concat (map (\<lambda>c. if url_unreserved c \<or> c \<in> set ''$&+:=@'' then [c] else percent c) s)"

subsection \<open>Requests\<close>

record http_reply =
  rp_code :: int
  rp_status :: string
  rp_body :: string

text \<open>
  \<open>vc_request\<close> is the error of \<^verbatim>\<open>http.NewRequestWithContext\<close> for a method and a URL, \<open>vc_http\<close>
  sends the request with its bearer token.
\<close>

record 'w vt_client =
  vc_token :: string
  vc_request :: "string \<Rightarrow> string \<Rightarrow> go_err option"
  vc_http :: "string \<Rightarrow> string \<Rightarrow> string \<Rightarrow> 'w \<Rightarrow> http_reply result \<times> 'w"

definition vt_base :: string where
  "vt_base = ''https://api.vultr.com/v2''"

text \<open>\<open>decode\<close> is the JSON decoder of the result wanted, if any.\<close>

definition vt_do :: "'w vt_client \<Rightarrow> string \<Rightarrow> string \<Rightarrow> (string \<Rightarrow> 'a result) \<Rightarrow> 'w \<Rightarrow> 'a result \<times> 'w" where
  "vt_do v method path decode w =
     (case vc_request v method (vt_base @ path) of
        Some e \<Rightarrow> (Inl e, w)
      | None \<Rightarrow>
          (case vc_http v method (vt_base @ path) (''Bearer '' @ vc_token v) w of
             (Inl e, w') \<Rightarrow> (Inl (Wrap (''vultr: '' @ method @ '' '' @ path @ '': '') e []), w')
           | (Inr rp, w') \<Rightarrow>
               if rp_code rp < 200 \<or> rp_code rp \<ge> 300
               then (Inl (Text (''vultr: '' @ method @ '' '' @ path @ '': '' @ rp_status rp @ '': '' @ rp_body rp)), w')
               else (decode (rp_body rp), w')))"

definition vt_mapStatus :: "vt_instance \<Rightarrow> string" where
  "vt_mapStatus i =
     (if vi_status i \<noteq> [] \<and> vi_status i \<noteq> ''active'' then PowerPending
      else if vi_power_status i = ''running'' then PowerRunning
      else if vi_power_status i = ''stopped'' then PowerStopped
      else PowerUnknown)"

definition vt_toInstance :: "vt_instance \<Rightarrow> CloudInstance" where
  "vt_toInstance i = no_instance\<lparr>in_instance_id := vi_id i, in_name := (if vi_label i = [] then vi_id i else vi_label i),
     in_region := vi_region i, in_instance_type := vi_plan i, in_private_ip := vi_internal_ip i,
     in_power_state := vt_mapStatus i,
     in_public_ip := (if vi_main_ip i \<noteq> [] \<and> vi_main_ip i \<noteq> ''0.0.0.0'' then vi_main_ip i else []),
     in_labels := sort (vi_tags i)\<rparr>"

definition vt_list_path :: "string \<Rightarrow> string" where
  "vt_list_path cursor = ''/instances?per_page=200'' @ (if cursor \<noteq> [] then ''&cursor='' @ QueryEscape cursor else [])"

fun vt_pages :: "'w vt_client \<Rightarrow> (string \<Rightarrow> vt_page result) \<Rightarrow> nat \<Rightarrow> string \<Rightarrow> CloudInstance list \<Rightarrow> 'w
    \<Rightarrow> CloudInstance list result \<times> 'w" where
  "vt_pages v decode 0 cursor out w = (Inl (Wrap (''vultr: GET '' @ vt_list_path cursor @ '': '') deadline_exceeded []), w)"
| "vt_pages v decode (Suc budget) cursor out w =
     (case vt_do v ''GET'' (vt_list_path cursor) decode w of
        (Inl e, w') \<Rightarrow> (Inl e, w')
      | (Inr page, w') \<Rightarrow>
          (let out' = out @ map vt_toInstance (vp_instances page) in
           if vp_next page = [] then (Inr out', w')
           else vt_pages v decode budget (vp_next page) out' w'))"

text \<open>
  \<open>by_name\<close> is \<^verbatim>\<open>sort.Slice\<close> on the names: it leaves the order of equal names open, so it is
  known by its laws only.
\<close>

locale name_sort =
  fixes by_name :: "CloudInstance list \<Rightarrow> CloudInstance list"
  assumes same_instances: "mset (by_name xs) = mset xs"
    and in_order: "sorted (map in_name (by_name xs))"
begin

lemma by_name_set: "set (by_name xs) = set xs"
  by (metis same_instances set_mset_mset)

lemma by_name_length: "length (by_name xs) = length xs"
  by (metis same_instances size_mset)

end

interpretation stable: name_sort "sort_key in_name"
  by unfold_locales simp_all

definition vt_ListInstances :: "'w vt_client \<Rightarrow> (CloudInstance list \<Rightarrow> CloudInstance list) \<Rightarrow> (string \<Rightarrow> vt_page result) \<Rightarrow> nat
    \<Rightarrow> 'w \<Rightarrow> CloudInstance list result \<times> 'w" where
  "vt_ListInstances v by_name decode budget w =
     (case vt_pages v decode budget [] [] w of
        (Inl e, w') \<Rightarrow> (Inl e, w')
      | (Inr out, w') \<Rightarrow> (Inr (by_name out), w'))"

definition vt_GetPowerState :: "'w vt_client \<Rightarrow> (string \<Rightarrow> vt_instance result) \<Rightarrow> string \<Rightarrow> 'w \<Rightarrow> string result \<times> 'w" where
  "vt_GetPowerState v decode instanceID w =
     (case vt_do v ''GET'' (''/instances/'' @ PathEscape instanceID) decode w of
        (Inl e, w') \<Rightarrow> (Inl e, w')
      | (Inr i, w') \<Rightarrow> (Inr (vt_mapStatus i), w'))"

definition vt_path_of :: "string \<Rightarrow> string \<Rightarrow> string option" where
  "vt_path_of i action =
     (if action = PowerStart then Some (''/instances/'' @ i @ ''/start'')
      else if action = PowerStop \<or> action = PowerForceStop then Some (''/instances/'' @ i @ ''/halt'')
      else if action = PowerReboot \<or> action = PowerForceReboot then Some (''/instances/'' @ i @ ''/reboot'')
      else None)"

definition vt_Power :: "'w vt_client \<Rightarrow> string \<Rightarrow> string \<Rightarrow> 'w \<Rightarrow> go_err option \<times> 'w" where
  "vt_Power v instanceID action w =
     (case vt_path_of (PathEscape instanceID) action of
        None \<Rightarrow> (Some (Sentinel ErrUnsupportedAction), w)
      | Some path \<Rightarrow>
          (case vt_do v ''POST'' path (\<lambda>_. Inr ()) w of
             (Inl e, w') \<Rightarrow> (Some e, w')
           | (Inr _, w') \<Rightarrow> (None, w')))"

definition vt_factory :: "(string \<Rightarrow> 'w vt_client) \<Rightarrow> (CloudInstance list \<Rightarrow> CloudInstance list) \<Rightarrow> (string \<Rightarrow> vt_page result)
    \<Rightarrow> (string \<Rightarrow> vt_instance result) \<Rightarrow> nat \<Rightarrow> Credentials \<Rightarrow> 'w Provider result" where
  "vt_factory client by_name decode_page decode_instance budget c =
     (if cd_token c = [] then Inl (Text ''vultr: empty API key'')
      else let v = client (cd_token c) in
        Inr \<lparr>pv_name = ''vultr'', pv_list = vt_ListInstances v by_name decode_page budget,
             pv_state = vt_GetPowerState v decode_instance, pv_power = vt_Power v\<rparr>)"

end
