(* ===== verification/Cloud_Adapters.thy ===== *)
theory Cloud_Adapters imports Token_Adapters begin

text \<open>
  The adapters of the three large clouds: \<^verbatim>\<open>internal/provider/amazon\<close>,
  \<^verbatim>\<open>internal/provider/google\<close> and \<^verbatim>\<open>internal/provider/azure\<close>, with their SDKs as records of
  functions on a world, as in \<^verbatim>\<open>Token_Adapters\<close>.  The SDKs list through pagers; \<open>drain\<close> is the loop
  all adapters run over one.  The workers that query the regions of AWS concurrently are an
  order of the regions, the one in which they append their instances.
\<close>

section \<open>Pagers\<close>

record ('p, 'a, 'w) pager =
  pg_start :: 'p
  pg_more :: "'p \<Rightarrow> bool"
  pg_next :: "'p \<Rightarrow> 'w \<Rightarrow> 'a result \<times> 'p \<times> 'w"

text \<open>The pages fetched, and the error that ended the loop early.\<close>

fun drain :: "('p, 'a, 'w) pager \<Rightarrow> nat \<Rightarrow> 'p \<Rightarrow> 'w \<Rightarrow> ('a list \<times> go_err option) \<times> 'w" where
  "drain pg 0 p w = (if pg_more pg p then ([], Some deadline_exceeded) else ([], None), w)"
| "drain pg (Suc budget) p w =
     (if pg_more pg p
      then (case pg_next pg p w of
          (Inl e, p', w') \<Rightarrow> (([], Some e), w')
        | (Inr page, p', w') \<Rightarrow> (case drain pg budget p' w' of ((pages, err), w'') \<Rightarrow> ((page # pages, err), w'')))
      else (([], None), w))"

section \<open>AWS EC2\<close>

definition aws_spec :: Spec where
  "aws_spec = \<lparr>sp_name = ''aws'', sp_label = ''AWS EC2'',
     sp_form = [\<lparr>fd_name = ''accessKeyId'', fd_label = ''Access key ID'', fd_kind = FieldText, fd_optional = False, fd_hint = []\<rparr>,
        \<lparr>fd_name = ''secretAccessKey'', fd_label = ''Secret access key'', fd_kind = FieldSecret, fd_optional = False, fd_hint = []\<rparr>,
        \<lparr>fd_name = ''regions'', fd_label = ''Regions'', fd_kind = FieldList, fd_optional = True, fd_hint = ''Comma-separated, e.g. eu-central-1, us-east-1. Leave empty to scan every region enabled on the account.''\<rparr>],
     sp_notes = ''Create an IAM user with only ec2:DescribeInstances, ec2:DescribeRegions, ec2:StartInstances, ec2:StopInstances, ec2:RebootInstances. CloudRoof never needs anything else.''\<rparr>"

datatype ec2_state =
    StatePending | StateRunning | StateShuttingDown | StateTerminated | StateStopping | StateStopped | StateOther string

record ec2_instance =
  ei_id :: "string option"
  ei_type :: string
  ei_public :: "string option"
  ei_private :: "string option"
  ei_state :: "ec2_state option"
  ei_zone :: "string option"
  ei_tags :: "(string option \<times> string option) list"

datatype ec2_op = StartInstances | StopInstances bool | RebootInstances

text \<open>\<open>ec_load\<close> is \<^verbatim>\<open>config.LoadDefaultConfig\<close> for a region, with the client made from it.\<close>

record ('c, 'p, 'w) ec2_sdk =
  ec_load :: "string \<Rightarrow> 'w \<Rightarrow> 'c result \<times> 'w"
  ec_regions :: "'c \<Rightarrow> 'w \<Rightarrow> string option list result \<times> 'w"
  ec_pager :: "'c \<Rightarrow> ('p, ec2_instance list list, 'w) pager"
  ec_describe :: "'c \<Rightarrow> string \<Rightarrow> 'w \<Rightarrow> ec2_instance list list result \<times> 'w"
  ec_op :: "'c \<Rightarrow> ec2_op \<Rightarrow> string \<Rightarrow> 'w \<Rightarrow> go_err option \<times> 'w"

text \<open>The clients built so far, by region, and the world.\<close>

type_synonym ('c, 'w) aws_world = "(string \<rightharpoonup> 'c) \<times> 'w"

abbreviation ToString :: "string option \<Rightarrow> string" where
  "ToString p \<equiv> (case p of None \<Rightarrow> [] | Some s \<Rightarrow> s)"

definition homeRegion :: string where "homeRegion = ''us-east-1''"

definition aws_client :: "('c, 'p, 'w) ec2_sdk \<Rightarrow> string \<Rightarrow> ('c, 'w) aws_world \<Rightarrow> 'c result \<times> ('c, 'w) aws_world" where
  "aws_client a region s =
     (case fst s region of
        Some c \<Rightarrow> (Inr c, s)
      | None \<Rightarrow>
          (case ec_load a region (snd s) of
             (Inl e, w') \<Rightarrow> (Inl (Wrap (''aws: config for '' @ region @ '': '') e []), (fst s, w'))
           | (Inr c, w') \<Rightarrow> (Inr c, ((fst s)(region \<mapsto> c), w'))))"

definition regionList :: "('c, 'p, 'w) ec2_sdk \<Rightarrow> string list \<Rightarrow> ('c, 'w) aws_world \<Rightarrow> string list result \<times> ('c, 'w) aws_world" where
  "regionList a regions s =
     (if regions \<noteq> [] then (Inr regions, s)
      else (case aws_client a homeRegion s of
          (Inl e, s') \<Rightarrow> (Inl e, s')
        | (Inr c, s') \<Rightarrow>
            (case ec_regions a c (snd s') of
               (Inl e, w') \<Rightarrow> (Inl (Wrap ''aws: describe regions: '' e []), (fst s', w'))
             | (Inr rs, w') \<Rightarrow> (Inr (sort (filter (\<lambda>n. n \<noteq> []) (map (\<lambda>r. ToString r) rs))), (fst s', w')))))"

fun mapState :: "ec2_state \<Rightarrow> string" where
  "mapState StateRunning = PowerRunning"
| "mapState StateStopped = PowerStopped"
| "mapState StatePending = PowerPending"
| "mapState StateStopping = PowerPending"
| "mapState StateShuttingDown = PowerPending"
| "mapState StateTerminated = PowerUnknown"
| "mapState (StateOther _) = PowerUnknown"

definition aws_tag :: "string option \<times> string option \<Rightarrow> CloudInstance \<Rightarrow> CloudInstance" where
  "aws_tag t ci =
     (let k = ToString (fst t); v = ToString (snd t) in
      if k = ''Name'' then (if v \<noteq> [] then ci\<lparr>in_name := v\<rparr> else ci)
      else if has_prefix k ''aws:'' then ci
      else if v = [] then ci\<lparr>in_labels := in_labels ci @ [k]\<rparr>
      else ci\<lparr>in_labels := in_labels ci @ [k @ '':'' @ v]\<rparr>)"

definition aws_toInstance :: "string \<Rightarrow> ec2_instance \<Rightarrow> CloudInstance" where
  "aws_toInstance region i =
     (let ci = no_instance\<lparr>in_instance_id := region @ '':'' @ ToString (ei_id i), in_name := ToString (ei_id i),
            in_region := (case ei_zone i of None \<Rightarrow> region | Some z \<Rightarrow> z), in_instance_type := ei_type i,
            in_public_ip := ToString (ei_public i), in_private_ip := ToString (ei_private i),
            in_power_state := (case ei_state i of None \<Rightarrow> PowerUnknown | Some st \<Rightarrow> mapState st)\<rparr>;
          ci' = fold aws_tag (ei_tags i) ci
      in ci'\<lparr>in_labels := sort (in_labels ci')\<rparr>)"

definition aws_page :: "string \<Rightarrow> ec2_instance list list \<Rightarrow> CloudInstance list" where
  "aws_page region reservations =
     map (aws_toInstance region) (filter (\<lambda>i. ei_state i \<noteq> Some StateTerminated) (concat reservations))"

definition listRegion :: "('c, 'p, 'w) ec2_sdk \<Rightarrow> nat \<Rightarrow> string \<Rightarrow> ('c, 'w) aws_world \<Rightarrow> CloudInstance list result \<times> ('c, 'w) aws_world" where
  "listRegion a budget region s =
     (case aws_client a region s of
        (Inl e, s') \<Rightarrow> (Inl e, s')
      | (Inr c, s') \<Rightarrow>
          (case drain (ec_pager a c) budget (pg_start (ec_pager a c)) (snd s') of
             ((pages, Some e), w') \<Rightarrow> (Inl (Wrap (''aws: describe instances in '' @ region @ '': '') e []), (fst s', w'))
           | ((pages, None), w') \<Rightarrow> (Inr (concat (map (aws_page region) pages)), (fst s', w'))))"

text \<open>One worker: its instances appended, or its error kept if it is the first.\<close>

definition aws_worker :: "('c, 'p, 'w) ec2_sdk \<Rightarrow> nat \<Rightarrow> string
    \<Rightarrow> (CloudInstance list \<times> go_err option) \<times> ('c, 'w) aws_world \<Rightarrow> (CloudInstance list \<times> go_err option) \<times> ('c, 'w) aws_world" where
  "aws_worker a budget region st =
     (let ((out, firstErr), s) = st in
      case listRegion a budget region s of
        (Inl e, s') \<Rightarrow> ((out, if firstErr = None then Some e else firstErr), s')
      | (Inr ins, s') \<Rightarrow> ((out @ ins, firstErr), s'))"

definition aws_ListInstances :: "('c, 'p, 'w) ec2_sdk \<Rightarrow> nat \<Rightarrow> (string list \<Rightarrow> string list) \<Rightarrow> (CloudInstance list \<Rightarrow> CloudInstance list)
    \<Rightarrow> string list \<Rightarrow> ('c, 'w) aws_world \<Rightarrow> CloudInstance list result \<times> ('c, 'w) aws_world" where
  "aws_ListInstances a budget order by_name regions s =
     (case regionList a regions s of
        (Inl e, s') \<Rightarrow> (Inl e, s')
      | (Inr rs, s') \<Rightarrow>
          (case fold (aws_worker a budget) (order rs) (([], None), s') of
             ((out, Some e), s'') \<Rightarrow> (Inl e, s'')
           | ((out, None), s'') \<Rightarrow> (Inr (by_name out), s'')))"

definition aws_split :: "string \<Rightarrow> (string \<times> string) result" where
  "aws_split instanceID =
     (case cut_on CHR '':'' instanceID of
        None \<Rightarrow> Inl (Text (''aws: invalid instance id '' @ go_quote instanceID @ '' (want region:i-'' @ [CHR 0xE2, CHR 0x80, CHR 0xA6] @ '')''))
      | Some (region, i) \<Rightarrow>
          if region = [] \<or> \<not> has_prefix i ''i-''
          then Inl (Text (''aws: invalid instance id '' @ go_quote instanceID @ '' (want region:i-'' @ [CHR 0xE2, CHR 0x80, CHR 0xA6] @ '')''))
          else Inr (region, i))"

definition aws_GetPowerState :: "('c, 'p, 'w) ec2_sdk \<Rightarrow> string \<Rightarrow> ('c, 'w) aws_world \<Rightarrow> string result \<times> ('c, 'w) aws_world" where
  "aws_GetPowerState a instanceID s =
     (case aws_split instanceID of
        Inl e \<Rightarrow> (Inl e, s)
      | Inr (region, i) \<Rightarrow>
     (case aws_client a region s of
        (Inl e, s') \<Rightarrow> (Inl e, s')
      | (Inr c, s') \<Rightarrow>
     (case ec_describe a c i (snd s') of
        (Inl e, w') \<Rightarrow> (Inl (Wrap (''aws: describe '' @ instanceID @ '': '') e []), (fst s', w'))
      | (Inr reservations, w') \<Rightarrow>
          (case List.map_filter ei_state (concat reservations) of
             st # _ \<Rightarrow> (Inr (mapState st), (fst s', w'))
           | [] \<Rightarrow> (Inl (Text (''aws: instance '' @ instanceID @ '' not found'')), (fst s', w'))))))"

definition ec2_op_of :: "string \<Rightarrow> ec2_op option" where
  "ec2_op_of action =
     (if action = PowerStart then Some StartInstances
      else if action = PowerStop then Some (StopInstances False)
      else if action = PowerForceStop then Some (StopInstances True)
      else if action = PowerReboot \<or> action = PowerForceReboot then Some RebootInstances
      else None)"

definition aws_Power :: "('c, 'p, 'w) ec2_sdk \<Rightarrow> string \<Rightarrow> string \<Rightarrow> ('c, 'w) aws_world \<Rightarrow> go_err option \<times> ('c, 'w) aws_world" where
  "aws_Power a instanceID action s =
     (case aws_split instanceID of
        Inl e \<Rightarrow> (Some e, s)
      | Inr (region, i) \<Rightarrow>
     (case aws_client a region s of
        (Inl e, s') \<Rightarrow> (Some e, s')
      | (Inr c, s') \<Rightarrow>
     (case ec2_op_of action of
        None \<Rightarrow> (Some (Sentinel ErrUnsupportedAction), s')
      | Some op \<Rightarrow>
     (case ec_op a c op i (snd s') of
        (Some e, w') \<Rightarrow> (Some (Wrap (''aws: '' @ action @ '' '' @ instanceID @ '': '') e []), (fst s', w'))
      | (None, w') \<Rightarrow> (None, (fst s', w'))))))"

text \<open>The configured regions, without blanks.\<close>

definition aws_regions :: "Credentials \<Rightarrow> string list" where
  "aws_regions c = filter (\<lambda>r. r \<noteq> []) (map trim_space (cd_regions c))"

text \<open>An adapter starts without clients, and lives for one request; its cache is dropped after each operation here.\<close>

definition aws_factory :: "(string \<Rightarrow> string \<Rightarrow> ('c, 'p, 'w) ec2_sdk) \<Rightarrow> nat \<Rightarrow> (string list \<Rightarrow> string list)
    \<Rightarrow> (CloudInstance list \<Rightarrow> CloudInstance list) \<Rightarrow> Credentials \<Rightarrow> 'w Provider result" where
  "aws_factory sdk budget order by_name c =
     (let a = sdk (cd_access_key_id c) (cd_secret_access_key c);
          rs = aws_regions c
      in Inr \<lparr>pv_name = ''aws'',
              pv_list = (\<lambda>w. case aws_ListInstances a budget order by_name rs (Map.empty, w) of (r, (_, w')) \<Rightarrow> (r, w')),
              pv_state = (\<lambda>i w. case aws_GetPowerState a i (Map.empty, w) of (r, (_, w')) \<Rightarrow> (r, w')),
              pv_power = (\<lambda>i action w. case aws_Power a i action (Map.empty, w) of (r, (_, w')) \<Rightarrow> (r, w'))\<rparr>)"

section \<open>Google Cloud\<close>

definition gcp_spec :: Spec where
  "gcp_spec = \<lparr>sp_name = ''gcp'', sp_label = ''Google Cloud'',
     sp_form = [\<lparr>fd_name = ''serviceAccountJson'', fd_label = ''Service account key (JSON)'', fd_kind = FieldTextarea, fd_optional = False, fd_hint = []\<rparr>,
        \<lparr>fd_name = ''projects'', fd_label = ''Projects'', fd_kind = FieldList, fd_optional = True, fd_hint = ''Comma-separated project IDs. Leave empty to use the project the key belongs to.''\<rparr>],
     sp_notes = ''IAM '' @ [CHR 0xE2, CHR 0x86, CHR 0x92] @ '' Service Accounts '' @ [CHR 0xE2, CHR 0x86, CHR 0x92] @ '' Keys '' @ [CHR 0xE2, CHR 0x86, CHR 0x92] @ '' add JSON key. Grant the Compute Viewer role for inventory, and Compute Instance Admin (v1) for start/stop.''\<rparr>"

record gce_instance =
  gi_name :: string
  gi_zone :: string
  gi_machine_type :: string
  gi_status :: string
  gi_nics :: "(string \<times> string list) list"
  gi_labels :: "(string \<times> string) list"

datatype gce_op = Gce_Start | Gce_Stop | Gce_Reset

text \<open>A page lists the instances of each scope; the scopes are a map, so in any order.\<close>

record ('c, 'p, 'w) gce_sdk =
  gs_new :: "string \<Rightarrow> 'w \<Rightarrow> 'c result \<times> 'w"
  gs_pager :: "'c \<Rightarrow> string \<Rightarrow> ('p, gce_instance list list, 'w) pager"
  gs_get :: "'c \<Rightarrow> string \<Rightarrow> string \<Rightarrow> string \<Rightarrow> 'w \<Rightarrow> gce_instance result \<times> 'w"
  gs_op :: "'c \<Rightarrow> gce_op \<Rightarrow> string \<Rightarrow> string \<Rightarrow> string \<Rightarrow> 'w \<Rightarrow> go_err option \<times> 'w"

definition trimAll :: "string list \<Rightarrow> string list" where
  "trimAll ss = filter (\<lambda>s. s \<noteq> []) (map trim_space ss)"

definition lastSeg :: "string \<Rightarrow> string" where
  "lastSeg url = (case cut_last CHR ''/'' url of None \<Rightarrow> url | Some (_, t) \<Rightarrow> t)"

definition gcp_mapStatus :: "string \<Rightarrow> string" where
  "gcp_mapStatus s =
     (if s = ''RUNNING'' then PowerRunning
      else if s \<in> {''TERMINATED'', ''STOPPED'', ''SUSPENDED''} then PowerStopped
      else if s \<in> {''PROVISIONING'', ''STAGING'', ''STOPPING'', ''SUSPENDING'', ''REPAIRING''} then PowerPending
      else PowerUnknown)"

definition gcp_nic :: "string \<times> string list \<Rightarrow> CloudInstance \<Rightarrow> CloudInstance" where
  "gcp_nic ni ci =
     (let ci' = (if in_private_ip ci = [] then ci\<lparr>in_private_ip := fst ni\<rparr> else ci)
      in fold (\<lambda>ip ci. if ip \<noteq> [] \<and> in_public_ip ci = [] then ci\<lparr>in_public_ip := ip\<rparr> else ci) (snd ni) ci')"

definition gcp_toInstance :: "string \<Rightarrow> gce_instance \<Rightarrow> CloudInstance" where
  "gcp_toInstance project i =
     (let ci = no_instance\<lparr>in_instance_id := project @ ''/'' @ lastSeg (gi_zone i) @ ''/'' @ gi_name i, in_name := gi_name i,
            in_region := lastSeg (gi_zone i), in_instance_type := lastSeg (gi_machine_type i),
            in_power_state := gcp_mapStatus (gi_status i)\<rparr>
      in (fold gcp_nic (gi_nics i) ci)\<lparr>in_labels := sort (map label_tag (gi_labels i))\<rparr>)"

definition gcp_id_error :: "string \<Rightarrow> go_err" where
  "gcp_id_error instanceID = Text (''gcp: invalid instance id '' @ go_quote instanceID @ '' (want project/zone/name)'')"

text \<open>\<^verbatim>\<open>strings.SplitN\<close> with a limit of 3.\<close>

definition gcp_split :: "string \<Rightarrow> (string \<times> string \<times> string) result" where
  "gcp_split instanceID =
     (case cut_on CHR ''/'' instanceID of
        None \<Rightarrow> Inl (gcp_id_error instanceID)
      | Some (project, rest) \<Rightarrow>
          (case cut_on CHR ''/'' rest of
             None \<Rightarrow> Inl (gcp_id_error instanceID)
           | Some (zone, name) \<Rightarrow>
               if project = [] \<or> zone = [] \<or> name = [] then Inl (gcp_id_error instanceID)
               else Inr (project, zone, name)))"

definition gcp_service :: "('c, 'p, 'w) gce_sdk \<Rightarrow> string \<Rightarrow> 'w \<Rightarrow> 'c result \<times> 'w" where
  "gcp_service g key w =
     (case gs_new g key w of (Inl e, w') \<Rightarrow> (Inl (Wrap ''gcp: build client: '' e []), w') | (Inr c, w') \<Rightarrow> (Inr c, w'))"

fun gcp_projects :: "('c, 'p, 'w) gce_sdk \<Rightarrow> 'c \<Rightarrow> nat \<Rightarrow> string list \<Rightarrow> CloudInstance list \<Rightarrow> 'w \<Rightarrow> CloudInstance list result \<times> 'w" where
  "gcp_projects g c budget [] out w = (Inr out, w)"
| "gcp_projects g c budget (project # ps) out w =
     (case drain (gs_pager g c project) budget (pg_start (gs_pager g c project)) w of
        ((pages, Some e), w') \<Rightarrow> (Inl (Wrap (''gcp: list instances in '' @ project @ '': '') e []), w')
      | ((pages, None), w') \<Rightarrow>
          gcp_projects g c budget ps (out @ map (gcp_toInstance project) (concat (concat pages))) w')"

definition gcp_ListInstances :: "('c, 'p, 'w) gce_sdk \<Rightarrow> nat \<Rightarrow> (CloudInstance list \<Rightarrow> CloudInstance list) \<Rightarrow> string \<Rightarrow> string list
    \<Rightarrow> 'w \<Rightarrow> CloudInstance list result \<times> 'w" where
  "gcp_ListInstances g budget by_name key projects w =
     (case gcp_service g key w of
        (Inl e, w') \<Rightarrow> (Inl e, w')
      | (Inr c, w') \<Rightarrow>
          (case gcp_projects g c budget projects [] w' of
             (Inl e, w'') \<Rightarrow> (Inl e, w'')
           | (Inr out, w'') \<Rightarrow> (Inr (by_name out), w'')))"

definition gcp_GetPowerState :: "('c, 'p, 'w) gce_sdk \<Rightarrow> string \<Rightarrow> string \<Rightarrow> 'w \<Rightarrow> string result \<times> 'w" where
  "gcp_GetPowerState g key instanceID w =
     (case gcp_split instanceID of
        Inl e \<Rightarrow> (Inl e, w)
      | Inr (project, zone, name) \<Rightarrow>
     (case gcp_service g key w of
        (Inl e, w') \<Rightarrow> (Inl e, w')
      | (Inr c, w') \<Rightarrow>
          (case gs_get g c project zone name w' of
             (Inl e, w'') \<Rightarrow> (Inl (Wrap (''gcp: get '' @ instanceID @ '': '') e []), w'')
           | (Inr i, w'') \<Rightarrow> (Inr (gcp_mapStatus (gi_status i)), w''))))"

definition gce_op_of :: "string \<Rightarrow> gce_op option" where
  "gce_op_of action =
     (if action = PowerStart then Some Gce_Start
      else if action = PowerStop \<or> action = PowerForceStop then Some Gce_Stop
      else if action = PowerReboot \<or> action = PowerForceReboot then Some Gce_Reset
      else None)"

definition gcp_Power :: "('c, 'p, 'w) gce_sdk \<Rightarrow> string \<Rightarrow> string \<Rightarrow> string \<Rightarrow> 'w \<Rightarrow> go_err option \<times> 'w" where
  "gcp_Power g key instanceID action w =
     (case gcp_split instanceID of
        Inl e \<Rightarrow> (Some e, w)
      | Inr (project, zone, name) \<Rightarrow>
     (case gcp_service g key w of
        (Inl e, w') \<Rightarrow> (Some e, w')
      | (Inr c, w') \<Rightarrow>
     (case gce_op_of action of
        None \<Rightarrow> (Some (Sentinel ErrUnsupportedAction), w')
      | Some op \<Rightarrow>
     (case gs_op g c op project zone name w' of
        (Some e, w'') \<Rightarrow> (Some (Wrap (''gcp: '' @ action @ '' '' @ instanceID @ '': '') e []), w'')
      | (None, w'') \<Rightarrow> (None, w'')))))"

text \<open>\<open>valid\<close> is \<^verbatim>\<open>json.Valid\<close>, \<open>project_id\<close> the member of that name of a key, or nothing.\<close>

definition gcp_factory :: "('c, 'p, 'w) gce_sdk \<Rightarrow> (string \<Rightarrow> bool) \<Rightarrow> (string \<Rightarrow> string) \<Rightarrow> nat
    \<Rightarrow> (CloudInstance list \<Rightarrow> CloudInstance list) \<Rightarrow> Credentials \<Rightarrow> 'w Provider result" where
  "gcp_factory g valid project_id budget by_name c =
     (let key = trim_space (cd_service_account c);
          make = (\<lambda>projects. \<lparr>pv_name = ''gcp'', pv_list = gcp_ListInstances g budget by_name key projects,
                   pv_state = gcp_GetPowerState g key, pv_power = gcp_Power g key\<rparr>)
      in if \<not> valid key then Inl (Text ''gcp: service account key is not valid JSON'')
         else if trimAll (cd_projects c) \<noteq> [] then Inr (make (trimAll (cd_projects c)))
         else if project_id key = [] then Inl (Text ''gcp: no projects given and the key has no project_id'')
         else Inr (make [project_id key]))"

section \<open>Azure\<close>

definition az_spec :: Spec where
  "az_spec = \<lparr>sp_name = ''azure'', sp_label = ''Azure'',
     sp_form = [\<lparr>fd_name = ''subscriptionId'', fd_label = ''Subscription ID'', fd_kind = FieldText, fd_optional = False, fd_hint = []\<rparr>,
        \<lparr>fd_name = ''tenantId'', fd_label = ''Tenant ID'', fd_kind = FieldText, fd_optional = False, fd_hint = []\<rparr>,
        \<lparr>fd_name = ''clientId'', fd_label = ''Client ID'', fd_kind = FieldText, fd_optional = False, fd_hint = []\<rparr>,
        \<lparr>fd_name = ''clientSecret'', fd_label = ''Client secret'', fd_kind = FieldSecret, fd_optional = False, fd_hint = []\<rparr>],
     sp_notes = ''Create an app registration (service principal) and grant it a role on the subscription: Reader for inventory + IPs, Virtual Machine Contributor for start/stop.''\<rparr>"

text \<open>
  A virtual machine of the compute SDK.  \<open>vm_view\<close>: the properties hold an instance view, with
  the codes of its statuses (a nil status or code is \<open>None\<close>).
\<close>

record az_vm =
  vm_id :: "string option"
  vm_name :: "string option"
  vm_location :: "string option"
  vm_size :: "string option"
  vm_view :: "string option list option"
  vm_tags :: "(string \<times> string option) list"

record az_ip =
  ip_id :: "string option"
  ip_address :: "string option"

text \<open>
  A network card: its id, the configurations among its properties (each with its private
  address and the id of its public one), and the id of its machine.
\<close>

record az_nic =
  nc_id :: "string option"
  nc_configs :: "(string option \<times> string option) option list option"
  nc_vm :: "string option"

datatype az_op = BeginStart | BeginPowerOff | BeginDeallocate | BeginRestart

record ('p, 'w) az_sdk =
  az_vms :: "('p, az_vm list, 'w) pager"
  az_ips :: "('p, az_ip list, 'w) pager"
  az_nics :: "('p, az_nic list, 'w) pager"
  az_get :: "string \<Rightarrow> string \<Rightarrow> 'w \<Rightarrow> az_vm result \<times> 'w"
  az_begin :: "az_op \<Rightarrow> string \<Rightarrow> string \<Rightarrow> 'w \<Rightarrow> go_err option \<times> 'w"

definition az_code :: "string \<Rightarrow> string option" where
  "az_code s =
     (if s = ''running'' then Some PowerRunning
      else if s = ''stopped'' \<or> s = ''deallocated'' then Some PowerStopped
      else if s = ''starting'' \<or> s = ''stopping'' \<or> s = ''deallocating'' then Some PowerPending
      else None)"

fun powerFromStatuses :: "string option list \<Rightarrow> string" where
  "powerFromStatuses [] = PowerUnknown"
| "powerFromStatuses (None # ss) = powerFromStatuses ss"
| "powerFromStatuses (Some code # ss) =
     (if \<not> has_prefix code ''PowerState/'' then powerFromStatuses ss
      else (case az_code (trim_prefix code ''PowerState/'') of Some st \<Rightarrow> st | None \<Rightarrow> powerFromStatuses ss))"

definition az_toInstance :: "az_vm \<Rightarrow> CloudInstance" where
  "az_toInstance vm = no_instance\<lparr>in_instance_id := ToString (vm_id vm), in_name := ToString (vm_name vm),
     in_region := ToString (vm_location vm), in_instance_type := ToString (vm_size vm),
     in_power_state := (case vm_view vm of None \<Rightarrow> PowerUnknown | Some ss \<Rightarrow> powerFromStatuses ss),
     in_labels := sort (map (\<lambda>(k, v). label_tag (k, ToString v)) (vm_tags vm))\<rparr>"

fun vmid_loop :: "string list \<Rightarrow> string \<times> string \<Rightarrow> string \<times> string" where
  "vmid_loop (p # q # ps) (rg, name) = vmid_loop (q # ps)
     (if to_lower p = ''resourcegroups'' then (q, name)
      else if to_lower p = ''virtualmachines'' then (rg, q) else (rg, name))"
| "vmid_loop _ st = st"

definition parseVMID :: "string \<Rightarrow> (string \<times> string) result" where
  "parseVMID i =
     (let (rg, name) = vmid_loop (split_on CHR ''/'' (trim_set [CHR ''/''] i)) ([], []) in
      if rg = [] \<or> name = [] then Inl (Text (''azure: cannot parse resource group / name from '' @ go_quote i))
      else Inr (rg, name))"

text \<open>The public addresses by the lower-case id of their resource.\<close>

definition pip_table :: "az_ip list \<Rightarrow> string \<Rightarrow> string" where
  "pip_table ips = fold (\<lambda>ip m. case (ip_id ip, ip_address ip) of (Some i, Some a) \<Rightarrow> m(to_lower i := a) | _ \<Rightarrow> m) ips (\<lambda>_. [])"

definition nic_config :: "(string \<Rightarrow> string) \<Rightarrow> (string option \<times> string option) option \<Rightarrow> string \<times> string \<Rightarrow> string \<times> string" where
  "nic_config pips cfg v =
     (case cfg of
        None \<Rightarrow> v
      | Some (addr, pub) \<Rightarrow>
          (let v' = (case addr of Some a \<Rightarrow> if fst v = [] then (a, snd v) else v | None \<Rightarrow> v) in
           case pub of
             None \<Rightarrow> v'
           | Some i \<Rightarrow> if pips (to_lower i) \<noteq> [] \<and> snd v' = [] then (fst v', pips (to_lower i)) else v'))"

text \<open>Private and public address of each card by the lower-case id of the card.\<close>

definition nic_table :: "(string \<Rightarrow> string) \<Rightarrow> az_nic list \<Rightarrow> string \<Rightarrow> string \<times> string" where
  "nic_table pips nics = fold (\<lambda>n m. case (nc_id n, nc_configs n) of
       (Some i, Some cfgs) \<Rightarrow> m(to_lower i := fold (nic_config pips) cfgs ([], [])) | _ \<Rightarrow> m) nics (\<lambda>_. ([], []))"

definition vm_table :: "(string \<Rightarrow> string \<times> string) \<Rightarrow> az_nic list \<Rightarrow> string \<rightharpoonup> string \<times> string" where
  "vm_table cards nics = fold (\<lambda>n m. case (nc_id n, nc_configs n, nc_vm n) of
       (Some i, Some _, Some vm) \<Rightarrow> m(to_lower vm \<mapsto> cards (to_lower i)) | _ \<Rightarrow> m) nics Map.empty"

definition join_ips :: "(string \<rightharpoonup> string \<times> string) \<Rightarrow> CloudInstance \<Rightarrow> CloudInstance" where
  "join_ips byVMID m =
     (case byVMID (to_lower (in_instance_id m)) of
        None \<Rightarrow> m | Some (priv, pub) \<Rightarrow> m\<lparr>in_private_ip := priv, in_public_ip := pub\<rparr>)"

definition enrichIPs :: "('p, 'w) az_sdk \<Rightarrow> nat \<Rightarrow> CloudInstance list \<Rightarrow> 'w \<Rightarrow> CloudInstance list \<times> 'w" where
  "enrichIPs a budget ms w =
     (case drain (az_ips a) budget (pg_start (az_ips a)) w of
        ((_, Some _), w1) \<Rightarrow> (ms, w1)
      | ((ips, None), w1) \<Rightarrow>
     (case drain (az_nics a) budget (pg_start (az_nics a)) w1 of
        ((_, Some _), w2) \<Rightarrow> (ms, w2)
      | ((nics, None), w2) \<Rightarrow>
     (case drain (az_nics a) budget (pg_start (az_nics a)) w2 of
        ((nics2, _), w3) \<Rightarrow>
          (map (join_ips (vm_table (nic_table (pip_table (concat ips)) (concat nics)) (concat nics2))) ms, w3))))"

definition az_ListInstances :: "('p, 'w) az_sdk \<Rightarrow> nat \<Rightarrow> (CloudInstance list \<Rightarrow> CloudInstance list) \<Rightarrow> 'w
    \<Rightarrow> CloudInstance list result \<times> 'w" where
  "az_ListInstances a budget by_name w =
     (case drain (az_vms a) budget (pg_start (az_vms a)) w of
        ((_, Some e), w') \<Rightarrow> (Inl (Wrap ''azure: list VMs: '' e []), w')
      | ((pages, None), w') \<Rightarrow>
          (case enrichIPs a budget (map az_toInstance (concat pages)) w' of (out, w'') \<Rightarrow> (Inr (by_name out), w'')))"

definition az_GetPowerState :: "('p, 'w) az_sdk \<Rightarrow> string \<Rightarrow> 'w \<Rightarrow> string result \<times> 'w" where
  "az_GetPowerState a instanceID w =
     (case parseVMID instanceID of
        Inl e \<Rightarrow> (Inl e, w)
      | Inr (rg, name) \<Rightarrow>
          (case az_get a rg name w of
             (Inl e, w') \<Rightarrow> (Inl (Wrap (''azure: get '' @ name @ '': '') e []), w')
           | (Inr vm, w') \<Rightarrow> (Inr (case vm_view vm of None \<Rightarrow> PowerUnknown | Some ss \<Rightarrow> powerFromStatuses ss), w')))"

definition az_op_of :: "string \<Rightarrow> az_op option" where
  "az_op_of action =
     (if action = PowerStart then Some BeginStart
      else if action = PowerStop then Some BeginPowerOff
      else if action = PowerForceStop then Some BeginDeallocate
      else if action = PowerReboot \<or> action = PowerForceReboot then Some BeginRestart
      else None)"

definition az_Power :: "('p, 'w) az_sdk \<Rightarrow> string \<Rightarrow> string \<Rightarrow> 'w \<Rightarrow> go_err option \<times> 'w" where
  "az_Power a instanceID action w =
     (case parseVMID instanceID of
        Inl e \<Rightarrow> (Some e, w)
      | Inr (rg, name) \<Rightarrow>
     (case az_op_of action of
        None \<Rightarrow> (Some (Sentinel ErrUnsupportedAction), w)
      | Some op \<Rightarrow>
     (case az_begin a op rg name w of
        (Some e, w') \<Rightarrow> (Some (Wrap (''azure: '' @ action @ '' '' @ name @ '': '') e []), w')
      | (None, w') \<Rightarrow> (None, w'))))"

text \<open>
  \<open>cred\<close>, \<open>vm\<close>, \<open>nic\<close> and \<open>pip\<close> are the SDK's constructors of the credential and of the three
  clients, which share one type of handles; \<open>sdk\<close> is what the adapter does with the clients.
\<close>

definition az_factory :: "(string \<Rightarrow> string \<Rightarrow> string \<Rightarrow> 'k result) \<Rightarrow> (string \<Rightarrow> 'k \<Rightarrow> 'h result) \<Rightarrow> (string \<Rightarrow> 'k \<Rightarrow> 'h result)
    \<Rightarrow> (string \<Rightarrow> 'k \<Rightarrow> 'h result) \<Rightarrow> ('h \<Rightarrow> 'h \<Rightarrow> 'h \<Rightarrow> ('p, 'w) az_sdk) \<Rightarrow> nat
    \<Rightarrow> (CloudInstance list \<Rightarrow> CloudInstance list) \<Rightarrow> Credentials \<Rightarrow> 'w Provider result" where
  "az_factory cred vm nic pip sdk budget by_name c =
     (if cd_subscription_id c = [] then Inl (Text ''azure: subscription ID is required'')
      else (case cred (cd_tenant_id c) (cd_client_id c) (cd_client_secret c) of
          Inl e \<Rightarrow> Inl (Wrap ''azure: credential: '' e [])
        | Inr k \<Rightarrow>
      (case vm (cd_subscription_id c) k of
          Inl e \<Rightarrow> Inl (Wrap ''azure: compute client: '' e [])
        | Inr v \<Rightarrow>
      (case nic (cd_subscription_id c) k of
          Inl e \<Rightarrow> Inl (Wrap ''azure: network client: '' e [])
        | Inr n \<Rightarrow>
      (case pip (cd_subscription_id c) k of
          Inl e \<Rightarrow> Inl (Wrap ''azure: public-ip client: '' e [])
        | Inr i \<Rightarrow>
            (let a = sdk v n i in
             Inr \<lparr>pv_name = ''azure'', pv_list = az_ListInstances a budget by_name,
                  pv_state = az_GetPowerState a, pv_power = az_Power a\<rparr>))))))"

end
