(* ===== verification/Adapter_Props.thy ===== *)
theory Adapter_Props imports Cloud_Adapters begin

text \<open>
  What the six cloud adapters guarantee to the sync and to power control: the id of every
  listed instance leads back to it, a listing is complete or an error, and a power action is
  one call on the instance it was asked for.
\<close>

section \<open>Instance ids\<close>

text \<open>
  An adapter writes the id of an instance when it lists it and takes it apart when it acts on
  it.  \<open>ok\<close> says which keys it writes.
\<close>

locale id_codec =
  fixes enc :: "'k \<Rightarrow> string" and dec :: "string \<Rightarrow> 'k result" and ok :: "'k \<Rightarrow> bool"
  assumes decodes: "ok k \<Longrightarrow> dec (enc k) = Inr k"
begin

lemma enc_eq_iff: "ok k \<Longrightarrow> ok l \<Longrightarrow> enc k = enc l \<longleftrightarrow> k = l"
  by (metis decodes sum.inject(2))

text \<open>The unique index on the instances of an account never rejects two listed instances.\<close>

lemma distinct_ids: "list_all ok ks \<Longrightarrow> distinct (map enc ks) \<longleftrightarrow> distinct ks"
  by (induction ks) (auto simp: list_all_iff enc_eq_iff)

end

definition int64_id :: "int \<Rightarrow> bool" where
  "int64_id i \<longleftrightarrow> min_int64 \<le> i \<and> i \<le> max_int64"

definition aws_enc :: "string \<times> string \<Rightarrow> string" where
  "aws_enc = (\<lambda>(region, i). region @ '':'' @ i)"

definition aws_ok :: "string \<times> string \<Rightarrow> bool" where
  "aws_ok = (\<lambda>(region, i). region \<noteq> [] \<and> CHR '':'' \<notin> set region \<and> has_prefix i ''i-'')"

definition gcp_enc :: "string \<times> string \<times> string \<Rightarrow> string" where
  "gcp_enc = (\<lambda>(project, zone, name). project @ ''/'' @ zone @ ''/'' @ name)"

definition gcp_ok :: "string \<times> string \<times> string \<Rightarrow> bool" where
  "gcp_ok = (\<lambda>(project, zone, name). project \<noteq> [] \<and> zone \<noteq> [] \<and> name \<noteq> []
     \<and> CHR ''/'' \<notin> set project \<and> CHR ''/'' \<notin> set zone)"

text \<open>The id Azure gives a machine of a resource group of a subscription.\<close>

definition arm_id :: "string \<Rightarrow> string \<times> string \<Rightarrow> string" where
  "arm_id sub = (\<lambda>(rg, name). ''/subscriptions/'' @ sub @ ''/resourceGroups/'' @ rg
     @ ''/providers/Microsoft.Compute/virtualMachines/'' @ name)"

definition segment :: "string \<Rightarrow> bool" where
  "segment s \<longleftrightarrow> s \<noteq> [] \<and> CHR ''/'' \<notin> set s"

lemma itoa_decodes: "int64_id i \<Longrightarrow> hz_parseID (itoa i) = Inr i \<and> do_parseID (itoa i) = Inr i"
  by (simp add: int64_id_def hz_parseID_def do_parseID_def parse_int64_itoa)

interpretation hz: id_codec itoa hz_parseID int64_id
  by unfold_locales (simp add: itoa_decodes)

interpretation dro: id_codec itoa do_parseID int64_id
  by unfold_locales (simp add: itoa_decodes)

interpretation aws: id_codec aws_enc aws_split aws_ok
  by unfold_locales (auto simp: aws_enc_def aws_ok_def aws_split_def cut_on_append simp del: has_prefix.simps)

interpretation gcp: id_codec gcp_enc gcp_split gcp_ok
  by unfold_locales (auto simp: gcp_enc_def gcp_ok_def gcp_split_def cut_on_append)

subsection \<open>Ids of Azure\<close>

lemma trim_leading:
  assumes "x \<noteq> []" and "hd x \<noteq> c" and "last x \<noteq> c"
  shows "trim_set [c] (c # x) = x"
proof -
  have "dropWhile (\<lambda>k. k = c) x = x" using assms(1,2) by (cases x) auto
  moreover have "dropWhile (\<lambda>k. k = c) (rev x) = rev x" using assms(1,3) by (cases x rule: rev_cases) auto
  ultimately show ?thesis by (simp add: trim_set_def)
qed

lemma arm_parts:
  assumes "segment sub" and "segment rg" and "segment name"
  shows "split_on CHR ''/'' (trim_set [CHR ''/''] (arm_id sub (rg, name)))
    = [''subscriptions'', sub, ''resourceGroups'', rg, ''providers'', ''Microsoft.Compute'', ''virtualMachines'', name]"
proof -
  let ?parts = "[''subscriptions'', sub, ''resourceGroups'', rg, ''providers'', ''Microsoft.Compute'', ''virtualMachines'', name]"
  have a: "arm_id sub (rg, name) = CHR ''/'' # join ''/'' ?parts" by (simp add: arm_id_def)
  have "last (join ''/'' ?parts) = last name" using assms(3) by (simp add: segment_def)
  moreover have "last name \<noteq> CHR ''/''" using assms(3) last_in_set [of name] unfolding segment_def by metis
  ultimately have "trim_set [CHR ''/''] (arm_id sub (rg, name)) = join ''/'' ?parts"
    unfolding a by (intro trim_leading) simp_all
  moreover have "split_on CHR ''/'' (join ''/'' ?parts) = ?parts"
    by (rule split_join) (use assms in \<open>simp_all add: segment_def\<close>)
  ultimately show ?thesis by simp
qed

lemma parseVMID_arm:
  assumes "segment sub" and "segment rg" and "segment name"
  shows "parseVMID (arm_id sub (rg, name)) = Inr (if to_lower rg = ''resourcegroups'' then ''providers'' else rg, name)"
proof -
  have l: "to_lower ''subscriptions'' = ''subscriptions''" "to_lower ''resourceGroups'' = ''resourcegroups''"
    "to_lower ''providers'' = ''providers''" "to_lower ''Microsoft.Compute'' = ''microsoft.compute''"
    "to_lower ''virtualMachines'' = ''virtualmachines''"
    by code_simp+
  have "rg \<noteq> []" "name \<noteq> []" using assms by (simp_all add: segment_def)
  then show ?thesis unfolding parseVMID_def arm_parts [OF assms]
    by (cases "to_lower sub = ''resourcegroups''"; cases "to_lower sub = ''virtualmachines''";
        cases "to_lower rg = ''resourcegroups''"; cases "to_lower rg = ''virtualmachines''")
      (simp_all add: l del: to_lower.simps)
qed

definition az_ok :: "string \<times> string \<Rightarrow> bool" where
  "az_ok = (\<lambda>(rg, name). segment rg \<and> segment name \<and> to_lower rg \<noteq> ''resourcegroups'')"

text \<open>In each subscription, the groups and names of machines.\<close>

lemma az_codec: "segment sub \<Longrightarrow> id_codec (arm_id sub) parseVMID az_ok"
  by unfold_locales (auto simp: az_ok_def parseVMID_arm)



section \<open>Listings\<close>

lemma do_pages_rest:
  assumes api: "\<And>k. k < n \<Longrightarrow> do_list d (int k + 1) w
      = (Inr (ps ! k, Some \<lparr>dl_last = (k + 1 = n), dl_current = Inr (int k + 1)\<rparr>), w)"
    and n: "length ps = n" "int n < max_int64" and k: "k < n"
  shows "do_pages d budget (int k + 1) out w =
     (if n \<le> k + budget then Inr (out @ map do_toInstance (concat (drop k ps)))
      else Inl (Wrap ''digitalocean: list droplets: '' deadline_exceeded []), w)"
  using k
proof (induction budget arbitrary: k out)
  case (Suc budget)
  have drop: "drop k ps = ps ! k # drop (k + 1) ps" using Suc.prems n by (simp add: Cons_nth_drop_Suc)
  show ?case
  proof (cases "k + 1 = n")
    case True
    then have "drop (k + 1) ps = []" using n by simp
    then show ?thesis using True api [OF Suc.prems] by (simp add: drop Let_def)
  next
    case False
    then have k1: "k + 1 < n" using Suc.prems by simp
    have "sint (word_of_int (int k + 1 + 1) :: int64) = int (k + 1) + 1"
      using k1 n by (subst sint_of_int64) (simp_all add: min_int64_def max_int64_def)
    then show ?thesis using Suc.IH [OF k1, of "out @ map do_toInstance (ps ! k)"] False api [OF Suc.prems]
      by (simp add: drop Let_def del: drop_Suc_Cons)
  qed
qed simp

lemma vt_pages_rest:
  assumes api: "\<And>k. k < n \<Longrightarrow> vt_do v ''GET'' (vt_list_path (cs ! k)) decode w
      = (Inr \<lparr>vp_instances = ps ! k, vp_next = (if k + 1 = n then [] else cs ! (k + 1))\<rparr>, w)"
    and n: "length ps = n" and chain: "\<And>k. k < n \<Longrightarrow> 0 < k \<Longrightarrow> cs ! k \<noteq> []" and k: "k < n"
  shows "vt_pages v decode budget (cs ! k) out w =
     (if n \<le> k + budget then Inr (out @ map vt_toInstance (concat (drop k ps)))
      else Inl (Wrap (''vultr: GET '' @ vt_list_path (cs ! (k + budget)) @ '': '') deadline_exceeded []), w)"
  using k
proof (induction budget arbitrary: k out)
  case (Suc budget)
  have drop: "drop k ps = ps ! k # drop (k + 1) ps" using Suc.prems n by (simp add: Cons_nth_drop_Suc)
  show ?case
  proof (cases "k + 1 = n")
    case True
    then have "drop (k + 1) ps = []" using n by simp
    then show ?thesis using True api [OF Suc.prems] by (simp add: drop Let_def)
  next
    case False
    then have k1: "k + 1 < n" using Suc.prems by simp
    show ?thesis using Suc.IH [OF k1, of "out @ map vt_toInstance (ps ! k)"] False api [OF Suc.prems] chain [OF k1]
      by (simp add: drop Let_def)
  qed
qed simp

text \<open>
  C33: A paged listing ends, and ends with everything or with an error.  When DigitalOcean
  answers \<open>n\<close> pages numbered from 1, and Vultr a chain of \<open>n\<close> pages linked by cursors, the loop
  asks for each page once, in order, and returns the instances of all pages when the deadline
  leaves time for \<open>n\<close> answers; otherwise it returns the error of the deadline and no
  instances.
\<close>

theorem paged_listings_end:
  assumes pages: "0 < n" "length ps = n" "int n < max_int64"
    and do_api: "\<And>k. k < n \<Longrightarrow> do_list d (int k + 1) w
      = (Inr (ps ! k, Some \<lparr>dl_last = (k + 1 = n), dl_current = Inr (int k + 1)\<rparr>), w)"
    and vt_api: "\<And>k. k < n \<Longrightarrow> vt_do v ''GET'' (vt_list_path (cs ! k)) decode w
      = (Inr \<lparr>vp_instances = qs ! k, vp_next = (if k + 1 = n then [] else cs ! (k + 1))\<rparr>, w)"
    and cursors: "length qs = n" "cs ! 0 = []" "\<And>k. k < n \<Longrightarrow> 0 < k \<Longrightarrow> cs ! k \<noteq> []"
  shows "do_ListInstances d budget w =
      (if n \<le> budget then Inr (map do_toInstance (concat ps))
       else Inl (Wrap ''digitalocean: list droplets: '' deadline_exceeded []), w)
    \<and> fst (vt_ListInstances v by_name decode budget w) =
      (if n \<le> budget then Inr (by_name (map vt_toInstance (concat qs)))
       else Inl (Wrap (''vultr: GET '' @ vt_list_path (cs ! budget) @ '': '') deadline_exceeded []))"
proof
  show "do_ListInstances d budget w =
      (if n \<le> budget then Inr (map do_toInstance (concat ps))
       else Inl (Wrap ''digitalocean: list droplets: '' deadline_exceeded []), w)"
    using do_pages_rest [where k = 0, OF do_api pages(2,3,1)] by (simp add: do_ListInstances_def)
  show "fst (vt_ListInstances v by_name decode budget w) =
      (if n \<le> budget then Inr (by_name (map vt_toInstance (concat qs)))
       else Inl (Wrap (''vultr: GET '' @ vt_list_path (cs ! budget) @ '': '') deadline_exceeded []))"
    using vt_pages_rest [where k = 0, OF vt_api cursors(1,3) pages(1)] by (simp add: vt_ListInstances_def cursors(2))
qed

definition demo_droplet :: "int \<Rightarrow> do_droplet" where
  "demo_droplet i = \<lparr>dd_id = i, dd_name = ''d'', dd_size = [], dd_status = ''active'', dd_tags = [], dd_region = None, dd_v4 = None\<rparr>"

definition demo_do :: "unit do_client" where
  "demo_do = \<lparr>do_list = (\<lambda>p w. (Inr ([demo_droplet p], Some \<lparr>dl_last = (p = 2), dl_current = Inr p\<rparr>), w)),
     do_get = (\<lambda>i w. (Inr None, w)), do_action = (\<lambda>a i w. (None, w))\<rparr>"

definition demo_vt_instance :: vt_instance where
  "demo_vt_instance = \<lparr>vi_id = ''v'', vi_label = [], vi_main_ip = [], vi_internal_ip = [], vi_region = [], vi_plan = [],
     vi_status = [], vi_power_status = [], vi_tags = []\<rparr>"

definition demo_vt :: "unit vt_client" where
  "demo_vt = \<lparr>vc_token = ''t'', vc_request = (\<lambda>m u. None), vc_http = (\<lambda>m u t w. (Inr \<lparr>rp_code = 200, rp_status = [], rp_body = u\<rparr>, w))\<rparr>"

definition demo_decode :: "string \<Rightarrow> vt_page result" where
  "demo_decode u = Inr \<lparr>vp_instances = [demo_vt_instance], vp_next = (if u = vt_base @ vt_list_path [] then ''c'' else [])\<rparr>"

theorem paged_listings_end_witness:
  "do_ListInstances demo_do 2 () = (Inr (map do_toInstance [demo_droplet 1, demo_droplet 2]), ())
   \<and> fst (vt_ListInstances demo_vt (sort_key in_name) demo_decode 1 ())
      = Inl (Wrap (''vultr: GET '' @ vt_list_path ''c'' @ '': '') deadline_exceeded [])"
proof -
  have p: "vt_list_path ''c'' \<noteq> vt_list_path []" by (simp add: vt_list_path_def QueryEscape_def url_unreserved_def)
  have d: "do_list demo_do (int k + 1) ()
      = (Inr ([[demo_droplet 1], [demo_droplet 2]] ! k, Some \<lparr>dl_last = (k + 1 = 2), dl_current = Inr (int k + 1)\<rparr>), ())"
    if "k < 2" for k using less_2_cases [OF that] by (auto simp: demo_do_def)
  have v: "vt_do demo_vt ''GET'' (vt_list_path ([[], ''c''] ! k)) demo_decode ()
      = (Inr \<lparr>vp_instances = [[demo_vt_instance], [demo_vt_instance]] ! k, vp_next = (if k + 1 = 2 then [] else [[], ''c''] ! (k + 1))\<rparr>, ())"
    if "k < 2" for k using less_2_cases [OF that] p by (auto simp: vt_do_def demo_vt_def demo_decode_def)
  have c: "[[], ''c''] ! k \<noteq> []" if "k < 2" "0 < k" for k using less_2_cases [OF that(1)] that(2) by auto
  note e = paged_listings_end [where n = 2 and ps = "[[demo_droplet 1], [demo_droplet 2]]" and cs = "[[], ''c'']"
      and qs = "[[demo_vt_instance], [demo_vt_instance]]", OF _ _ _ d v _ _ c]
  show ?thesis using e [where budget = 2] e [where budget = 1 and by_name = "sort_key in_name"] by (simp add: max_int64_def)
qed

subsection \<open>Regions of AWS\<close>

definition found :: "CloudInstance list result \<Rightarrow> CloudInstance list" where
  "found r = (case r of Inl e \<Rightarrow> [] | Inr ins \<Rightarrow> ins)"

fun first_error :: "'a result list \<Rightarrow> go_err option" where
  "first_error [] = None"
| "first_error (Inl e # rs) = Some e"
| "first_error (Inr x # rs) = first_error rs"

lemma first_error_None: "first_error rs = None \<longleftrightarrow> (\<forall>r \<in> set rs. \<exists>x. r = Inr x)"
  by (induction rs rule: first_error.induct) auto

lemma first_error_Some: "first_error rs = Some e \<Longrightarrow> Inl e \<in> set rs"
  by (induction rs rule: first_error.induct) auto

text \<open>What a region answers: the client its configuration gives, and that client's pages.\<close>

definition region_answer :: "(string \<Rightarrow> 'c result) \<Rightarrow> ('c \<Rightarrow> ec2_instance list list list \<times> go_err option) \<Rightarrow> string
    \<Rightarrow> CloudInstance list result" where
  "region_answer loaded pages r =
     (case loaded r of
        Inl e \<Rightarrow> Inl (Wrap (''aws: config for '' @ r @ '': '') e [])
      | Inr x \<Rightarrow>
          (case pages x of
             (ps, Some e) \<Rightarrow> Inl (Wrap (''aws: describe instances in '' @ r @ '': '') e [])
           | (ps, None) \<Rightarrow> Inr (concat (map (aws_page r) ps))))"

definition cache_ok :: "(string \<Rightarrow> 'c result) \<Rightarrow> (string \<rightharpoonup> 'c) \<Rightarrow> bool" where
  "cache_ok loaded c \<longleftrightarrow> (\<forall>r x. c r = Some x \<longrightarrow> loaded r = Inr x)"

lemma listRegion_answer:
  assumes "\<And>r. ec_load a r w = (loaded r, w)" and "\<And>x. drain (ec_pager a x) budget (pg_start (ec_pager a x)) w = (pages x, w)"
    and "cache_ok loaded c"
  shows "\<exists>c'. cache_ok loaded c' \<and> listRegion a budget r (c, w) = (region_answer loaded pages r, (c', w))"
proof (cases "c r")
  case (Some x)
  then have "loaded r = Inr x" using assms(3) by (simp add: cache_ok_def)
  then show ?thesis using Some assms
    by (auto simp: listRegion_def aws_client_def region_answer_def split: prod.splits option.splits)
next
  case None
  then show ?thesis
  proof (cases "loaded r")
    case (Inr x)
    have "cache_ok loaded (c(r \<mapsto> x))" using assms(3) Inr by (simp add: cache_ok_def)
    then show ?thesis using None Inr assms
      by (auto simp: listRegion_def aws_client_def region_answer_def split: prod.splits option.splits)
  qed (use assms in \<open>auto simp: listRegion_def aws_client_def region_answer_def\<close>)
qed

lemma aws_workers:
  assumes answers: "\<And>r c. ok c \<Longrightarrow> \<exists>c'. ok c' \<and> listRegion a budget r (c, w) = (res r, (c', w))" and "ok c"
  shows "\<exists>c'. fold (aws_worker a budget) rs ((out, err), (c, w))
    = ((out @ concat (map (\<lambda>r. found (res r)) rs), if err = None then first_error (map res rs) else err), (c', w))"
  using assms(2)
proof (induction rs arbitrary: out err c)
  case (Cons r rs)
  obtain c1 where c1: "ok c1" "listRegion a budget r (c, w) = (res r, (c1, w))" using answers [OF Cons.prems] by blast
  show ?case
  proof (cases "res r")
    case (Inl e)
    define e' where "e' = (if err = None then e else the err)"
    have s: "aws_worker a budget r ((out, err), (c, w)) = ((out, Some e'), (c1, w))"
      using c1 Inl by (simp add: aws_worker_def e'_def)
    have "(if err = None then first_error (map res (r # rs)) else err) = Some e'" using Inl by (simp add: e'_def)
    then show ?thesis using Cons.IH [OF c1(1), of out "Some e'"] Inl by (simp add: s found_def del: map_eq_Cons_conv)
  next
    case (Inr ins)
    have s: "aws_worker a budget r ((out, err), (c, w)) = ((out @ ins, err), (c1, w))"
      using c1 Inr by (simp add: aws_worker_def)
    show ?thesis using Cons.IH [OF c1(1), of "out @ ins" err] Inr by (simp add: s found_def cong: if_cong split del: if_split)
  qed
qed simp

text \<open>
  C31: An inventory of AWS is complete or an error, whatever order the workers of the regions
  finish in: with all regions answered, the list has exactly the instances of all of them, in
  order of their names; with any region failed, the result is the error of a region that
  failed, and no list.  So a sync never takes the machines of a region that could not be
  asked for vanished.
\<close>

theorem aws_listing_all_or_nothing:
  assumes regions: "regionList a configured s = (Inr rs, (c, w))" and cache: "cache_ok loaded c"
    and workers: "mset (order rs) = mset rs"
    and load: "\<And>r. ec_load a r w = (loaded r, w)"
    and pages: "\<And>x. drain (ec_pager a x) budget (pg_start (ec_pager a x)) w = (pages x, w)"
    and sorts: "name_sort by_name"
  shows "case fst (aws_ListInstances a budget order by_name configured s) of
      Inl e \<Rightarrow> (\<exists>r \<in> set rs. region_answer loaded pages r = Inl e)
    | Inr out \<Rightarrow> (\<forall>r \<in> set rs. region_answer loaded pages r = Inr (found (region_answer loaded pages r)))
        \<and> mset out = (\<Sum>r \<leftarrow> rs. mset (found (region_answer loaded pages r))) \<and> sorted (map in_name out)"
proof -
  have same: "mset (by_name xs) = mset xs" "sorted (map in_name (by_name xs))" for xs
    using sorts by (simp_all add: name_sort_def)
  let ?res = "region_answer loaded pages"
  have set: "set (order rs) = set rs" using workers by (metis set_mset_mset)
  obtain c' where f: "fold (aws_worker a budget) (order rs) (([], None), (c, w))
      = ((concat (map (\<lambda>r. found (?res r)) (order rs)), first_error (map ?res (order rs))), (c', w))"
    using aws_workers [where ok = "cache_ok loaded" and res = ?res and out = "[]" and err = None and rs = "order rs",
        OF listRegion_answer [OF load pages] cache] by auto
  show ?thesis
  proof (cases "first_error (map ?res (order rs))")
    case None
    have ok: "\<forall>r \<in> set rs. ?res r = Inr (found (?res r))"
      using None set by (auto simp: first_error_None found_def)
    have "mset (concat (map (\<lambda>r. found (?res r)) (order rs))) = (\<Sum>r \<leftarrow> order rs. mset (found (?res r)))"
      by (simp add: mset_concat comp_def)
    also have "\<dots> = (\<Sum>r \<leftarrow> rs. mset (found (?res r)))"
      using workers by (metis (no_types) mset_map sum_mset_sum_list)
    finally show ?thesis using None regions f same ok by (simp add: aws_ListInstances_def)
  next
    case (Some e)
    then have "\<exists>r \<in> set rs. ?res r = Inl e" using first_error_Some [OF Some] set by force
    then show ?thesis using Some regions f by (simp add: aws_ListInstances_def)
  qed
qed

definition list_pager :: "'a list \<Rightarrow> ('a list, 'a, 'w) pager" where
  "list_pager ps = \<lparr>pg_start = ps, pg_more = (\<lambda>p. p \<noteq> []), pg_next = (\<lambda>p w. (Inr (hd p), tl p, w))\<rparr>"

lemma drain_list_pager: "length qs \<le> budget \<Longrightarrow> drain (list_pager ps) budget qs w = ((qs, None), w)"
  by (induction budget arbitrary: qs) (auto simp: list_pager_def)

definition demo_ec2 :: "string \<Rightarrow> ec2_state \<Rightarrow> ec2_instance" where
  "demo_ec2 i st = \<lparr>ei_id = Some i, ei_type = [], ei_public = None, ei_private = None, ei_state = Some st, ei_zone = None, ei_tags = []\<rparr>"

definition demo_region_pages :: "string \<Rightarrow> ec2_instance list list list" where
  "demo_region_pages r = [[[demo_ec2 ''i-1'' StateRunning, demo_ec2 ''i-2'' StateTerminated]]]"

definition demo_aws :: "(string, ec2_instance list list list, unit) ec2_sdk" where
  "demo_aws = \<lparr>ec_load = (\<lambda>r w. (Inr r, w)), ec_regions = (\<lambda>c w. (Inr [], w)), ec_pager = (\<lambda>c. list_pager (demo_region_pages c)),
     ec_describe = (\<lambda>c i w. (Inr [], w)), ec_op = (\<lambda>c a i w. (None, w))\<rparr>"

theorem aws_listing_all_or_nothing_witness:
  "case fst (aws_ListInstances demo_aws 1 rev (sort_key in_name) [''eu'', ''us''] (Map.empty, ())) of
      Inl e \<Rightarrow> False
    | Inr out \<Rightarrow> mset (map in_instance_id out) = {#''eu:i-1'', ''us:i-1''#}"
proof -
  let ?loaded = "\<lambda>r. Inr r :: string result" and ?pages = "\<lambda>x. (demo_region_pages x, None :: go_err option)"
  have r: "regionList demo_aws [''eu'', ''us''] (Map.empty, ()) = (Inr [''eu'', ''us''], (Map.empty, ()))"
    by (simp add: regionList_def)
  have c: "cache_ok ?loaded Map.empty" by (simp add: cache_ok_def)
  have l: "ec_load demo_aws r () = (?loaded r, ())" for r by (simp add: demo_aws_def)
  have p: "drain (ec_pager demo_aws x) 1 (pg_start (ec_pager demo_aws x)) () = (?pages x, ())" for x
    using drain_list_pager [of "demo_region_pages x" 1] by (simp add: demo_aws_def list_pager_def demo_region_pages_def)
  have a: "region_answer ?loaded ?pages r = Inr [aws_toInstance r (demo_ec2 ''i-1'' StateRunning)]" for r
    by (simp add: region_answer_def demo_region_pages_def aws_page_def demo_ec2_def)
  have i: "in_instance_id (aws_toInstance r (demo_ec2 ''i-1'' StateRunning)) = r @ '':i-1''" for r
    by (simp add: aws_toInstance_def demo_ec2_def Let_def)
  show ?thesis
    using aws_listing_all_or_nothing [OF r c _ l p stable.name_sort_axioms, of rev]
    by (cases "fst (aws_ListInstances demo_aws 1 rev (sort_key in_name) [''eu'', ''us''] (Map.empty, ()))")
      (simp_all add: a i found_def)
qed

section \<open>Power\<close>

text \<open>
  Every adapter supports exactly the actions that are valid, with one operation of the vendor
  each; Vultr and Google stop and reboot in one way only, Azure and EC2 reboot in one way.
\<close>

lemma adapters_support_valid:
  "hz_op_of a \<noteq> None \<longleftrightarrow> Valid a" "do_op_of a \<noteq> None \<longleftrightarrow> Valid a" "vt_path_of i a \<noteq> None \<longleftrightarrow> Valid a"
  "ec2_op_of a \<noteq> None \<longleftrightarrow> Valid a" "gce_op_of a \<noteq> None \<longleftrightarrow> Valid a" "az_op_of a \<noteq> None \<longleftrightarrow> Valid a"
  by (auto simp: hz_op_of_def do_op_of_def vt_path_of_def ec2_op_of_def gce_op_of_def az_op_of_def Valid_def)

lemma forced_variants:
  "hz_op_of PowerStop \<noteq> hz_op_of PowerForceStop" "hz_op_of PowerReboot \<noteq> hz_op_of PowerForceReboot"
  "do_op_of PowerStop \<noteq> do_op_of PowerForceStop" "do_op_of PowerReboot \<noteq> do_op_of PowerForceReboot"
  "ec2_op_of PowerStop \<noteq> ec2_op_of PowerForceStop" "ec2_op_of PowerReboot = ec2_op_of PowerForceReboot"
  "az_op_of PowerStop \<noteq> az_op_of PowerForceStop" "az_op_of PowerReboot = az_op_of PowerForceReboot"
  "gce_op_of PowerStop = gce_op_of PowerForceStop" "gce_op_of PowerReboot = gce_op_of PowerForceReboot"
  "vt_path_of i PowerStop = vt_path_of i PowerForceStop" "vt_path_of i PowerReboot = vt_path_of i PowerForceReboot"
  by (simp_all add: hz_op_of_def do_op_of_def ec2_op_of_def az_op_of_def gce_op_of_def vt_path_of_def power_names)

subsection \<open>Paths of Vultr\<close>

text \<open>Reading an escaped segment.\<close>

definition unhex :: "char \<Rightarrow> nat" where
  "unhex c = (if is_digit c then of_char c - 48 else of_char c - 55)"

fun unescape :: "string \<Rightarrow> string" where
  "unescape [] = []"
| "unescape (c # s) =
     (if c = CHR ''%'' then (case s of a # b # s' \<Rightarrow> char_of (16 * unhex a + unhex b) # unescape s' | _ \<Rightarrow> [])
      else c # unescape s)"

definition path_char :: "char \<Rightarrow> bool" where
  "path_char c \<longleftrightarrow> url_unreserved c \<or> c \<in> set ''$&+:=@''"

lemma upper_hexs: "list_all (\<lambda>n. unhex (upper_hex n) = n \<and> path_char (upper_hex n)) [0..<16]"
  by code_simp

lemma upper_hex_props: "n < 16 \<Longrightarrow> unhex (upper_hex n) = n \<and> path_char (upper_hex n)"
  using upper_hexs by (auto simp: list_all_iff)

lemma byte_range: "of_char (c :: char) < (256 :: nat)"
  by (metis mod_less_divisor of_char_mod_256 zero_less_numeral)

lemma byte_nibbles: "of_char (c :: char) div 16 < (16 :: nat)" "of_char c mod 16 < (16 :: nat)"
  using byte_range [of c] by (simp_all add: less_mult_imp_div_less)

lemma path_char_not_percent: "path_char c \<Longrightarrow> c \<noteq> CHR ''%''"
  by (auto simp: path_char_def url_unreserved_def is_digit_def ascii_lower_def Let_def)

lemma PathEscape_Nil: "PathEscape [] = []"
  by (simp add: PathEscape_def)

lemma PathEscape_Cons: "PathEscape (c # s) = (if path_char c then [c] else percent c) @ PathEscape s"
  by (simp add: PathEscape_def path_char_def)

lemma unescape_PathEscape: "unescape (PathEscape s) = s"
proof (induction s)
  case (Cons c s)
  have "16 * unhex (upper_hex (of_char c div 16)) + unhex (upper_hex (of_char c mod 16)) = of_char c"
    using upper_hex_props [OF byte_nibbles(1) [of c]] upper_hex_props [OF byte_nibbles(2) [of c]] by simp
  then have "unescape (percent c @ PathEscape s) = c # unescape (PathEscape s)" by (simp add: percent_def)
  moreover have "path_char c \<Longrightarrow> unescape (c # PathEscape s) = c # unescape (PathEscape s)"
    using path_char_not_percent by simp
  ultimately show ?case using Cons.IH by (auto simp: PathEscape_Cons)
qed (simp add: PathEscape_Nil)

lemma PathEscape_chars: "x \<in> set (PathEscape s) \<Longrightarrow> path_char x \<or> x = CHR ''%''"
proof (induction s)
  case (Cons c s)
  have "path_char x \<or> x = CHR ''%''" if "x \<in> set (percent c)"
    using that upper_hex_props [OF byte_nibbles(1) [of c]] upper_hex_props [OF byte_nibbles(2) [of c]]
    by (auto simp: percent_def)
  then show ?case using Cons by (auto simp: PathEscape_Cons split: if_splits)
qed (simp add: PathEscape_Nil)

lemma PathEscape_clean: "x \<in> set ''/?#; '' \<Longrightarrow> x \<notin> set (PathEscape s)"
  using PathEscape_chars [of x s] by (auto simp: path_char_def url_unreserved_def is_digit_def ascii_lower_def Let_def)



section \<open>Where a listing is not complete\<close>

text \<open>
  DigitalOcean's loop stops without an error when the current page number of an answer cannot
  be read: the droplets of the pages after it are left out of a listing that looks complete.
\<close>

lemma droplet_pages_cut_short:
  assumes "do_list d 1 w = (Inr (ds, Some l), w')" and "\<not> dl_last l" and "dl_current l = Inl e"
  shows "do_ListInstances d (Suc budget) w = (Inr (map do_toInstance ds), w')"
  using assms by (simp add: do_ListInstances_def Let_def)

text \<open>
  When Azure lists the machines but not the public addresses, the listing is a success whose
  instances have no address at all.
\<close>

lemma azure_outage_blanks_addresses:
  assumes "drain (az_vms a) budget (pg_start (az_vms a)) w = ((pages, None), w1)"
    and "drain (az_ips a) budget (pg_start (az_ips a)) w1 = ((ips, Some e), w2)" and "name_sort by_name"
  shows "\<exists>out. az_ListInstances a budget by_name w = (Inr out, w2) \<and> mset out = mset (map az_toInstance (concat pages))
     \<and> (\<forall>m \<in> set out. in_public_ip m = [])"
proof -
  have "mset (by_name xs) = mset xs" for xs using assms(3) by (simp add: name_sort_def)
  then have same: "mset (by_name xs) = mset xs" "set (by_name xs) = set xs" for xs by (auto dest: mset_eq_setD)
  have "az_ListInstances a budget by_name w = (Inr (by_name (map az_toInstance (concat pages))), w2)"
    using assms(1,2) by (simp add: az_ListInstances_def enrichIPs_def)
  moreover have "in_public_ip (az_toInstance vm) = []" for vm by (simp add: az_toInstance_def no_instance_def)
  ultimately show ?thesis using same by auto
qed

section \<open>The providers of a build\<close>

record 'w factories =
  fc_aws :: "Credentials \<Rightarrow> 'w Provider result"
  fc_azure :: "Credentials \<Rightarrow> 'w Provider result"
  fc_do :: "Credentials \<Rightarrow> 'w Provider result"
  fc_gcp :: "Credentials \<Rightarrow> 'w Provider result"
  fc_hetzner :: "Credentials \<Rightarrow> 'w Provider result"
  fc_vultr :: "Credentials \<Rightarrow> 'w Provider result"

text \<open>What the files \<^verbatim>\<open>cmd/cloudroof/prov_*.go\<close> register, each unless its build tag leaves it out.\<close>

definition built_in :: "string set \<Rightarrow> 'w factories \<Rightarrow> (Spec \<times> (Credentials \<Rightarrow> 'w Provider result)) list" where
  "built_in tags fs = map snd (filter (\<lambda>(tag, _). tag \<notin> tags)
     [(''noaws'', aws_spec, fc_aws fs), (''noazure'', az_spec, fc_azure fs), (''nodo'', do_spec, fc_do fs),
      (''nogcp'', gcp_spec, fc_gcp fs), (''nohetzner'', hz_spec, fc_hetzner fs), (''novultr'', vt_spec, fc_vultr fs)])"

lemmas spec_defs = aws_spec_def az_spec_def do_spec_def gcp_spec_def hz_spec_def vt_spec_def

lemma fold_Register_fresh:
  "distinct (map (sp_name \<circ> fst) ps) \<Longrightarrow> (\<forall>p \<in> set ps. sp_name (fst p) \<notin> fst ` set reg)
     \<Longrightarrow> fold (\<lambda>(s, f). Register s f) ps reg = rev (map (\<lambda>(s, f). (sp_name s, \<lparr>et_spec = s, et_factory = f\<rparr>)) ps) @ reg"
proof (induction ps arbitrary: reg)
  case (Cons p ps)
  obtain s f where p: "p = (s, f)" by (cases p)
  have "filter (\<lambda>(n, _). n \<noteq> sp_name s) reg = reg" using Cons.prems(2) by (force simp: p filter_id_conv)
  then have r: "Register s f reg = (sp_name s, \<lparr>et_spec = s, et_factory = f\<rparr>) # reg" by (simp add: Register_def)
  have fresh: "\<forall>q \<in> set ps. sp_name (fst q) \<notin> fst ` set (Register s f reg)" "distinct (map (sp_name \<circ> fst) ps)"
    using Cons.prems by (force simp: p r, simp add: comp_def)
  show ?case using Cons.IH [OF fresh(2,1)] by (simp add: p r)
qed simp

lemma built_in_names:
  "map (sp_name \<circ> fst) (built_in tags fs) = map snd (filter (\<lambda>(tag, _). tag \<notin> tags)
     [(''noaws'', ''aws''), (''noazure'', ''azure''), (''nodo'', ''digitalocean''),
      (''nogcp'', ''gcp''), (''nohetzner'', ''hetzner''), (''novultr'', ''vultr'')])"
  by (simp add: built_in_def spec_defs)

lemma built_in_specs: "p \<in> set (built_in tags fs) \<Longrightarrow> fst p \<in> {aws_spec, az_spec, do_spec, gcp_spec, hz_spec, vt_spec}"
  unfolding built_in_def set_map set_filter by auto

definition form_inputs :: "string set" where
  "form_inputs = {''token'', ''accessKeyId'', ''secretAccessKey'', ''regions'', ''subscriptionId'', ''tenantId'', ''clientId'',
      ''clientSecret'', ''serviceAccountJson'', ''projects''}"

lemma form_names:
  "s \<in> {aws_spec, az_spec, do_spec, gcp_spec, hz_spec, vt_spec} \<Longrightarrow> fd_name ` set (sp_form s) \<subseteq> form_inputs"
  by (elim insertE emptyE) (simp_all add: spec_defs form_inputs_def)

lemma readable_names: "n \<in> form_inputs \<Longrightarrow> \<exists>c. Get c n = ''x''"
proof -
  assume n: "n \<in> form_inputs"
  have "Get \<lparr>cd_token = ''x'', cd_access_key_id = ''x'', cd_secret_access_key = ''x'', cd_regions = [''x''], cd_subscription_id = ''x'',
      cd_tenant_id = ''x'', cd_client_id = ''x'', cd_client_secret = ''x'', cd_service_account = ''x'', cd_projects = [''x'']\<rparr> n = ''x''"
    using n by (auto simp: Get_def form_inputs_def)
  then show ?thesis by blast
qed

text \<open>
  C36: The providers of a build are exactly those its tags do not leave out, listed in order of
  their names whatever order they registered in, with the form of each under its own name;
  and every input of a form is one the credentials have, so that a filled-in form passes.
\<close>

theorem build_offers_providers:
  "map sp_name (Specs (register_all (built_in tags fs))) = map snd (filter (\<lambda>(tag, _). tag \<notin> tags)
     [(''noaws'', ''aws''), (''noazure'', ''azure''), (''nodo'', ''digitalocean''),
      (''nogcp'', ''gcp''), (''nohetzner'', ''hetzner''), (''novultr'', ''vultr'')])
   \<and> set (Specs (register_all (built_in tags fs))) = fst ` set (built_in tags fs)
   \<and> (\<forall>s \<in> set (Specs (register_all (built_in tags fs))). \<forall>f \<in> set (sp_form s). \<exists>c. Get c (fd_name f) = ''x'')"
proof -
  let ?reg = "register_all (built_in tags fs)" and ?names = "map (sp_name \<circ> fst) (built_in tags fs)"
  have s: "sorted ?names" "distinct ?names" unfolding built_in_names by auto
  have reg: "?reg = rev (map (\<lambda>(s, f). (sp_name s, \<lparr>et_spec = s, et_factory = f\<rparr>)) (built_in tags fs))"
    using fold_Register_fresh [of "built_in tags fs" "[]"] s(2) by (simp add: register_all_def)
  have specs: "mset (Specs ?reg) = mset (map fst (built_in tags fs))"
    by (simp add: Specs_def reg rev_map [symmetric] case_prod_beta comp_def)
  have "mset (map sp_name (Specs ?reg)) = mset ?names" using arg_cong [OF specs, of "image_mset sp_name"] by (simp add: multiset.map_comp)
  then have "sort ?names = map sp_name (Specs ?reg)" by (intro properties_for_sort) (simp_all add: Specs_def)
  then have n: "map sp_name (Specs ?reg) = ?names" using s(1) by (simp add: sorted_sort_id)
  have sets: "set (Specs ?reg) = fst ` set (built_in tags fs)" using specs by (metis mset_eq_setD set_map)
  have "\<forall>s \<in> set (Specs ?reg). \<forall>f \<in> set (sp_form s). \<exists>c. Get c (fd_name f) = ''x''"
  proof (intro ballI)
    fix sp f assume "sp \<in> set (Specs ?reg)" and f: "f \<in> set (sp_form sp)"
    then obtain p where "p \<in> set (built_in tags fs)" "sp = fst p" unfolding sets by blast
    then have "fd_name f \<in> form_inputs" using form_names [OF built_in_specs] f by blast
    then show "\<exists>c. Get c (fd_name f) = ''x''" by (rule readable_names)
  qed
  then show ?thesis by (intro conjI n [unfolded built_in_names] sets)
qed

text \<open>The slim build of the \<^verbatim>\<open>Makefile\<close>.\<close>

definition no_factories :: "unit factories" where
  "no_factories = \<lparr>fc_aws = \<lambda>c. Inl (Text []), fc_azure = \<lambda>c. Inl (Text []), fc_do = \<lambda>c. Inl (Text []),
     fc_gcp = \<lambda>c. Inl (Text []), fc_hetzner = \<lambda>c. Inl (Text []), fc_vultr = \<lambda>c. Inl (Text [])\<rparr>"

theorem build_offers_providers_witness:
  "map sp_name (Specs (register_all (built_in {''noaws'', ''noazure'', ''nogcp''} no_factories))) = [''digitalocean'', ''hetzner'', ''vultr'']"
  using build_offers_providers [of "{''noaws'', ''noazure'', ''nogcp''}" no_factories] by simp

end
