(* ===== verification/Configuration.thy ===== *)
theory Configuration imports Server begin

text \<open>
  Configuration and start: \<^verbatim>\<open>internal/config/config.go\<close> and the wiring in
  \<^verbatim>\<open>cmd/cloudroof/main.go\<close>.  The environment is the function \<^verbatim>\<open>os.Getenv\<close>; the file system
  enters as the functions named where they are used.
\<close>

section \<open>Flags\<close>

text \<open>The variables bound to the flags of the program.\<close>

record flags =
  fl_addr :: string
  fl_hosts :: string
  fl_data :: string
  fl_dev :: bool

definition set_flag :: "string \<Rightarrow> string \<Rightarrow> flags \<Rightarrow> flags" where
  "set_flag name v f =
     (if name = ''addr'' then f\<lparr>fl_addr := v\<rparr> else if name = ''hosts'' then f\<lparr>fl_hosts := v\<rparr>
      else if name = ''data'' then f\<lparr>fl_data := v\<rparr> else f)"

definition ParseBool :: "string \<Rightarrow> bool option" where
  "ParseBool s =
     (if s \<in> {''1'', ''t'', ''T'', ''TRUE'', ''true'', ''True''} then Some True
      else if s \<in> {''0'', ''f'', ''F'', ''FALSE'', ''false'', ''False''} then Some False
      else None)"

text \<open>\<^verbatim>\<open>FlagSet.Parse\<close> for three string flags and the boolean \<^verbatim>\<open>dev\<close>; it stops at the first argument that is no flag.\<close>

fun parse_flags :: "flags \<Rightarrow> string list \<Rightarrow> flags \<times> go_err option" where
  "parse_flags f [] = (f, None)"
| "parse_flags f (a # args) =
     (if length a < 2 \<or> hd a \<noteq> CHR ''-'' \<or> a = ''--'' then (f, None)
      else (let flag = (if has_prefix a ''--'' then drop 2 a else drop 1 a) in
        if flag = [] \<or> hd flag = CHR ''-'' \<or> hd flag = CHR ''='' then (f, Some (Text (''bad flag syntax: '' @ a)))
        else (let (name, val) = (case cut_on CHR ''='' flag of None \<Rightarrow> (flag, None) | Some (n, v) \<Rightarrow> (n, Some v)) in
          if name = ''dev'' then
            (case val of
               None \<Rightarrow> parse_flags (f\<lparr>fl_dev := True\<rparr>) args
             | Some v \<Rightarrow>
                 (case ParseBool v of
                    Some b \<Rightarrow> parse_flags (f\<lparr>fl_dev := b\<rparr>) args
                  | None \<Rightarrow> (f, Some (Text (''invalid boolean value '' @ go_quote v @ '' for -dev: parse error'')))))
          else if name \<in> {''addr'', ''hosts'', ''data''} then
            (case val of
               Some v \<Rightarrow> parse_flags (set_flag name v f) args
             | None \<Rightarrow>
                 (case args of
                    [] \<Rightarrow> (f, Some (Text (''flag needs an argument: -'' @ name)))
                  | v # args' \<Rightarrow> parse_flags (set_flag name v f) args'))
          else if name = ''help'' \<or> name = ''h'' then (f, Some (Text ''flag: help requested''))
          else (f, Some (Text (''flag provided but not defined: -'' @ name))))))"

section \<open>Addresses\<close>

text \<open>\<^verbatim>\<open>net.ParseIP\<close>: an address is its eight 16-bit groups, one of IPv4 is mapped into them.\<close>

definition ip4_field :: "string \<Rightarrow> bool" where
  "ip4_field f \<longleftrightarrow> f \<noteq> [] \<and> list_all is_digit f \<and> (length f > 1 \<longrightarrow> hd f \<noteq> CHR ''0'') \<and> digits_val f \<le> 255"

definition parse_ip4 :: "string \<Rightarrow> (nat \<times> nat) option" where
  "parse_ip4 s =
     (case split_on CHR ''.'' s of
        [a, b, c, d] \<Rightarrow>
          if list_all ip4_field [a, b, c, d]
          then Some (256 * digits_val a + digits_val b, 256 * digits_val c + digits_val d) else None
      | _ \<Rightarrow> None)"

definition hex_val :: "char \<Rightarrow> nat option" where
  "hex_val c =
     (if is_digit c then Some (of_char c - 48)
      else if CHR ''a'' \<le> c \<and> c \<le> CHR ''f'' then Some (of_char c - 87)
      else if CHR ''A'' \<le> c \<and> c \<le> CHR ''F'' then Some (of_char c - 55) else None)"

definition hex_group :: "string \<Rightarrow> nat option" where
  "hex_group g =
     (if g = [] \<or> length g > 4 \<or> \<not> list_all (\<lambda>c. hex_val c \<noteq> None) g then None
      else Some (foldl (\<lambda>n c. 16 * n + the (hex_val c)) 0 g))"

text \<open>The groups between colons; the last may be an IPv4 address, which is two groups.\<close>

fun ip6_groups :: "string list \<Rightarrow> nat list option" where
  "ip6_groups [] = Some []"
| "ip6_groups [g] =
     (if CHR ''.'' \<in> set g then (case parse_ip4 g of None \<Rightarrow> None | Some (h, l) \<Rightarrow> Some [h, l])
      else map_option (\<lambda>n. [n]) (hex_group g))"
| "ip6_groups (g # h # gs) =
     (case hex_group g of None \<Rightarrow> None | Some n \<Rightarrow> map_option (\<lambda>ns. n # ns) (ip6_groups (h # gs)))"

text \<open>The text before and after the first \<^verbatim>\<open>::\<close>.\<close>

fun cut_ellipsis :: "string \<Rightarrow> (string \<times> string) option" where
  "cut_ellipsis (a # b # s) =
     (if a = CHR '':'' \<and> b = CHR '':'' then Some ([], s)
      else map_option (\<lambda>(l, r). (a # l, r)) (cut_ellipsis (b # s)))"
| "cut_ellipsis s = None"

definition colon_groups :: "string \<Rightarrow> nat list option" where
  "colon_groups s = (if s = [] then Some [] else ip6_groups (split_on CHR '':'' s))"

definition parse_ip6 :: "string \<Rightarrow> nat list option" where
  "parse_ip6 s =
     (case cut_ellipsis s of
        None \<Rightarrow> (case colon_groups s of Some ns \<Rightarrow> if length ns = 8 then Some ns else None | None \<Rightarrow> None)
      | Some (l, r) \<Rightarrow>
          if CHR ''.'' \<in> set l then None
          else (case (colon_groups l, colon_groups r) of
              (Some ls, Some rs) \<Rightarrow>
                if length ls + length rs < 8 then Some (ls @ replicate (8 - length ls - length rs) 0 @ rs) else None
            | _ \<Rightarrow> None))"

definition ParseIP :: "string \<Rightarrow> nat list option" where
  "ParseIP s =
     (if CHR ''%'' \<in> set s then None
      else (case find (\<lambda>c. c = CHR ''.'' \<or> c = CHR '':'') s of
          None \<Rightarrow> None
        | Some c \<Rightarrow>
            if c = CHR ''.'' then (case parse_ip4 s of None \<Rightarrow> None | Some (h, l) \<Rightarrow> Some [0, 0, 0, 0, 0, 0xFFFF, h, l])
            else parse_ip6 s))"

definition IsLoopback :: "nat list \<Rightarrow> bool" where
  "IsLoopback ip \<longleftrightarrow>
     (if take 6 ip = [0, 0, 0, 0, 0, 0xFFFF] then ip ! 6 div 256 = 127 else ip = [0, 0, 0, 0, 0, 0, 0, 1])"

section \<open>The configuration\<close>

record Config =
  cf_addr :: string
  cf_data_dir :: string
  cf_key_path :: string
  cf_key_env :: string
  cf_dev :: bool
  cf_hosts :: "string list"

definition BindsLoopback :: "Config \<Rightarrow> bool" where
  "BindsLoopback c =
     (case SplitHostPort (cf_addr c) of
        None \<Rightarrow> False
      | Some (host, _) \<Rightarrow>
          if host = [] then False
          else if EqualFold host ''localhost'' then True
          else (case ParseIP host of None \<Rightarrow> False | Some ip \<Rightarrow> IsLoopback ip))"

text \<open>\<^verbatim>\<open>filepath.Clean\<close>: the components left when dots are resolved, against the root if there is one.\<close>

definition clean_step :: "bool \<Rightarrow> string list \<Rightarrow> string \<Rightarrow> string list" where
  "clean_step rooted acc part =
     (if part = [] \<or> part = ''.'' then acc
      else if part = ''..'' then
        (if acc \<noteq> [] \<and> last acc \<noteq> ''..'' then butlast acc else if rooted then acc else acc @ [part])
      else acc @ [part])"

definition path_clean :: "string \<Rightarrow> string" where
  "path_clean p =
     (let rooted = (p \<noteq> [] \<and> hd p = CHR ''/'');
          parts = foldl (clean_step rooted) [] (split_on CHR ''/'' p);
          q = (if rooted then ''/'' else []) @ join ''/'' parts
      in if q = [] then ''.'' else q)"

definition path_join :: "string \<Rightarrow> string \<Rightarrow> string" where
  "path_join dir f =
     (case filter (\<lambda>e. e \<noteq> []) [dir, f] of [] \<Rightarrow> [] | es \<Rightarrow> path_clean (join ''/'' es))"

definition DBPath :: "Config \<Rightarrow> string" where
  "DBPath c = path_join (cf_data_dir c) ''cloudroof.db''"

definition envOr :: "(string \<Rightarrow> string) \<Rightarrow> string \<Rightarrow> string \<Rightarrow> string" where
  "envOr env key fallback = (if env key \<noteq> [] then env key else fallback)"

text \<open>\<open>config_dir\<close> and \<open>home_dir\<close> are \<^verbatim>\<open>os.UserConfigDir\<close> and \<^verbatim>\<open>os.UserHomeDir\<close>.\<close>

definition defaultDataDir :: "string result \<Rightarrow> string result \<Rightarrow> string" where
  "defaultDataDir config_dir home_dir =
     (case config_dir of
        Inr dir \<Rightarrow> path_join dir ''cloudroof''
      | Inl _ \<Rightarrow> (case home_dir of Inr home \<Rightarrow> path_join home ''.cloudroof'' | Inl _ \<Rightarrow> ''./cloudroof-data''))"

definition host_list :: "string \<Rightarrow> string list" where
  "host_list hosts = filter (\<lambda>h. h \<noteq> []) (map trim_space (split_on CHR '','' hosts))"

text \<open>\<open>abs_path\<close> is \<^verbatim>\<open>filepath.Abs\<close> and \<open>mkdir\<close> the error of \<^verbatim>\<open>os.MkdirAll\<close>.\<close>

definition Load ::
    "(string \<Rightarrow> string) \<Rightarrow> string \<Rightarrow> (string \<Rightarrow> string result) \<Rightarrow> (string \<Rightarrow> go_err option) \<Rightarrow> string list \<Rightarrow> Config result" where
  "Load env default_dir abs_path mkdir args =
     (let defaults = \<lparr>fl_addr = envOr env ''CLOUDROOF_ADDR'' ''127.0.0.1:7070'', fl_hosts = envOr env ''CLOUDROOF_HOSTS'' [],
              fl_data = envOr env ''CLOUDROOF_DATA'' default_dir, fl_dev = (env ''CLOUDROOF_DEV'' \<noteq> [])\<rparr> in
      case parse_flags defaults args of
        (f, Some e) \<Rightarrow> Inl e
      | (f, None) \<Rightarrow>
          (case abs_path (fl_data f) of
             Inl e \<Rightarrow> Inl (Wrap ''resolve data dir: '' e [])
           | Inr dir \<Rightarrow>
               (case mkdir dir of
                  Some e \<Rightarrow> Inl (Wrap (''create data dir '' @ dir @ '': '') e [])
                | None \<Rightarrow> Inr \<lparr>cf_addr = fl_addr f, cf_data_dir = dir, cf_key_path = path_join dir ''master.key'',
                             cf_key_env = env ''CLOUDROOF_MASTER_KEY'', cf_dev = fl_dev f, cf_hosts = host_list (fl_hosts f)\<rparr>)))"

section \<open>Starting\<close>

text \<open>The server \<^verbatim>\<open>run\<close> builds: any host is accepted only on a network bind without an allowlist.\<close>

definition any_host :: "Config \<Rightarrow> bool" where
  "any_host c \<longleftrightarrow> \<not> BindsLoopback c \<and> length (cf_hosts c) = 0"

definition boot_server :: "Config \<Rightarrow> Server" where
  "boot_server c = New (cf_hosts c) (any_host c)"

definition logLevel :: "(string \<Rightarrow> string) \<Rightarrow> string" where
  "logLevel env = (if env ''CLOUDROOF_LOG'' = ''debug'' then ''DEBUG'' else if env ''CLOUDROOF_LOG'' = ''warn'' then ''WARN'' else ''INFO'')"

section \<open>Properties\<close>

lemma set_flag_keeps: "name \<noteq> ''addr'' \<Longrightarrow> fl_addr (set_flag name v f) = fl_addr f"
  by (simp add: set_flag_def)

definition sets_addr :: "string \<Rightarrow> bool" where
  "sets_addr a \<longleftrightarrow> has_prefix a ''-addr'' \<or> has_prefix a ''--addr''"

lemma sets_addr_flag:
  assumes "length a \<ge> 2" and "hd a = CHR ''-''"
    and "flag = (if has_prefix a ''--'' then drop 2 a else drop 1 a)" and "has_prefix flag ''addr''"
  shows "sets_addr a"
proof -
  from assms(1,2) obtain b t where a: "a = CHR ''-'' # b # t" by (cases a; cases "tl a") auto
  show ?thesis
  proof (cases "b = CHR ''-''")
    case True
    with a assms(3,4) show ?thesis by (simp add: sets_addr_def)
  next
    case False
    with a assms(3,4) show ?thesis by (simp add: sets_addr_def)
  qed
qed

lemma flag_name:
  assumes "(case cut_on CHR ''='' flag of None \<Rightarrow> (flag, None) | Some (n, v) \<Rightarrow> (n, Some v)) = (''addr'', val)"
  shows "has_prefix flag ''addr''"
proof (cases "cut_on CHR ''='' flag")
  case None
  with assms show ?thesis by simp
next
  case (Some nv)
  with assms have "cut_on CHR ''='' flag = Some (''addr'', the val)" by (auto split: prod.splits)
  then have "flag = ''addr'' @ CHR ''='' # the val" using cut_on_Some by blast
  then show ?thesis by simp
qed

lemma parse_flags_keeps_addr: "(\<forall>a\<in>set args. \<not> sets_addr a) \<Longrightarrow> fl_addr (fst (parse_flags f args)) = fl_addr f"
proof (induction args arbitrary: f rule: length_induct)
  case (1 args)
  have IH: "fl_addr (fst (parse_flags f' xs)) = fl_addr f'"
    if "length xs < length args" "set xs \<subseteq> set args" for xs f'
    using that 1 by (meson subsetD)
  show ?case
  proof (cases args)
    case (Cons a rest)
    have a: "\<not> sets_addr a" using 1 Cons by simp
    define flag where "flag = (if has_prefix a ''--'' then drop 2 a else drop 1 a)"
    obtain name val where nv: "(case cut_on CHR ''='' flag of None \<Rightarrow> (flag, None) | Some (n, v) \<Rightarrow> (n, Some v)) = (name, val)"
      by (rule prod.exhaust)
    show ?thesis
    proof (cases "length a < 2 \<or> hd a \<noteq> CHR ''-'' \<or> a = ''--''")
      case g: False
      have name: "name \<noteq> ''addr''"
        using sets_addr_flag [OF _ _ flag_def] flag_name [of flag val] nv g a by auto
      have IH1: "fl_addr (fst (parse_flags f' rest)) = fl_addr f'" for f'
        by (rule IH) (auto simp: Cons)
      have IH2: "fl_addr (fst (parse_flags f' xs)) = fl_addr f'" if "rest = v # xs" for f' v xs
        by (rule IH) (use that in \<open>auto simp: Cons\<close>)
      show ?thesis
        using g name
        by (simp add: Cons flag_def [symmetric] nv Let_def IH1 IH2 set_flag_keeps split: option.splits list.splits)
    qed (simp add: Cons)
  qed simp
qed

lemma ParseIP_default: "ParseIP ''127.0.0.1'' = Some [0, 0, 0, 0, 0, 0xFFFF, 0x7F00, 1]"
  by (simp add: ParseIP_def parse_ip4_def ip4_field_def is_digit_def digits_val_def digit_val_def)

lemma default_loopback: "BindsLoopback c" if "cf_addr c = ''127.0.0.1:7070''"
proof -
  have "SplitHostPort ''127.0.0.1:7070'' = Some (''127.0.0.1'', ''7070'')" by code_simp
  then show ?thesis
    using that by (simp add: BindsLoopback_def ParseIP_default IsLoopback_def)
qed

lemma Load_Inr:
  assumes "Load env default_dir abs_path mkdir args = Inr c"
  shows "cf_addr c = fl_addr (fst (parse_flags \<lparr>fl_addr = envOr env ''CLOUDROOF_ADDR'' ''127.0.0.1:7070'',
              fl_hosts = envOr env ''CLOUDROOF_HOSTS'' [], fl_data = envOr env ''CLOUDROOF_DATA'' default_dir,
              fl_dev = (env ''CLOUDROOF_DEV'' \<noteq> [])\<rparr> args))"
    and "\<exists>hosts. cf_hosts c = host_list hosts"
  using assms by (auto simp: Load_def Let_def split: prod.splits option.splits sum.splits)

lemma boot_server_hosts:
  "hostAllowed (boot_server c) h \<longleftrightarrow> any_host c \<or> hostOnly h \<in> served_names (cf_hosts c)"
  by (auto simp: boot_server_def New_def hostAllowed_def served_names_def)

text \<open>
  C40: Exposure is opt-in.  A configuration that \<^verbatim>\<open>Load\<close> returns binds a loopback address unless
  the environment or an \<^verbatim>\<open>-addr\<close> argument names another; the server started from it answers a
  Host outside its list of names exactly when it binds a network address and was given no
  host at all, and that list holds no empty entry.
\<close>
theorem exposure_is_opt_in:
  assumes "Load env default_dir abs_path mkdir args = Inr c"
  shows "(env ''CLOUDROOF_ADDR'' = [] \<and> (\<forall>a\<in>set args. \<not> sets_addr a) \<longrightarrow>
            BindsLoopback c \<and> (\<forall>h. hostAllowed (boot_server c) h \<longleftrightarrow> hostOnly h \<in> served_names (cf_hosts c)))
    \<and> ((\<exists>h. hostAllowed (boot_server c) h \<and> hostOnly h \<notin> served_names (cf_hosts c))
         \<longleftrightarrow> \<not> BindsLoopback c \<and> cf_hosts c = [])
    \<and> (\<forall>h\<in>set (cf_hosts c). h \<noteq> [])"
proof (intro conjI impI)
  assume "env ''CLOUDROOF_ADDR'' = [] \<and> (\<forall>a\<in>set args. \<not> sets_addr a)"
  then have "cf_addr c = ''127.0.0.1:7070''"
    using Load_Inr(1) [OF assms] by (simp add: parse_flags_keeps_addr envOr_def)
  then have "BindsLoopback c" by (rule default_loopback)
  then show "BindsLoopback c" "\<forall>h. hostAllowed (boot_server c) h \<longleftrightarrow> hostOnly h \<in> served_names (cf_hosts c)"
    by (simp_all add: boot_server_hosts any_host_def)
next
  have "hostOnly ''evil'' \<notin> {''localhost'', ''127.0.0.1'', ''::1''}" by code_simp
  then show "(\<exists>h. hostAllowed (boot_server c) h \<and> hostOnly h \<notin> served_names (cf_hosts c))
         \<longleftrightarrow> \<not> BindsLoopback c \<and> cf_hosts c = []"
    by (auto simp: boot_server_hosts any_host_def served_names_def)
next
  show "\<forall>h\<in>set (cf_hosts c). h \<noteq> []"
    using Load_Inr(2) [OF assms] by (auto simp: host_list_def)
qed

theorem exposure_is_opt_in_witness:
  "BindsLoopback \<lparr>cf_addr = ''127.0.0.1:7070'', cf_data_dir = ''/d'', cf_key_path = ''/d/master.key'', cf_key_env = [],
     cf_dev = True, cf_hosts = [''a.lan'', ''10.0.0.5'']\<rparr>"
proof -
  let ?c = "\<lparr>cf_addr = ''127.0.0.1:7070'', cf_data_dir = ''/d'', cf_key_path = ''/d/master.key'', cf_key_env = [],
     cf_dev = True, cf_hosts = [''a.lan'', ''10.0.0.5'']\<rparr>"
  have "Load (\<lambda>_. []) ''/d'' Inr (\<lambda>_. None) [''-dev'', ''--hosts= a.lan ,,10.0.0.5''] = Inr ?c" by code_simp
  from exposure_is_opt_in [OF this] show ?thesis by (simp add: sets_addr_def)
qed

end
