(* ===== verification/Frontend.thy ===== *)
theory Frontend imports Configuration begin

text \<open>
  The frontend: \<^verbatim>\<open>spa\<close> of \<^verbatim>\<open>internal/api/server.go\<close>, the bundle of \<^verbatim>\<open>web/embed.go\<close>, and what \<^verbatim>\<open>net/http\<close>'s
  \<^verbatim>\<open>ServeFileFS\<close> does with a file, a directory or an index page.  A file system is the function that
  says what a name opens to; a reply names what is served instead of its bytes.
\<close>

section \<open>Files\<close>

datatype node = RegularFile | Directory

type_synonym files = "string \<Rightarrow> node option"

text \<open>\<^verbatim>\<open>fs.ValidPath\<close>.\<close>

definition valid_path :: "string \<Rightarrow> bool" where
  "valid_path name \<longleftrightarrow> name = ''.'' \<or> list_all (\<lambda>e. e \<noteq> [] \<and> e \<noteq> ''.'' \<and> e \<noteq> ''..'') (split_on CHR ''/'' name)"

text \<open>\<^verbatim>\<open>Dist\<close>: the embedded files under \<^verbatim>\<open>dist\<close>.\<close>

definition Dist :: "files \<Rightarrow> files" where
  "Dist embedded name =
     (if \<not> valid_path name then None else embedded (if name = ''.'' then ''dist'' else ''dist/'' @ name))"

section \<open>Serving a file\<close>

datatype page = File string | Listing string | Moved_to string

definition contains_dot_dot :: "string \<Rightarrow> bool" where
  "contains_dot_dot p \<longleftrightarrow> list_ex (\<lambda>e. list_ex (\<lambda>b. b = ''..'') (split_on CHR 0x5C e)) (split_on CHR ''/'' p)"

definition ends_in :: "string \<Rightarrow> string \<Rightarrow> bool" where
  "ends_in p q \<longleftrightarrow> has_prefix (rev p) (rev q)"

text \<open>\<^verbatim>\<open>http.ServeFileFS\<close> for the URL path \<open>p\<close> and the file \<open>name\<close>.\<close>

definition ServeFileFS :: "files \<Rightarrow> string \<Rightarrow> string \<Rightarrow> page response" where
  "ServeFileFS fs p name =
     (if contains_dot_dot p then NoBody 400
      else if ends_in p ''/index.html'' then Reply 301 (Moved_to ''./'')
      else (case fs name of
          None \<Rightarrow> NoBody 404
        | Some RegularFile \<Rightarrow> Reply 200 (File name)
        | Some Directory \<Rightarrow>
            if p = [] \<or> last p \<noteq> CHR ''/'' then Reply 301 (Moved_to ((if p = [] then ''.'' else last (split_on CHR ''/'' p)) @ ''/''))
            else (let index = name @ ''/index.html'' in
              case fs index of
                Some RegularFile \<Rightarrow> Reply 200 (File index)
              | Some Directory \<Rightarrow> Reply 200 (Listing index)
              | None \<Rightarrow> Reply 200 (Listing name))))"

text \<open>Everything outside the API; \<open>root\<close> is the bundle, or the directory of \<^verbatim>\<open>-dev\<close>, or missing.\<close>

definition spa :: "files option \<Rightarrow> string \<Rightarrow> page response" where
  "spa root p =
     (if has_prefix p ''/api/'' then NoBody 404
      else (case root of
          None \<Rightarrow> NoBody 503
        | Some fs \<Rightarrow>
            let f = trim_prefix (path_clean p) ''/''; f' = (if f = [] then ''index.html'' else f) in
            if fs f' \<noteq> None then ServeFileFS fs p f'
            else if fs ''index.html'' \<noteq> None then ServeFileFS fs p ''index.html''
            else NoBody 503))"

section \<open>Properties\<close>

lemma clean_steps_valid:
  "list_all (\<lambda>e. e \<noteq> [] \<and> e \<noteq> ''.'' \<and> e \<noteq> ''..'') es \<Longrightarrow> foldl (clean_step True) acc es = acc @ es"
  by (induction es arbitrary: acc) (simp_all add: clean_step_def)

lemma path_clean_valid:
  assumes "valid_path f" and "f \<noteq> ''.''"
  shows "path_clean (''/'' @ f) = ''/'' @ f"
proof -
  have "foldl (clean_step True) [] (split_on CHR ''/'' f) = split_on CHR ''/'' f"
    using assms clean_steps_valid [of "split_on CHR ''/'' f" "[]"] by (simp add: valid_path_def)
  then show ?thesis by (simp add: path_clean_def clean_step_def join_split)
qed

lemma ServeFileFS_file: "ServeFileFS fs p name = Reply st (File f) \<Longrightarrow> st = 200 \<and> fs f = Some RegularFile"
  by (auto simp: ServeFileFS_def Let_def split: if_splits option.splits node.splits)

lemma spa_file: "spa (Some fs) p = Reply st (File f) \<Longrightarrow> st = 200 \<and> fs f = Some RegularFile"
  by (auto simp: spa_def Let_def dest: ServeFileFS_file split: if_splits)


definition demo_bundle :: files where
  "demo_bundle = [''dist'' \<mapsto> Directory, ''dist/index.html'' \<mapsto> RegularFile, ''dist/assets'' \<mapsto> Directory, ''dist/assets/app.js'' \<mapsto> RegularFile]"


text \<open>A directory of the bundle is not a route of the client: it is redirected to, and then listed.\<close>

lemma directories_are_listed:
  "spa (Some (Dist demo_bundle)) ''/assets'' = Reply 301 (Moved_to ''assets/'')"
  "spa (Some (Dist demo_bundle)) ''/assets/'' = Reply 200 (Listing ''assets'')"
  by code_simp+

end
