(* ===== verification/Requests.thy ===== *)
theory Requests imports Sessions Fleet_Api Frontend begin

text \<open>
  The server as a whole: the route table of \<^verbatim>\<open>Handler\<close> in \<^verbatim>\<open>internal/api/server.go\<close>, the matching that
  \<^verbatim>\<open>net/http\<close>'s \<^verbatim>\<open>ServeMux\<close> does on it, and one request from the guard to its handler.  The state is
  that of the handlers with the world \<open>'w\<close> of the cloud providers beside it.  What answers a
  request is kept without the JSON of a reply.
\<close>

section \<open>Routes\<close>

datatype endpoint =
    EpListMachines | EpCreateMachine | EpGetMachine | EpUpdateMachine | EpDeleteMachine | EpProbeMachine | EpPowerMachine
  | EpListActions | EpRunAction | EpGetHostKey | EpTrustHostKey | EpTerminal | EpStreamAction
  | EpListCredentials | EpCreateCredential | EpDeleteCredential | EpListAccounts | EpCreateAccount | EpDeleteAccount | EpSyncAccount
  | EpListGroups | EpCreateGroup | EpDeleteGroup | EpGroupMachines | EpRunBulk
  | EpListCustomActions | EpCreateCustomAction | EpDeleteCustomAction
  | EpListRuns | EpCatalog | EpProviders | EpHealth

definition routes :: "(string \<times> string \<times> endpoint) list" where
  "routes =
     [(''GET'', ''/api/machines'', EpListMachines),
      (''POST'', ''/api/machines'', EpCreateMachine),
      (''GET'', ''/api/machines/{id}'', EpGetMachine),
      (''PUT'', ''/api/machines/{id}'', EpUpdateMachine),
      (''DELETE'', ''/api/machines/{id}'', EpDeleteMachine),
      (''POST'', ''/api/machines/{id}/probe'', EpProbeMachine),
      (''POST'', ''/api/machines/{id}/power'', EpPowerMachine),
      (''GET'', ''/api/machines/{id}/actions'', EpListActions),
      (''POST'', ''/api/machines/{id}/actions/{action}'', EpRunAction),
      (''GET'', ''/api/machines/{id}/hostkey'', EpGetHostKey),
      (''POST'', ''/api/machines/{id}/hostkey/trust'', EpTrustHostKey),
      (''GET'', ''/api/machines/{id}/terminal'', EpTerminal),
      (''GET'', ''/api/machines/{id}/actions/{action}/stream'', EpStreamAction),
      (''GET'', ''/api/credentials'', EpListCredentials),
      (''POST'', ''/api/credentials'', EpCreateCredential),
      (''DELETE'', ''/api/credentials/{id}'', EpDeleteCredential),
      (''GET'', ''/api/accounts'', EpListAccounts),
      (''POST'', ''/api/accounts'', EpCreateAccount),
      (''DELETE'', ''/api/accounts/{id}'', EpDeleteAccount),
      (''POST'', ''/api/accounts/{id}/sync'', EpSyncAccount),
      (''GET'', ''/api/groups'', EpListGroups),
      (''POST'', ''/api/groups'', EpCreateGroup),
      (''DELETE'', ''/api/groups/{id}'', EpDeleteGroup),
      (''GET'', ''/api/groups/{id}/machines'', EpGroupMachines),
      (''POST'', ''/api/bulk/actions/{action}'', EpRunBulk),
      (''GET'', ''/api/custom-actions'', EpListCustomActions),
      (''POST'', ''/api/custom-actions'', EpCreateCustomAction),
      (''DELETE'', ''/api/custom-actions/{id}'', EpDeleteCustomAction),
      (''GET'', ''/api/runs'', EpListRuns),
      (''GET'', ''/api/catalog'', EpCatalog),
      (''GET'', ''/api/providers'', EpProviders),
      (''GET'', ''/api/health'', EpHealth)]"

section \<open>Matching\<close>

text \<open>\<^verbatim>\<open>url.PathUnescape\<close>, nothing on an invalid escape.\<close>

fun PathUnescape :: "string \<Rightarrow> string option" where
  "PathUnescape [] = Some []"
| "PathUnescape (c # s) =
     (if c \<noteq> CHR ''%'' then map_option ((#) c) (PathUnescape s)
      else (case s of
          a # b # s' \<Rightarrow>
            (case (hex_val a, hex_val b) of
               (Some x, Some y) \<Rightarrow> map_option ((#) (char_of (16 * x + y))) (PathUnescape s')
             | _ \<Rightarrow> None)
        | _ \<Rightarrow> None))"

text \<open>The segments of an escaped path, each unescaped by itself; one that cannot be stays as it is.\<close>

definition segments :: "string \<Rightarrow> string list" where
  "segments path = map (\<lambda>g. case PathUnescape g of Some t \<Rightarrow> t | None \<Rightarrow> g) (tl (split_on CHR ''/'' path))"

text \<open>A pattern's segments against a path's: the values of the wildcards by name.  A wildcard takes no empty segment, and not one that is an escaped slash.\<close>

fun match_segments :: "string list \<Rightarrow> string list \<Rightarrow> (string \<times> string) list option" where
  "match_segments [] [] = Some []"
| "match_segments (p # ps) (s # ss) =
     (if has_prefix p ''{'' then
        (if s = [] \<or> s = ''/'' then None else map_option ((#) (trim_set ''{}'' p, s)) (match_segments ps ss))
      else if p = s then match_segments ps ss else None)"
| "match_segments _ _ = None"

text \<open>A pattern for \<^verbatim>\<open>GET\<close> serves \<^verbatim>\<open>HEAD\<close> too.\<close>

definition match_route :: "string \<Rightarrow> string list \<Rightarrow> string \<times> string \<times> endpoint \<Rightarrow> (endpoint \<times> (string \<times> string) list) option" where
  "match_route meth segs route = (case route of (pm, pattern, ep) \<Rightarrow>
     if pm = meth \<or> pm = ''GET'' \<and> meth = ''HEAD''
     then map_option (Pair ep) (match_segments (tl (split_on CHR ''/'' pattern)) segs) else None)"

definition dispatch :: "string \<Rightarrow> string \<Rightarrow> (endpoint \<times> (string \<times> string) list) option" where
  "dispatch meth path =
     (case List.map_filter (match_route meth (segments path)) routes of [] \<Rightarrow> None | m # _ \<Rightarrow> Some m)"

text \<open>\<^verbatim>\<open>cleanPath\<close>: the path without empty and dotted segments, a trailing slash kept.\<close>

definition clean_url_path :: "string \<Rightarrow> string" where
  "clean_url_path p =
     (if p = [] then ''/''
      else (let q = (if hd p = CHR ''/'' then p else CHR ''/'' # p); np = path_clean q
            in if last q = CHR ''/'' \<and> np \<noteq> ''/'' then np @ ''/'' else np))"

section \<open>The environment of the handlers\<close>

text \<open>
  What the handlers take from outside: the clock, the JSON decoders of each body (with the
  size limit and the refusal of unknown members of \<^verbatim>\<open>readJSON\<close>) and of the secrets, the SSH library
  behind the broker, the providers, the AEAD with the nonce it draws, the files of the
  frontend, and the order in which a bulk run's goroutines take their turns.
\<close>

record ('f, 'w) env =
  ev_server :: Server
  ev_url_host :: "string \<Rightarrow> string option"
  ev_moved :: int
  ev_static :: "files option"
  ev_now :: time
  ev_millis :: int
  ev_exec :: "(Target, pool) exec_fn"
  ev_open_shell :: "Target \<Rightarrow> int \<Rightarrow> int \<Rightarrow> srv \<Rightarrow> go_err option \<times> srv"
  ev_open_stream :: "Target \<Rightarrow> string \<Rightarrow> string \<Rightarrow> srv \<Rightarrow> (go_err + string) \<times> srv"
  ev_float :: "string \<Rightarrow> 'f \<times> bool"
  ev_docker :: "string \<Rightarrow> DockerLine option"
  ev_keys :: aead
  ev_nonce :: "string result"
  ev_registry :: "'w registry"
  ev_parse_key :: "string \<Rightarrow> string option \<Rightarrow> (bool \<times> go_err) + string"
  ev_secret :: "string \<Rightarrow> sealedSecret option"
  ev_secret_json :: "sealedSecret \<Rightarrow> string"
  ev_creds :: "string \<Rightarrow> Credentials option"
  ev_creds_json :: "Credentials \<Rightarrow> string result"
  ev_machine :: "string \<Rightarrow> machineInput result"
  ev_power :: "string \<Rightarrow> powerInput result"
  ev_action :: "string \<Rightarrow> action_body"
  ev_trust :: "string \<Rightarrow> trustInput result"
  ev_credential :: "string \<Rightarrow> credentialInput result"
  ev_account :: "string \<Rightarrow> accountInput result"
  ev_group :: "string \<Rightarrow> groupInput result"
  ev_bulk :: "string \<Rightarrow> bulkInput result"
  ev_custom :: "string \<Rightarrow> customActionInput result"
  ev_control :: "string \<Rightarrow> controlMsg option"
  ev_turns :: "nat \<Rightarrow> nat list"
  ev_session :: "term_io list"
  ev_left :: "nat option"

text \<open>A request: what the guard looks at, the escaped path, the query, the body and whether it is a websocket handshake.\<close>

record request =
  rs_http :: http_request
  rs_path :: string
  rs_query :: "string \<Rightarrow> string"
  rs_body :: string
  rs_handshake :: bool

datatype content = Data | Page page | Moved | Socket

type_synonym 'w world = "srv \<times> 'w"

section \<open>Handlers by route\<close>

definition data_of :: "'v response \<Rightarrow> content response" where
  "data_of r = map_response (\<lambda>_. Data) r"

definition on_srv :: "(srv \<Rightarrow> 'v response \<times> srv) \<Rightarrow> 'w world \<Rightarrow> content response \<times> 'w world" where
  "on_srv h s = (case h (fst s) of (r, sv) \<Rightarrow> (data_of r, (sv, snd s)))"

definition on_world :: "('w world \<Rightarrow> 'v response \<times> srv \<times> 'w) \<Rightarrow> 'w world \<Rightarrow> content response \<times> 'w world" where
  "on_world h s = (case h s of (r, s') \<Rightarrow> (data_of r, s'))"

text \<open>A websocket handler: the upgrader refuses a request that is no handshake, or whose origin is not allowed.\<close>

definition on_socket :: "bool \<Rightarrow> (srv \<Rightarrow> (unit, 's) ws_result \<times> srv) \<Rightarrow> 'w world \<Rightarrow> content response \<times> 'w world" where
  "on_socket handshake h s = (case h (fst s) of (r, sv) \<Rightarrow>
     ((case r of Http a \<Rightarrow> data_of a | NotUpgraded \<Rightarrow> NoBody (if handshake then 403 else 400) | _ \<Rightarrow> Reply 101 Socket), (sv, snd s)))"

definition PathValue :: "(string \<times> string) list \<Rightarrow> string \<Rightarrow> string" where
  "PathValue vs name = (case map_of vs name of Some v \<Rightarrow> v | None \<Rightarrow> [])"

definition resolve_of :: "('f, 'w) env \<Rightarrow> Machine \<Rightarrow> db \<Rightarrow> Target result" where
  "resolve_of ev = resolveTarget (ev_keys ev) (ev_secret ev)"

definition upgraded_of :: "('f, 'w) env \<Rightarrow> request \<Rightarrow> bool" where
  "upgraded_of ev rq = upgrades (ev_url_host ev) (ev_server ev) (rs_http rq) (rs_handshake rq)"

fun handle :: "('f, 'w) env \<Rightarrow> request \<Rightarrow> (string \<times> string) list \<Rightarrow> endpoint \<Rightarrow> 'w world \<Rightarrow> content response \<times> 'w world" where
  "handle ev rq vs EpListMachines s = on_srv listMachines s"
| "handle ev rq vs EpCreateMachine s = on_srv (createMachine (ev_now ev) (ev_machine ev (rs_body rq))) s"
| "handle ev rq vs EpGetMachine s = on_srv (getMachine (PathValue vs ''id'')) s"
| "handle ev rq vs EpUpdateMachine s = on_srv (updateMachine (ev_now ev) (PathValue vs ''id'') (ev_machine ev (rs_body rq))) s"
| "handle ev rq vs EpDeleteMachine s = on_srv (deleteMachine (PathValue vs ''id'')) s"
| "handle ev rq vs EpProbeMachine s = on_srv (probeMachine (resolve_of ev) (ev_exec ev) (ev_now ev) (PathValue vs ''id'')) s"
| "handle ev rq vs EpPowerMachine s =
     on_world (powerMachine (providerFor (ev_keys ev) (ev_creds ev) (ev_registry ev)) (ev_now ev) (ev_millis ev)
       (PathValue vs ''id'') (ev_power ev (rs_body rq))) s"
| "handle ev rq vs EpListActions s = on_srv (listActions (PathValue vs ''id'')) s"
| "handle ev rq vs EpRunAction s =
     on_srv (runAction (resolve_of ev) (ev_exec ev) (ev_float ev) (ev_docker ev) (ev_now ev)
       (PathValue vs ''id'') (PathValue vs ''action'') (ev_action ev (rs_body rq))) s"
| "handle ev rq vs EpGetHostKey s = on_srv (getHostKey (PathValue vs ''id'')) s"
| "handle ev rq vs EpTrustHostKey s = on_srv (trustHostKey (ev_now ev) (PathValue vs ''id'') (ev_trust ev (rs_body rq))) s"
| "handle ev rq vs EpTerminal s =
     on_socket (rs_handshake rq) (terminal (resolve_of ev) (ev_open_shell ev) (ev_control ev) (upgraded_of ev rq) (ev_now ev)
       (PathValue vs ''id'') (rs_query rq ''cols'', rs_query rq ''rows'') (ev_session ev)) s"
| "handle ev rq vs EpStreamAction s =
     on_socket (rs_handshake rq) (streamAction (resolve_of ev) (ev_open_stream ev) (upgraded_of ev rq) (ev_now ev)
       (PathValue vs ''id'') (PathValue vs ''action'') (rs_query rq) (ev_left ev)) s"
| "handle ev rq vs EpListCredentials s = on_srv listCredentials s"
| "handle ev rq vs EpCreateCredential s =
     on_srv (createCredential (ev_parse_key ev) (ev_secret_json ev) (ev_keys ev) (ev_nonce ev) (ev_now ev)
       (ev_credential ev (rs_body rq))) s"
| "handle ev rq vs EpDeleteCredential s = on_srv (deleteCredential (PathValue vs ''id'')) s"
| "handle ev rq vs EpListAccounts s = on_srv listAccounts s"
| "handle ev rq vs EpCreateAccount s =
     on_world (createAccount (ev_registry ev) (ev_creds_json ev) (ev_keys ev) (ev_nonce ev) (ev_now ev)
       (ev_account ev (rs_body rq))) s"
| "handle ev rq vs EpDeleteAccount s = on_srv (deleteAccount (ev_now ev) (PathValue vs ''id'')) s"
| "handle ev rq vs EpSyncAccount s =
     on_world (syncAccount (ev_keys ev) (ev_creds ev) (ev_registry ev) (ev_now ev) (PathValue vs ''id'')) s"
| "handle ev rq vs EpListGroups s = on_srv listGroups s"
| "handle ev rq vs EpCreateGroup s = on_srv (createGroup (ev_now ev) (ev_group ev (rs_body rq))) s"
| "handle ev rq vs EpDeleteGroup s = on_srv (deleteGroup (PathValue vs ''id'')) s"
| "handle ev rq vs EpGroupMachines s = on_srv (groupMachines (PathValue vs ''id'')) s"
| "handle ev rq vs EpRunBulk s =
     on_srv (runBulk (resolve_of ev) (ev_exec ev) (ev_float ev) (ev_docker ev) (ev_turns ev) (ev_now ev)
       (PathValue vs ''action'') (ev_bulk ev (rs_body rq))) s"
| "handle ev rq vs EpListCustomActions s = on_srv listCustomActions s"
| "handle ev rq vs EpCreateCustomAction s = on_srv (createCustomAction (ev_now ev) (ev_custom ev (rs_body rq))) s"
| "handle ev rq vs EpDeleteCustomAction s = on_srv (deleteCustomAction (PathValue vs ''id'')) s"
| "handle ev rq vs EpListRuns s = on_srv (listRuns (rs_query rq ''machine'') (rs_query rq ''limit'')) s"
| "handle ev rq vs EpCatalog s = on_srv catalog s"
| "handle ev rq vs EpProviders s = on_srv (providers (ev_registry ev)) s"
| "handle ev rq vs EpHealth s = (Reply 200 Data, s)"

text \<open>The mux: an unclean path is redirected, a route is handled, everything else is the frontend.\<close>

definition serve_mux :: "('f, 'w) env \<Rightarrow> request \<Rightarrow> http_request \<Rightarrow> 'w world \<Rightarrow> content response \<times> 'w world" where
  "serve_mux ev rq r s =
     (if hr_method r \<noteq> ''CONNECT'' \<and> clean_url_path (rs_path rq) \<noteq> rs_path rq then (Reply (ev_moved ev) Moved, s)
      else (case dispatch (hr_method r) (rs_path rq) of
          Some (ep, vs) \<Rightarrow> handle ev rq vs ep s
        | None \<Rightarrow> (map_response Page (spa (ev_static ev) (hr_path r)), s)))"

definition Handler :: "('f, 'w) env \<Rightarrow> request \<Rightarrow> 'w world \<Rightarrow> content response \<times> 'w world" where
  "Handler ev rq s = guard (ev_url_host ev) (ev_server ev) (serve_mux ev rq) (rs_http rq) s"

section \<open>Properties\<close>

text \<open>Whether two patterns have a path in common.\<close>

fun overlap :: "string list \<Rightarrow> string list \<Rightarrow> bool" where
  "overlap [] [] = True"
| "overlap (p # ps) (q # qs) = ((has_prefix p ''{'' \<or> has_prefix q ''{'' \<or> p = q) \<and> overlap ps qs)"
| "overlap _ _ = False"

lemma match_overlap: "match_segments ps segs \<noteq> None \<Longrightarrow> match_segments qs segs \<noteq> None \<Longrightarrow> overlap ps qs"
proof (induction ps segs arbitrary: qs rule: match_segments.induct)
  case (2 p ps s ss)
  then show ?case by (cases qs) (auto split: if_splits)
next
  case 1
  then show ?case by (cases qs) auto
qed auto

definition conflict :: "string \<times> string \<times> endpoint \<Rightarrow> string \<times> string \<times> endpoint \<Rightarrow> bool" where
  "conflict r r' \<longleftrightarrow> (fst r = fst r' \<or> fst r = ''HEAD'' \<or> fst r' = ''HEAD'')
     \<and> overlap (tl (split_on CHR ''/'' (fst (snd r)))) (tl (split_on CHR ''/'' (fst (snd r'))))"

fun no_conflicts :: "(string \<times> string \<times> endpoint) list \<Rightarrow> bool" where
  "no_conflicts [] = True"
| "no_conflicts (r # rs) = (list_all (\<lambda>r'. \<not> conflict r r') rs \<and> no_conflicts rs)"

lemma routes_no_conflicts: "no_conflicts routes"
  unfolding routes_def by code_simp

lemma no_conflicts_pair:
  "no_conflicts rs \<Longrightarrow> r \<in> set rs \<Longrightarrow> r' \<in> set rs \<Longrightarrow> r \<noteq> r' \<Longrightarrow> \<not> conflict r r' \<or> \<not> conflict r' r"
  by (induction rs) (auto simp: list_all_iff)

lemma both_match:
  assumes "match_route meth segs r \<noteq> None" and "match_route meth segs r' \<noteq> None"
  shows "conflict r r' \<and> conflict r' r"
  using assms match_overlap
  by (auto simp: match_route_def conflict_def split: prod.splits if_splits)

lemma one_route:
  assumes "r \<in> set routes" "r' \<in> set routes" "match_route meth segs r \<noteq> None" "match_route meth segs r' \<noteq> None"
  shows "r' = r"
  using both_match [OF assms(3,4)] no_conflicts_pair [OF routes_no_conflicts assms(1,2)] by blast

lemma map_filter_first:
  "r \<in> set rs \<Longrightarrow> f r = Some x \<Longrightarrow> \<forall>r' \<in> set rs. f r' \<noteq> None \<longrightarrow> r' = r \<Longrightarrow> \<exists>ys. List.map_filter f rs = x # ys"
proof (induction rs)
  case (Cons a rs)
  show ?case
  proof (cases "a = r")
    case True
    then show ?thesis using Cons.prems(2) by (simp add: map_filter_simps)
  next
    case False
    have a: "f a = None" using False bspec [OF Cons.prems(3) list.set_intros(1)] by metis
    have r: "r \<in> set rs" using False Cons.prems(1) by simp
    have "\<forall>r' \<in> set rs. f r' \<noteq> None \<longrightarrow> r' = r" using Cons.prems(3) by (metis list.set_intros(2))
    from Cons.IH [OF r Cons.prems(2) this] a show ?thesis by (simp add: map_filter_simps)
  qed
qed simp

text \<open>Every pattern starts with the segment \<^verbatim>\<open>api\<close> and has another one.\<close>

definition api_pattern :: "string list \<Rightarrow> bool" where
  "api_pattern ps = (case ps of _ # p # _ # _ \<Rightarrow> p = ''api'' | _ \<Rightarrow> False)"

lemma routes_api: "list_all (\<lambda>r. api_pattern (split_on CHR ''/'' (fst (snd r)))) routes"
  unfolding routes_def by code_simp

lemma match_Cons:
  "match_segments (p # ps) segs \<noteq> None
     \<Longrightarrow> \<exists>s ss. segs = s # ss \<and> (has_prefix p ''{'' \<or> p = s) \<and> match_segments ps ss \<noteq> None"
  by (cases segs) (auto split: if_splits)

lemma api_first_segment:
  assumes "r \<in> set routes" and "match_route meth segs r = Some x"
  obtains t ts where "segs = ''api'' # t # ts"
proof -
  obtain pm pattern ep where r: "r = (pm, pattern, ep)" by (metis prod.exhaust)
  have "api_pattern (split_on CHR ''/'' pattern)" using routes_api assms(1) by (auto simp: list_all_iff r)
  then obtain e q ps where p: "split_on CHR ''/'' pattern = e # ''api'' # q # ps"
    by (auto simp: api_pattern_def split: list.splits)
  from assms(2) have "match_segments (tl (split_on CHR ''/'' pattern)) segs \<noteq> None"
    by (auto simp: match_route_def r split: if_splits)
  then have "match_segments (''api'' # q # ps) segs \<noteq> None" unfolding p list.sel .
  from match_Cons [OF this] obtain ss where s: "segs = ''api'' # ss" "match_segments (q # ps) ss \<noteq> None" by auto
  from match_Cons [OF s(2)] s(1) that show ?thesis by auto
qed

subsection \<open>Escaped paths\<close>

lemma split_on_Cons2:
  "split_on sep s = g # h # gs \<Longrightarrow> \<exists>rest. s = g @ sep # rest \<and> split_on sep rest = h # gs"
proof (induction s arbitrary: g)
  case (Cons c s)
  show ?case
  proof (cases "c = sep")
    case True
    with Cons.prems show ?thesis by auto
  next
    case False
    with Cons.prems obtain g' where "split_on sep s = g' # h # gs" "g = c # g'"
      by (auto split: list.splits)
    with Cons.IH show ?thesis by fastforce
  qed
qed simp

lemma PathUnescape_slash:
  "PathUnescape (g @ CHR ''/'' # rest) = Some t \<Longrightarrow>
     \<exists>a b. PathUnescape g = Some a \<and> PathUnescape rest = Some b \<and> t = a @ CHR ''/'' # b"
proof (induction g arbitrary: t rule: PathUnescape.induct)
  case (2 c s)
  have slash: "hex_val CHR ''/'' = None" by code_simp
  show ?case
  proof (cases "c = CHR ''%''")
    case False
    with "2.prems" obtain t' where t: "PathUnescape (s @ CHR ''/'' # rest) = Some t'" "t = c # t'" by auto
    from "2.IH"(1) [OF False t(1)] t(2) False show ?thesis by auto
  next
    case True
    show ?thesis
    proof (cases s)
      case Nil
      with True "2.prems" slash show ?thesis by (auto split: list.splits option.splits)
    next
      case s: (Cons a s1)
      show ?thesis
      proof (cases s1)
        case Nil
        with True s "2.prems" slash show ?thesis by (auto split: option.splits)
      next
        case s1: (Cons b s2)
        from True s s1 "2.prems" obtain x y t' where v: "hex_val a = Some x" "hex_val b = Some y"
          and t: "PathUnescape (s2 @ CHR ''/'' # rest) = Some t'" "t = char_of (16 * x + y) # t'"
          by (auto split: option.splits)
        have "\<exists>u w. PathUnescape s2 = Some u \<and> PathUnescape rest = Some w \<and> t' = u @ CHR ''/'' # w"
          using "2.IH"(2) [OF _ s s1 refl v t(1)] True by blast
        with True s s1 v t(2) show ?thesis by auto
      qed
    qed
  qed
qed auto

lemma route_is_api:
  assumes "r \<in> set routes" and "match_route meth (segments path) r = Some x"
    and "has_prefix path ''/''" and "PathUnescape path = Some (hr_path h)"
  shows "is_api h"
proof -
  from api_first_segment [OF assms(1,2)] obtain t ts where "segments path = ''api'' # t # ts" .
  then obtain e g1 g2 gs where g: "split_on CHR ''/'' path = e # g1 # g2 # gs"
    and api: "(case PathUnescape g1 of Some t \<Rightarrow> t | None \<Rightarrow> g1) = ''api''"
    by (cases "split_on CHR ''/'' path"; cases "tl (split_on CHR ''/'' path)"; cases "tl (tl (split_on CHR ''/'' path))")
      (auto simp: segments_def)
  obtain rest where p: "path = CHR ''/'' # rest" using assms(3) by (cases path) auto
  have rest: "split_on CHR ''/'' rest = g1 # g2 # gs" using g by (simp add: p)
  obtain tail where tail: "rest = g1 @ CHR ''/'' # tail" using split_on_Cons2 [OF rest] by blast
  obtain u where u: "PathUnescape rest = Some u" "hr_path h = CHR ''/'' # u" using assms(4) by (auto simp: p)
  obtain a b where "PathUnescape g1 = Some a" "u = a @ CHR ''/'' # b" using PathUnescape_slash u(1) tail by metis
  with api u(2) have "hr_path h = ''/api/'' @ b" by simp
  then show ?thesis by (simp add: is_api_def)
qed

text \<open>
  C10: The route table is unambiguous and behind the guard.  Whatever the method and the path, at
  most one route of the table matches, so the mux calls that handler whatever the order in
  which routes are registered; and a path that reaches a handler is, unescaped, a path of the
  API, so that the guard, which looks at the unescaped path, has checked the request.
\<close>
theorem routes_unique_and_guarded:
  assumes "r \<in> set routes" and "match_route (hr_method h) (segments path) r = Some x"
    and "has_prefix path ''/''" and "PathUnescape path = Some (hr_path h)"
  shows "dispatch (hr_method h) path = Some x
    \<and> (\<forall>r' \<in> set routes. match_route (hr_method h) (segments path) r' \<noteq> None \<longrightarrow> r' = r)
    \<and> is_api h"
proof (intro conjI)
  show u: "\<forall>r' \<in> set routes. match_route (hr_method h) (segments path) r' \<noteq> None \<longrightarrow> r' = r"
    using one_route [OF assms(1)] assms(2) by (metis option.distinct(1))
  then show "dispatch (hr_method h) path = Some x"
    using map_filter_first [of r routes "match_route (hr_method h) (segments path)", OF assms(1,2)]
    by (auto simp: dispatch_def split: list.splits)
  show "is_api h" by (rule route_is_api [OF assms])
qed

definition run_request :: http_request where
  "run_request = \<lparr>hr_method = ''POST'', hr_path = ''/api/machines/7/actions/disk usage'', hr_host = ''localhost:7070'', hr_origin = [],
     hr_fetch_site = [], hr_content_type = ''application/json'', hr_content_length = 2\<rparr>"

theorem routes_unique_and_guarded_witness:
  "dispatch ''POST'' ''/%61pi/machines/7/actions/disk%20usage'' = Some (EpRunAction, [(''id'', ''7''), (''action'', ''disk usage'')])
     \<and> is_api run_request"
proof -
  let ?path = "''/%61pi/machines/7/actions/disk%20usage''"
  let ?r = "(''POST'', ''/api/machines/{id}/actions/{action}'', EpRunAction)"
  have "?r \<in> set routes" by (simp add: routes_def)
  moreover have "match_route ''POST'' (segments ?path) ?r = Some (EpRunAction, [(''id'', ''7''), (''action'', ''disk usage'')])"
    by code_simp
  moreover have "PathUnescape ?path = Some ''/api/machines/7/actions/disk usage''" by code_simp
  ultimately show ?thesis
    using routes_unique_and_guarded [of ?r run_request ?path] by (simp add: run_request_def)
qed

end
