(* ===== verification/System.thy ===== *)
theory System imports Requests begin

text \<open>
  What any request, sweep or background job does to the state of the server: a sequence of
  store operations and of pool steps.  The broker of \<^verbatim>\<open>internal/sshx/broker.go\<close> is put together
  here from its dialing, its pool and its sessions, with \<^verbatim>\<open>hostKeyPolicy\<close> as its key check; the
  handlers rest on it through the interface \<open>transport\<close>.
\<close>

section \<open>The broker on the server's state\<close>

text \<open>\<^verbatim>\<open>Get\<close> without other goroutines in between; \<open>dialer\<close> is \<open>dial\<close> with its libraries and policy.\<close>

definition broker_Get :: "(Target \<Rightarrow> db \<Rightarrow> 'c result \<times> db) \<Rightarrow> Target \<Rightarrow> srv \<Rightarrow> nat result \<times> srv" where
  "broker_Get dialer t sv =
     (case get_lookup (tg_id t) (snd sv) of
        Some c \<Rightarrow> (Inr c, sv)
      | None \<Rightarrow>
          (case dialer t (fst sv) of
             (Inl e, d') \<Rightarrow> (Inl e, (d', snd sv))
           | (Inr _, d') \<Rightarrow>
               (let c = pl_next (snd sv);
                    (winner, p') = get_install (tg_id t) c (get_dialed (tg_id t) (snd sv))
                in (Inr winner, (d', if winner = c then p' else get_lose c p')))))"

text \<open>A call on the connection: \<open>run\<close> is given the error of \<open>Get\<close>, if any, and says how often the connection is dropped.\<close>

definition with_client ::
    "(Target \<Rightarrow> db \<Rightarrow> 'c result \<times> db) \<Rightarrow> (go_err option \<Rightarrow> 'r \<times> nat) \<Rightarrow> Target \<Rightarrow> srv \<Rightarrow> 'r \<times> srv" where
  "with_client dialer run t sv =
     (case broker_Get dialer t sv of
        (Inl e, sv') \<Rightarrow> (fst (run (Some e)), sv')
      | (Inr c, (d', p')) \<Rightarrow> (case run None of (r, n) \<Rightarrow> (r, (d', (Drop (tg_id t) ^^ n) p'))))"

definition broker_exec :: "(Target \<Rightarrow> db \<Rightarrow> 'c result \<times> db) \<Rightarrow> (Target \<Rightarrow> string \<Rightarrow> exec_world) \<Rightarrow> (Target, pool) exec_fn" where
  "broker_exec dialer remote t command opts sv =
     with_client dialer (\<lambda>err. Exec opts ((remote t command)\<lparr>ew_get := err\<rparr>)) t sv"

definition broker_shell ::
    "(Target \<Rightarrow> db \<Rightarrow> 'c result \<times> db) \<Rightarrow> (Target \<Rightarrow> shell_world) \<Rightarrow> Target \<Rightarrow> int \<Rightarrow> int \<Rightarrow> srv \<Rightarrow> go_err option \<times> srv" where
  "broker_shell dialer remote t cols rows sv =
     with_client dialer (\<lambda>err. case OpenShell cols rows ((remote t)\<lparr>sw_get := err\<rparr>) of
        (Inl e, _, n) \<Rightarrow> (Some e, n) | (Inr _, _, n) \<Rightarrow> (None, n)) t sv"

text \<open>\<open>output\<close> is all that the followed command will write.\<close>

definition broker_stream ::
    "(Target \<Rightarrow> db \<Rightarrow> 'c result \<times> db) \<Rightarrow> (Target \<Rightarrow> string \<Rightarrow> stream_world) \<Rightarrow> (Target \<Rightarrow> string \<Rightarrow> string)
       \<Rightarrow> Target \<Rightarrow> string \<Rightarrow> string \<Rightarrow> srv \<Rightarrow> (go_err + string) \<times> srv" where
  "broker_stream dialer remote output t command script sv =
     with_client dialer (\<lambda>err. case OpenStream (Some script) ((remote t command)\<lparr>tw_get := err\<rparr>) of
        (Inl e, _, n) \<Rightarrow> (Inl e, n) | (Inr _, _, n) \<Rightarrow> (Inr (output t script), n)) t sv"

section \<open>Calm steps\<close>

text \<open>Any store operations and pool steps; and those among them that leave every pinned host key as it is.\<close>

definition lawful :: "srv \<Rightarrow> srv \<Rightarrow> bool" where
  "lawful sv sv' \<longleftrightarrow> store_steps (fst sv) (fst sv') \<and> pool_steps (snd sv) (snd sv')"

definition pins_kept :: "db \<Rightarrow> db \<Rightarrow> bool" where
  "pins_kept d d' \<longleftrightarrow> (\<forall>i k. host_keys d i = Some k \<longrightarrow> (\<exists>k'. host_keys d' i = Some k' \<and> same_pin k k'))"

definition calm :: "srv \<Rightarrow> srv \<Rightarrow> bool" where
  "calm sv sv' \<longleftrightarrow> lawful sv sv' \<and> pins_kept (fst sv) (fst sv')"

lemma pins_kept_trans: "pins_kept a b \<Longrightarrow> pins_kept b c \<Longrightarrow> pins_kept a c"
  unfolding pins_kept_def same_pin_def by metis

lemma pins_kept_same: "host_keys d' = host_keys d \<Longrightarrow> pins_kept d d'"
  by (simp add: pins_kept_def same_pin_def)

lemma lawful_refl: "lawful sv sv" by (simp add: lawful_def)

lemma lawful_trans: "lawful a b \<Longrightarrow> lawful b c \<Longrightarrow> lawful a c"
  unfolding lawful_def by (meson rtranclp_trans)

lemma calm_refl: "calm sv sv" by (simp add: calm_def lawful_refl pins_kept_same)

lemma calm_trans: "calm a b \<Longrightarrow> calm b c \<Longrightarrow> calm a c"
  unfolding calm_def using lawful_trans pins_kept_trans by blast

lemma calm_lawful: "calm a b \<Longrightarrow> lawful a b" by (simp add: calm_def)

lemma calm_collapse: "calm sv x \<Longrightarrow> calm sv (fst x, snd x)" by simp

lemma Drops_steps: "pool_steps p ((Drop i ^^ n) p)"
  by (induction n) (auto intro: rtranclp_trans [OF _ Drop_steps])

lemma fold_Drop_steps: "pool_steps p (fold Drop is p)"
  by (induction "is" arbitrary: p) (auto intro: rtranclp_trans [OF Drop_steps])

lemma calm_store: "calm sv (d, p) \<Longrightarrow> store_step d d' \<Longrightarrow> pins_kept d d' \<Longrightarrow> calm sv (d', p)"
  by (auto simp: calm_def lawful_def intro: pins_kept_trans rtranclp.rtrancl_into_rtrancl)

lemma calm_pool: "calm sv (d, p) \<Longrightarrow> pool_steps p p' \<Longrightarrow> calm sv (d, p')"
  by (auto simp: calm_def lawful_def)

lemma lawful_store: "lawful sv (d, p) \<Longrightarrow> store_step d d' \<Longrightarrow> lawful sv (d', p)"
  by (auto simp: lawful_def)

lemma lawful_pool: "lawful sv (d, p) \<Longrightarrow> pool_steps p p' \<Longrightarrow> lawful sv (d, p')"
  by (auto simp: lawful_def)

subsection \<open>The store operations that are calm\<close>

lemma same_keys [simp]:
  "host_keys (snd (CreateCredential now c d)) = host_keys d"
  "host_keys (snd (DeleteCredential i d)) = host_keys d"
  "host_keys (snd (CreateCloudAccount now a d)) = host_keys d"
  "host_keys (snd (SetSyncResult i now e d)) = host_keys d"
  "host_keys (snd (UpdateMachine now m d)) = host_keys d"
  "host_keys (snd (SetPowerState now i st d)) = host_keys d"
  "host_keys (snd (MarkMissing now i seen d)) = host_keys d"
  "host_keys (snd (UpsertFacts now f d)) = host_keys d"
  "host_keys (snd (InsertRun r d)) = host_keys d"
  "host_keys (snd (CreateGroup now g d)) = host_keys d"
  "host_keys (snd (DeleteGroup i d)) = host_keys d"
  "host_keys (snd (CreateCustomAction now ca d)) = host_keys d"
  "host_keys (snd (DeleteCustomAction ci d)) = host_keys d"
  by (simp_all add: CreateCredential_def DeleteCredential_def CreateCloudAccount_def SetSyncResult_def UpdateMachine_def SetPowerState_def MarkMissing_def UpsertFacts_def InsertRun_def CreateGroup_def DeleteGroup_def CreateCustomAction_def DeleteCustomAction_def Let_def store_simps)

named_theorems calm_intros \<open>what keeps a state calm\<close>

lemma calm_ops [calm_intros]:
  assumes "calm sv (d, p)"
  shows
    "calm sv (snd (CreateCredential now c d), p)"
    and "calm sv (snd (DeleteCredential i d), p)"
    and "calm sv (snd (CreateCloudAccount now a d), p)"
    and "calm sv (snd (DeleteCloudAccount now i d), p)"
    and "calm sv (snd (SetSyncResult i now e d), p)"
    and "calm sv (snd (CreateMachine now m d), p)"
    and "calm sv (snd (UpdateMachine now m d), p)"
    and "calm sv (snd (SetReach now i st e d), p)"
    and "calm sv (snd (SetPowerState now i st d), p)"
    and "calm sv (snd (UpsertFromCloud now i pn n d), p)"
    and "calm sv (snd (MarkMissing now i seen d), p)"
    and "calm sv (snd (UpsertFacts now f d), p)"
    and "calm sv (snd (InsertRun r d), p)"
    and "calm sv (snd (CreateGroup now g d), p)"
    and "calm sv (snd (DeleteGroup i d), p)"
    and "calm sv (snd (CreateCustomAction now ca d), p)"
    and "calm sv (snd (DeleteCustomAction ci d), p)"
  by (rule calm_store [OF assms]; rule store_step.intros pins_kept_same, simp?)+

lemma calm_checks [calm_intros]:
  assumes "calm sv (d, p)"
  shows "calm sv (snd (PinHostKey now i alg fp d), p)"
    and "calm sv (snd (RecordSeenHostKey i alg fp d), p)"
    and "calm sv (snd (ClearSeenHostKey i d), p)"
proof -
  have pin: "pins_kept d (snd (PinHostKey now i alg fp d))"
    by (auto simp: pins_kept_def same_pin_def PinHostKey_def store_simps)
  have seen: "pins_kept d (snd (RecordSeenHostKey i alg fp d))"
    by (auto simp: pins_kept_def same_pin_def RecordSeenHostKey_def store_simps)
  have cleared: "pins_kept d (snd (ClearSeenHostKey i d))"
    by (auto simp: pins_kept_def same_pin_def ClearSeenHostKey_def store_simps)
  show "calm sv (snd (PinHostKey now i alg fp d), p)" by (rule calm_store [OF assms st_PinHostKey pin])
  show "calm sv (snd (RecordSeenHostKey i alg fp d), p)" by (rule calm_store [OF assms st_RecordSeenHostKey seen])
  show "calm sv (snd (ClearSeenHostKey i d), p)" by (rule calm_store [OF assms st_ClearSeenHostKey cleared])
qed

lemma calm_Drops [calm_intros]:
  "calm sv (d, p) \<Longrightarrow> calm sv (d, Drop i p)"
  "calm sv (d, p) \<Longrightarrow> calm sv (d, (Drop i ^^ n) p)"
  "calm sv (d, p) \<Longrightarrow> calm sv (d, fold Drop is p)"
  by (rule calm_pool, assumption, rule Drop_steps Drops_steps fold_Drop_steps)+

lemma calm_hostKeyPolicy [calm_intros]: "calm sv (d, p) \<Longrightarrow> calm sv (snd (hostKeyPolicy now i key d), p)"
  by (auto simp: hostKeyPolicy_def hostKey_decide_def Let_def case_prod_beta split: sum.splits intro: calm_intros)

declare calm_refl [calm_intros] calm_collapse [calm_intros]

section \<open>The transport\<close>

text \<open>What the handlers need of the broker: running a command or opening a session is calm.\<close>

locale transport =
  fixes exec :: "(Target, pool) exec_fn"
    and open_shell :: "Target \<Rightarrow> int \<Rightarrow> int \<Rightarrow> srv \<Rightarrow> go_err option \<times> srv"
    and open_stream :: "Target \<Rightarrow> string \<Rightarrow> string \<Rightarrow> srv \<Rightarrow> (go_err + string) \<times> srv"
  assumes exec_calm: "calm sv (snd (exec t command opts sv))"
    and shell_calm: "calm sv (snd (open_shell t cols rows sv))"
    and stream_calm: "calm sv (snd (open_stream t command script sv))"
begin

lemma exec_after: "calm s sv \<Longrightarrow> calm s (snd (exec t command opts sv))"
  by (rule calm_trans [OF _ exec_calm])

lemma shell_after: "calm s sv \<Longrightarrow> calm s (snd (open_shell t cols rows sv))"
  by (rule calm_trans [OF _ shell_calm])

lemma stream_after: "calm s sv \<Longrightarrow> calm s (snd (open_stream t command script sv))"
  by (rule calm_trans [OF _ stream_calm])

lemmas after = exec_after shell_after stream_after calm_intros

lemma Run_action_after: "calm s sv \<Longrightarrow> calm s (snd (snd (Run_action resolve exec pf uj now req sv)))"
  by (auto simp: Run_action_def Let_def case_prod_beta split: sum.splits option.splits intro!: after)

lemma note_reach_after: "calm s sv \<Longrightarrow> calm s (note_reach now i e sv)"
  by (auto simp: note_reach_def intro!: after)

lemma runAction_after: "calm s sv \<Longrightarrow> calm s (snd (runAction resolve exec pf uj now path aid body sv))"
  by (auto simp: runAction_def case_prod_beta split: option.splits sum.splits intro!: note_reach_after Run_action_after)

lemma probe_after: "calm s sv \<Longrightarrow> calm s (snd (probe resolve exec now m sv))"
  by (auto simp: probe_def Fingerprint_def case_prod_beta split: option.splits sum.splits intro!: after)

lemma probeMachine_after: "calm s sv \<Longrightarrow> calm s (snd (probeMachine resolve exec now path sv))"
  by (auto simp: probeMachine_def case_prod_beta split: option.splits sum.splits intro!: probe_after calm_intros)

lemma bulk_one_after: "calm s sv \<Longrightarrow> calm s (snd (bulk_one resolve exec pf uj now aid i m sv))"
  by (auto simp: bulk_one_def Let_def case_prod_beta split: option.splits intro!: note_reach_after Run_action_after)

lemma bulk_loop_after: "calm s sv \<Longrightarrow> calm s (snd (bulk_loop (bulk_one resolve exec pf uj now aid i) targets ks results sv))"
proof (induction ks arbitrary: results sv)
  case (Cons k ks)
  show ?case
    unfolding bulk_loop.simps Let_def case_prod_beta by (rule Cons.IH [OF bulk_one_after [OF Cons.prems]])
qed simp

lemma runBulk_after: "calm s sv \<Longrightarrow> calm s (snd (runBulk resolve exec pf uj turns now aid body sv))"
  by (auto simp: runBulk_def Let_def case_prod_beta split: option.splits sum.splits intro!: bulk_loop_after)

lemma terminal_after: "calm s sv \<Longrightarrow> calm s (snd (terminal resolve open_shell uj up now path sizes ios sv))"
  by (auto simp: terminal_def case_prod_beta split: option.splits sum.splits intro!: after)

lemma streamAction_after: "calm s sv \<Longrightarrow> calm s (snd (streamAction resolve open_stream up now path aid query left sv))"
  by (auto simp: streamAction_def case_prod_beta split: option.splits sum.splits intro!: after)

lemma reachCheck_after: "calm s (snd x) \<Longrightarrow> calm s (snd (reachCheck resolve exec now m x))"
  by (auto simp: reachCheck_def Let_def case_prod_beta split: option.splits sum.splits intro!: after)

lemma run_check_after: "calm s (snd x) \<Longrightarrow> calm s (snd (run_check resolve exec clock m x))"
  by (auto simp: run_check_def Let_def case_prod_beta split: option.splits intro!: reachCheck_after)

lemma run_checks_after: "calm s (snd x) \<Longrightarrow> calm s (snd (fold (run_check resolve exec clock) ms x))"
proof (induction ms arbitrary: x)
  case (Cons m ms)
  show ?case unfolding fold_Cons o_apply by (rule Cons.IH [OF run_check_after [OF Cons.prems]])
qed simp

lemma reachSweep_after: "calm s (snd x) \<Longrightarrow> calm s (snd (reachSweep resolve exec order now clock x))"
  by (auto simp: reachSweep_def Let_def case_prod_beta split: sum.splits intro!: run_checks_after)

end

section \<open>The handlers that need no transport\<close>

lemma calm_handlers:
  assumes "calm s sv"
  shows "calm s (snd (createMachine now body sv))"
    and "calm s (snd (createCredential pk mj keys rnd now cbody sv))"
    and "calm s (snd (deleteCredential path sv))"
    and "calm s (snd (deleteAccount now path sv))"
    and "calm s (snd (createGroup now gbody sv))"
    and "calm s (snd (deleteGroup path sv))"
    and "calm s (snd (createCustomAction now xbody sv))"
    and "calm s (snd (deleteCustomAction path sv))"
  using assms
  by (auto simp: createMachine_def createCredential_def deleteCredential_def deleteAccount_def createGroup_def deleteGroup_def
      createCustomAction_def deleteCustomAction_def Let_def case_prod_beta split: option.splits sum.splits intro!: calm_intros)

lemma sync_loop_calm: "calm s sv \<Longrightarrow> calm s (snd (sync_loop now acct prov ns res seen sv))"
proof (induction ns arbitrary: res seen sv)
  case (Cons n ns)
  obtain d p where sv: "sv = (d, p)" by (metis prod.exhaust)
  obtain r d1 where up: "UpsertFromCloud now acct prov n d = (r, d1)" by (rule prod.exhaust)
  have d1: "calm s (d1, p)" using calm_ops(10) [of s d p now acct prov n] Cons.prems by (simp add: sv up)
  show ?case
  proof (cases r)
    case (Inl e)
    then show ?thesis using d1 by (auto simp: sv up intro!: calm_intros)
  next
    case (Inr x)
    obtain i created hostChanged where x: "x = (i, created, hostChanged)" by (metis prod.exhaust)
    have "calm s (if hostChanged then (snd (SetReach now i ReachUnknown [] d1), Drop i p) else (d1, p))"
      using d1 by (auto intro!: calm_intros)
    then show ?thesis unfolding sv by (simp add: up Inr x Let_def Cons.IH)
  qed
qed simp

lemma sync_calm: "calm s (fst x) \<Longrightarrow> calm s (fst (snd (sync keys uj reg now acct x)))"
  by (auto simp: sync_def Let_def case_prod_beta split: option.splits sum.splits intro!: sync_loop_calm calm_intros)

lemma refresh_calm: "calm s (fst x) \<Longrightarrow> calm s (fst (refreshPowerStates keys uj reg now x))"
proof -
  have syncs: "calm s (fst y) \<Longrightarrow> calm s (fst (fold (\<lambda>a s. snd (sync keys uj reg now (ac_id a) s)) as y))" for as y
  proof (induction as arbitrary: y)
    case (Cons a as)
    show ?case unfolding fold_Cons o_apply by (rule Cons.IH [OF sync_calm [OF Cons.prems]])
  qed simp
  show "calm s (fst x) \<Longrightarrow> calm s (fst (refreshPowerStates keys uj reg now x))"
    by (cases "ListCloudAccounts (fst (fst x))") (simp_all add: refreshPowerStates_def syncs)
qed

lemma syncAccount_calm: "calm s (fst x) \<Longrightarrow> calm s (fst (snd (syncAccount keys uj reg now path x)))"
  by (auto simp: syncAccount_def case_prod_beta split: option.splits intro!: sync_calm)

lemma createAccount_calm: "calm s (fst x) \<Longrightarrow> calm s (fst (snd (createAccount reg mj keys rnd now body x)))"
  by (auto simp: createAccount_def Let_def case_prod_beta split: option.splits sum.splits intro!: calm_intros)

lemma powerMachine_calm: "calm s (fst x) \<Longrightarrow> calm s (fst (snd (powerMachine pf now ms path body x)))"
  by (auto simp: powerMachine_def Let_def case_prod_beta split: option.splits sum.splits intro!: calm_intros)

text \<open>The three handlers that forget or replace a host key.\<close>

lemma lawful_Drop: "lawful s (d, p) \<Longrightarrow> lawful s (d, Drop i p)"
  by (rule lawful_pool [OF _ Drop_steps])

lemma lawful_ops:
  assumes "lawful s (d, p)"
  shows "lawful s (snd (UpdateMachine now m d), p)"
    and "lawful s (snd (SetReach now i st e d), p)"
    and "lawful s (snd (ResetHostIdentity i d), p)"
    and "lawful s (snd (DeleteMachine i d), p)"
    and "lawful s (snd (TrustHostKey now i alg fp d), p)"
  by (rule lawful_store [OF assms]; rule store_step.intros)+

lemma lawful_collapse: "lawful s x \<Longrightarrow> lawful s (fst x, snd x)" by simp

lemmas lawful_intros = lawful_refl lawful_Drop lawful_ops lawful_collapse

lemma lawful_handlers:
  "lawful sv (snd (updateMachine now path body sv))"
  "lawful sv (snd (deleteMachine path sv))"
  "lawful sv (snd (trustHostKey now path tbody sv))"
  by (auto simp: updateMachine_def deleteMachine_def trustHostKey_def Let_def case_prod_beta
      split: option.splits sum.splits intro!: lawful_intros)

lemma reads:
  "snd (listMachines sv) = sv" "snd (getMachine path sv) = sv" "snd (listActions path sv) = sv" "snd (getHostKey path sv) = sv"
  "snd (listCredentials sv) = sv" "snd (listAccounts sv) = sv" "snd (listGroups sv) = sv" "snd (groupMachines path sv) = sv"
  "snd (listCustomActions sv) = sv" "snd (listRuns a b sv) = sv" "snd (catalog sv) = sv" "snd (providers reg sv) = sv"
  by (simp_all add: listMachines_def getMachine_def listActions_def getHostKey_def listCredentials_def listAccounts_def
      listGroups_def groupMachines_def listCustomActions_def listRuns_def catalog_def providers_def Let_def
      split: option.splits sum.splits)

section \<open>One request\<close>

definition forgets_keys :: "endpoint \<Rightarrow> bool" where
  "forgets_keys ep \<longleftrightarrow> ep = EpUpdateMachine \<or> ep = EpDeleteMachine \<or> ep = EpTrustHostKey"

definition uses_transport :: "('f, 'w) env \<Rightarrow> bool" where
  "uses_transport ev \<longleftrightarrow> transport (ev_exec ev) (ev_open_shell ev) (ev_open_stream ev)"

lemma handle_calm:
  assumes "uses_transport ev" and "\<not> forgets_keys ep"
  shows "calm (fst s) (fst (snd (handle ev rq vs ep s)))"
proof -
  note t = assms(1) [unfolded uses_transport_def]
  note rules = calm_refl calm_handlers [OF calm_refl] syncAccount_calm [OF calm_refl] createAccount_calm [OF calm_refl]
    powerMachine_calm [OF calm_refl] transport.probeMachine_after [OF t calm_refl] transport.runAction_after [OF t calm_refl]
    transport.runBulk_after [OF t calm_refl] transport.terminal_after [OF t calm_refl] transport.streamAction_after [OF t calm_refl]
  show ?thesis
    using assms(2)
    by (cases ep) (simp_all add: forgets_keys_def on_srv_def on_world_def on_socket_def case_prod_beta reads rules)
qed

lemma handle_lawful:
  assumes "uses_transport ev"
  shows "lawful (fst s) (fst (snd (handle ev rq vs ep s)))"
proof (cases "forgets_keys ep")
  case True
  then show ?thesis by (auto simp: forgets_keys_def on_srv_def case_prod_beta lawful_handlers)
next
  case False
  show ?thesis by (rule calm_lawful [OF handle_calm [OF assms False]])
qed

text \<open>A request that reaches no handler changes nothing; the others change what their handler does.\<close>

lemma Handler_state:
  obtains "snd (Handler ev rq s) = s"
  | ep vs where "dispatch (hr_method (rs_http rq)) (rs_path rq) = Some (ep, vs)"
      "Handler ev rq s = handle ev rq vs ep s"
      "hr_method (rs_http rq) = ''CONNECT'' \<or> clean_url_path (rs_path rq) = rs_path rq"
      "guard (ev_url_host ev) (ev_server ev) (serve_mux ev rq) (rs_http rq) s = serve_mux ev rq (rs_http rq) s"
      "is_api (rs_http rq) \<longrightarrow> hostAllowed (ev_server ev) (hr_host (rs_http rq))
         \<and> (hr_origin (rs_http rq) \<noteq> [] \<longrightarrow> originMatches (ev_url_host ev) (ev_server ev) (hr_origin (rs_http rq)) (hr_host (rs_http rq)))
         \<and> hr_fetch_site (rs_http rq) \<in> {[], ''same-origin'', ''none''}
         \<and> (safe_method (hr_method (rs_http rq)) \<or> hr_content_length (rs_http rq) = 0 \<or> isJSON (hr_content_type (rs_http rq)))"
proof (cases "guard (ev_url_host ev) (ev_server ev) (serve_mux ev rq) (rs_http rq) s = serve_mux ev rq (rs_http rq) s
    \<and> snd (Handler ev rq s) \<noteq> s")
  case False
  then have "snd (Handler ev rq s) = s" by (auto simp: Handler_def guard_def split: if_splits)
  then show ?thesis by (rule that(1))
next
  case True
  then have g: "Handler ev rq s = serve_mux ev rq (rs_http rq) s" by (simp add: Handler_def)
  with True have ch: "snd (serve_mux ev rq (rs_http rq) s) \<noteq> s" by simp
  then obtain ep vs where d: "dispatch (hr_method (rs_http rq)) (rs_path rq) = Some (ep, vs)"
    and c: "hr_method (rs_http rq) = ''CONNECT'' \<or> clean_url_path (rs_path rq) = rs_path rq"
    by (auto simp: serve_mux_def split: if_splits option.splits)
  have h: "serve_mux ev rq (rs_http rq) s = handle ev rq vs ep s"
    using d c by (auto simp: serve_mux_def)
  have "snd (guard (ev_url_host ev) (ev_server ev) (serve_mux ev rq) (rs_http rq) s) \<noteq> s"
    using True ch by simp
  then have "is_api (rs_http rq) \<longrightarrow> hostAllowed (ev_server ev) (hr_host (rs_http rq))
         \<and> (hr_origin (rs_http rq) \<noteq> [] \<longrightarrow> originMatches (ev_url_host ev) (ev_server ev) (hr_origin (rs_http rq)) (hr_host (rs_http rq)))
         \<and> hr_fetch_site (rs_http rq) \<in> {[], ''same-origin'', ''none''}
         \<and> (safe_method (hr_method (rs_http rq)) \<or> hr_content_length (rs_http rq) = 0 \<or> isJSON (hr_content_type (rs_http rq)))"
    by (auto simp: guard_def split: if_splits)
  with d c h g True show ?thesis using that(2) by metis
qed

section \<open>The broker is a transport\<close>

text \<open>
  \<open>only_checks\<close>: during a handshake the SSH library calls the host-key callback, at most once,
  and touches nothing else of the program.
\<close>

definition only_checks :: "('raw \<Rightarrow> string \<Rightarrow> 's auth_method list \<Rightarrow> key_check \<Rightarrow> db \<Rightarrow> 'c result \<times> db) \<Rightarrow> bool" where
  "only_checks hs \<longleftrightarrow> (\<forall>raw user ms check d. snd (hs raw user ms check d) = d \<or> (\<exists>key. snd (hs raw user ms check d) = snd (check key d)))"

abbreviation policy_at :: "time \<Rightarrow> int \<Rightarrow> key_check option" where
  "policy_at now \<equiv> (\<lambda>i. Some (hostKeyPolicy now i))"

lemma dial_calm:
  assumes "only_checks hs"
  shows "calm s (d, p) \<Longrightarrow> calm s (snd (dial parse tcp hs (policy_at now) t d), p)"
proof -
  assume a: "calm s (d, p)"
  have hs: "calm s (snd (hs raw user ms (hostKeyCallback (policy_at now i)) d), p)" for raw user ms i
  proof -
    consider "snd (hs raw user ms (hostKeyCallback (policy_at now i)) d) = d"
      | key where "snd (hs raw user ms (hostKeyCallback (policy_at now i)) d) = snd (hostKeyPolicy now i key d)"
      using assms unfolding only_checks_def hostKeyCallback_def by (metis option.simps(5))
    then show ?thesis using a by cases (simp_all add: calm_hostKeyPolicy)
  qed
  then show ?thesis
    using a by (auto simp: dial_def case_prod_beta split: sum.splits)
qed

lemma get_steps:
  "pool_steps p (let (winner, p') = get_install i (pl_next p) (get_dialed i p)
     in if winner = pl_next p then p' else get_lose (pl_next p) p')"
proof -
  let ?c = "pl_next p"
  have 1: "pool_step p (get_dialed i p)" by (rule pl_dial)
  have 2: "pool_step (get_dialed i p) (snd (get_install i ?c (get_dialed i p)))"
    by (rule pl_install) (simp add: get_dialed_def)
  have 3: "pool_step q (get_lose ?c q)" if "fst (get_install i ?c (get_dialed i p)) \<noteq> ?c" "q = snd (get_install i ?c (get_dialed i p))" for q
    by (rule pl_lose) (use that in \<open>auto simp: get_install_def split: option.splits\<close>)
  have 12: "pool_steps p (snd (get_install i ?c (get_dialed i p)))"
    by (rule converse_rtranclp_into_rtranclp, rule 1) (rule r_into_rtranclp, rule 2)
  show ?thesis
  proof (cases "fst (get_install i ?c (get_dialed i p)) = ?c")
    case True
    with 12 show ?thesis by (simp add: case_prod_beta)
  next
    case False
    have "pool_steps p (get_lose ?c (snd (get_install i ?c (get_dialed i p))))"
      by (rule rtranclp.rtrancl_into_rtrancl, rule 12) (rule 3 [OF False refl])
    with False show ?thesis by (simp add: case_prod_beta)
  qed
qed

lemma broker_Get_calm:
  assumes "\<And>s d p. calm s (d, p) \<Longrightarrow> calm s (snd (dialer t d), p)"
  shows "calm s sv \<Longrightarrow> calm s (snd (broker_Get dialer t sv))"
proof -
  assume a: "calm s sv"
  have d: "calm s (snd (dialer t (fst sv)), snd sv)" by (rule assms) (use a in simp)
  then have "calm s (snd (dialer t (fst sv)), let (winner, p') = get_install (tg_id t) (pl_next (snd sv)) (get_dialed (tg_id t) (snd sv))
     in if winner = pl_next (snd sv) then p' else get_lose (pl_next (snd sv)) p')"
    by (rule calm_pool) (rule get_steps)
  with d a show ?thesis
    by (auto simp: broker_Get_def Let_def case_prod_beta split: option.splits sum.splits)
qed

lemma with_client_calm:
  assumes "\<And>s d p. calm s (d, p) \<Longrightarrow> calm s (snd (dialer t d), p)"
  shows "calm s sv \<Longrightarrow> calm s (snd (with_client dialer run t sv))"
  using broker_Get_calm [of dialer t s sv, OF assms]
  by (auto simp: with_client_def case_prod_beta split: sum.splits intro!: calm_Drops)

lemma broker_transport:
  assumes "only_checks hs"
  shows "transport (broker_exec (dial parse tcp hs (policy_at now)) remote) (broker_shell (dial parse tcp hs (policy_at now)) shells)
    (broker_stream (dial parse tcp hs (policy_at now)) streams output)"
proof -
  have c: "calm sv (snd (with_client (dial parse tcp hs (policy_at now)) run t sv))" for sv :: srv and run t
    by (rule with_client_calm [OF dial_calm [OF assms] calm_refl])
  show ?thesis
    by unfold_locales (simp_all add: broker_exec_def broker_shell_def broker_stream_def c)
qed

text \<open>A library that offers one key to the callback and succeeds if it is accepted.\<close>

definition offer :: "ssh_key \<Rightarrow> 'raw \<Rightarrow> string \<Rightarrow> 's auth_method list \<Rightarrow> key_check \<Rightarrow> db \<Rightarrow> unit result \<times> db" where
  "offer key raw user ms check d = (case check key d of (Some e, d') \<Rightarrow> (Inl e, d') | (None, d') \<Rightarrow> (Inr (), d'))"

lemma offer_only_checks: "only_checks (offer key)"
  unfolding only_checks_def
proof (intro allI disjI2 exI)
  fix raw user ms check d
  show "snd (offer key raw user ms check d) = snd (check key d)"
    by (simp add: offer_def case_prod_beta split: option.splits)
qed

interpretation offered: transport
    "broker_exec (dial parse tcp (offer key) (policy_at now)) remote"
    "broker_shell (dial parse tcp (offer key) (policy_at now)) shells"
    "broker_stream (dial parse tcp (offer key) (policy_at now)) streams output"
  by (rule broker_transport [OF offer_only_checks])

end
