(* ===== verification/System_Props.thy ===== *)
theory System_Props imports System begin

text \<open>
  What the server as a whole promises: which requests can change anything, which request it
  takes to lose a pinned host key, and what every history of requests, sweeps, refreshes and
  background work leaves standing.
\<close>

section \<open>Requests that change the state\<close>

text \<open>What \<^verbatim>\<open>net/http\<close> says of a parsed URL: the path is absolute, and \<^verbatim>\<open>Path\<close> is \<^verbatim>\<open>EscapedPath\<close> unescaped.\<close>

definition addressed :: "request \<Rightarrow> bool" where
  "addressed rq \<longleftrightarrow> has_prefix (rs_path rq) ''/'' \<and> PathUnescape (rs_path rq) = Some (hr_path (rs_http rq))"

definition same_site :: "('f, 'w) env \<Rightarrow> http_request \<Rightarrow> bool" where
  "same_site ev h \<longleftrightarrow> hostAllowed (ev_server ev) (hr_host h)
     \<and> (hr_origin h \<noteq> [] \<longrightarrow> originMatches (ev_url_host ev) (ev_server ev) (hr_origin h) (hr_host h))
     \<and> hr_fetch_site h \<in> {[], ''same-origin'', ''none''}
     \<and> (safe_method (hr_method h) \<or> hr_content_length h = 0 \<or> isJSON (hr_content_type h))"

definition opens_socket :: "endpoint \<Rightarrow> bool" where
  "opens_socket ep \<longleftrightarrow> ep = EpTerminal \<or> ep = EpStreamAction"

definition reading :: "endpoint \<Rightarrow> bool" where
  "reading ep \<longleftrightarrow> ep = EpListMachines \<or> ep = EpGetMachine \<or> ep = EpListActions \<or> ep = EpGetHostKey \<or> ep = EpListCredentials
     \<or> ep = EpListAccounts \<or> ep = EpListGroups \<or> ep = EpGroupMachines \<or> ep = EpListCustomActions \<or> ep = EpListRuns
     \<or> ep = EpCatalog \<or> ep = EpProviders \<or> ep = EpHealth"

lemma dispatch_route:
  assumes "dispatch meth path = Some (ep, vs)"
  obtains r where "r \<in> set routes" "match_route meth (segments path) r = Some (ep, vs)"
proof -
  from assms have "(ep, vs) \<in> set (List.map_filter (match_route meth (segments path)) routes)"
    by (auto simp: dispatch_def split: list.splits)
  then show thesis using that by (auto simp: List.map_filter_def)
qed

lemma routes_methods:
  "(pm, pattern, ep) \<in> set routes \<Longrightarrow> (reading ep \<or> opens_socket ep) \<and> pm = ''GET'' \<or> pm \<in> {''POST'', ''PUT'', ''DELETE''}"
  by (auto simp: routes_def reading_def opens_socket_def)

lemma dispatch_method:
  assumes "dispatch meth path = Some (ep, vs)" and "\<not> reading ep"
  shows "meth \<in> {''POST'', ''PUT'', ''DELETE''} \<or> opens_socket ep \<and> meth \<in> {''GET'', ''HEAD''}"
proof -
  from dispatch_route [OF assms(1)] obtain r where m: "r \<in> set routes" "match_route meth (segments path) r = Some (ep, vs)" .
  obtain pm pattern ep' where p: "r = (pm, pattern, ep')" by (metis prod.exhaust)
  from m have r: "(pm, pattern, ep) \<in> set routes" "pm = meth \<or> pm = ''GET'' \<and> meth = ''HEAD''"
    by (auto simp: match_route_def p split: if_splits)
  then show ?thesis using routes_methods [OF r(1)] assms(2) by auto
qed

lemma handle_reading: "reading ep \<Longrightarrow> snd (handle ev rq vs ep s) = s"
  by (auto simp: reading_def on_srv_def case_prod_beta reads)

lemma handle_not_upgraded: "opens_socket ep \<Longrightarrow> \<not> upgraded_of ev rq \<Longrightarrow> snd (handle ev rq vs ep s) = s"
  by (auto simp: opens_socket_def on_socket_def terminal_def streamAction_def case_prod_beta split: option.splits sum.splits)

lemma change_is_same_site:
  assumes "addressed rq" and "snd (Handler ev rq s) \<noteq> s"
  obtains ep vs where "dispatch (hr_method (rs_http rq)) (rs_path rq) = Some (ep, vs)"
    "Handler ev rq s = handle ev rq vs ep s" "same_site ev (rs_http rq)"
    "\<not> reading ep" "opens_socket ep \<Longrightarrow> upgraded_of ev rq"
proof (rule Handler_state [of ev rq s])
  assume "snd (Handler ev rq s) = s"
  with assms(2) show thesis by simp
next
  fix ep vs
  assume d: "dispatch (hr_method (rs_http rq)) (rs_path rq) = Some (ep, vs)" and h: "Handler ev rq s = handle ev rq vs ep s"
    and g: "is_api (rs_http rq) \<longrightarrow> hostAllowed (ev_server ev) (hr_host (rs_http rq))
         \<and> (hr_origin (rs_http rq) \<noteq> [] \<longrightarrow> originMatches (ev_url_host ev) (ev_server ev) (hr_origin (rs_http rq)) (hr_host (rs_http rq)))
         \<and> hr_fetch_site (rs_http rq) \<in> {[], ''same-origin'', ''none''}
         \<and> (safe_method (hr_method (rs_http rq)) \<or> hr_content_length (rs_http rq) = 0 \<or> isJSON (hr_content_type (rs_http rq)))"
  from dispatch_route [OF d] obtain r where r: "r \<in> set routes" "match_route (hr_method (rs_http rq)) (segments (rs_path rq)) r = Some (ep, vs)" .
  have "is_api (rs_http rq)" using route_is_api [OF r] assms(1) by (simp add: addressed_def)
  with g have s: "same_site ev (rs_http rq)" unfolding same_site_def by (rule mp)
  have "\<not> reading ep" using assms(2) handle_reading h by metis
  moreover have "opens_socket ep \<Longrightarrow> upgraded_of ev rq" using assms(2) handle_not_upgraded h by metis
  ultimately show thesis using that d h s by blast
qed

text \<open>
  C6: No other site can change anything.  A request after which the server's state (the
  database, the pooled connections or what the cloud providers hold) is not exactly what it
  was before is a request for a name this server serves, from a page of that very name if it
  says where it comes from, not marked as cross-site by the browser; and it is either a
  \<^verbatim>\<open>POST\<close>, \<^verbatim>\<open>PUT\<close> or \<^verbatim>\<open>DELETE\<close> with an empty or a JSON body, or a websocket handshake whose origin
  was checked.  A plain \<^verbatim>\<open>GET\<close>, which any page can cause, never changes anything.
\<close>
theorem state_changes_are_same_site:
  assumes "addressed rq" and "snd (Handler ev rq s) \<noteq> s"
  shows "hostAllowed (ev_server ev) (hr_host (rs_http rq))
    \<and> (hr_origin (rs_http rq) \<noteq> [] \<longrightarrow> originMatches (ev_url_host ev) (ev_server ev) (hr_origin (rs_http rq)) (hr_host (rs_http rq)))
    \<and> hr_fetch_site (rs_http rq) \<in> {[], ''same-origin'', ''none''}
    \<and> (hr_method (rs_http rq) \<in> {''POST'', ''PUT'', ''DELETE''} \<and> (hr_content_length (rs_http rq) = 0 \<or> isJSON (hr_content_type (rs_http rq)))
       \<or> hr_method (rs_http rq) \<in> {''GET'', ''HEAD''} \<and> rs_handshake rq \<and> originOK (ev_url_host ev) (ev_server ev) (rs_http rq))"
proof (rule change_is_same_site [OF assms])
  fix ep vs
  assume d: "dispatch (hr_method (rs_http rq)) (rs_path rq) = Some (ep, vs)" and s: "same_site ev (rs_http rq)"
    and r: "\<not> reading ep" and sock: "opens_socket ep \<Longrightarrow> upgraded_of ev rq"
  have "hr_method (rs_http rq) \<in> {''POST'', ''PUT'', ''DELETE''} \<and> \<not> safe_method (hr_method (rs_http rq))
      \<or> hr_method (rs_http rq) \<in> {''GET'', ''HEAD''} \<and> rs_handshake rq \<and> originOK (ev_url_host ev) (ev_server ev) (rs_http rq)"
    using dispatch_method [OF d r] sock by (auto simp: safe_method_def upgraded_of_def upgrades_def)
  with s show ?thesis by (auto simp: same_site_def)
qed

text \<open>A small environment: a broker whose library offers one key, no providers, and decoders that read one value.\<close>

definition demo_dialer :: "Target \<Rightarrow> db \<Rightarrow> unit result \<times> db" where
  "demo_dialer = dial (\<lambda>_ _. Inr ()) (\<lambda>_. Inr ()) (offer \<lparr>key_type = ''ssh-ed25519'', key_fingerprint = ''SHA256:bb''\<rparr>) (policy_at 9)"

definition demo_env :: "(unit, unit) env" where
  "demo_env = \<lparr>ev_server = New [] False, ev_url_host = (\<lambda>_. None), ev_moved = 301, ev_static = None, ev_now = 9, ev_millis = 9000,
     ev_exec = broker_exec demo_dialer (\<lambda>_ _. demo_world),
     ev_open_shell = broker_shell demo_dialer (\<lambda>_. \<lparr>sw_get = None, sw_session = Returned None, sw_pty = Returned None,
       sw_stdin_pipe = None, sw_stdout_pipe = None, sw_shell = Returned None\<rparr>),
     ev_open_stream = broker_stream demo_dialer (\<lambda>_ _. \<lparr>tw_get = None, tw_session = Returned None, tw_stdin_pipe = None,
       tw_start = Returned None\<rparr>) (\<lambda>_ _. []),
     ev_float = (\<lambda>_. ((), False)), ev_docker = (\<lambda>_. None), ev_keys = demo_aead, ev_nonce = Inr ''xy'', ev_registry = [],
     ev_parse_key = (\<lambda>_ _. Inr []), ev_secret = (\<lambda>_. None), ev_secret_json = (\<lambda>_. []), ev_creds = (\<lambda>_. None),
     ev_creds_json = (\<lambda>_. Inr []), ev_machine = (\<lambda>_. Inl (Text [])), ev_power = (\<lambda>_. Inl (Text [])), ev_action = (\<lambda>_. NoBodySent),
     ev_trust = (\<lambda>_. Inl (Text [])), ev_credential = (\<lambda>_. Inl (Text [])), ev_account = (\<lambda>_. Inl (Text [])),
     ev_group = (\<lambda>_. Inr \<lparr>gi_name = ''web'', gi_tags = [''prod'']\<rparr>), ev_bulk = (\<lambda>_. Inl (Text [])), ev_custom = (\<lambda>_. Inl (Text [])),
     ev_control = (\<lambda>_. None), ev_turns = (\<lambda>n. [0..<n]), ev_session = [], ev_left = None\<rparr>"

definition demo_request :: "string \<Rightarrow> string \<Rightarrow> request" where
  "demo_request meth path =
     \<lparr>rs_http = \<lparr>hr_method = meth, hr_path = path, hr_host = ''localhost:7070'', hr_origin = [], hr_fetch_site = ''same-origin'',
        hr_content_type = ''application/json'', hr_content_length = 9\<rparr>,
      rs_path = path, rs_query = (\<lambda>_. []), rs_body = [], rs_handshake = False\<rparr>"

lemma demo_env_transport: "uses_transport demo_env"
  by (simp add: uses_transport_def demo_env_def demo_dialer_def offered.transport_axioms)

lemma demo_request_served:
  assumes "clean_url_path path = path" and "dispatch meth path = Some (ep, vs)"
  shows "Handler demo_env (demo_request meth path) s = handle demo_env (demo_request meth path) vs ep s"
proof -
  have h: "hostAllowed (New [] False) ''localhost:7070''" and j: "isJSON ''application/json''" by code_simp+
  have "serve_mux demo_env (demo_request meth path) (rs_http (demo_request meth path)) s = handle demo_env (demo_request meth path) vs ep s"
    using assms by (simp add: serve_mux_def demo_request_def)
  then show ?thesis by (simp add: Handler_def guard_def h j) (simp add: demo_env_def demo_request_def h j)
qed

definition new_group :: request where
  "new_group = demo_request ''POST'' ''/api/groups''"

lemma new_group_served: "Handler demo_env new_group s = handle demo_env new_group [] EpCreateGroup s"
  unfolding new_group_def by (rule demo_request_served) code_simp+

lemma addressed_new_group: "addressed new_group"
  by (simp add: addressed_def new_group_def demo_request_def)

lemma new_group_state:
  "snd (Handler demo_env new_group (((d, p), w))) =
     ((snd (CreateGroup 9 \<lparr>gr_id = 0, gr_name = ''web'', gr_tags = [''prod''], gr_created = 0, gr_members = 0\<rparr> d), p), w)"
proof -
  have "trim_space ''web'' = ''web''" "cleanTags [''prod''] = [''prod'']" by code_simp+
  moreover have "ev_now demo_env = 9" "ev_group demo_env b = Inr \<lparr>gi_name = ''web'', gi_tags = [''prod'']\<rparr>" for b
    by (simp_all add: demo_env_def)
  ultimately show ?thesis
    by (simp add: new_group_served on_srv_def createGroup_def Let_def case_prod_beta split: sum.splits)
qed

theorem state_changes_are_same_site_witness:
  "snd (Handler demo_env new_group ((empty_db, NewBroker), ())) \<noteq> ((empty_db, NewBroker), ())
     \<and> hostAllowed (ev_server demo_env) (hr_host (rs_http new_group))"
proof -
  have "snd (Handler demo_env new_group ((empty_db, NewBroker), ())) \<noteq> ((empty_db, NewBroker), ())"
    by (simp add: new_group_state CreateGroup_def empty_db_def sql_exec_def wrap_err_def Let_def tbl_insert_def tbl_empty_def)
  then show ?thesis using state_changes_are_same_site [OF addressed_new_group] by blast
qed

section \<open>Histories of the server\<close>

text \<open>
  What runs in the server: requests (with any environment whose broker is a transport), sweeps
  of the reachability poller and refreshes of the power states, each to its end, and between them
  single steps of the broker's goroutines, SQLite starting or ceasing to fail, and whatever
  happens at the cloud providers.  \<open>pf\<close> is \<^verbatim>\<open>strconv.ParseFloat\<close>.
\<close>

type_synonym 'w running = "'w world \<times> schedule"

definition db_of :: "'w running \<Rightarrow> db" where
  "db_of st = fst (fst (fst st))"

definition pool_of :: "'w running \<Rightarrow> pool" where
  "pool_of st = snd (fst (fst st))"

definition boot :: "'w \<Rightarrow> 'w running" where
  "boot w = (((empty_db, NewBroker), w), Map.empty)"

inductive server_step :: "(string \<Rightarrow> 'f \<times> bool) \<Rightarrow> 'w running \<Rightarrow> 'w running \<Rightarrow> bool" for pf where
  sv_request: "uses_transport ev \<Longrightarrow> ev_float ev = pf \<Longrightarrow> addressed rq \<Longrightarrow> server_step pf (s, sch) (snd (Handler ev rq s), sch)"
| sv_sweep: "transport exec shell stream \<Longrightarrow> reachSweep (resolveTarget keys uj) exec order now clock (sch, sv) = (sch', sv')
    \<Longrightarrow> server_step pf ((sv, w), sch) ((sv', w), sch')"
| sv_refresh: "server_step pf (s, sch) (refreshPowerStates keys uc reg now s, sch)"
| sv_pool: "pool_step p p' \<Longrightarrow> server_step pf (((d, p), w), sch) (((d, p'), w), sch)"
| sv_fail: "server_step pf (((d, p), w), sch) (((d\<lparr>db_fail := f\<rparr>, p), w), sch)"
| sv_world: "server_step pf ((sv, w), sch) ((sv, w'), sch)"

inductive_cases server_stepE: "server_step pf st st'"

abbreviation server_steps :: "(string \<Rightarrow> 'f \<times> bool) \<Rightarrow> 'w running \<Rightarrow> 'w running \<Rightarrow> bool" where
  "server_steps pf \<equiv> (server_step pf)\<^sup>*\<^sup>*"

text \<open>Every step is lawful; every step but a request that forgets a key is calm.\<close>

lemma Handler_lawful:
  assumes "uses_transport ev"
  shows "lawful (fst s) (fst (snd (Handler ev rq s)))"
  using handle_lawful [OF assms] by (rule_tac Handler_state [of ev rq s]) (simp_all add: lawful_refl)

lemma step_calm:
  assumes "server_step pf st st'"
  obtains "calm (fst (fst st)) (fst (fst st'))"
  | ev rq where "uses_transport ev" "ev_float ev = pf" "addressed rq" "st' = (snd (Handler ev rq (fst st)), snd st)"
      "lawful (fst (fst st)) (fst (fst st'))"
  using assms
proof (cases rule: server_step.cases)
  case (sv_request ev rq s sch)
  then show thesis using that(2) [of ev rq] Handler_lawful [OF sv_request(3), of s rq] by simp
next
  case (sv_sweep exec shell stream keys uj order now clock sch sv sch' sv' w)
  have "calm sv (snd (reachSweep (resolveTarget keys uj) exec order now clock (sch, sv)))"
    by (rule transport.reachSweep_after [OF sv_sweep(3)]) (simp add: calm_refl)
  then show thesis using that(1) sv_sweep by simp
next
  case (sv_refresh s sch keys uc reg now)
  have "calm (fst s) (fst (refreshPowerStates keys uc reg now s))" by (rule refresh_calm) (rule calm_refl)
  then show thesis using that(1) sv_refresh by simp
next
  case (sv_pool p p' d w sch)
  have "calm (d, p) (d, p')" by (rule calm_pool [OF calm_refl r_into_rtranclp]) (rule sv_pool(3))
  then show thesis using that(1) sv_pool by simp
next
  case (sv_fail d p w sch f)
  have "calm (d, p) (d\<lparr>db_fail := f\<rparr>, p)" by (rule calm_store [OF calm_refl st_env]) (simp add: pins_kept_same)
  then show thesis using that(1) sv_fail by simp
next
  case (sv_world sv w sch w')
  then show thesis using that(1) calm_refl by simp
qed

lemma step_lawful: "server_step pf st st' \<Longrightarrow> lawful (fst (fst st)) (fst (fst st'))"
  by (erule step_calm) (simp_all add: calm_lawful)

lemma steps_lawful: "server_steps pf st st' \<Longrightarrow> lawful (fst (fst st)) (fst (fst st'))"
  by (induction rule: rtranclp_induct) (auto intro: lawful_refl lawful_trans step_lawful)

lemma steps_store: "server_steps pf st st' \<Longrightarrow> store_steps (db_of st) (db_of st')"
  and steps_pool: "server_steps pf st st' \<Longrightarrow> pool_steps (pool_of st) (pool_of st')"
  using steps_lawful [of pf st st'] by (simp_all add: lawful_def db_of_def pool_of_def)

text \<open>
  C4: What every history of the server leaves standing.  From an empty database, whatever
  requests, sweeps, refreshes and background work follow, in any order, with any parameters,
  and with SQLite, the network and the providers failing at any point: the database is
  consistent; the broker has not panicked, each of its pooled connections is open, belongs to
  one machine, and every open connection is accounted for; and the audit log only grows: a run
  recorded at one moment is there, with the same content, at every later one.
\<close>
theorem server_history_safe:
  assumes "server_steps pf (boot w) st" and "server_steps pf st st'"
  shows "db_inv (db_of st') \<and> \<not> pl_panicked (pool_of st')
    \<and> (\<forall>i c. pl_conns (pool_of st') i = Some c \<longrightarrow> c \<in> pl_open (pool_of st') \<and> (\<forall>j. pl_conns (pool_of st') j = Some c \<longrightarrow> j = i))
    \<and> pl_open (pool_of st') = ran (pl_conns (pool_of st')) \<union> snd ` pl_dialed (pool_of st') \<union> pl_losing (pool_of st') \<union> pl_dropping (pool_of st')
    \<and> (\<forall>k r. tbl_get (runs (db_of st)) k = Some r \<longrightarrow> tbl_get (runs (db_of st')) k \<in> {Some r, Some (r\<lparr>rn_machine := None\<rparr>)})"
proof (intro conjI)
  have all: "server_steps pf (boot w) st'" by (rule rtranclp_trans [OF assms])
  have inv: "server_steps pf (boot w) x \<Longrightarrow> db_inv (db_of x)" for x
    using store_steps_inv [OF _ db_inv_empty] steps_store [of pf "boot w" x] by (simp add: boot_def db_of_def)
  show "db_inv (db_of st')" by (rule inv [OF all])
  have "pool_steps NewBroker (pool_of st')" using steps_pool [OF all] by (simp add: boot_def pool_of_def)
  then obtain loc where r: "pool_rel (pool_of st') loc" by (rule pool_reach_rel)
  show "\<not> pl_panicked (pool_of st')" using r by (simp add: pool_rel_def)
  show "\<forall>i c. pl_conns (pool_of st') i = Some c \<longrightarrow> c \<in> pl_open (pool_of st') \<and> (\<forall>j. pl_conns (pool_of st') j = Some c \<longrightarrow> j = i)"
    using rel_open_places [OF r] rel_conns [OF r] by (auto intro: ranI)
  show "pl_open (pool_of st') = ran (pl_conns (pool_of st')) \<union> snd ` pl_dialed (pool_of st') \<union> pl_losing (pool_of st') \<union> pl_dropping (pool_of st')"
    by (rule rel_open_places [OF r])
  show "\<forall>k r. tbl_get (runs (db_of st)) k = Some r \<longrightarrow> tbl_get (runs (db_of st')) k \<in> {Some r, Some (r\<lparr>rn_machine := None\<rparr>)}"
    using store_steps_runs [OF inv [OF assms(1)] steps_store [OF assms(2)]] by (auto simp: run_kept_def)
qed

section \<open>Losing a pinned key\<close>

definition pinned :: "'w running \<Rightarrow> int \<Rightarrow> HostKey \<Rightarrow> bool" where
  "pinned st i k \<longleftrightarrow> (\<exists>k'. host_keys (db_of st) i = Some k' \<and> same_pin k k')"

lemma same_keys_too [simp]:
  "host_keys (snd (SetReach now i st e d)) = host_keys d"
  "i \<noteq> j \<Longrightarrow> host_keys (snd (ResetHostIdentity i d)) j = host_keys d j"
  "i \<noteq> j \<Longrightarrow> host_keys (snd (DeleteMachine i d)) j = host_keys d j"
  "i \<noteq> j \<Longrightarrow> host_keys (snd (TrustHostKey now i alg fp d)) j = host_keys d j"
  by (simp_all add: SetReach_def ResetHostIdentity_def DeleteMachine_def TrustHostKey_def store_simps case_prod_beta split: sum.splits)

lemma same_keys_after:
  "UpdateMachine now m d = (r, d') \<Longrightarrow> host_keys d' = host_keys d"
  "i \<noteq> j \<Longrightarrow> DeleteMachine i d = (r, d') \<Longrightarrow> host_keys d' j = host_keys d j"
  "i \<noteq> j \<Longrightarrow> TrustHostKey now i alg fp d = (r, d') \<Longrightarrow> host_keys d' j = host_keys d j"
  by (metis same_keys(5) snd_conv, metis same_keys_too(3) snd_conv, metis same_keys_too(4) snd_conv)

lemma forgetting_handlers:
  assumes "pathID path \<noteq> Some j"
  shows "host_keys (fst (snd (updateMachine now path body sv))) j = host_keys (fst sv) j"
    and "host_keys (fst (snd (deleteMachine path sv))) j = host_keys (fst sv) j"
    and "host_keys (fst (snd (trustHostKey now path tbody sv))) j = host_keys (fst sv) j"
  using assms
  by (auto simp: updateMachine_def deleteMachine_def trustHostKey_def Let_def same_keys_after
      dest: GetMachine_id split: option.splits sum.splits prod.splits)

lemma forgetting_others:
  assumes "forgets_keys ep" and "pathID (PathValue vs ''id'') \<noteq> Some j"
  shows "host_keys (fst (fst (snd (handle ev rq vs ep s)))) j = host_keys (fst (fst s)) j"
  using assms(1) by (auto simp: forgets_keys_def on_srv_def case_prod_beta forgetting_handlers [OF assms(2)])

lemma pinned_same: "host_keys (db_of st') i = host_keys (db_of st) i \<Longrightarrow> pinned st i k \<Longrightarrow> pinned st' i k"
  by (simp add: pinned_def)

lemma pinned_calm: "calm (fst (fst st)) (fst (fst st')) \<Longrightarrow> pinned st i k \<Longrightarrow> pinned st' i k"
  unfolding calm_def pins_kept_def pinned_def db_of_def same_pin_def by metis

text \<open>One step that loses a pinned key is a request to forget the key of that machine.\<close>

lemma unpinning_step:
  assumes "server_step pf st st'" and "pinned st i k" and "\<not> pinned st' i k"
  obtains ev rq ep vs where "uses_transport ev" "ev_float ev = pf" "addressed rq" "st' = (snd (Handler ev rq (fst st)), snd st)"
    "dispatch (hr_method (rs_http rq)) (rs_path rq) = Some (ep, vs)" "forgets_keys ep" "pathID (PathValue vs ''id'') = Some i"
    "same_site ev (rs_http rq)"
proof (rule step_calm [OF assms(1)])
  assume "calm (fst (fst st)) (fst (fst st'))"
  then have "pinned st' i k" using pinned_calm assms(2) by blast
  with assms(3) show thesis by contradiction
next
  fix ev rq
  assume t: "uses_transport ev" and f: "ev_float ev = pf" and p: "addressed rq" and st': "st' = (snd (Handler ev rq (fst st)), snd st)"
  have "snd (Handler ev rq (fst st)) \<noteq> fst st"
    using assms(2,3) pinned_same [of st' i st k] by (auto simp: st' db_of_def)
  from change_is_same_site [OF p this] obtain ep vs
    where d: "dispatch (hr_method (rs_http rq)) (rs_path rq) = Some (ep, vs)"
      and h: "Handler ev rq (fst st) = handle ev rq vs ep (fst st)" and s: "same_site ev (rs_http rq)" by metis
  have k: "forgets_keys ep"
  proof (rule ccontr)
    assume "\<not> forgets_keys ep"
    then have "calm (fst (fst st)) (fst (fst st'))" using handle_calm [OF t] by (simp add: st' h)
    then show False using pinned_calm assms(2,3) by blast
  qed
  have "pathID (PathValue vs ''id'') = Some i"
    using forgetting_others [OF k, of vs i ev rq "fst st"] assms(2,3) pinned_same [of st' i st k] by (auto simp: st' h db_of_def)
  with that t f p st' d k s show thesis by blast
qed

text \<open>
  C5: A pinned host key is lost only on request.  If a machine's key is pinned at one moment of
  the server's life and is not the pinned key at a later one, then in between there was a request
  to edit, delete or re-trust exactly that machine, sent to a name this server serves and not
  by a page of another site, up to which the key was still pinned.  No sync, sweep, probe, run,
  session, bulk run or request about another machine replaces or drops it.
\<close>
theorem pins_change_only_on_request:
  assumes "server_steps pf st st'" and "pinned st i k" and "\<not> pinned st' i k"
  shows "\<exists>before ev rq ep vs. server_steps pf st before \<and> pinned before i k
    \<and> uses_transport ev \<and> ev_float ev = pf \<and> dispatch (hr_method (rs_http rq)) (rs_path rq) = Some (ep, vs)
    \<and> ep \<in> {EpUpdateMachine, EpDeleteMachine, EpTrustHostKey} \<and> pathID (PathValue vs ''id'') = Some i
    \<and> same_site ev (rs_http rq)
    \<and> \<not> pinned (snd (Handler ev rq (fst before)), snd before) i k
    \<and> server_steps pf (snd (Handler ev rq (fst before)), snd before) st'"
  using assms
proof (induction rule: converse_rtranclp_induct)
  case base
  then show ?case by contradiction
next
  case (step y z)
  show ?case
  proof (cases "pinned z i k")
    case True
    from step.IH [OF True step.prems(2)] obtain before ev rq ep vs where b: "server_steps pf z before"
      and rest: "pinned before i k" "uses_transport ev" "ev_float ev = pf" "dispatch (hr_method (rs_http rq)) (rs_path rq) = Some (ep, vs)"
        "ep \<in> {EpUpdateMachine, EpDeleteMachine, EpTrustHostKey}" "pathID (PathValue vs ''id'') = Some i" "same_site ev (rs_http rq)"
        "\<not> pinned (snd (Handler ev rq (fst before)), snd before) i k"
        "server_steps pf (snd (Handler ev rq (fst before)), snd before) st'"
      by blast
    have "server_steps pf y before" by (rule converse_rtranclp_into_rtranclp, rule step.hyps(1)) (rule b)
    with rest show ?thesis by blast
  next
    case False
    from unpinning_step [OF step.hyps(1) step.prems(1) False] obtain ev rq ep vs
      where "uses_transport ev" "ev_float ev = pf" "z = (snd (Handler ev rq (fst y)), snd y)"
        "dispatch (hr_method (rs_http rq)) (rs_path rq) = Some (ep, vs)" "forgets_keys ep" "pathID (PathValue vs ''id'') = Some i"
        "same_site ev (rs_http rq)" by metis
    with False step.hyps(2) step.prems(1) show ?thesis
      by (intro exI [of _ y] exI [of _ ev] exI [of _ rq] exI [of _ ep] exI [of _ vs]) (auto simp: forgets_keys_def)
  qed
qed

lemma demo_start: "server_steps (\<lambda>_. ((), False)) (boot ()) (snd (Handler demo_env new_group (fst (boot ()))), snd (boot ()))"
  using sv_request [OF demo_env_transport refl addressed_new_group, of "fst (boot ())" "snd (boot ())"]
  by (simp add: demo_env_def boot_def)

theorem server_history_safe_witness:
  "db_inv (db_of (snd (Handler demo_env new_group (fst (boot ()))), snd (boot ())))"
  using server_history_safe [OF demo_start rtranclp.rtrancl_refl] by blast

definition forget_machine :: request where
  "forget_machine = demo_request ''DELETE'' ''/api/machines/1''"

lemma forget_machine_served: "Handler demo_env forget_machine s = handle demo_env forget_machine [(''id'', ''1'')] EpDeleteMachine s"
  unfolding forget_machine_def by (rule demo_request_served) code_simp+

lemma forget_machine_step:
  "server_step (\<lambda>_. ((), False)) (s, sch) (snd (Handler demo_env forget_machine s), sch)"
proof -
  have "addressed forget_machine" by (simp add: addressed_def forget_machine_def demo_request_def)
  from sv_request [OF demo_env_transport refl this, of s sch] show ?thesis by (simp add: demo_env_def)
qed

theorem pins_change_only_on_request_witness:
  "\<exists>before ev rq ep vs. server_steps (\<lambda>_. ((), False)) (((pinned_db, NewBroker), ()), Map.empty) before
     \<and> dispatch (hr_method (rs_http rq)) (rs_path rq) = Some (ep, vs) \<and> pathID (PathValue vs ''id'') = Some 1
     \<and> same_site (ev :: (unit, unit) env) (rs_http (rq :: request))"
proof -
  let ?s = "((pinned_db, NewBroker), ())"
  have p: "pinned (?s, Map.empty) 1 (new_pin 3 1 ''ssh-ed25519'' ''SHA256:aa'')"
    by (simp add: pinned_def db_of_def same_pin_def pinned_db_def PinHostKey_def demo_evals)
  have id: "pathID ''1'' = Some 1" by code_simp
  have "host_keys (snd (DeleteMachine 1 pinned_db)) 1 = None"
    by (simp add: DeleteMachine_def sql_exec_def pinned_db_def PinHostKey_def demo_evals)
  then have gone: "\<not> pinned (snd (Handler demo_env forget_machine ?s), Map.empty) 1 (new_pin 3 1 ''ssh-ed25519'' ''SHA256:aa'')"
    by (simp add: pinned_def db_of_def forget_machine_served on_srv_def PathValue_def deleteMachine_def id Let_def case_prod_beta split: sum.splits)
  have steps: "server_steps (\<lambda>_. ((), False)) (?s, Map.empty) (snd (Handler demo_env forget_machine ?s), Map.empty)"
    by (rule r_into_rtranclp, rule forget_machine_step)
  from pins_change_only_on_request [OF steps p gone] show ?thesis
    by blast
qed

end
