(* ===== verification/Startup.thy ===== *)
theory Startup imports Frontend Keyring Migrate begin

text \<open>
  The life of the process: \<^verbatim>\<open>main\<close> and \<^verbatim>\<open>run\<close> of \<^verbatim>\<open>cmd/cloudroof/main.go\<close>.  \<open>start\<close> is what \<^verbatim>\<open>run\<close> does up to
  a server that can listen, over the files it reads and writes; \<open>process_step\<close> is what happens from
  there, with the goroutine that shuts the HTTP server down, the background loops, and the requests.
\<close>

section \<open>Starting\<close>

text \<open>What one start finds: the environment, and the outcome of each system call by the name of its use.\<close>

record host =
  ho_env :: "string \<Rightarrow> string"
  ho_config_dir :: "string result"
  ho_home_dir :: "string result"
  ho_abs :: "string \<Rightarrow> string result"
  ho_mkdir :: "string \<Rightarrow> go_err option"
  ho_rnd :: "string result"
  ho_key_dir :: "go_err option"
  ho_key_write :: "go_err option"
  ho_open :: "go_err option"
  ho_ping :: "go_err option"
  ho_fails :: "mig_stmt \<Rightarrow> go_err option"
  ho_now :: time

text \<open>The files that outlive the process: key files and databases by path.\<close>

record 's disk =
  dk_keys :: "string \<Rightarrow> key_read"
  dk_dbs :: "string \<Rightarrow> 's sqlite"

record started =
  sd_config :: Config
  sd_keys :: aead
  sd_server :: Server
  sd_static :: files

text \<open>\<^verbatim>\<open>devDist\<close> is set exactly with \<^verbatim>\<open>-dev\<close>; \<open>dev_files\<close> is the directory \<^verbatim>\<open>web/dist\<close> of the disk and \<open>embedded\<close> the files in the binary.\<close>

definition static_root :: "files \<Rightarrow> files \<Rightarrow> Config \<Rightarrow> files" where
  "static_root dev_files embedded c = (if cf_dev c then dev_files else Dist embedded)"

definition load_config :: "host \<Rightarrow> string list \<Rightarrow> Config result" where
  "load_config h args = Load (ho_env h) (defaultDataDir (ho_config_dir h) (ho_home_dir h)) (ho_abs h) (ho_mkdir h) args"

definition load_key :: "host \<Rightarrow> Config \<Rightarrow> 's disk \<Rightarrow> string result \<times> string option" where
  "load_key h c dsk = loadOrCreate (cf_key_path c) (cf_key_env c) (dk_keys dsk (cf_key_path c)) (ho_rnd h) (ho_key_dir h) (ho_key_write h)"

definition save_key :: "Config \<Rightarrow> string option \<Rightarrow> 's disk \<Rightarrow> 's disk" where
  "save_key c written dsk =
     (case written of None \<Rightarrow> dsk | Some content \<Rightarrow> dsk\<lparr>dk_keys := (dk_keys dsk)(cf_key_path c := FileText content)\<rparr>)"

definition start ::
    "(string \<Rightarrow> aead result) \<Rightarrow> (string \<Rightarrow> 's \<Rightarrow> 's result) \<Rightarrow> string list \<Rightarrow> files \<Rightarrow> files \<Rightarrow>
     host \<Rightarrow> string list \<Rightarrow> 's disk \<Rightarrow> started result \<times> 's disk" where
  "start mk exec migs dev_files embedded h args dsk =
     (case load_config h args of
        Inl e \<Rightarrow> (Inl e, dsk)
      | Inr c \<Rightarrow>
     (case Open_keyring mk (load_key h c dsk) of
        (Inl e, written) \<Rightarrow> (Inl e, save_key c written dsk)
      | (Inr keys, written) \<Rightarrow>
          (let dsk1 = save_key c written dsk in
           case Open_store (ho_open h) (ho_ping h) (ho_fails h) exec (ho_now h) migs (DBPath c) (dk_dbs dsk1 (DBPath c)) of
             (r, d) \<Rightarrow>
               ((case r of
                   Some e \<Rightarrow> Inl e
                 | None \<Rightarrow> Inr \<lparr>sd_config = c, sd_keys = keys, sd_server = boot_server c, sd_static = static_root dev_files embedded c\<rparr>),
                dsk1\<lparr>dk_dbs := (dk_dbs dsk1)(DBPath c := d)\<rparr>))))"

text \<open>\<^verbatim>\<open>main\<close>: the exit code, what it prints and what it complains about; \<open>run\<close> is the error of \<^verbatim>\<open>run\<close>.\<close>

definition main_exit :: "string \<Rightarrow> string list \<Rightarrow> go_err option \<Rightarrow> int \<times> string \<times> string" where
  "main_exit version args run =
     (if list_ex (\<lambda>a. a = ''-version'' \<or> a = ''--version'') args then (0, ''cloudroof '' @ version @ [CHR 0x0A], [])
      else (case run of None \<Rightarrow> (0, [], []) | Some e \<Rightarrow> (1, [], ''cloudroof: '' @ err_text e @ [CHR 0x0A])))"

section \<open>Serving and stopping\<close>

text \<open>
  Where \<^verbatim>\<open>run\<close> is: in \<^verbatim>\<open>ListenAndServe\<close>, waiting for \<^verbatim>\<open>shutdownDone\<close>, in its deferred calls, or
  returned.  The deferred calls are made in the order \<^verbatim>\<open>stop\<close>, \<^verbatim>\<open>broker.Close\<close>, \<^verbatim>\<open>db.Close\<close>.
\<close>

datatype run_at = Serving | Waiting | Leaving "go_err option" | Exited "go_err option"

datatype shutdown = NotAsked | Draining | Drained

text \<open>The stages of a shutdown, in order.\<close>

instantiation shutdown :: linorder
begin

definition less_eq_shutdown :: "shutdown \<Rightarrow> shutdown \<Rightarrow> bool" where
  "s \<le> t \<longleftrightarrow> (s = NotAsked \<or> t = Drained \<or> s = t)"

definition less_shutdown :: "shutdown \<Rightarrow> shutdown \<Rightarrow> bool" where
  "(s :: shutdown) < t \<longleftrightarrow> s \<le> t \<and> \<not> t \<le> s"

instance
proof
  fix s t u :: shutdown
  show "s \<le> s" by (simp add: less_eq_shutdown_def)
  show "s \<le> t \<Longrightarrow> t \<le> u \<Longrightarrow> s \<le> u" by (auto simp: less_eq_shutdown_def)
  show "s \<le> t \<Longrightarrow> t \<le> s \<Longrightarrow> s = t" by (auto simp: less_eq_shutdown_def)
  show "s \<le> t \<or> t \<le> s" by (cases s; cases t) (simp_all add: less_eq_shutdown_def)
  show "s < t \<longleftrightarrow> s \<le> t \<and> \<not> t \<le> s" by (rule less_shutdown_def)
qed

end

record process =
  lf_run :: run_at
  lf_cancelled :: bool
  lf_shutdown :: shutdown
  lf_late :: bool
  lf_requests :: nat
  lf_sessions :: nat
  lf_sweeps :: nat
  lf_broker_open :: bool
  lf_db_open :: bool

definition process_begin :: process where
  "process_begin = \<lparr>lf_run = Serving, lf_cancelled = False, lf_shutdown = NotAsked, lf_late = False, lf_requests = 0, lf_sessions = 0,
     lf_sweeps = 0, lf_broker_open = True, lf_db_open = True\<rparr>"

text \<open>
  \<^verbatim>\<open>Shutdown\<close> stops accepting, waits for the requests but not for hijacked connections, which is
  what the terminal and follow sessions are, and gives up after 5 seconds.
\<close>

definition alive :: "process \<Rightarrow> bool" where
  "alive l \<longleftrightarrow> (\<forall>r. lf_run l \<noteq> Exited r)"

inductive process_step :: "process \<Rightarrow> process \<Rightarrow> bool" where
  lf_accept: "lf_run l = Serving \<Longrightarrow> lf_shutdown l = NotAsked \<Longrightarrow> process_step l (l\<lparr>lf_requests := lf_requests l + 1\<rparr>)"
| lf_reply: "alive l \<Longrightarrow> lf_requests l = n + 1 \<Longrightarrow> process_step l (l\<lparr>lf_requests := n\<rparr>)"
| lf_hijack: "alive l \<Longrightarrow> lf_requests l = n + 1 \<Longrightarrow> process_step l (l\<lparr>lf_requests := n, lf_sessions := lf_sessions l + 1\<rparr>)"
| lf_hangup: "alive l \<Longrightarrow> lf_sessions l = n + 1 \<Longrightarrow> process_step l (l\<lparr>lf_sessions := n\<rparr>)"
| lf_tick: "alive l \<Longrightarrow> \<not> lf_cancelled l \<Longrightarrow> process_step l (l\<lparr>lf_sweeps := lf_sweeps l + 1\<rparr>)"
| lf_swept: "alive l \<Longrightarrow> lf_sweeps l = n + 1 \<Longrightarrow> process_step l (l\<lparr>lf_sweeps := n\<rparr>)"
| lf_signal: "alive l \<Longrightarrow> \<not> lf_cancelled l \<Longrightarrow> process_step l (l\<lparr>lf_cancelled := True\<rparr>)"
| lf_ask: "alive l \<Longrightarrow> lf_cancelled l \<Longrightarrow> lf_shutdown l = NotAsked \<Longrightarrow> process_step l (l\<lparr>lf_shutdown := Draining\<rparr>)"
| lf_drained: "alive l \<Longrightarrow> lf_shutdown l = Draining \<Longrightarrow> lf_requests l = 0 \<Longrightarrow> process_step l (l\<lparr>lf_shutdown := Drained\<rparr>)"
| lf_give_up: "alive l \<Longrightarrow> lf_shutdown l = Draining \<Longrightarrow> process_step l (l\<lparr>lf_shutdown := Drained, lf_late := True\<rparr>)"
| lf_closed: "lf_run l = Serving \<Longrightarrow> lf_shutdown l \<noteq> NotAsked \<Longrightarrow> process_step l (l\<lparr>lf_run := Waiting\<rparr>)"
| lf_failed: "lf_run l = Serving \<Longrightarrow> lf_shutdown l = NotAsked \<Longrightarrow> process_step l (l\<lparr>lf_run := Leaving (Some e)\<rparr>)"
| lf_joined: "lf_run l = Waiting \<Longrightarrow> lf_shutdown l = Drained \<Longrightarrow> process_step l (l\<lparr>lf_run := Leaving None\<rparr>)"
| lf_close_broker: "lf_run l = Leaving r \<Longrightarrow> lf_broker_open l \<Longrightarrow> process_step l (l\<lparr>lf_cancelled := True, lf_broker_open := False\<rparr>)"
| lf_close_db: "lf_run l = Leaving r \<Longrightarrow> \<not> lf_broker_open l \<Longrightarrow> process_step l (l\<lparr>lf_db_open := False, lf_run := Exited r\<rparr>)"

inductive_cases process_stepE: "process_step l l'"

abbreviation process_steps :: "process \<Rightarrow> process \<Rightarrow> bool" where
  "process_steps \<equiv> process_step\<^sup>*\<^sup>*"

section \<open>Starting again\<close>

definition same_host :: "host \<Rightarrow> host \<Rightarrow> bool" where
  "same_host h h' \<longleftrightarrow> ho_env h' = ho_env h \<and> ho_config_dir h' = ho_config_dir h \<and> ho_home_dir h' = ho_home_dir h \<and> ho_abs h' = ho_abs h"

lemma Load_again:
  assumes "Load env dir abs_path mkdir args = Inr c"
  shows "Load env dir abs_path mkdir' args = Inr c \<or> (\<exists>e p. mkdir' p = Some e \<and> (\<exists>e'. Load env dir abs_path mkdir' args = Inl e'))"
  using assms by (auto simp: Load_def Let_def split: prod.splits option.splits sum.splits)

lemma load_again:
  assumes "loadOrCreate path envValue f rnd mkdir write = (Inr key, written)" and "\<And>k. rnd = Inr k \<Longrightarrow> length k = keyLen"
  shows "loadOrCreate path envValue (case written of None \<Rightarrow> f | Some content \<Rightarrow> FileText content) rnd2 mkdir2 write2 = (Inr key, None)"
proof (cases "envValue = [] \<and> f = NoFile")
  case True
  then obtain k where k: "rnd = Inr k" using assms(1) by (auto simp: loadOrCreate_def split: sum.splits)
  with True assms(1) have "written \<noteq> None" by (auto simp: loadOrCreate_def split: option.splits)
  then obtain content where t: "written = Some content" by auto
  have "loadOrCreate path [] NoFile (Inr k) mkdir write = (Inr key, Some content)" using True assms(1) k t by simp
  from master_key_survives_restart [OF this assms(2) [OF k], of rnd2 mkdir2 write2] True t show ?thesis by simp
next
  case False
  with assms(1) show ?thesis
    by (cases f) (auto simp: loadOrCreate_def split: if_splits option.splits)
qed

lemma migrate_twice:
  assumes "at_version exec migs s0 k d" and "migrate fails exec now migs d = (None, d')"
    and "migrate fails' exec now' migs d' = (r, d'')"
  shows "d'' = d'" and "fails' = (\<lambda>_. None) \<Longrightarrow> r = None"
proof -
  from migrate_at_version [OF assms(1,2)] have l: "at_version exec migs s0 (length migs) d'" by auto
  then have s: "\<exists>s. steps exec migs s0 = Inr s" by (auto simp: at_version_def)
  from migrate_at_version [OF l assms(3)] obtain k' where k': "k' \<ge> length migs" "at_version exec migs s0 k' d''"
    "prefix (sq_versions d') (sq_versions d'')" "fails' = (\<lambda>_. None) \<and> (\<exists>s. steps exec migs s0 = Inr s) \<longrightarrow> r = None" by auto
  have n: "k' = length migs" using k' by (simp add: at_version_def)
  have "length (sq_versions d'') = length (sq_versions d')"
    using k'(2) l unfolding n at_version_def by (metis length_map)
  then have "sq_versions d'' = sq_versions d'" using k'(3) by (metis append_eq_conv_conj prefix_def take_all order_refl)
  moreover have "sq_schema d'' = sq_schema d'" using k'(2) l by (simp add: n at_version_def)
  ultimately show "d'' = d'" by simp
  show "fails' = (\<lambda>_. None) \<Longrightarrow> r = None" using k'(4) s by blast
qed

lemma start_InrD:
  assumes "start mk exec migs dev_files embedded h args dsk = (Inr sd, dsk')"
  obtains key written d where "load_config h args = Inr (sd_config sd)" "load_key h (sd_config sd) dsk = (Inr key, written)"
    "mk key = Inr (sd_keys sd)"
    "migrate (ho_fails h) exec (ho_now h) migs (dk_dbs dsk (DBPath (sd_config sd))) = (None, d)"
    "dsk' = (save_key (sd_config sd) written dsk)\<lparr>dk_dbs := (dk_dbs dsk)(DBPath (sd_config sd) := d)\<rparr>"
proof -
  have dbs: "dk_dbs (save_key c written dsk) = dk_dbs dsk" for c written by (simp add: save_key_def split: option.splits)
  obtain loaded written where l: "load_key h (sd_config sd) dsk = (loaded, written)" by (rule prod.exhaust)
  from assms l show thesis
    by (auto simp: start_def Open_keyring_def Open_store_def Let_def dbs res_bind_def split: sum.splits option.splits prod.splits intro: that)
qed

text \<open>
  C13: What one life of the program seals, the next can open.  If a start succeeds, on any files,
  drawing and writing a master key if there was none, then a later start on the files it left,
  with the same environment and arguments, rewrites nothing, if it succeeds; its keyring opens
  every secret the first one sealed, under any nonce; and it does succeed when the data directory
  and the database can be opened.
\<close>
theorem restart_reads_what_was_sealed:
  assumes ciphers: "\<And>key a. mk key = Inr a \<Longrightarrow> aead_ok a" and drawn: "\<And>k. ho_rnd h1 = Inr k \<Longrightarrow> length k = keyLen"
    and versions: "\<And>p. \<exists>k. at_version exec migs s0 k (dk_dbs dsk p)"
    and first: "start mk exec migs dev_files embedded h1 args dsk = (Inr sd, dsk1)"
    and sealed: "length nonce = ad_nonce_size (sd_keys sd)" "Seal (sd_keys sd) (Inr nonce) plain = Inr blob"
    and again: "same_host h1 h2" "start mk exec migs dev_files embedded h2 args dsk1 = (r, dsk2)"
  shows "case r of
      Inr sd2 \<Rightarrow> dsk2 = dsk1 \<and> OpenSealed (sd_keys sd2) blob = Inr plain \<and> sd_config sd2 = sd_config sd \<and> sd_server sd2 = sd_server sd
    | Inl e \<Rightarrow> (\<exists>p. ho_mkdir h2 p \<noteq> None) \<or> ho_open h2 \<noteq> None \<or> ho_ping h2 \<noteq> None \<or> ho_fails h2 \<noteq> (\<lambda>_. None)"
proof -
  let ?c = "sd_config sd"
  obtain key written d where c1: "load_config h1 args = Inr ?c" and k1: "load_key h1 ?c dsk = (Inr key, written)"
    and mk: "mk key = Inr (sd_keys sd)" and m1: "migrate (ho_fails h1) exec (ho_now h1) migs (dk_dbs dsk (DBPath ?c)) = (None, d)"
    and dsk1: "dsk1 = (save_key ?c written dsk)\<lparr>dk_dbs := (dk_dbs dsk)(DBPath ?c := d)\<rparr>"
    by (rule start_InrD [OF first])
  have server: "sd_server sd = boot_server ?c"
    using first by (auto simp: start_def Let_def split: sum.splits option.splits prod.splits)
  obtain k where at: "at_version exec migs s0 k (dk_dbs dsk (DBPath ?c))" using versions by blast
  have stored: "dk_keys dsk1 (cf_key_path ?c) = (case written of None \<Rightarrow> dk_keys dsk (cf_key_path ?c) | Some content \<Rightarrow> FileText content)"
    by (simp add: dsk1 save_key_def split: option.splits)
  have k2: "load_key h2 ?c dsk1 = (Inr key, None)"
    unfolding load_key_def stored by (rule load_again [OF k1 [unfolded load_key_def] drawn])
  have db1: "dk_dbs dsk1 (DBPath ?c) = d" by (simp add: dsk1)
  obtain r2 d2 where m2: "migrate (ho_fails h2) exec (ho_now h2) migs d = (r2, d2)" by (rule prod.exhaust)
  note d2 = migrate_twice [OF at m1 m2]
  have same: "dsk1\<lparr>dk_dbs := (dk_dbs dsk1)(DBPath ?c := d)\<rparr> = dsk1" using db1 by (metis fun_upd_triv disk.surjective disk.update_convs(2))
  have opened: "OpenSealed (sd_keys sd) blob = Inr plain"
    using sealed(2) OpenSealed_blob [OF ciphers [OF mk] sealed(1), of plain] by (simp add: Seal_def)
  have c2: "load_config h2 args = Inr ?c \<or> (\<exists>p. ho_mkdir h2 p \<noteq> None) \<and> (\<exists>e. load_config h2 args = Inl e)"
    using Load_again [OF c1 [unfolded load_config_def], of "ho_mkdir h2"] again(1) unfolding load_config_def same_host_def by auto
  show ?thesis
  proof (cases "load_config h2 args")
    case (Inl e)
    with c2 again(2) show ?thesis by (auto simp: start_def)
  next
    case (Inr c)
    with c2 have "load_config h2 args = Inr ?c" by auto
    then show ?thesis
      using again(2) d2 same opened server
      by (auto simp: start_def k2 Open_keyring_def mk Open_store_def save_key_def db1 m2 split: option.splits)
  qed
qed

text \<open>A first start on an empty disk, and a second one.\<close>

definition demo_host :: host where
  "demo_host = \<lparr>ho_env = (\<lambda>_. []), ho_config_dir = Inr ''/home/u/.config'', ho_home_dir = Inr ''/home/u'', ho_abs = Inr, ho_mkdir = (\<lambda>_. None),
     ho_rnd = Inr (replicate 32 CHR ''k''), ho_key_dir = None, ho_key_write = None, ho_open = None, ho_ping = None,
     ho_fails = (\<lambda>_. None), ho_now = 5\<rparr>"

definition demo_disk :: "unit disk" where
  "demo_disk = \<lparr>dk_keys = (\<lambda>_. NoFile), dk_dbs = (\<lambda>_. \<lparr>sq_schema = (), sq_versions = []\<rparr>)\<rparr>"

definition demo_config :: Config where
  "demo_config = \<lparr>cf_addr = ''127.0.0.1:7070'', cf_data_dir = ''/home/u/.config/cloudroof'', cf_key_path = ''/home/u/.config/cloudroof/master.key'',
     cf_key_env = [], cf_dev = False, cf_hosts = []\<rparr>"

lemma demo_config_loaded: "load_config demo_host [] = Inr demo_config"
  unfolding load_config_def demo_host_def demo_config_def by code_simp

lemma demo_first_start:
  "\<exists>sd dsk1. start (\<lambda>_. Inr demo_aead) dup_column [migration_2] Map.empty demo_bundle demo_host [] demo_disk = (Inr sd, dsk1) \<and> sd_keys sd = demo_aead"
proof -
  have "loadOrCreate (cf_key_path demo_config) [] NoFile (Inr (replicate 32 CHR ''k'')) None None
      = (Inr (replicate 32 CHR ''k''), Some (b64_encode (replicate 32 CHR ''k'') @ [CHR 0x0A]))" by (simp add: loadOrCreate_def)
  then have "load_key demo_host demo_config demo_disk
      = (Inr (replicate 32 CHR ''k''), Some (b64_encode (replicate 32 CHR ''k'') @ [CHR 0x0A]))"
    by (simp add: load_key_def demo_host_def demo_disk_def) (simp add: demo_config_def)
  moreover have "dk_dbs (save_key c w demo_disk) p = \<lparr>sq_schema = (), sq_versions = []\<rparr>" for c w p
    by (simp add: save_key_def demo_disk_def split: option.splits)
  moreover have "fst (migrate (\<lambda>_. None) dup_column 5 [migration_2] \<lparr>sq_schema = (), sq_versions = []\<rparr>) = None"
    by (simp add: migrate_def current_version_def duplicate_tolerated)
  ultimately show ?thesis
    by (simp add: start_def demo_config_loaded Open_keyring_def Open_store_def Let_def case_prod_beta) (simp add: demo_host_def)
qed

theorem restart_reads_what_was_sealed_witness:
  "\<exists>sd dsk1 sd2 blob. start (\<lambda>_. Inr demo_aead) dup_column [migration_2] Map.empty demo_bundle demo_host [] demo_disk = (Inr sd, dsk1)
     \<and> Seal (sd_keys sd) (Inr ''xy'') ''secret'' = Inr blob
     \<and> start (\<lambda>_. Inr demo_aead) dup_column [migration_2] Map.empty demo_bundle demo_host [] dsk1 = (Inr sd2, dsk1)
     \<and> OpenSealed (sd_keys sd2) blob = Inr ''secret''"
proof -
  obtain sd dsk1 where first: "start (\<lambda>_. Inr demo_aead) dup_column [migration_2] Map.empty demo_bundle demo_host [] demo_disk = (Inr sd, dsk1)"
    and keys: "sd_keys sd = demo_aead" using demo_first_start by blast
  obtain r dsk2 where second: "start (\<lambda>_. Inr demo_aead) dup_column [migration_2] Map.empty demo_bundle demo_host [] dsk1 = (r, dsk2)"
    by (rule prod.exhaust)
  obtain blob where blob: "Seal (sd_keys sd) (Inr ''xy'') ''secret'' = Inr blob" by (simp add: Seal_def)
  have c: "\<And>key a. (Inr demo_aead :: aead result) = Inr a \<Longrightarrow> aead_ok a" using demo_aead_ok by simp
  have d: "\<And>k. ho_rnd demo_host = Inr k \<Longrightarrow> length k = keyLen" by (auto simp: demo_host_def keyLen_def)
  have v: "\<And>p. \<exists>k. at_version dup_column [migration_2] () k (dk_dbs demo_disk p)"
    by (rule exI [of _ 0]) (simp add: at_version_def demo_disk_def)
  have n: "length ''xy'' = ad_nonce_size (sd_keys sd)" by (simp add: keys demo_aead_def)
  have h: "same_host demo_host demo_host" by (simp add: same_host_def)
  from restart_reads_what_was_sealed [OF c d v first n blob h second]
  obtain sd2 where "r = Inr sd2" "dsk2 = dsk1" "OpenSealed (sd_keys sd2) blob = Inr ''secret''"
    by (cases r) (auto simp: demo_host_def)
  with first blob second show ?thesis by blast
qed

section \<open>Stopping\<close>

definition process_inv :: "process \<Rightarrow> bool" where
  "process_inv l \<longleftrightarrow> (lf_shutdown l \<noteq> NotAsked \<longrightarrow> lf_cancelled l)
     \<and> (lf_run l = Waiting \<longrightarrow> lf_shutdown l \<noteq> NotAsked)
     \<and> (lf_run l = Leaving None \<or> lf_run l = Exited None \<longrightarrow> lf_shutdown l = Drained)
     \<and> (lf_shutdown l = Drained \<and> \<not> lf_late l \<longrightarrow> lf_requests l = 0)
     \<and> (\<not> lf_broker_open l \<longrightarrow> (\<exists>r. lf_run l = Leaving r \<or> lf_run l = Exited r))
     \<and> (\<not> lf_db_open l \<longleftrightarrow> (\<exists>r. lf_run l = Exited r)) \<and> (\<not> lf_db_open l \<longrightarrow> \<not> lf_broker_open l)"

lemma process_inv_begin: "process_inv process_begin"
  by (simp add: process_inv_def process_begin_def)

lemma process_inv_step: "process_step l l' \<Longrightarrow> process_inv l \<Longrightarrow> process_inv l'"
  by (cases rule: process_step.cases, assumption) (auto simp: process_inv_def alive_def)

lemma process_inv_steps: "process_steps l l' \<Longrightarrow> process_inv l \<Longrightarrow> process_inv l'"
  by (induction rule: rtranclp_induct) (auto intro: process_inv_step)

text \<open>A shutdown only goes on.\<close>

lemma process_stage_step: "process_step l l' \<Longrightarrow> lf_shutdown l \<le> lf_shutdown l'"
  by (cases rule: process_step.cases, assumption) (auto simp: less_eq_shutdown_def)

lemma process_stage_steps: "process_steps l l' \<Longrightarrow> lf_shutdown l \<le> lf_shutdown l'"
  by (induction rule: rtranclp_induct) (auto intro: order_trans process_stage_step)

text \<open>How many steps are left once the shutdown has begun.\<close>

definition steps_left :: "process \<Rightarrow> nat" where
  "steps_left l = 2 * lf_requests l + lf_sessions l + lf_sweeps l + (if lf_shutdown l = Draining then 1 else 0)
     + (case lf_run l of Serving \<Rightarrow> 5 | Waiting \<Rightarrow> 4 | Leaving _ \<Rightarrow> (if lf_broker_open l then 3 else 2) | Exited _ \<Rightarrow> 0)"

lemma steps_left_step:
  assumes "process_step l l'" and "process_inv l" and "lf_shutdown l \<noteq> NotAsked"
  shows "steps_left l' < steps_left l \<and> lf_shutdown l' \<noteq> NotAsked"
  using assms by (cases rule: process_step.cases) (auto simp: steps_left_def process_inv_def alive_def)

lemma steps_left_run:
  assumes "(process_step ^^ n) l l'" and "process_inv l" and "lf_shutdown l \<noteq> NotAsked"
  shows "n + steps_left l' \<le> steps_left l \<and> process_inv l' \<and> lf_shutdown l' \<noteq> NotAsked"
  using assms(1)
proof (induction n arbitrary: l')
  case 0
  then show ?case using assms by simp
next
  case (Suc n)
  then obtain m where m: "(process_step ^^ n) l m" "process_step m l'" by auto
  from Suc.IH [OF m(1)] steps_left_step [OF m(2)] process_inv_step [OF m(2)] show ?case by force
qed

lemma not_stuck:
  assumes "process_inv l" and "lf_shutdown l \<noteq> NotAsked" and "alive l"
  shows "\<exists>l'. process_step l l'"
proof (cases "lf_run l")
  case Serving
  then show ?thesis using lf_closed assms(2) by blast
next
  case Waiting
  then show ?thesis using lf_give_up lf_joined assms(2,3) by (cases "lf_shutdown l") auto
next
  case (Leaving r)
  show ?thesis
  proof (cases "lf_broker_open l")
    case True
    from lf_close_broker [OF Leaving True] show ?thesis ..
  next
    case False
    from lf_close_db [OF Leaving False] show ?thesis ..
  qed
next
  case (Exited r)
  then show ?thesis using assms(3) by (simp add: alive_def)
qed


definition asked :: process where
  "asked = process_begin\<lparr>lf_sessions := 1, lf_sweeps := 1, lf_cancelled := True, lf_shutdown := Draining\<rparr>"

lemma asked_reachable: "process_steps process_begin asked"
proof -
  let ?a = "process_begin\<lparr>lf_requests := 1\<rparr>"
  have a: "process_step process_begin ?a" using lf_accept [of process_begin] by (simp add: process_begin_def)
  have b: "process_step ?a (process_begin\<lparr>lf_sessions := 1\<rparr>)" using lf_hijack [of ?a 0] by (simp add: process_begin_def alive_def)
  have c: "process_step (process_begin\<lparr>lf_sessions := 1\<rparr>) (process_begin\<lparr>lf_sessions := 1, lf_sweeps := 1\<rparr>)"
    using lf_tick [of "process_begin\<lparr>lf_sessions := 1\<rparr>"] by (simp add: process_begin_def alive_def)
  have d: "process_step (process_begin\<lparr>lf_sessions := 1, lf_sweeps := 1\<rparr>) (process_begin\<lparr>lf_sessions := 1, lf_sweeps := 1, lf_cancelled := True\<rparr>)"
    using lf_signal [of "process_begin\<lparr>lf_sessions := 1, lf_sweeps := 1\<rparr>"] by (simp add: process_begin_def alive_def)
  have e: "process_step (process_begin\<lparr>lf_sessions := 1, lf_sweeps := 1, lf_cancelled := True\<rparr>) asked"
    using lf_ask [of "process_begin\<lparr>lf_sessions := 1, lf_sweeps := 1, lf_cancelled := True\<rparr>"] by (simp add: process_begin_def alive_def asked_def)
  from a b c d e show ?thesis by (meson converse_rtranclp_into_rtranclp rtranclp.rtrancl_refl)
qed


text \<open>
  What an orderly stop does not wait for: the broker's connections are closed under a terminal
  or a followed command, and under a sweep of the background loops, that is still running.
\<close>

lemma session_outlives_broker:
  "\<exists>l. process_steps process_begin l \<and> lf_run l = Leaving None \<and> \<not> lf_late l \<and> \<not> lf_broker_open l \<and> lf_sessions l = 1 \<and> lf_sweeps l = 1"
proof -
  have a: "process_step asked (asked\<lparr>lf_run := Waiting\<rparr>)" using lf_closed [of asked] by (simp add: asked_def process_begin_def)
  have b: "process_step (asked\<lparr>lf_run := Waiting\<rparr>) (asked\<lparr>lf_run := Waiting, lf_shutdown := Drained\<rparr>)"
    using lf_drained [of "asked\<lparr>lf_run := Waiting\<rparr>"] by (simp add: asked_def process_begin_def alive_def)
  have c: "process_step (asked\<lparr>lf_run := Waiting, lf_shutdown := Drained\<rparr>) (asked\<lparr>lf_run := Leaving None, lf_shutdown := Drained\<rparr>)"
    using lf_joined [of "asked\<lparr>lf_run := Waiting, lf_shutdown := Drained\<rparr>"] by (simp add: asked_def process_begin_def)
  have d: "process_step (asked\<lparr>lf_run := Leaving None, lf_shutdown := Drained\<rparr>)
      (asked\<lparr>lf_run := Leaving None, lf_shutdown := Drained, lf_broker_open := False\<rparr>)"
    using lf_close_broker [of "asked\<lparr>lf_run := Leaving None, lf_shutdown := Drained\<rparr>"] by (simp add: asked_def process_begin_def)
  from asked_reachable a b c d have "process_steps process_begin (asked\<lparr>lf_run := Leaving None, lf_shutdown := Drained, lf_broker_open := False\<rparr>)"
    by (meson rtranclp.rtrancl_into_rtrancl)
  then show ?thesis by (intro exI [of _ "asked\<lparr>lf_run := Leaving None, lf_shutdown := Drained, lf_broker_open := False\<rparr>"])
    (simp add: asked_def process_begin_def)
qed

end
